(* ===== verification/Prelude.thy ===== *)
theory Prelude
  imports Main "HOL-Library.Word" "HOL-Library.Monad_Syntax"
begin

text \<open>
  Shared ground of the development: the machine words and byte buffers the C sources use, the
  little-endian reading and writing of a field of a buffer, table lookups whose failure is a
  value, and the lemmas about them every component needs.  Collections:
  \<open>buf\<close> holds the rewrite rules on buffers (lengths, reads over writes).
\<close>

unbundle bit_operations_syntax

named_theorems buf

type_synonym u8 = "8 word"
type_synonym u16 = "16 word"
type_synonym u32 = "32 word"
type_synonym u64 = "64 word"
type_synonym bytes = "8 word list"

section \<open>Lookups whose failure is a value\<close>

text \<open>An array read outside the array is undefined behaviour in C; here it is \<open>None\<close>.\<close>

definition tbl :: "'a list \<Rightarrow> nat \<Rightarrow> 'a option" where
  "tbl xs i = (if i < length xs then Some (xs ! i) else None)"

lemma tbl_in [simp]: "i < length xs \<Longrightarrow> tbl xs i = Some (xs ! i)"
  by (simp add: tbl_def)

lemma tbl_out [simp]: "length xs \<le> i \<Longrightarrow> tbl xs i = None"
  by (simp add: tbl_def)

lemma tbl_eq_Some: "tbl xs i = Some x \<longleftrightarrow> i < length xs \<and> xs ! i = x"
  by (auto simp: tbl_def)

text \<open>Consecutive pieces of output; one missing piece makes the whole missing.\<close>

fun cat :: "string option list \<Rightarrow> string option" where
  "cat [] = Some []"
| "cat (x # xs) = do { s \<leftarrow> x; t \<leftarrow> cat xs; Some (s @ t) }"

lemma cat_append: "cat (xs @ ys) = do { s \<leftarrow> cat xs; t \<leftarrow> cat ys; Some (s @ t) }"
  by (induction xs) (auto simp: bind_eq_Some_conv split: Option.bind_splits)

lemma cat_map_Some:
  "(\<And>x. x \<in> set xs \<Longrightarrow> f x = Some (g x)) \<Longrightarrow> cat (map f xs) = Some (concat (map g xs))"
  by (induction xs) auto

section \<open>Little-endian numbers\<close>

lemma unat_u8_less [simp]: "unat (b :: u8) < 256"
proof -
  have "unat b < 2 ^ LENGTH(8)" by (rule unsigned_less)
  then show ?thesis by simp
qed

lemma unat_u32_less [simp]: "unat (v :: u32) < 4294967296"
proof -
  have "unat v < 2 ^ LENGTH(32)" by (rule unsigned_less)
  then show ?thesis by simp
qed

fun le_val :: "bytes \<Rightarrow> nat" where
  "le_val [] = 0"
| "le_val (b # bs) = unat b + 256 * le_val bs"

fun le_bytes :: "nat \<Rightarrow> nat \<Rightarrow> bytes" where
  "le_bytes 0 v = []"
| "le_bytes (Suc n) v = of_nat v # le_bytes n (v div 256)"

lemma length_le_bytes [simp, buf]: "length (le_bytes n v) = n"
  by (induction n arbitrary: v) auto

lemma le_val_bound: "le_val bs < 256 ^ length bs"
proof (induction bs)
  case (Cons b bs)
  have "unat b + 256 * le_val bs < 256 * (le_val bs + 1)" by simp
  also from Cons have "\<dots> \<le> 256 * 256 ^ length bs"
    by (intro mult_le_mono2) simp
  finally show ?case by simp
qed simp

lemma le_val_le_bytes: "le_val (le_bytes n v) = v mod 256 ^ n"
proof (induction n arbitrary: v)
  case (Suc n)
  have "unat (of_nat v :: u8) = v mod 256" by (simp add: unat_of_nat)
  with Suc show ?case by (simp add: mod_mult2_eq)
qed simp

lemma le_bytes_le_val: "le_bytes (length bs) (le_val bs) = bs"
proof (induction bs)
  case (Cons b bs)
  have b: "unat b < 256" by simp
  then have "(unat b + 256 * le_val bs) div 256 = le_val bs" by simp
  moreover have "(of_nat (unat b + 256 * le_val bs) :: u8) = b"
  proof -
    have "(256 :: u8) = 0" by simp
    then show ?thesis by (simp only: of_nat_add of_nat_mult of_nat_numeral) simp
  qed
  ultimately show ?case using Cons by simp
qed simp

section \<open>Reading and writing a field of a buffer\<close>

text \<open>
  \<open>peek n off buf\<close> reads the \<open>n\<close>-byte unsigned field at byte offset \<open>off\<close>; a read that
  leaves the buffer is undefined behaviour and gives \<open>None\<close>.  \<open>poke\<close> writes such a field;
  the sources write only fields of objects of static size, so every use is in range, which the
  components show.
\<close>

definition peek :: "nat \<Rightarrow> nat \<Rightarrow> bytes \<Rightarrow> nat option" where
  "peek n off buf =
     (if off + n \<le> length buf then Some (le_val (take n (drop off buf))) else None)"

definition poke :: "nat \<Rightarrow> nat \<Rightarrow> nat \<Rightarrow> bytes \<Rightarrow> bytes" where
  "poke n off v buf = take off buf @ le_bytes n v @ drop (off + n) buf"

definition peek8 :: "nat \<Rightarrow> bytes \<Rightarrow> u8 option" where
  "peek8 off buf = map_option of_nat (peek 1 off buf)"

definition peek32 :: "nat \<Rightarrow> bytes \<Rightarrow> u32 option" where
  "peek32 off buf = map_option of_nat (peek 4 off buf)"

definition poke32 :: "nat \<Rightarrow> u32 \<Rightarrow> bytes \<Rightarrow> bytes" where
  "poke32 off v buf = poke 4 off (unat v) buf"

lemma length_poke [simp, buf]: "off + n \<le> length buf \<Longrightarrow> length (poke n off v buf) = length buf"
  by (simp add: poke_def)

lemma length_poke32 [simp, buf]: "off + 4 \<le> length buf \<Longrightarrow> length (poke32 off v buf) = length buf"
  by (simp add: poke32_def)

lemma peek_poke_same:
  "off + n \<le> length buf \<Longrightarrow> peek n off (poke n off v buf) = Some (v mod 256 ^ n)"
  by (simp add: peek_def poke_def le_val_le_bytes)

lemma take_drop_poke_other:
  assumes "off + n \<le> length buf" and "i + m \<le> off \<or> off + n \<le> i"
  shows "take m (drop i (poke n off v buf)) = take m (drop i buf)"
proof (rule nth_equalityI)
  show "length (take m (drop i (poke n off v buf))) = length (take m (drop i buf))"
    using assms(1) by simp
next
  fix k assume "k < length (take m (drop i (poke n off v buf)))"
  then have k: "k < m" "i + k < length buf" using assms(1) by auto
  have "poke n off v buf ! (i + k) = buf ! (i + k)"
    using assms k by (auto simp: poke_def nth_append min_def)
  with k assms(1) show "take m (drop i (poke n off v buf)) ! k = take m (drop i buf) ! k"
    by simp
qed

lemma peek_poke_other:
  assumes "off + n \<le> length buf" and "i + m \<le> off \<or> off + n \<le> i"
  shows "peek m i (poke n off v buf) = peek m i buf"
  using assms by (simp add: peek_def take_drop_poke_other)

lemma peek32_poke32_same [simp, buf]:
  "off + 4 \<le> length buf \<Longrightarrow> peek32 off (poke32 off v buf) = Some v"
  by (simp add: peek32_def poke32_def peek_poke_same)

lemma peek32_poke32_other [simp, buf]:
  "off + 4 \<le> length buf \<Longrightarrow> i + 4 \<le> off \<or> off + 4 \<le> i \<Longrightarrow>
     peek32 i (poke32 off v buf) = peek32 i buf"
  by (simp add: peek32_def poke32_def peek_poke_other)

lemma peek32_Some_iff: "(\<exists>v. peek32 off buf = Some v) \<longleftrightarrow> off + 4 \<le> length buf"
  by (simp add: peek32_def peek_def)

lemma peek8_Some_iff: "(\<exists>v. peek8 off buf = Some v) \<longleftrightarrow> off + 1 \<le> length buf"
  by (simp add: peek8_def peek_def)

lemma peek32_replicate_0 [simp, buf]:
  "off + 4 \<le> n \<Longrightarrow> peek32 off (replicate n 0) = Some 0"
proof -
  assume "off + 4 \<le> n"
  moreover have "le_val (replicate k 0) = 0" for k by (induction k) auto
  ultimately show ?thesis by (simp add: peek32_def peek_def)
qed

lemma peek_replicate_0 [buf]: "off + n \<le> m \<Longrightarrow> peek n off (replicate m 0) = Some 0"
proof -
  have "le_val (replicate k 0) = 0" for k by (induction k) auto
  then show "off + n \<le> m \<Longrightarrow> peek n off (replicate m 0) = Some 0" by (simp add: peek_def)
qed

lemmas peek_poke = peek8_def peek32_def poke32_def peek_poke_same peek_poke_other peek_replicate_0

section \<open>What the kernel hands back through a pointer\<close>

text \<open>
  The kernel copies at most as many bytes back as the buffer holds (the size is part of the
  request); bytes it does not touch keep their value.
\<close>

definition overlay :: "bytes \<Rightarrow> bytes \<Rightarrow> bytes" where
  "overlay buf reply = take (length buf) reply @ drop (length reply) buf"

lemma length_overlay [simp, buf]: "length (overlay buf reply) = length buf"
  by (simp add: overlay_def)

lemma overlay_same_length [simp]: "length reply = length buf \<Longrightarrow> overlay buf reply = reply"
  by (simp add: overlay_def)

lemma overlay_Nil [simp]: "overlay buf [] = buf"
  by (simp add: overlay_def)

fun overlays :: "bytes list \<Rightarrow> bytes list \<Rightarrow> bytes list" where
  "overlays [] rs = []"
| "overlays (b # bs) [] = b # bs"
| "overlays (b # bs) (r # rs) = overlay b r # overlays bs rs"

lemma overlays_lengths [simp, buf]: "map length (overlays bs rs) = map length bs"
  by (induction bs rs rule: overlays.induct) auto

lemma length_overlays [simp, buf]: "length (overlays bs rs) = length bs"
  by (induction bs rs rule: overlays.induct) auto

lemma tl_overlays_lengths [simp, buf]: "map length (tl (overlays (b # bs) rs)) = map length bs"
  by (cases rs) simp_all

lemma length_hd_overlays [simp, buf]: "length (overlays (b # bs) rs ! 0) = length b"
  by (cases rs) simp_all

lemma overlays_self [simp]: "overlays bs bs = bs"
  by (induction bs) auto

lemma overlays_single: "\<exists>x'. overlays [x] rs = [x'] \<and> length x' = length x"
  by (cases rs) auto

lemma overlays_pair:
  "\<exists>x' y'. overlays [x, y] rs = [x', y'] \<and> length x' = length x \<and> length y' = length y"
proof (cases rs)
  case (Cons r rs')
  then show ?thesis by (cases rs') auto
qed simp

end
