(* ===== verification/Abi.thy ===== *)
theory Abi
  imports Prelude
begin

text \<open>
  The driver ABI of \<open>verify/rm_issue_rate.c\<close>: the constants of the header comment's driver
  releases, every struct the probe passes to the driver, and the x86-64 layout rules (size,
  alignment, field offsets) that give those structs their bytes.  A struct is a list of members
  (name, its
  \<open>aligned(n)\<close> attribute or 0 when there is none, type).  The rewrite rules \<open>abi\<close> are the
  sizes and the offsets that the components read and write.
\<close>

named_theorems abi

section \<open>C types and their layout\<close>

datatype cty =
    CU8 | CU16 | CU32 | CI32 | CU64 | CPtr
  | CArr nat cty
  | CStruct "(string \<times> nat \<times> cty) list"

definition round_up :: "nat \<Rightarrow> nat \<Rightarrow> nat" where
  "round_up n a = (if n mod a = 0 then n else n + (a - n mod a))"

fun calign :: "cty \<Rightarrow> nat" where
  "calign CU8 = 1"
| "calign CU16 = 2"
| "calign CU32 = 4"
| "calign CI32 = 4"
| "calign CU64 = 8"
| "calign CPtr = 8"
| "calign (CArr n t) = calign t"
| "calign (CStruct ms) = foldr (\<lambda>(f, a, t) m. max (max a (calign t)) m) ms 0"

fun csize :: "cty \<Rightarrow> nat" where
  "csize CU8 = 1"
| "csize CU16 = 2"
| "csize CU32 = 4"
| "csize CI32 = 4"
| "csize CU64 = 8"
| "csize CPtr = 8"
| "csize (CArr n t) = n * csize t"
| "csize (CStruct ms) =
     round_up
       (foldl (\<lambda>off (f, a, t). round_up off (max a (calign t)) + csize t) 0 ms)
       (calign (CStruct ms))"

text \<open>The byte offset of a named member; \<open>None\<close> for a name the struct does not have.\<close>

fun member_offset :: "nat \<Rightarrow> (string \<times> nat \<times> cty) list \<Rightarrow> string \<Rightarrow> nat option" where
  "member_offset off [] f = None"
| "member_offset off ((g, a, t) # ms) f =
     (let o1 = round_up off (max a (calign t)) in
      if g = f then Some o1 else member_offset (o1 + csize t) ms f)"

fun offsetof :: "cty \<Rightarrow> string \<Rightarrow> nat option" where
  "offsetof (CStruct ms) f = member_offset 0 ms f"
| "offsetof _ f = None"

lemma round_up_eval [simp]:
  "round_up 0 a = 0"
  "round_up n (Suc 0) = n"
  "round_up (numeral k) (numeral m) =
     (if numeral k mod numeral m = (0 :: nat) then numeral k
      else numeral k + (numeral m - numeral k mod numeral m))"
  "round_up (Suc 0) (numeral m) =
     (if Suc 0 mod numeral m = 0 then Suc 0 else Suc 0 + (numeral m - Suc 0 mod numeral m))"
  by (simp_all add: round_up_def)

lemma round_up_ge: "n \<le> round_up n a"
  by (simp add: round_up_def)

lemma round_up_dvd:
  assumes "0 < a"
  shows "a dvd round_up n a"
proof (cases "n mod a = 0")
  case True
  then show ?thesis by (simp add: round_up_def mod_eq_0_iff_dvd)
next
  case False
  then have "round_up n a = n + (a - n mod a)" by (simp only: round_up_def if_False)
  also have "\<dots> = (n - n mod a) + a"
    using mod_less_divisor [OF assms, of n] mod_less_eq_dividend [of n a] by linarith
  finally have "round_up n a = (n - n mod a) + a" .
  moreover have "a dvd (n - n mod a) + a" by (intro dvd_add dvd_minus_mod dvd_refl)
  ultimately show ?thesis by (simp only:)
qed

section \<open>Constants\<close>

definition NV_IOCTL_MAGIC :: nat where "NV_IOCTL_MAGIC = of_char CHR ''F''"
definition NV_IOCTL_BASE :: nat where [simp]: "NV_IOCTL_BASE = 200"
definition NV_ESC_REGISTER_FD :: nat where "NV_ESC_REGISTER_FD = NV_IOCTL_BASE + 1"
definition NV_ESC_CARD_INFO :: nat where "NV_ESC_CARD_INFO = NV_IOCTL_BASE + 0"
definition NV_ESC_RM_CONTROL :: nat where "NV_ESC_RM_CONTROL = 0x2a"
definition NV_ESC_RM_ALLOC :: nat where "NV_ESC_RM_ALLOC = 0x2b"

definition NV01_DEVICE_0 :: u32 where "NV01_DEVICE_0 = 0x80"
definition NV20_SUBDEVICE_0 :: u32 where "NV20_SUBDEVICE_0 = 0x2080"
definition NV0000_CTRL_CMD_GPU_GET_ID_INFO_V2 :: u32 where
  "NV0000_CTRL_CMD_GPU_GET_ID_INFO_V2 = 0x205"

definition NV2080_CTRL_CMD_GR_GET_SM_ISSUE_RATE_MODIFIER :: u32 where
  "NV2080_CTRL_CMD_GR_GET_SM_ISSUE_RATE_MODIFIER = 0x20801230"
definition NV2080_CTRL_CMD_GR_GET_SM_ISSUE_RATE_MODIFIER_V2 :: u32 where
  "NV2080_CTRL_CMD_GR_GET_SM_ISSUE_RATE_MODIFIER_V2 = 0x2080123c"
definition NV2080_CTRL_CMD_GR_GET_SM_ISSUE_THROTTLE_CTRL :: u32 where
  "NV2080_CTRL_CMD_GR_GET_SM_ISSUE_THROTTLE_CTRL = 0x2080123d"
definition NV2080_CTRL_CMD_GPU_GET_INFO_V2 :: u32 where
  "NV2080_CTRL_CMD_GPU_GET_INFO_V2 = 0x20800102"
definition NV2080_CTRL_CMD_GR_GET_INFO :: u32 where
  "NV2080_CTRL_CMD_GR_GET_INFO = 0x20801201"
definition NV2080_CTRL_CMD_GR_GET_ENGINE_CONTEXT_PROPERTIES :: u32 where
  "NV2080_CTRL_CMD_GR_GET_ENGINE_CONTEXT_PROPERTIES = 0x2080122d"
definition NV2080_CTRL_CMD_GPU_GET_ENGINES_V2 :: u32 where
  "NV2080_CTRL_CMD_GPU_GET_ENGINES_V2 = 0x20800170"
definition NV2080_CTRL_CMD_GPU_GET_ENGINE_CLASSLIST :: u32 where
  "NV2080_CTRL_CMD_GPU_GET_ENGINE_CLASSLIST = 0x20800124"
definition NV2080_CTRL_CMD_GPU_GET_CONSTRUCTED_FALCON_INFO :: u32 where
  "NV2080_CTRL_CMD_GPU_GET_CONSTRUCTED_FALCON_INFO = 0x208001b0"
definition NV2080_CTRL_CMD_FIFO_GET_DEVICE_INFO_TABLE :: u32 where
  "NV2080_CTRL_CMD_FIFO_GET_DEVICE_INFO_TABLE = 0x20801112"

definition NV2080_CTRL_GPU_INFO_INDEX_NETLIST_REV0 :: u32 where
  "NV2080_CTRL_GPU_INFO_INDEX_NETLIST_REV0 = 0x12"
definition NV2080_CTRL_GPU_INFO_INDEX_NETLIST_REV1 :: u32 where
  "NV2080_CTRL_GPU_INFO_INDEX_NETLIST_REV1 = 0x13"
definition NV2080_CTRL_GPU_INFO_INDEX_DISPLAY_ENABLED :: u32 where
  "NV2080_CTRL_GPU_INFO_INDEX_DISPLAY_ENABLED = 0x34"
definition NV2080_CTRL_GPU_INFO_INDEX_CMP_SKU :: u32 where
  "NV2080_CTRL_GPU_INFO_INDEX_CMP_SKU = 0x3c"
definition NV2080_CTRL_GR_INFO_INDEX_GPU_CORE_COUNT :: u32 where
  "NV2080_CTRL_GR_INFO_INDEX_GPU_CORE_COUNT = 0x1d"
definition NV2080_CTRL_GR_INFO_INDEX_RT_CORE_COUNT :: u32 where
  "NV2080_CTRL_GR_INFO_INDEX_RT_CORE_COUNT = 0x22"
definition NV2080_CTRL_GR_INFO_INDEX_TENSOR_CORE_COUNT :: u32 where
  "NV2080_CTRL_GR_INFO_INDEX_TENSOR_CORE_COUNT = 0x23"
definition NV2080_CTRL_GR_INFO_INDEX_GFX_CAPABILITIES :: u32 where
  "NV2080_CTRL_GR_INFO_INDEX_GFX_CAPABILITIES = 0x34"

definition NV2080_ENGINE_TYPE_GRAPHICS :: u32 where "NV2080_ENGINE_TYPE_GRAPHICS = 0x01"
definition NV2080_ENGINE_TYPE_NVDEC0 :: u32 where "NV2080_ENGINE_TYPE_NVDEC0 = 0x13"
definition NV2080_ENGINE_TYPE_NVENC0 :: u32 where "NV2080_ENGINE_TYPE_NVENC0 = 0x1b"
definition NV2080_ENGINE_TYPE_DPU :: u32 where "NV2080_ENGINE_TYPE_DPU = 0x28"

text \<open>Array lengths.\<close>

definition SM_ISSUE_RATE_MODIFIER_V2_MAX_LIST_SIZE :: nat where [simp]: "SM_ISSUE_RATE_MODIFIER_V2_MAX_LIST_SIZE = 0xff"
definition SM_ISSUE_THROTTLE_CTRL_MAX_LIST_SIZE :: nat where [simp]: "SM_ISSUE_THROTTLE_CTRL_MAX_LIST_SIZE = 0xff"
definition GPU_INFO_MAX_LIST_SIZE :: nat where [simp]: "GPU_INFO_MAX_LIST_SIZE = 72"
definition MAX_CONSTRUCTED_FALCONS :: nat where [simp]: "MAX_CONSTRUCTED_FALCONS = 0x40"
definition GPU_MAX_ENGINES_LIST_SIZE :: nat where [simp]: "GPU_MAX_ENGINES_LIST_SIZE = 0x54"
definition DEVICE_INFO_TABLE_MAX_ENTRIES :: nat where [simp]: "DEVICE_INFO_TABLE_MAX_ENTRIES = 32"
definition ENGINE_DATA_TYPES :: nat where [simp]: "ENGINE_DATA_TYPES = 16"
definition ENGINE_MAX_PBDMA :: nat where [simp]: "ENGINE_MAX_PBDMA = 2"
definition ENGINE_MAX_NAME_LEN :: nat where [simp]: "ENGINE_MAX_NAME_LEN = 16"
definition CONTEXT_PROPERTIES_ENGINE_ID_COUNT :: nat where [simp]: "CONTEXT_PROPERTIES_ENGINE_ID_COUNT = 0x1a"
definition CMP_ENGINE_CLASS_CAPACITY :: nat where [simp]: "CMP_ENGINE_CLASS_CAPACITY = 200"

section \<open>The structs\<close>

definition nv_pci_info_t :: cty where
  "nv_pci_info_t = CStruct
     [(''domain'', 0, CU32), (''bus'', 0, CU8), (''slot'', 0, CU8), (''function'', 0, CU8),
      (''vendor_id'', 0, CU16), (''device_id'', 0, CU16)]"

definition nv_ioctl_card_info_t :: cty where
  "nv_ioctl_card_info_t = CStruct
     [(''valid'', 0, CU8), (''pci_info'', 0, nv_pci_info_t), (''gpu_id'', 0, CU32),
      (''interrupt_line'', 0, CU16), (''reg_address'', 8, CU64), (''reg_size'', 8, CU64),
      (''fb_address'', 8, CU64), (''fb_size'', 8, CU64), (''minor_number'', 0, CU32),
      (''dev_name'', 0, CArr 10 CU8)]"

definition NV0000_CTRL_GPU_GET_ID_INFO_V2_PARAMS :: cty where
  "NV0000_CTRL_GPU_GET_ID_INFO_V2_PARAMS = CStruct
     [(''gpuId'', 0, CU32), (''gpuFlags'', 0, CU32), (''deviceInstance'', 0, CU32),
      (''subDeviceInstance'', 0, CU32), (''sliStatus'', 0, CU32), (''boardId'', 0, CU32),
      (''gpuInstance'', 0, CU32), (''numaId'', 0, CI32)]"

definition NVOS21_PARAMETERS :: cty where
  "NVOS21_PARAMETERS = CStruct
     [(''hRoot'', 0, CU32), (''hObjectParent'', 0, CU32), (''hObjectNew'', 0, CU32),
      (''hClass'', 0, CU32), (''pAllocParms'', 8, CPtr), (''paramsSize'', 0, CU32),
      (''status'', 0, CU32)]"

definition NVOS64_PARAMETERS :: cty where
  "NVOS64_PARAMETERS = CStruct
     [(''hRoot'', 0, CU32), (''hObjectParent'', 0, CU32), (''hObjectNew'', 0, CU32),
      (''hClass'', 0, CU32), (''pAllocParms'', 8, CPtr), (''pRightsRequested'', 8, CPtr),
      (''paramsSize'', 0, CU32), (''flags'', 0, CU32), (''status'', 0, CU32)]"

definition NVOS54_PARAMETERS :: cty where
  "NVOS54_PARAMETERS = CStruct
     [(''hClient'', 0, CU32), (''hObject'', 0, CU32), (''cmd'', 0, CU32), (''flags'', 0, CU32),
      (''params'', 8, CPtr), (''paramsSize'', 0, CU32), (''status'', 0, CU32)]"

definition NV0080_ALLOC_PARAMETERS :: cty where
  "NV0080_ALLOC_PARAMETERS = CStruct
     [(''deviceId'', 0, CU32), (''hClientShare'', 0, CU32), (''hTargetClient'', 0, CU32),
      (''hTargetDevice'', 0, CU32), (''flags'', 0, CU32), (''vaSpaceSize'', 8, CU64),
      (''vaStartInternal'', 8, CU64), (''vaLimitInternal'', 8, CU64), (''vaMode'', 0, CU32)]"

definition NV2080_ALLOC_PARAMETERS :: cty where
  "NV2080_ALLOC_PARAMETERS = CStruct [(''subDeviceId'', 0, CU32)]"

definition NV2080_CTRL_GR_ROUTE_INFO :: cty where
  "NV2080_CTRL_GR_ROUTE_INFO = CStruct [(''flags'', 0, CU32), (''route'', 8, CU64)]"

definition GR_GET_SM_ISSUE_RATE_MODIFIER_PARAMS :: cty where
  "GR_GET_SM_ISSUE_RATE_MODIFIER_PARAMS = CStruct
     [(''grRouteInfo'', 8, NV2080_CTRL_GR_ROUTE_INFO),
      (''imla0'', 0, CU8), (''fmla16'', 0, CU8), (''dp'', 0, CU8), (''fmla32'', 0, CU8),
      (''ffma'', 0, CU8), (''imla1'', 0, CU8), (''imla2'', 0, CU8), (''imla3'', 0, CU8),
      (''imla4'', 0, CU8)]"

definition NVXXXX_CTRL_XXX_INFO :: cty where
  "NVXXXX_CTRL_XXX_INFO = CStruct [(''index'', 0, CU32), (''data'', 0, CU32)]"

definition GPU_GET_INFO_PARAMS :: cty where
  "GPU_GET_INFO_PARAMS = CStruct [(''gpuInfoListSize'', 0, CU32), (''gpuInfoList'', 8, CPtr)]"

definition GPU_GET_INFO_V2_PARAMS :: cty where
  "GPU_GET_INFO_V2_PARAMS = CStruct
     [(''gpuInfoListSize'', 0, CU32),
      (''gpuInfoList'', 0, CArr GPU_INFO_MAX_LIST_SIZE NVXXXX_CTRL_XXX_INFO)]"

definition GR_GET_INFO_PARAMS :: cty where
  "GR_GET_INFO_PARAMS = CStruct
     [(''grInfoListSize'', 0, CU32), (''grInfoList'', 8, CPtr),
      (''grRouteInfo'', 8, NV2080_CTRL_GR_ROUTE_INFO)]"

definition GPU_GET_ENGINE_CLASSLIST_PARAMS :: cty where
  "GPU_GET_ENGINE_CLASSLIST_PARAMS = CStruct
     [(''engineType'', 0, CU32), (''numClasses'', 0, CU32), (''classList'', 8, CPtr)]"

definition GPU_GET_ENGINES_V2_PARAMS :: cty where
  "GPU_GET_ENGINES_V2_PARAMS = CStruct
     [(''engineCount'', 0, CU32), (''engineList'', 0, CArr GPU_MAX_ENGINES_LIST_SIZE CU32)]"

definition GR_GET_ENGINE_CONTEXT_PROPERTIES_PARAMS :: cty where
  "GR_GET_ENGINE_CONTEXT_PROPERTIES_PARAMS = CStruct
     [(''grRouteInfo'', 8, NV2080_CTRL_GR_ROUTE_INFO), (''engineId'', 0, CU32),
      (''alignment'', 0, CU32), (''size'', 0, CU32), (''bInfoPopulated'', 0, CU8)]"

definition FIFO_DEVICE_ENTRY :: cty where
  "FIFO_DEVICE_ENTRY = CStruct
     [(''engineData'', 0, CArr ENGINE_DATA_TYPES CU32),
      (''pbdmaIds'', 0, CArr ENGINE_MAX_PBDMA CU32),
      (''pbdmaFaultIds'', 0, CArr ENGINE_MAX_PBDMA CU32),
      (''numPbdmas'', 0, CU32), (''engineName'', 0, CArr ENGINE_MAX_NAME_LEN CU8)]"

definition FIFO_GET_DEVICE_INFO_TABLE_PARAMS :: cty where
  "FIFO_GET_DEVICE_INFO_TABLE_PARAMS = CStruct
     [(''baseIndex'', 0, CU32), (''numEntries'', 0, CU32), (''bMore'', 0, CU8),
      (''entries'', 0, CArr DEVICE_INFO_TABLE_MAX_ENTRIES FIFO_DEVICE_ENTRY)]"

definition GPU_CONSTRUCTED_FALCON_INFO :: cty where
  "GPU_CONSTRUCTED_FALCON_INFO = CStruct
     [(''engDesc'', 0, CU32), (''ctxAttr'', 0, CU32), (''ctxBufferSize'', 0, CU32),
      (''addrSpaceList'', 0, CU32), (''registerBase'', 0, CU32)]"

definition GPU_GET_CONSTRUCTED_FALCON_INFO_PARAMS :: cty where
  "GPU_GET_CONSTRUCTED_FALCON_INFO_PARAMS = CStruct
     [(''numConstructedFalcons'', 0, CU32),
      (''constructedFalconsTable'', 0, CArr MAX_CONSTRUCTED_FALCONS GPU_CONSTRUCTED_FALCON_INFO)]"

definition GR_GET_SM_ISSUE_RATE_MODIFIER_V2_PARAMS :: cty where
  "GR_GET_SM_ISSUE_RATE_MODIFIER_V2_PARAMS = CStruct
     [(''smIssueRateModifierListSize'', 0, CU32),
      (''smIssueRateModifierList'', 0,
         CArr SM_ISSUE_RATE_MODIFIER_V2_MAX_LIST_SIZE NVXXXX_CTRL_XXX_INFO)]"

definition GR_GET_SM_ISSUE_THROTTLE_CTRL_PARAMS :: cty where
  "GR_GET_SM_ISSUE_THROTTLE_CTRL_PARAMS = CStruct
     [(''smIssueThrottleCtrlListSize'', 0, CU32),
      (''smIssueThrottleCtrlList'', 0,
         CArr SM_ISSUE_THROTTLE_CTRL_MAX_LIST_SIZE NVXXXX_CTRL_XXX_INFO)]"

lemmas struct_defs =
  nv_pci_info_t_def nv_ioctl_card_info_t_def NV0000_CTRL_GPU_GET_ID_INFO_V2_PARAMS_def
  NVOS21_PARAMETERS_def NVOS64_PARAMETERS_def NVOS54_PARAMETERS_def NV0080_ALLOC_PARAMETERS_def
  NV2080_ALLOC_PARAMETERS_def NV2080_CTRL_GR_ROUTE_INFO_def
  GR_GET_SM_ISSUE_RATE_MODIFIER_PARAMS_def NVXXXX_CTRL_XXX_INFO_def GPU_GET_INFO_PARAMS_def
  GPU_GET_INFO_V2_PARAMS_def GR_GET_INFO_PARAMS_def GPU_GET_ENGINE_CLASSLIST_PARAMS_def
  GPU_GET_ENGINES_V2_PARAMS_def GR_GET_ENGINE_CONTEXT_PROPERTIES_PARAMS_def
  FIFO_DEVICE_ENTRY_def FIFO_GET_DEVICE_INFO_TABLE_PARAMS_def GPU_CONSTRUCTED_FALCON_INFO_def
  GPU_GET_CONSTRUCTED_FALCON_INFO_PARAMS_def GR_GET_SM_ISSUE_RATE_MODIFIER_V2_PARAMS_def
  GR_GET_SM_ISSUE_THROTTLE_CTRL_PARAMS_def

section \<open>Sizes\<close>

lemma csize_structs [simp, abi]:
  "csize nv_ioctl_card_info_t = 72"
  "csize NV0000_CTRL_GPU_GET_ID_INFO_V2_PARAMS = 32"
  "csize NVOS21_PARAMETERS = 32"
  "csize NVOS64_PARAMETERS = 48"
  "csize NVOS54_PARAMETERS = 32"
  "csize NV0080_ALLOC_PARAMETERS = 56"
  "csize NV2080_ALLOC_PARAMETERS = 4"
  "csize NV2080_CTRL_GR_ROUTE_INFO = 16"
  "csize GR_GET_SM_ISSUE_RATE_MODIFIER_PARAMS = 32"
  "csize NVXXXX_CTRL_XXX_INFO = 8"
  "csize GPU_GET_INFO_PARAMS = 16"
  "csize GPU_GET_INFO_V2_PARAMS = 580"
  "csize GR_GET_INFO_PARAMS = 32"
  "csize GPU_GET_ENGINE_CLASSLIST_PARAMS = 16"
  "csize GPU_GET_ENGINES_V2_PARAMS = 340"
  "csize GR_GET_ENGINE_CONTEXT_PROPERTIES_PARAMS = 32"
  "csize FIFO_DEVICE_ENTRY = 100"
  "csize FIFO_GET_DEVICE_INFO_TABLE_PARAMS = 3212"
  "csize GPU_CONSTRUCTED_FALCON_INFO = 20"
  "csize GPU_GET_CONSTRUCTED_FALCON_INFO_PARAMS = 1284"
  "csize GR_GET_SM_ISSUE_RATE_MODIFIER_V2_PARAMS = 2044"
  by (simp_all add: struct_defs)

text \<open>The compile-time checks of the source, as pairs of a type and the size it must have.\<close>

definition static_asserts :: "(cty \<times> nat) list" where
  "static_asserts = [
     (nv_ioctl_card_info_t, 72), (NV0000_CTRL_GPU_GET_ID_INFO_V2_PARAMS, 32),
     (NVOS21_PARAMETERS, 32), (NVOS64_PARAMETERS, 48), (NVOS54_PARAMETERS, 32),
     (NV0080_ALLOC_PARAMETERS, 56), (NV2080_CTRL_GR_ROUTE_INFO, 16),
     (GR_GET_SM_ISSUE_RATE_MODIFIER_PARAMS, 32), (GPU_GET_INFO_PARAMS, 16),
     (GPU_GET_INFO_V2_PARAMS, 580), (GR_GET_INFO_PARAMS, 32),
     (GPU_GET_ENGINE_CLASSLIST_PARAMS, 16), (GPU_GET_ENGINES_V2_PARAMS, 340),
     (GR_GET_ENGINE_CONTEXT_PROPERTIES_PARAMS, 32), (FIFO_DEVICE_ENTRY, 100),
     (FIFO_GET_DEVICE_INFO_TABLE_PARAMS, 3212), (GPU_GET_CONSTRUCTED_FALCON_INFO_PARAMS, 1284)]"

section \<open>Field offsets\<close>

text \<open>
  \<open>foff T f\<close> is the offset the compiler uses for field \<open>f\<close> of \<open>T\<close>.  Every name used below
  is a member, as the evaluated offsets show.
\<close>

definition foff :: "cty \<Rightarrow> string \<Rightarrow> nat" where
  "foff T f = (case offsetof T f of Some n \<Rightarrow> n | None \<Rightarrow> 0)"

lemma foff_members [simp, abi]:
  "foff nv_ioctl_card_info_t ''valid'' = 0"
  "foff nv_ioctl_card_info_t ''pci_info'' = 4"
  "foff nv_ioctl_card_info_t ''gpu_id'' = 16"
  "foff nv_ioctl_card_info_t ''minor_number'' = 56"
  "foff nv_pci_info_t ''domain'' = 0"
  "foff nv_pci_info_t ''bus'' = 4"
  "foff nv_pci_info_t ''slot'' = 5"
  "foff nv_pci_info_t ''function'' = 6"
  "foff NV0000_CTRL_GPU_GET_ID_INFO_V2_PARAMS ''gpuId'' = 0"
  "foff NV0000_CTRL_GPU_GET_ID_INFO_V2_PARAMS ''deviceInstance'' = 8"
  "foff NV0000_CTRL_GPU_GET_ID_INFO_V2_PARAMS ''subDeviceInstance'' = 12"
  "foff NVOS21_PARAMETERS ''hClass'' = 12"
  "foff NVOS21_PARAMETERS ''hObjectNew'' = 8"
  "foff NVOS21_PARAMETERS ''status'' = 28"
  "foff NVOS64_PARAMETERS ''hRoot'' = 0"
  "foff NVOS64_PARAMETERS ''hObjectParent'' = 4"
  "foff NVOS64_PARAMETERS ''hObjectNew'' = 8"
  "foff NVOS64_PARAMETERS ''hClass'' = 12"
  "foff NVOS64_PARAMETERS ''paramsSize'' = 32"
  "foff NVOS64_PARAMETERS ''status'' = 40"
  "foff NVOS54_PARAMETERS ''hClient'' = 0"
  "foff NVOS54_PARAMETERS ''hObject'' = 4"
  "foff NVOS54_PARAMETERS ''cmd'' = 8"
  "foff NVOS54_PARAMETERS ''paramsSize'' = 24"
  "foff NVOS54_PARAMETERS ''status'' = 28"
  "foff NV0080_ALLOC_PARAMETERS ''deviceId'' = 0"
  "foff NV2080_ALLOC_PARAMETERS ''subDeviceId'' = 0"
  by (simp_all add: foff_def struct_defs)

lemma foff_control_params [simp, abi]:
  "foff GR_GET_SM_ISSUE_RATE_MODIFIER_PARAMS ''imla0'' = 16"
  "foff GR_GET_SM_ISSUE_RATE_MODIFIER_PARAMS ''fmla16'' = 17"
  "foff GR_GET_SM_ISSUE_RATE_MODIFIER_PARAMS ''dp'' = 18"
  "foff GR_GET_SM_ISSUE_RATE_MODIFIER_PARAMS ''fmla32'' = 19"
  "foff GR_GET_SM_ISSUE_RATE_MODIFIER_PARAMS ''ffma'' = 20"
  "foff GR_GET_SM_ISSUE_RATE_MODIFIER_PARAMS ''imla1'' = 21"
  "foff GR_GET_SM_ISSUE_RATE_MODIFIER_PARAMS ''imla2'' = 22"
  "foff GR_GET_SM_ISSUE_RATE_MODIFIER_PARAMS ''imla3'' = 23"
  "foff GR_GET_SM_ISSUE_RATE_MODIFIER_PARAMS ''imla4'' = 24"
  "foff NVXXXX_CTRL_XXX_INFO ''index'' = 0"
  "foff NVXXXX_CTRL_XXX_INFO ''data'' = 4"
  "foff GPU_GET_INFO_V2_PARAMS ''gpuInfoListSize'' = 0"
  "foff GPU_GET_INFO_V2_PARAMS ''gpuInfoList'' = 4"
  "foff GR_GET_INFO_PARAMS ''grInfoListSize'' = 0"
  "foff GPU_GET_ENGINE_CLASSLIST_PARAMS ''engineType'' = 0"
  "foff GPU_GET_ENGINE_CLASSLIST_PARAMS ''numClasses'' = 4"
  "foff GPU_GET_ENGINES_V2_PARAMS ''engineCount'' = 0"
  "foff GPU_GET_ENGINES_V2_PARAMS ''engineList'' = 4"
  "foff GR_GET_ENGINE_CONTEXT_PROPERTIES_PARAMS ''engineId'' = 16"
  "foff GR_GET_ENGINE_CONTEXT_PROPERTIES_PARAMS ''alignment'' = 20"
  "foff GR_GET_ENGINE_CONTEXT_PROPERTIES_PARAMS ''size'' = 24"
  "foff GR_GET_ENGINE_CONTEXT_PROPERTIES_PARAMS ''bInfoPopulated'' = 28"
  "foff FIFO_DEVICE_ENTRY ''engineData'' = 0"
  "foff FIFO_DEVICE_ENTRY ''numPbdmas'' = 80"
  "foff FIFO_DEVICE_ENTRY ''engineName'' = 84"
  "foff FIFO_GET_DEVICE_INFO_TABLE_PARAMS ''baseIndex'' = 0"
  "foff FIFO_GET_DEVICE_INFO_TABLE_PARAMS ''numEntries'' = 4"
  "foff FIFO_GET_DEVICE_INFO_TABLE_PARAMS ''bMore'' = 8"
  "foff FIFO_GET_DEVICE_INFO_TABLE_PARAMS ''entries'' = 12"
  "foff GPU_CONSTRUCTED_FALCON_INFO ''engDesc'' = 0"
  "foff GPU_CONSTRUCTED_FALCON_INFO ''ctxAttr'' = 4"
  "foff GPU_CONSTRUCTED_FALCON_INFO ''ctxBufferSize'' = 8"
  "foff GPU_CONSTRUCTED_FALCON_INFO ''addrSpaceList'' = 12"
  "foff GPU_CONSTRUCTED_FALCON_INFO ''registerBase'' = 16"
  "foff GPU_GET_CONSTRUCTED_FALCON_INFO_PARAMS ''numConstructedFalcons'' = 0"
  "foff GPU_GET_CONSTRUCTED_FALCON_INFO_PARAMS ''constructedFalconsTable'' = 4"
  "foff GR_GET_SM_ISSUE_RATE_MODIFIER_V2_PARAMS ''smIssueRateModifierListSize'' = 0"
  "foff GR_GET_SM_ISSUE_RATE_MODIFIER_V2_PARAMS ''smIssueRateModifierList'' = 4"
  by (simp_all add: foff_def struct_defs)

section \<open>Layout is sound for every struct\<close>

definition members_end :: "nat \<Rightarrow> (string \<times> nat \<times> cty) list \<Rightarrow> nat" where
  "members_end o0 ms = foldl (\<lambda>off (f, a, t). round_up off (max a (calign t)) + csize t) o0 ms"

lemma members_end_simps [simp]:
  "members_end o0 [] = o0"
  "members_end o0 ((f, a, t) # ms) = members_end (round_up o0 (max a (calign t)) + csize t) ms"
  by (simp_all add: members_end_def)

lemma members_end_ge: "o0 \<le> members_end o0 ms"
proof (induction ms arbitrary: o0)
  case (Cons m ms)
  obtain f a t where m: "m = (f, a, t)" by (cases m)
  have "o0 \<le> round_up o0 (max a (calign t)) + csize t"
    using round_up_ge [of o0 "max a (calign t)"] by simp
  also have "\<dots> \<le> members_end \<dots> ms" by (rule Cons.IH)
  finally show ?case by (simp add: m)
qed simp

text \<open>The type of the first member of a name.\<close>

fun member_type :: "(string \<times> nat \<times> cty) list \<Rightarrow> string \<Rightarrow> cty option" where
  "member_type [] f = None"
| "member_type ((g, a, t) # ms) f = (if g = f then Some t else member_type ms f)"

lemma member_in_struct:
  "member_offset o0 ms f = Some o1 \<Longrightarrow> member_type ms f = Some t \<Longrightarrow>
     o0 \<le> o1 \<and> o1 + csize t \<le> members_end o0 ms"
proof (induction ms arbitrary: o0)
  case (Cons m ms)
  obtain g a u where m: "m = (g, a, u)" by (cases m)
  let ?o = "round_up o0 (max a (calign u))"
  have o: "o0 \<le> ?o" by (rule round_up_ge)
  show ?case
  proof (cases "g = f")
    case True
    with Cons.prems m o members_end_ge [of "?o + csize u" ms] show ?thesis by simp
  next
    case False
    with Cons.prems m have "?o + csize u \<le> o1 \<and> o1 + csize t \<le> members_end (?o + csize u) ms"
      by (intro Cons.IH) (simp_all add: Let_def)
    with o m show ?thesis by simp
  qed
qed simp

section \<open>ioctl request numbers\<close>

text \<open>
  The Linux encoding \<open>_IOC(dir, type, nr, size)\<close>: 8 bits of number, 8 bits of type, 14 bits of
  argument size, 2 bits of direction.  Every request of the probe reads and writes.
\<close>

definition IOC_RW :: "nat \<Rightarrow> nat \<Rightarrow> u64" where
  "IOC_RW nr sz =
     push_bit 30 3 OR push_bit 8 (of_nat NV_IOCTL_MAGIC) OR of_nat nr OR push_bit 16 (of_nat sz)"

definition IOC_NR :: "u64 \<Rightarrow> nat" where "IOC_NR req = unat (req AND 0xff)"
definition IOC_TYPE :: "u64 \<Rightarrow> nat" where "IOC_TYPE req = unat (drop_bit 8 req AND 0xff)"
definition IOC_SIZE :: "u64 \<Rightarrow> nat" where "IOC_SIZE req = unat (drop_bit 16 req AND 0x3fff)"
definition IOC_DIR :: "u64 \<Rightarrow> nat" where "IOC_DIR req = unat (drop_bit 30 req)"

definition REGISTER_FD_request :: u64 where
  "REGISTER_FD_request = IOC_RW NV_ESC_REGISTER_FD 4"
definition CARD_INFO_request :: u64 where
  "CARD_INFO_request = IOC_RW NV_ESC_CARD_INFO (128 * csize nv_ioctl_card_info_t)"
definition RM_ALLOC21_request :: u64 where
  "RM_ALLOC21_request = IOC_RW NV_ESC_RM_ALLOC (csize NVOS21_PARAMETERS)"
definition RM_ALLOC64_request :: u64 where
  "RM_ALLOC64_request = IOC_RW NV_ESC_RM_ALLOC (csize NVOS64_PARAMETERS)"
definition RM_CONTROL_request :: u64 where
  "RM_CONTROL_request = IOC_RW NV_ESC_RM_CONTROL (csize NVOS54_PARAMETERS)"

lemma request_values [simp]:
  "REGISTER_FD_request = 0xc00446c9"
  "CARD_INFO_request = 0xe40046c8"
  "RM_ALLOC21_request = 0xc020462b"
  "RM_ALLOC64_request = 0xc030462b"
  "RM_CONTROL_request = 0xc020462a"
  by (simp_all add: REGISTER_FD_request_def CARD_INFO_request_def RM_ALLOC21_request_def
      RM_ALLOC64_request_def RM_CONTROL_request_def IOC_RW_def NV_IOCTL_MAGIC_def
      NV_ESC_REGISTER_FD_def NV_ESC_CARD_INFO_def NV_ESC_RM_ALLOC_def NV_ESC_RM_CONTROL_def)


end
