(* ===== verification/Automaton.thy ===== *)
theory Automaton
  imports Main
begin

text \<open>
  The contracts of the components are automata over events: \<open>step s e\<close> is the state after the
  event \<open>e\<close>, or \<open>None\<close> where the event breaks the contract, and \<open>run\<close> replays a trace.  The locale
  \<open>automaton\<close> is that interface, with the facts every replay has; \<open>acceptor\<close> adds the states a
  trace may end in.  Each contract interprets one of the two with its own \<open>step\<close> and \<open>run\<close>.
  \<open>reach\<close> is the same as a relation, for invariants by rule induction.
\<close>

section \<open>Reachable states\<close>

inductive reach :: "('s \<Rightarrow> 'e \<Rightarrow> 's option) \<Rightarrow> 's \<Rightarrow> 's \<Rightarrow> bool" for step where
  reach_refl: "reach step s s"
| reach_step: "reach step s t \<Longrightarrow> step t e = Some u \<Longrightarrow> reach step s u"

lemma reach_trans: "reach step t u \<Longrightarrow> reach step s t \<Longrightarrow> reach step s u"
  by (induction rule: reach.induct) (auto intro: reach_step)

lemma reach_invariant:
  assumes "reach step s t" and "I s" and "\<And>t e u. I t \<Longrightarrow> step t e = Some u \<Longrightarrow> I u"
  shows "I t"
  using assms(1,2) by (induction rule: reach.induct) (auto intro: assms(3))

section \<open>Replaying a trace\<close>

locale automaton =
  fixes step :: "'s \<Rightarrow> 'e \<Rightarrow> 's option"
    and run :: "'s \<Rightarrow> 'e list \<Rightarrow> 's option"
  assumes run_Nil: "run s [] = Some s"
    and run_Cons: "run s (e # es) = Option.bind (step s e) (\<lambda>t. run t es)"
begin

lemma run_append: "run s (xs @ ys) = Option.bind (run s xs) (\<lambda>t. run t ys)"
  by (induction xs arbitrary: s) (auto simp: run_Nil run_Cons split: Option.bind_splits)

lemma run_split: "run s (xs @ ys) = Some u \<Longrightarrow> \<exists>t. run s xs = Some t \<and> run t ys = Some u"
  by (auto simp: run_append split: Option.bind_splits)

lemma run_reach: "run s es = Some t \<Longrightarrow> reach step s t"
proof (induction es arbitrary: t rule: rev_induct)
  case (snoc e es)
  then obtain u where "run s es = Some u" "step u e = Some t"
    by (auto simp: run_append run_Nil run_Cons split: Option.bind_splits)
  with snoc.IH show ?case by (blast intro: reach_step)
qed (simp add: run_Nil reach_refl)

text \<open>A property every step keeps holds after every accepted trace, and so at every point of it.\<close>

lemma run_invariant:
  "run s es = Some t \<Longrightarrow> I s \<Longrightarrow> (\<And>t e u. I t \<Longrightarrow> step t e = Some u \<Longrightarrow> I u) \<Longrightarrow> I t"
  by (rule reach_invariant [OF run_reach])

lemma run_neutral: "(\<And>e. e \<in> set es \<Longrightarrow> step s e = Some s) \<Longrightarrow> run s es = Some s"
  by (induction es) (auto simp: run_Nil run_Cons)

end

locale acceptor = automaton +
  fixes accept :: "'a \<Rightarrow> bool" and ok :: "'a \<Rightarrow> 'b list \<Rightarrow> bool"
  assumes ok_run: "ok s es \<longleftrightarrow> (case run s es of None \<Rightarrow> False | Some t \<Rightarrow> accept t)"
begin

lemma ok_Nil [simp]: "ok s [] \<longleftrightarrow> accept s"
  by (simp add: ok_run run_Nil)

lemma ok_Cons [simp]: "ok s (e # es) \<longleftrightarrow> (case step s e of None \<Rightarrow> False | Some t \<Rightarrow> ok t es)"
  by (simp add: ok_run run_Cons split: option.splits)

lemma ok_append: "run s xs = Some t \<Longrightarrow> ok s (xs @ ys) = ok t ys"
  by (simp add: ok_run run_append)

end

end
