(* ===== verification/C_Text.thy ===== *)
theory C_Text
  imports Prelude
begin

text \<open>
  The text side of the C library, as far as the sources use it: digits in a base, the
  \<open>printf\<close> directives that occur (\<open>%s %d %u %x %lx\<close> with a zero-padded width), and the
  number scanners \<open>strtol\<close> (base 10) and \<open>strtoul\<close> (base 0).  A format string whose
  directives do not match its arguments is undefined behaviour and gives \<open>None\<close>.
  Lemmas: printing a number and reading it back gives the number; a padded hexadecimal field
  of a word has exactly its width.
\<close>

section \<open>Digits\<close>

definition digit_char :: "nat \<Rightarrow> char" where
  "digit_char d = ''0123456789abcdef'' ! d"

definition digit_of :: "char \<Rightarrow> nat option" where
  "digit_of c =
     (let k = of_char c :: nat in
      if 48 \<le> k \<and> k \<le> 57 then Some (k - 48)
      else if 97 \<le> k \<and> k \<le> 122 then Some (k - 87)
      else if 65 \<le> k \<and> k \<le> 90 then Some (k - 55)
      else None)"

definition is_digit :: "nat \<Rightarrow> char \<Rightarrow> bool" where
  "is_digit b c = (case digit_of c of None \<Rightarrow> False | Some d \<Rightarrow> d < b)"

definition num_of :: "nat \<Rightarrow> string \<Rightarrow> nat" where
  "num_of b s = foldl (\<lambda>a c. a * b + (case digit_of c of None \<Rightarrow> 0 | Some d \<Rightarrow> d)) 0 s"

fun digs :: "nat \<Rightarrow> nat \<Rightarrow> string" where
  "digs b n = (if n < b \<or> b < 2 then [digit_char n] else digs b (n div b) @ [digit_char (n mod b)])"

declare digs.simps [simp del]

abbreviation dec :: "nat \<Rightarrow> string" where
  "dec n \<equiv> digs 10 n"

lemma less_16_cases:
  "d < (16 :: nat) \<Longrightarrow> d \<in> {0, 1, 2, 3, 4, 5, 6, 7, 8, 9, 10, 11, 12, 13, 14, 15}"
  by simp arith

lemma digit_of_digit_char [simp]: "d < 16 \<Longrightarrow> digit_of (digit_char d) = Some d"
  by (drule less_16_cases) (auto simp: digit_char_def digit_of_def)

lemma is_digit_digit_char [simp]: "b \<le> 16 \<Longrightarrow> d < b \<Longrightarrow> is_digit b (digit_char d)"
  by (simp add: is_digit_def)

lemma num_of_Nil [simp]: "num_of b [] = 0"
  by (simp add: num_of_def)

lemma num_of_snoc:
  "num_of b (s @ [c]) = num_of b s * b + (case digit_of c of None \<Rightarrow> 0 | Some d \<Rightarrow> d)"
  by (simp add: num_of_def)

lemma num_of_zeros [simp]: "num_of b (replicate k CHR ''0'' @ s) = num_of b s"
  by (induction k) (simp_all add: num_of_def digit_of_def)

lemma digs_neq_Nil [simp]: "digs b n \<noteq> []"
  by (subst digs.simps) simp

lemma num_of_digs:
  assumes "2 \<le> b" and "b \<le> 16"
  shows "num_of b (digs b n) = n"
  using assms
proof (induction b n rule: digs.induct)
  case (1 b n)
  show ?case
  proof (cases "n < b")
    case True
    with "1.prems" show ?thesis
      by (subst digs.simps) (simp add: num_of_def)
  next
    case False
    with 1 have "num_of b (digs b (n div b)) = n div b" by simp
    moreover from "1.prems" have "n mod b < 16"
      using mod_less_divisor [of b n] by linarith
    ultimately show ?thesis using False "1.prems"
      by (subst digs.simps) (simp add: num_of_snoc)
  qed
qed

lemma set_digs:
  assumes "2 \<le> b" and "b \<le> 16"
  shows "list_all (is_digit b) (digs b n)"
  using assms
proof (induction b n rule: digs.induct)
  case (1 b n)
  then show ?case
    by (cases "n < b") (subst digs.simps; simp)+
qed

lemma length_digs: "2 \<le> b \<Longrightarrow> 0 < k \<Longrightarrow> n < b ^ k \<Longrightarrow> length (digs b n) \<le> k"
proof (induction b n arbitrary: k rule: digs.induct)
  case (1 b n)
  show ?case
  proof (cases "n < b")
    case True
    with "1.prems" show ?thesis by (subst digs.simps) simp
  next
    case False
    with "1.prems" have "k \<noteq> 1" by auto
    with "1.prems" obtain m where k: "k = Suc m" "0 < m"
      by (cases k) auto
    with "1.prems" have "n div b < b ^ m"
      by (simp add: less_mult_imp_div_less mult.commute)
    with 1 False k have "length (digs b (n div b)) \<le> m" by simp
    with False "1.prems" k show ?thesis by (subst digs.simps) simp
  qed
qed

lemma hd_digs: "2 \<le> b \<Longrightarrow> b \<le> 16 \<Longrightarrow> is_digit b (hd (digs b n))"
  using set_digs [of b n] by (cases "digs b n") auto

lemma dec_no_leading_zero: "0 < n \<Longrightarrow> hd (dec n) \<noteq> CHR ''0''"
proof (induction "10 :: nat" n rule: digs.induct)
  case (1 n)
  show ?case
  proof (cases "n < 10")
    case True
    with "1.prems" have "n \<in> {1, 2, 3, 4, 5, 6, 7, 8, 9}" by auto
    then show ?thesis by (subst digs.simps) (auto simp: digit_char_def)
  next
    case False
    with 1 show ?thesis by (subst digs.simps) simp
  qed
qed

definition show_int :: "int \<Rightarrow> string" where
  "show_int i = (if i < 0 then CHR ''-'' # dec (nat (- i)) else dec (nat i))"

section \<open>printf\<close>

datatype farg = FStr string | FInt int | FUInt u32 | FULong u64

definition zero_pad :: "nat \<Rightarrow> string \<Rightarrow> string" where
  "zero_pad w s = replicate (w - length s) CHR ''0'' @ s"

fun conv :: "nat \<Rightarrow> bool \<Rightarrow> char \<Rightarrow> farg \<Rightarrow> string option" where
  "conv w False c (FStr s) = (if c = CHR ''s'' then Some s else None)"
| "conv w False c (FInt i) = (if c = CHR ''d'' then Some (show_int i) else None)"
| "conv w False c (FUInt n) =
     (if c = CHR ''u'' then Some (dec (unat n))
      else if c = CHR ''x'' then Some (zero_pad w (digs 16 (unat n))) else None)"
| "conv w True c (FULong n) =
     (if c = CHR ''x'' then Some (zero_pad w (digs 16 (unat n))) else None)"
| "conv w _ c _ = None"

text \<open>The directive after a percent sign: zero-padded width, length modifier, conversion, rest.\<close>

definition directive :: "string \<Rightarrow> (nat \<times> bool \<times> char \<times> string) option" where
  "directive fs =
     (let ds = takeWhile (is_digit 10) fs; fs' = dropWhile (is_digit 10) fs in
      if ds \<noteq> [] \<and> hd ds \<noteq> CHR ''0'' then None
      else (case fs' of
              [] \<Rightarrow> None
            | c # r \<Rightarrow>
                (if c = CHR ''l'' then
                   (case r of [] \<Rightarrow> None | c' # r' \<Rightarrow> Some (num_of 10 ds, True, c', r'))
                 else Some (num_of 10 ds, False, c, r))))"

lemma directive_length [dest]:
  "directive fs = Some (w, l, c, r) \<Longrightarrow> length r < length fs"
proof -
  assume a: "directive fs = Some (w, l, c, r)"
  have "length (dropWhile (is_digit 10) fs) \<le> length fs" by (rule length_dropWhile_le)
  with a show ?thesis
    by (auto simp: directive_def Let_def split: if_splits list.splits)
qed

function (sequential) printf :: "string \<Rightarrow> farg list \<Rightarrow> string option" where
  "printf [] as = Some []"
| "printf (c # fs) as =
     (if c \<noteq> CHR ''%'' then map_option (Cons c) (printf fs as)
      else (case directive fs of
              None \<Rightarrow> None
            | Some (w, l, k, r) \<Rightarrow>
                (case as of
                   [] \<Rightarrow> None
                 | a # as' \<Rightarrow>
                     (case conv w l k a of
                        None \<Rightarrow> None
                      | Some s \<Rightarrow> map_option (append s) (printf r as')))))"
  by pat_completeness auto
termination
  by (relation "measure (\<lambda>(fs, as). length fs)") (auto dest: directive_length)

text \<open>The directives that occur in the sources, evaluated once.\<close>

lemma directive_simple [simp]:
  "directive (CHR ''s'' # r) = Some (0, False, CHR ''s'', r)"
  "directive (CHR ''u'' # r) = Some (0, False, CHR ''u'', r)"
  "directive (CHR ''d'' # r) = Some (0, False, CHR ''d'', r)"
  "directive (CHR ''l'' # CHR ''x'' # r) = Some (0, True, CHR ''x'', r)"
  by (simp_all add: directive_def is_digit_def digit_of_def)

lemma directive_hex [simp]:
  "directive (CHR ''0'' # CHR ''2'' # CHR ''x'' # r) = Some (2, False, CHR ''x'', r)"
  "directive (CHR ''0'' # CHR ''4'' # CHR ''x'' # r) = Some (4, False, CHR ''x'', r)"
  "directive (CHR ''0'' # CHR ''6'' # CHR ''x'' # r) = Some (6, False, CHR ''x'', r)"
  "directive (CHR ''0'' # CHR ''8'' # CHR ''x'' # r) = Some (8, False, CHR ''x'', r)"
  "directive (CHR ''0'' # CHR ''4'' # CHR ''l'' # CHR ''x'' # r) = Some (4, True, CHR ''x'', r)"
  "directive (CHR ''0'' # CHR ''5'' # CHR ''l'' # CHR ''x'' # r) = Some (5, True, CHR ''x'', r)"
  by (simp_all add: directive_def is_digit_def digit_of_def num_of_def)

lemma printf_plain [simp]:
  "c \<noteq> CHR ''%'' \<Longrightarrow> printf (c # fs) as = map_option (Cons c) (printf fs as)"
  by simp

lemma printf_directive [simp]:
  "printf (CHR ''%'' # fs) as =
     (case directive fs of
        None \<Rightarrow> None
      | Some (w, l, k, r) \<Rightarrow>
          (case as of
             [] \<Rightarrow> None
           | a # as' \<Rightarrow>
               (case conv w l k a of
                  None \<Rightarrow> None
                | Some s \<Rightarrow> map_option (append s) (printf r as'))))"
  by simp

declare printf.simps(2) [simp del]

lemma hex_field_length:
  assumes "0 < w" and "n < 16 ^ w"
  shows "length (zero_pad w (digs 16 n)) = w"
  using length_digs [of 16 w n] assms by (simp add: zero_pad_def)

lemma hex_field_value: "num_of 16 (zero_pad w (digs 16 n)) = n"
  by (simp add: zero_pad_def num_of_digs)

section \<open>Scanning numbers: strtol and strtoul\<close>

definition is_space :: "char \<Rightarrow> bool" where
  "is_space c = (let k = of_char c :: nat in k = 32 \<or> (9 \<le> k \<and> k \<le> 13))"

text \<open>An optional sign: whether it was a minus, and what follows.\<close>

fun sign_prefix :: "string \<Rightarrow> bool \<times> string" where
  "sign_prefix [] = (False, [])"
| "sign_prefix (c # s) =
     (if c = CHR ''-'' then (True, s) else if c = CHR ''+'' then (False, s) else (False, c # s))"

text \<open>Base 0: a hexadecimal prefix counts only in front of a hexadecimal digit.\<close>

definition base_prefix :: "string \<Rightarrow> nat \<times> string" where
  "base_prefix s =
     (case s of
        c # x # d # r \<Rightarrow>
          if c = CHR ''0'' \<and> (x = CHR ''x'' \<or> x = CHR ''X'') \<and> is_digit 16 d then (16, d # r)
          else if c = CHR ''0'' then (8, s) else (10, s)
      | c # _ \<Rightarrow> if c = CHR ''0'' then (8, s) else (10, s)
      | [] \<Rightarrow> (10, s))"

text \<open>
  \<open>LONG_MAX\<close> and \<open>ULONG_MAX\<close> of the LP64 targets.  A scan gives the value, whether
  \<open>errno\<close> became \<open>ERANGE\<close>, and the unread rest; \<open>None\<close> when no digit was there
  (\<open>end == text\<close>).
\<close>

definition strtol10 :: "string \<Rightarrow> (int \<times> bool \<times> string) option" where
  "strtol10 text =
     (let (neg, s) = sign_prefix (dropWhile is_space text);
          ds = takeWhile (is_digit 10) s;
          m = int (num_of 10 ds)
      in if ds = [] then None
         else if neg then
           (if m > 2 ^ 63 then Some (- (2 ^ 63), True, drop (length ds) s)
            else Some (- m, False, drop (length ds) s))
         else
           (if m > 2 ^ 63 - 1 then Some (2 ^ 63 - 1, True, drop (length ds) s)
            else Some (m, False, drop (length ds) s)))"

definition strtoul0 :: "string \<Rightarrow> (u64 \<times> bool \<times> string) option" where
  "strtoul0 text =
     (let (neg, s0) = sign_prefix (dropWhile is_space text);
          (b, s) = base_prefix s0;
          ds = takeWhile (is_digit b) s;
          m = num_of b ds
      in if ds = [] then None
         else if m \<ge> 2 ^ 64 then Some (- 1, True, drop (length ds) s)
         else Some (if neg then - of_nat m else of_nat m, False, drop (length ds) s))"

lemma digit_not_space: "is_digit 10 c \<Longrightarrow> \<not> is_space c \<and> c \<noteq> CHR ''-'' \<and> c \<noteq> CHR ''+''"
  by (auto simp: is_digit_def digit_of_def is_space_def Let_def split: if_splits)

text \<open>Printing an integer in decimal and scanning it again, with the clamping of \<open>ERANGE\<close>.\<close>

lemma strtol10_show_int:
  "strtol10 (show_int i) =
     Some (if i > 2 ^ 63 - 1 then (2 ^ 63 - 1, True, [])
           else if i < - (2 ^ 63) then (- (2 ^ 63), True, []) else (i, False, []))"
proof -
  have scan: "takeWhile (is_digit 10) (dec n) = dec n" "num_of 10 (dec n) = n" for n
    using set_digs [of 10 n] num_of_digs [of 10 n] by (auto simp: list_all_iff takeWhile_eq_all_conv)
  have head: "\<exists>c s. dec n = c # s \<and> is_digit 10 c" for n
    using set_digs [of 10 n] by (cases "dec n") auto
  have pre: "sign_prefix (dropWhile is_space (dec n)) = (False, dec n)" for n
    using head [of n] digit_not_space by fastforce
  have minus: "\<not> is_space CHR ''-''" by (simp add: is_space_def)
  show ?thesis
  proof (cases "i < 0")
    case True
    then show ?thesis
      by (simp add: show_int_def strtol10_def minus scan Let_def)
  next
    case False
    then show ?thesis
      by (simp add: show_int_def strtol10_def pre scan Let_def)
  qed
qed

text \<open>Scanning what \<open>0x%0*lx\<close> printed, in front of a character that is no hexadecimal digit.\<close>

lemma takeWhile_all_then:
  "list_all P xs \<Longrightarrow> \<not> P c \<Longrightarrow> takeWhile P (xs @ c # r) = xs \<and> dropWhile P (xs @ c # r) = c # r"
  by (induction xs) auto

lemma strtoul0_hex:
  assumes "n < 2 ^ 64" and "\<not> is_digit 16 c"
  shows "strtoul0 (''0x'' @ zero_pad w (digs 16 n) @ c # r) = Some (of_nat n, False, c # r)"
proof -
  let ?ds = "zero_pad w (digs 16 n)"
  have all: "list_all (is_digit 16) ?ds"
  proof -
    have "is_digit 16 CHR ''0''" by (simp add: is_digit_def digit_of_def)
    then show ?thesis using set_digs [of 16 n] by (auto simp: zero_pad_def list_all_iff)
  qed
  have ne: "?ds \<noteq> []" by (simp add: zero_pad_def)
  then obtain d ds where d: "?ds = d # ds" by (cases ?ds) auto
  with all have "is_digit 16 d" by simp
  then have b: "base_prefix (''0x'' @ ?ds @ c # r) = (16, ?ds @ c # r)"
    by (simp add: base_prefix_def d)
  have p: "sign_prefix (dropWhile is_space (''0x'' @ s)) = (False, ''0x'' @ s)" for s
    by (simp add: is_space_def)
  show ?thesis
    unfolding strtoul0_def p prod.case Let_def b
    using assms takeWhile_all_then [OF all assms(2), of r] ne
    by (simp add: hex_field_value)
qed

end
