(* ===== verification/Process.thy ===== *)
theory Process
  imports Automaton C_Text "HOL-Library.State_Monad" "HOL-Library.Multiset"
begin

text \<open>
  A C process as a state monad over the outside world and the list of the events it has caused.
  The operating system, the driver and the hardware are not part of the sources: they are the
  fields of the record \<open>kernel\<close>, over an arbitrary type \<open>'w\<close> of world states, and every result
  about a program holds for every such record.  Each system or library call appends one event
  holding what the process passed and what it got back; what goes to standard output and to
  standard error is an event too.  \<open>emits m Q\<close> is the logic of traces: whatever the kernel
  answers, the events \<open>m\<close> adds and its result satisfy \<open>Q\<close>.
\<close>

named_theorems emit

section \<open>The outside world\<close>

text \<open>
  Calls that can fail give the C return value and the value of \<open>errno\<close> after the call.  An
  ioctl gets the buffers its argument reaches, first the argument object and then the objects
  its pointer fields point to, and may rewrite all of them.  Bus addresses are natural numbers.
\<close>

record 'w kernel =
  k_open :: "string \<Rightarrow> nat \<Rightarrow> 'w \<Rightarrow> (int \<times> int) \<times> 'w"
  k_close :: "int \<Rightarrow> 'w \<Rightarrow> 'w"
  k_ioctl :: "int \<Rightarrow> u64 \<Rightarrow> bytes list \<Rightarrow> 'w \<Rightarrow> (int \<times> int \<times> bytes list) \<times> 'w"
  k_fopen :: "string \<Rightarrow> 'w \<Rightarrow> (nat option \<times> int) \<times> 'w"
  k_fgets :: "nat \<Rightarrow> nat \<Rightarrow> 'w \<Rightarrow> (string option \<times> int) \<times> 'w"
  k_fclose :: "nat \<Rightarrow> 'w \<Rightarrow> 'w"
  k_mmap :: "int \<Rightarrow> nat \<Rightarrow> 'w \<Rightarrow> (nat option \<times> int) \<times> 'w"
  k_munmap :: "nat \<Rightarrow> nat \<Rightarrow> 'w \<Rightarrow> 'w"
  k_load32 :: "nat \<Rightarrow> 'w \<Rightarrow> u32 \<times> 'w"
  k_store32 :: "nat \<Rightarrow> u32 \<Rightarrow> 'w \<Rightarrow> 'w"
  k_strerror :: "int \<Rightarrow> string"

datatype event =
    EvOpen string nat int
  | EvClose int
  | EvIoctl int u64 "bytes list" int int "bytes list"
  | EvFopen string "nat option"
  | EvFgets nat nat "string option"
  | EvFclose nat
  | EvMmap int nat "nat option"
  | EvMunmap nat nat
  | EvLoad nat u32
  | EvStore nat u32
  | EvBarrier
  | EvOut string
  | EvErr string
  | EvFault

text \<open>A program over worlds \<open>'w\<close> that appends events of type \<open>'e\<close>; a process has the events above.\<close>

type_synonym ('w, 'e, 'a) traced = "('w \<times> 'e list, 'a) state"
type_synonym ('w, 'a) proc = "('w, event, 'a) traced"

abbreviation ret :: "'a \<Rightarrow> ('w, 'e, 'a) traced" where
  "ret \<equiv> State_Monad.return"

text \<open>The open flags of Linux on x86-64.\<close>

definition O_RDWR :: nat where "O_RDWR = 2"
definition O_CLOEXEC :: nat where "O_CLOEXEC = 0x80000"
definition O_SYNC :: nat where "O_SYNC = 0x101000"

section \<open>The calls\<close>

definition sys_open :: "'w kernel \<Rightarrow> string \<Rightarrow> nat \<Rightarrow> ('w, int \<times> int) proc" where
  "sys_open K path flags = State (\<lambda>(w, tr).
     let ((fd, e), w') = k_open K path flags w in ((fd, e), (w', tr @ [EvOpen path flags fd])))"

definition sys_close :: "'w kernel \<Rightarrow> int \<Rightarrow> ('w, unit) proc" where
  "sys_close K fd = State (\<lambda>(w, tr). ((), (k_close K fd w, tr @ [EvClose fd])))"

definition sys_ioctl ::
  "'w kernel \<Rightarrow> int \<Rightarrow> u64 \<Rightarrow> bytes list \<Rightarrow> ('w, int \<times> int \<times> bytes list) proc" where
  "sys_ioctl K fd req bufs = State (\<lambda>(w, tr).
     let ((rc, e, rs), w') = k_ioctl K fd req bufs w; bufs' = overlays bufs rs in
     ((rc, e, bufs'), (w', tr @ [EvIoctl fd req bufs rc e bufs'])))"

definition sys_fopen :: "'w kernel \<Rightarrow> string \<Rightarrow> ('w, nat option \<times> int) proc" where
  "sys_fopen K path = State (\<lambda>(w, tr).
     let ((f, e), w') = k_fopen K path w in ((f, e), (w', tr @ [EvFopen path f])))"

text \<open>\<open>fgets\<close> stores at most \<open>size - 1\<close> characters.\<close>

definition sys_fgets :: "'w kernel \<Rightarrow> nat \<Rightarrow> nat \<Rightarrow> ('w, string option \<times> int) proc" where
  "sys_fgets K file sz = State (\<lambda>(w, tr).
     let ((r, e), w') = k_fgets K file sz w; s = map_option (take (sz - 1)) r in
     ((s, e), (w', tr @ [EvFgets file sz s])))"

definition sys_fclose :: "'w kernel \<Rightarrow> nat \<Rightarrow> ('w, unit) proc" where
  "sys_fclose K file = State (\<lambda>(w, tr). ((), (k_fclose K file w, tr @ [EvFclose file])))"

definition sys_mmap :: "'w kernel \<Rightarrow> int \<Rightarrow> nat \<Rightarrow> ('w, nat option \<times> int) proc" where
  "sys_mmap K fd len = State (\<lambda>(w, tr).
     let ((a, e), w') = k_mmap K fd len w in ((a, e), (w', tr @ [EvMmap fd len a])))"

definition sys_munmap :: "'w kernel \<Rightarrow> nat \<Rightarrow> nat \<Rightarrow> ('w, unit) proc" where
  "sys_munmap K a len = State (\<lambda>(w, tr). ((), (k_munmap K a len w, tr @ [EvMunmap a len])))"

definition mmio_load :: "'w kernel \<Rightarrow> nat \<Rightarrow> ('w, u32) proc" where
  "mmio_load K a = State (\<lambda>(w, tr).
     let (v, w') = k_load32 K a w in (v, (w', tr @ [EvLoad a v])))"

definition mmio_store :: "'w kernel \<Rightarrow> nat \<Rightarrow> u32 \<Rightarrow> ('w, unit) proc" where
  "mmio_store K a v = State (\<lambda>(w, tr). ((), (k_store32 K a v w, tr @ [EvStore a v])))"

definition tell :: "'e \<Rightarrow> ('w, 'e, unit) traced" where
  "tell ev = State (\<lambda>(w, tr). ((), (w, tr @ [ev])))"

text \<open>A call of any kind: its answer, and the event that records it.\<close>

definition call :: "('w \<Rightarrow> 'r \<times> 'w) \<Rightarrow> ('r \<Rightarrow> 'e) \<Rightarrow> ('w, 'e, 'r) traced" where
  "call f ev = State (\<lambda>(w, tr). let (r, w') = f w in (r, (w', tr @ [ev r])))"

abbreviation sync_synchronize :: "('w, unit) proc" where
  "sync_synchronize \<equiv> tell EvBarrier"

text \<open>
  \<open>printf\<close> to a stream: the text, or the event \<open>EvFault\<close> where the program would have read
  outside an object or misused a format.
\<close>

definition out :: "string option \<Rightarrow> ('w, unit) proc" where
  "out r = (case r of Some s \<Rightarrow> tell (EvOut s) | None \<Rightarrow> tell EvFault)"

definition err :: "string option \<Rightarrow> ('w, unit) proc" where
  "err r = (case r of Some s \<Rightarrow> tell (EvErr s) | None \<Rightarrow> tell EvFault)"

definition skip :: "('w, 'e, unit) traced" where
  "skip = State_Monad.return ()"

text \<open>
  \<open>snprintf\<close> into an array of \<open>n\<close> bytes: the stored text is cut to fit, the result is the
  length the whole text would have had.
\<close>

definition snprintf :: "nat \<Rightarrow> string option \<Rightarrow> (string \<times> nat) option" where
  "snprintf n r = map_option (\<lambda>s. (take (n - 1) s, length s)) r"

definition result_of :: "('w, 'e, 'a) traced \<Rightarrow> 'w \<Rightarrow> 'a" where
  "result_of m w = fst (run_state m (w, []))"

definition trace_of :: "('w, 'e, 'a) traced \<Rightarrow> 'w \<Rightarrow> 'e list" where
  "trace_of m w = snd (snd (run_state m (w, [])))"

text \<open>The world a run leaves behind.\<close>

definition world_of :: "('w, 'e, 'a) traced \<Rightarrow> 'w \<Rightarrow> 'w" where
  "world_of m w = fst (snd (run_state m (w, [])))"

text \<open>\<open>runs m w x w'\<close>: from world \<open>w\<close> the program returns \<open>x\<close> and leaves \<open>w'\<close>.\<close>

definition runs :: "('w, 'e, 'a) traced \<Rightarrow> 'w \<Rightarrow> 'a \<Rightarrow> 'w \<Rightarrow> bool" where
  "runs m w x w' \<longleftrightarrow> (\<forall>tr. \<exists>evs. run_state m (w, tr) = (x, (w', evs)))"

lemma runsD: "runs m w x w' \<Longrightarrow> result_of m w = x \<and> world_of m w = w'"
  unfolding runs_def result_of_def world_of_def by (drule spec [of _ "[]"]) auto

lemma runs_bind:
  assumes "runs m w x w1" and "runs (f x) w1 y w2"
  shows "runs (State_Monad.bind m f) w y w2"
  unfolding runs_def
proof
  fix tr
  from assms(1) obtain e1 where 1: "run_state m (w, tr) = (x, (w1, e1))"
    unfolding runs_def by blast
  from assms(2) obtain e2 where "run_state (f x) (w1, e1) = (y, (w2, e2))"
    unfolding runs_def by blast
  with 1 show "\<exists>evs. run_state (State_Monad.bind m f) (w, tr) = (y, (w2, evs))" by simp
qed

lemma runs_return: "runs (State_Monad.return x) w x w"
  by (simp add: runs_def)

lemma runs_err: "runs (err r) w () w"
  by (cases r) (simp_all add: runs_def err_def tell_def)

lemmas running = sys_fopen_def sys_fgets_def sys_fclose_def sys_open_def sys_close_def sys_mmap_def
  sys_munmap_def mmio_load_def mmio_store_def tell_def out_def err_def Let_def

text \<open>What a trace put on standard output.\<close>

fun stdout_of :: "event list \<Rightarrow> string" where
  "stdout_of [] = []"
| "stdout_of (EvOut s # evs) = s @ stdout_of evs"
| "stdout_of (_ # evs) = stdout_of evs"

lemma stdout_of_append [simp]: "stdout_of (xs @ ys) = stdout_of xs @ stdout_of ys"
  by (induction xs rule: stdout_of.induct) auto

section \<open>The logic of traces\<close>

definition emits :: "('w, 'e, 'a) traced \<Rightarrow> ('a \<Rightarrow> 'e list \<Rightarrow> bool) \<Rightarrow> bool" where
  "emits m Q \<longleftrightarrow>
     (\<forall>w tr. \<exists>evs. snd (snd (run_state m (w, tr))) = tr @ evs \<and> Q (fst (run_state m (w, tr))) evs)"

lemma emits_return [emit]: "Q x [] \<Longrightarrow> emits (State_Monad.return x) Q"
  by (simp add: emits_def)

lemma emits_skip [emit]: "Q () [] \<Longrightarrow> emits skip Q"
  by (simp add: skip_def emits_return)

lemma emits_bind [emit]:
  "emits m (\<lambda>x e1. emits (f x) (\<lambda>y e2. Q y (e1 @ e2))) \<Longrightarrow> emits (State_Monad.bind m f) Q"
  unfolding emits_def
proof (intro allI)
  fix w tr
  assume a: "\<forall>w tr. \<exists>evs. snd (snd (run_state m (w, tr))) = tr @ evs \<and>
    (\<forall>w' tr'. \<exists>evs'. snd (snd (run_state (f (fst (run_state m (w, tr)))) (w', tr'))) = tr' @ evs' \<and>
       Q (fst (run_state (f (fst (run_state m (w, tr)))) (w', tr'))) (evs @ evs'))"
  obtain x w1 tr1 where m: "run_state m (w, tr) = (x, (w1, tr1))" by (metis prod.collapse)
  with a obtain e1 where e1: "tr1 = tr @ e1"
    and r: "\<forall>w' tr'. \<exists>evs'. snd (snd (run_state (f x) (w', tr'))) = tr' @ evs' \<and>
       Q (fst (run_state (f x) (w', tr'))) (e1 @ evs')"
    by (metis fst_conv snd_conv)
  from r obtain e2 where "snd (snd (run_state (f x) (w1, tr1))) = tr1 @ e2"
    and "Q (fst (run_state (f x) (w1, tr1))) (e1 @ e2)" by blast
  with m e1 show "\<exists>evs. snd (snd (run_state (State_Monad.bind m f) (w, tr))) = tr @ evs \<and>
     Q (fst (run_state (State_Monad.bind m f) (w, tr))) evs"
    by auto
qed

lemma emits_mono: "emits m P \<Longrightarrow> (\<And>x evs. P x evs \<Longrightarrow> Q x evs) \<Longrightarrow> emits m Q"
  unfolding emits_def by blast

lemma emits_conj: "emits m P \<Longrightarrow> emits m Q \<Longrightarrow> emits m (\<lambda>x evs. P x evs \<and> Q x evs)"
  unfolding emits_def by (metis append_same_eq same_append_eq)

lemma emits_all:
  assumes "\<And>y. emits m (Q y)"
  shows "emits m (\<lambda>x evs. \<forall>y. Q y x evs)"
proof -
  have "\<exists>evs. snd (snd (run_state m (w, tr))) = tr @ evs \<and> (\<forall>y. Q y (fst (run_state m (w, tr))) evs)" for w tr
    using assms unfolding emits_def by (metis same_append_eq)
  then show ?thesis by (simp add: emits_def)
qed

lemma emits_traceD: "emits m Q \<Longrightarrow> Q (result_of m w) (trace_of m w)"
  unfolding emits_def result_of_def trace_of_def by (metis append_Nil)

lemma emits_bindI:
  assumes "emits m P" and "\<And>x e1. P x e1 \<Longrightarrow> emits (f x) (\<lambda>y e2. Q y (e1 @ e2))"
  shows "emits (State_Monad.bind m f) Q"
  using assms by (intro emits_bind emits_mono [OF assms(1)]) blast

text \<open>A run of a sequence is a run of its first part followed by a run of the second.\<close>

lemma emits_bindD:
  assumes "emits m P" and "\<And>x e1. P x e1 \<Longrightarrow> emits (f x) (Q x)"
  shows "\<exists>e1 e2. trace_of (State_Monad.bind m f) w = e1 @ e2 \<and> P (result_of m w) e1 \<and>
    Q (result_of m w) (result_of (State_Monad.bind m f) w) e2"
proof -
  obtain x w1 tr1 where m: "run_state m (w, []) = (x, (w1, tr1))" by (metis prod.collapse)
  from assms(1) m have P: "P x tr1" unfolding emits_def by (metis append_Nil fst_conv snd_conv)
  moreover from assms(2) [OF P] obtain e2 where
    "snd (snd (run_state (f x) (w1, tr1))) = tr1 @ e2 \<and> Q x (fst (run_state (f x) (w1, tr1))) e2"
    unfolding emits_def by blast
  ultimately show ?thesis using m by (auto simp: result_of_def trace_of_def)
qed

lemma emits_after:
  assumes "emits (f (result_of m w)) Q"
  shows "\<exists>evs. trace_of (State_Monad.bind m f) w = trace_of m w @ evs \<and> Q (result_of (State_Monad.bind m f) w) evs"
proof -
  obtain x w1 tr1 where m: "run_state m (w, []) = (x, (w1, tr1))" by (metis prod.collapse)
  with assms obtain evs where "snd (snd (run_state (f x) (w1, tr1))) = tr1 @ evs" "Q (fst (run_state (f x) (w1, tr1))) evs"
    unfolding emits_def by (fastforce simp: result_of_def)
  with m show ?thesis by (auto simp: result_of_def trace_of_def)
qed

lemma emits_if [emit]: "(b \<Longrightarrow> emits m Q) \<Longrightarrow> (\<not> b \<Longrightarrow> emits n Q) \<Longrightarrow> emits (if b then m else n) Q"
  by simp

lemma emits_prod [emit]: "(\<And>a b. p = (a, b) \<Longrightarrow> emits (f a b) Q) \<Longrightarrow> emits (case p of (a, b) \<Rightarrow> f a b) Q"
  by (cases p) simp

lemma emits_option [emit]:
  "(x = None \<Longrightarrow> emits m Q) \<Longrightarrow> (\<And>y. x = Some y \<Longrightarrow> emits (f y) Q) \<Longrightarrow>
     emits (case x of None \<Rightarrow> m | Some y \<Rightarrow> f y) Q"
  by (cases x) auto

lemma emits_open [emit]: "(\<And>fd e. Q (fd, e) [EvOpen p fl fd]) \<Longrightarrow> emits (sys_open K p fl) Q"
  by (auto simp: emits_def sys_open_def Let_def split: prod.splits)

lemma emits_close [emit]: "Q () [EvClose fd] \<Longrightarrow> emits (sys_close K fd) Q"
  by (auto simp: emits_def sys_close_def)

lemma emits_ioctl [emit]:
  "(\<And>rc e rs. Q (rc, e, overlays bufs rs) [EvIoctl fd req bufs rc e (overlays bufs rs)]) \<Longrightarrow>
     emits (sys_ioctl K fd req bufs) Q"
  by (auto simp: emits_def sys_ioctl_def Let_def split: prod.splits)

lemma emits_fopen [emit]: "(\<And>f e. Q (f, e) [EvFopen p f]) \<Longrightarrow> emits (sys_fopen K p) Q"
  by (auto simp: emits_def sys_fopen_def Let_def split: prod.splits)

lemma emits_fgets [emit]:
  "(\<And>s e. (case s of None \<Rightarrow> True | Some t \<Rightarrow> length t \<le> sz - 1) \<Longrightarrow> Q (s, e) [EvFgets f sz s]) \<Longrightarrow>
     emits (sys_fgets K f sz) Q"
  by (auto simp: emits_def sys_fgets_def Let_def split: prod.splits option.splits)

lemma emits_fclose [emit]: "Q () [EvFclose f] \<Longrightarrow> emits (sys_fclose K f) Q"
  by (auto simp: emits_def sys_fclose_def)

lemma emits_mmap [emit]: "(\<And>a e. Q (a, e) [EvMmap fd len a]) \<Longrightarrow> emits (sys_mmap K fd len) Q"
  by (auto simp: emits_def sys_mmap_def Let_def split: prod.splits)

lemma emits_munmap [emit]: "Q () [EvMunmap a len] \<Longrightarrow> emits (sys_munmap K a len) Q"
  by (auto simp: emits_def sys_munmap_def)

lemma emits_load [emit]: "(\<And>v. Q v [EvLoad a v]) \<Longrightarrow> emits (mmio_load K a) Q"
  by (auto simp: emits_def mmio_load_def Let_def split: prod.splits)

lemma emits_store [emit]: "Q () [EvStore a v] \<Longrightarrow> emits (mmio_store K a v) Q"
  by (auto simp: emits_def mmio_store_def)

lemma emits_tell [emit]: "Q () [ev] \<Longrightarrow> emits (tell ev) Q"
  by (auto simp: emits_def tell_def)

lemma emits_call [emit]: "(\<And>r. Q r [ev r]) \<Longrightarrow> emits (call f ev) Q"
  by (auto simp: emits_def call_def Let_def split: prod.splits)

lemma emits_sum [emit]:
  "(\<And>e. r = Inl e \<Longrightarrow> emits (f e) Q) \<Longrightarrow> (\<And>x. r = Inr x \<Longrightarrow> emits (g x) Q) \<Longrightarrow>
     emits (case r of Inl e \<Rightarrow> f e | Inr x \<Rightarrow> g x) Q"
  by (cases r) auto

lemma emits_out [emit]:
  "(\<And>s. r = Some s \<Longrightarrow> Q () [EvOut s]) \<Longrightarrow> (r = None \<Longrightarrow> Q () [EvFault]) \<Longrightarrow> emits (out r) Q"
  by (cases r) (auto simp: out_def intro: emits_tell)

lemma emits_err [emit]:
  "(\<And>s. r = Some s \<Longrightarrow> Q () [EvErr s]) \<Longrightarrow> (r = None \<Longrightarrow> Q () [EvFault]) \<Longrightarrow> emits (err r) Q"
  by (cases r) (auto simp: err_def intro: emits_tell)

section \<open>Triples over an automaton\<close>

text \<open>\<open>only P m\<close>: every event of \<open>m\<close> satisfies \<open>P\<close>.\<close>

abbreviation only :: "('e \<Rightarrow> bool) \<Rightarrow> ('w, 'e, 'a) traced \<Rightarrow> bool" where
  "only P m \<equiv> emits m (\<lambda>_. list_all P)"

lemma only_bind: "only P m \<Longrightarrow> (\<And>x. only P (f x)) \<Longrightarrow> only P (State_Monad.bind m f)"
  by (rule emits_bindI) (auto elim: emits_mono)

lemma only_call: "(\<And>r. P (ev r)) \<Longrightarrow> only P (call f ev)"
  by (rule emits_call) simp

lemma only_call_of: "(\<And>w. P (ev (fst (f w)))) \<Longrightarrow> only P (call f ev)"
  by (auto simp: emits_def call_def Let_def split: prod.splits) (metis fst_conv)

lemma only_return: "only P (ret x)"
  by (simp add: emits_return)

lemma only_tell: "P ev \<Longrightarrow> only P (tell ev)"
  by (simp add: emits_tell)

lemmas only = only_bind only_call only_return only_tell emits_prod emits_option emits_sum emits_if

text \<open>
  \<open>triple run P m Q\<close>: from every state of the automaton with \<open>P\<close>, whatever the world answers, the
  events of \<open>m\<close> are accepted and lead to a state with \<open>Q\<close> of the result.
\<close>

definition triple ::
  "('s \<Rightarrow> 'e list \<Rightarrow> 's option) \<Rightarrow> ('s \<Rightarrow> bool) \<Rightarrow> ('w, 'e, 'a) traced \<Rightarrow> ('a \<Rightarrow> 's \<Rightarrow> bool) \<Rightarrow> bool" where
  "triple run P m Q \<longleftrightarrow> (\<forall>s. P s \<longrightarrow> emits m (\<lambda>x evs. \<exists>t. run s evs = Some t \<and> Q x t))"

lemma tripleD:
  "triple run P m Q \<Longrightarrow> P s \<Longrightarrow> \<exists>t. run s (trace_of m w) = Some t \<and> Q (result_of m w) t"
  unfolding triple_def by (blast dest: emits_traceD)

lemma triple_conseq:
  "triple run P m Q \<Longrightarrow> (\<And>s. P' s \<Longrightarrow> P s) \<Longrightarrow> (\<And>x s. Q x s \<Longrightarrow> Q' x s) \<Longrightarrow> triple run P' m Q'"
  unfolding triple_def by (blast intro: emits_mono)

lemma triple_emits:
  assumes "triple run P m Q" and "emits m (\<lambda>x _. S x)"
  shows "triple run P m (\<lambda>x s. Q x s \<and> S x)"
  unfolding triple_def
proof (intro allI impI)
  fix s
  assume "P s"
  with assms(1) have "emits m (\<lambda>x evs. \<exists>t. run s evs = Some t \<and> Q x t)" by (simp add: triple_def)
  from emits_conj [OF this assms(2)] show "emits m (\<lambda>x evs. \<exists>t. run s evs = Some t \<and> Q x t \<and> S x)"
    by (rule emits_mono) auto
qed

lemma triple_pair:
  "(\<And>x y. p = (x, y) \<Longrightarrow> triple run P (f x y) Q) \<Longrightarrow> triple run P (case p of (x, y) \<Rightarrow> f x y) Q"
  by (cases p) simp

lemma triple_option:
  "(x = None \<Longrightarrow> triple run P m Q) \<Longrightarrow> (\<And>y. x = Some y \<Longrightarrow> triple run P (f y) Q) \<Longrightarrow>
     triple run P (case x of None \<Rightarrow> m | Some y \<Rightarrow> f y) Q"
  by (cases x) auto

lemma triple_sum:
  "(\<And>e. r = Inl e \<Longrightarrow> triple run P (f e) Q) \<Longrightarrow> (\<And>x. r = Inr x \<Longrightarrow> triple run P (g x) Q) \<Longrightarrow>
     triple run P (case r of Inl e \<Rightarrow> f e | Inr x \<Rightarrow> g x) Q"
  by (cases r) auto

lemma triple_if:
  "(b \<Longrightarrow> triple run P m Q) \<Longrightarrow> (\<not> b \<Longrightarrow> triple run P n Q) \<Longrightarrow> triple run P (if b then m else n) Q"
  by simp

text \<open>A precondition that does not depend on the state.\<close>

lemma triple_pure: "(b \<Longrightarrow> triple run P m Q) \<Longrightarrow> triple run (\<lambda>s. b \<and> P s) m Q"
  by (auto simp: triple_def)

lemma triple_ex: "(\<And>y. triple run (P y) m Q) \<Longrightarrow> triple run (\<lambda>s. \<exists>y. P y s) m Q"
  by (auto simp: triple_def)

context automaton
begin

lemma triple_return: "(\<And>s. P s \<Longrightarrow> Q x s) \<Longrightarrow> triple run P (ret x) Q"
  by (simp add: triple_def emits_return run_Nil)

lemma triple_call:
  assumes "\<And>s r. P s \<Longrightarrow> \<exists>t. step s (ev r) = Some t \<and> Q r t"
  shows "triple run P (call f ev) Q"
  unfolding triple_def using assms by (auto intro!: emits_call simp: run_Cons run_Nil)

lemma triple_choice:
  assumes "emits m (\<lambda>x evs. evs = [] \<and> R x)" and "\<And>x. R x \<Longrightarrow> triple run P (f x) Q"
  shows "triple run P (State_Monad.bind m f) Q"
  unfolding triple_def
proof (intro allI impI)
  fix s
  assume "P s"
  with assms(2) show "emits (State_Monad.bind m f) (\<lambda>x evs. \<exists>t. run s evs = Some t \<and> Q x t)"
    by (intro emits_bindI [OF assms(1)]) (auto simp: triple_def)
qed

lemma triple_bind:
  assumes "triple run P m R" and "\<And>x. triple run (R x) (f x) Q"
  shows "triple run P (State_Monad.bind m f) Q"
  unfolding triple_def
proof (intro allI impI)
  fix s
  assume "P s"
  with assms(1) have "emits m (\<lambda>x evs. \<exists>t. run s evs = Some t \<and> R x t)" by (simp add: triple_def)
  then show "emits (State_Monad.bind m f) (\<lambda>x evs. \<exists>t. run s evs = Some t \<and> Q x t)"
  proof (rule emits_bindI, elim exE conjE)
    fix x e1 t
    assume "run s e1 = Some t" and "R x t"
    with assms(2) [of x] show "emits (f x) (\<lambda>y e2. \<exists>u. run s (e1 @ e2) = Some u \<and> Q y u)"
      by (simp add: triple_def run_append)
  qed
qed

lemma triple_seq:
  "triple run P' m R \<Longrightarrow> (\<And>s. P s \<Longrightarrow> P' s) \<Longrightarrow> (\<And>x. triple run (R x) (f x) Q) \<Longrightarrow>
     triple run P (State_Monad.bind m f) Q"
  by (rule triple_bind [OF triple_conseq])

end

section \<open>File descriptors, streams and mappings: what a well-behaved trace does\<close>

text \<open>
  \<open>fd_run m evs\<close> replays the trace from the multiset \<open>m\<close> of open descriptors: \<open>None\<close> as soon as
  a descriptor that is not open is used or closed, else the descriptors still open at the end.
\<close>

fun fd_step :: "int multiset \<Rightarrow> event \<Rightarrow> int multiset option" where
  "fd_step m (EvOpen p fl fd) = Some (if fd < 0 then m else add_mset fd m)"
| "fd_step m (EvClose fd) = (if fd \<in># m then Some (m - {#fd#}) else None)"
| "fd_step m (EvIoctl fd req bufs rc e bufs') = (if fd \<in># m then Some m else None)"
| "fd_step m (EvMmap fd len a) = (if fd \<in># m then Some m else None)"
| "fd_step m _ = Some m"

fun fd_run :: "int multiset \<Rightarrow> event list \<Rightarrow> int multiset option" where
  "fd_run m [] = Some m"
| "fd_run m (e # es) = Option.bind (fd_step m e) (\<lambda>m'. fd_run m' es)"

interpretation fd: automaton fd_step fd_run
  by unfold_locales simp_all

text \<open>Events that neither open nor close anything and use only open descriptors.\<close>

definition fd_neutral :: "int \<Rightarrow> event \<Rightarrow> bool" where
  "fd_neutral fd ev = (case ev of
     EvIoctl fd' req bufs rc e bufs' \<Rightarrow> fd' = fd | EvOut s \<Rightarrow> True | EvErr s \<Rightarrow> True
   | EvFault \<Rightarrow> True | _ \<Rightarrow> False)"

lemma fd_run_neutral:
  "list_all (fd_neutral fd) evs \<Longrightarrow> fd \<in># m \<Longrightarrow> fd_run m evs = Some m"
proof (rule fd.run_neutral)
  fix e
  assume "list_all (fd_neutral fd) evs" "fd \<in># m" "e \<in> set evs"
  then have "fd_neutral fd e" by (simp add: list_all_iff)
  with \<open>fd \<in># m\<close> show "fd_step m e = Some m" by (cases e) (auto simp: fd_neutral_def)
qed

end
