(* ===== verification/Rm_Control.thy ===== *)
theory Rm_Control
  imports Abi Process
begin

text \<open>
  The control path of \<open>verify/rm_issue_rate.c\<close>: the result type, the device index of the
  command line, registering the device file, allocating client, device and subdevice, the
  control ioctl, and the lookup of the device instances behind a Linux minor number.
\<close>

section \<open>Fields of objects of static type\<close>

definition get32 :: "nat \<Rightarrow> bytes \<Rightarrow> u32" where
  "get32 o1 b = of_nat (le_val (take 4 (drop o1 b)))"

lemma get32_peek32: "o1 + 4 \<le> length b \<Longrightarrow> peek32 o1 b = Some (get32 o1 b)"
  by (simp add: peek32_def peek_def get32_def)

lemma get32_poke32_same [simp, buf]: "o1 + 4 \<le> length b \<Longrightarrow> get32 o1 (poke32 o1 v b) = v"
  using peek32_poke32_same [of o1 b v] get32_peek32 [of o1 "poke32 o1 v b"] by simp

lemma get32_poke32_other [simp, buf]:
  "o1 + 4 \<le> length b \<Longrightarrow> i + 4 \<le> length b \<Longrightarrow> i + 4 \<le> o1 \<or> o1 + 4 \<le> i \<Longrightarrow>
     get32 i (poke32 o1 v b) = get32 i b"
  using peek32_poke32_other [of o1 b i v] get32_peek32 [of i b] get32_peek32 [of i "poke32 o1 v b"]
  by simp

lemma get32_replicate_0 [simp, buf]: "o1 + 4 \<le> n \<Longrightarrow> get32 o1 (replicate n 0) = 0"
  using peek32_replicate_0 [of o1 n] get32_peek32 [of o1 "replicate n 0"] by simp

text \<open>A zero-initialised object.\<close>

definition zeroed :: "cty \<Rightarrow> bytes" where
  "zeroed T = replicate (csize T) 0"

lemma length_zeroed [simp, buf]: "length (zeroed T) = csize T"
  by (simp add: zeroed_def)

lemma get32_zeroed [simp, buf]: "o1 + 4 \<le> csize T \<Longrightarrow> get32 o1 (zeroed T) = 0"
  by (simp add: zeroed_def)

section \<open>Results, device index\<close>

record ControlResult =
  os_error :: int
  rm_status :: u32

definition rm_ok :: "ControlResult \<Rightarrow> bool" where
  "rm_ok result \<longleftrightarrow> os_error result = 0 \<and> rm_status result = 0"

definition parse_device_index :: "string \<Rightarrow> int option" where
  "parse_device_index text =
     (case strtol10 text of
        None \<Rightarrow> None
      | Some (v, erange, rest) \<Rightarrow>
          if erange \<or> rest \<noteq> [] \<or> v < 0 \<or> v > 127 then None else Some v)"

section \<open>Registering and allocating\<close>

definition int_object :: "int \<Rightarrow> bytes" where
  "int_object i = le_bytes 4 (unat (word_of_int i :: u32))"

definition register_device_fd :: "'w kernel \<Rightarrow> int \<Rightarrow> int \<Rightarrow> ('w, bool \<times> int) proc" where
  "register_device_fd K nvidia_fd nvidiactl_fd = do {
     (rc, e, bufs) \<leftarrow> sys_ioctl K nvidia_fd REGISTER_FD_request [int_object nvidiactl_fd];
     ret (rc = 0, e)
   }"

definition alloc_client :: "'w kernel \<Rightarrow> int \<Rightarrow> ('w, u32 option) proc" where
  "alloc_client K nvidiactl_fd = do {
     (rc, e, bufs) \<leftarrow> sys_ioctl K nvidiactl_fd RM_ALLOC21_request [zeroed NVOS21_PARAMETERS];
     if rc \<noteq> 0 then do {
       err (printf ''RM client allocation ioctl failed: %s\<newline>'' [FStr (k_strerror K e)]);
       ret None
     } else do {
       let request = bufs ! 0;
       let status = get32 (foff NVOS21_PARAMETERS ''status'') request;
       if status \<noteq> 0 then do {
         err (printf ''RM client allocation failed: 0x%08x\<newline>'' [FUInt status]);
         ret None
       } else ret (Some (get32 (foff NVOS21_PARAMETERS ''hObjectNew'') request))
     }
   }"

definition alloc_device :: "'w kernel \<Rightarrow> int \<Rightarrow> u32 \<Rightarrow> int \<Rightarrow> ('w, u32 option) proc" where
  "alloc_device K nvidiactl_fd client device_index = do {
     let params = poke32 (foff NV0080_ALLOC_PARAMETERS ''deviceId'') (word_of_int device_index)
                    (zeroed NV0080_ALLOC_PARAMETERS);
     let request =
       poke32 (foff NVOS64_PARAMETERS ''paramsSize'') (of_nat (csize NV0080_ALLOC_PARAMETERS))
         (poke32 (foff NVOS64_PARAMETERS ''hClass'') NV01_DEVICE_0
           (poke32 (foff NVOS64_PARAMETERS ''hObjectParent'') client
             (poke32 (foff NVOS64_PARAMETERS ''hRoot'') client (zeroed NVOS64_PARAMETERS))));
     (rc, e, bufs) \<leftarrow> sys_ioctl K nvidiactl_fd RM_ALLOC64_request [request, params];
     if rc \<noteq> 0 then do {
       err (printf ''RM device allocation ioctl failed: %s\<newline>'' [FStr (k_strerror K e)]);
       ret None
     } else do {
       let request' = bufs ! 0;
       let status = get32 (foff NVOS64_PARAMETERS ''status'') request';
       if status \<noteq> 0 then do {
         err (printf ''RM device allocation failed: 0x%08x\<newline>'' [FUInt status]);
         ret None
       } else ret (Some (get32 (foff NVOS64_PARAMETERS ''hObjectNew'') request'))
     }
   }"

definition alloc_subdevice ::
  "'w kernel \<Rightarrow> int \<Rightarrow> u32 \<Rightarrow> u32 \<Rightarrow> u32 \<Rightarrow> ('w, u32 option) proc" where
  "alloc_subdevice K nvidiactl_fd client device subdevice_instance = do {
     let params = poke32 (foff NV2080_ALLOC_PARAMETERS ''subDeviceId'') subdevice_instance
                    (zeroed NV2080_ALLOC_PARAMETERS);
     let request =
       poke32 (foff NVOS64_PARAMETERS ''paramsSize'') (of_nat (csize NV2080_ALLOC_PARAMETERS))
         (poke32 (foff NVOS64_PARAMETERS ''hClass'') NV20_SUBDEVICE_0
           (poke32 (foff NVOS64_PARAMETERS ''hObjectParent'') device
             (poke32 (foff NVOS64_PARAMETERS ''hRoot'') client (zeroed NVOS64_PARAMETERS))));
     (rc, e, bufs) \<leftarrow> sys_ioctl K nvidiactl_fd RM_ALLOC64_request [request, params];
     if rc \<noteq> 0 then do {
       err (printf ''RM subdevice allocation ioctl failed: %s\<newline>'' [FStr (k_strerror K e)]);
       ret None
     } else do {
       let request' = bufs ! 0;
       let status = get32 (foff NVOS64_PARAMETERS ''status'') request';
       if status \<noteq> 0 then do {
         err (printf ''RM subdevice allocation failed: 0x%08x\<newline>'' [FUInt status]);
         ret None
       } else ret (Some (get32 (foff NVOS64_PARAMETERS ''hObjectNew'') request'))
     }
   }"

section \<open>The control ioctl\<close>

text \<open>
  \<open>params\<close> is the parameter object followed by the lists its pointer fields reach; the result
  holds the same objects as the driver left them.
\<close>

definition rm_control ::
  "'w kernel \<Rightarrow> int \<Rightarrow> u32 \<Rightarrow> u32 \<Rightarrow> u32 \<Rightarrow> bytes list \<Rightarrow> nat \<Rightarrow>
     ('w, ControlResult \<times> bytes list) proc" where
  "rm_control K nvidiactl_fd client subdevice command params params_size = do {
     let request =
       poke32 (foff NVOS54_PARAMETERS ''paramsSize'') (of_nat params_size)
         (poke32 (foff NVOS54_PARAMETERS ''cmd'') command
           (poke32 (foff NVOS54_PARAMETERS ''hObject'') subdevice
             (poke32 (foff NVOS54_PARAMETERS ''hClient'') client (zeroed NVOS54_PARAMETERS))));
     (rc, e, bufs) \<leftarrow> sys_ioctl K nvidiactl_fd RM_CONTROL_request (request # params);
     ret (\<lparr>os_error = (if rc \<noteq> 0 then e else 0),
          rm_status = get32 (foff NVOS54_PARAMETERS ''status'') (bufs ! 0)\<rparr>, tl bufs)
   }"

section \<open>From a Linux minor number to RM instances\<close>

record card =
  valid :: u8
  domain :: u32
  bus :: u8
  slot :: u8
  pci_function :: u8
  gpu_id :: u32
  minor_number :: u32

text \<open>The fields of \<open>cards[i]\<close> the code reads; \<open>None\<close> outside the array.\<close>

definition read_card :: "bytes \<Rightarrow> nat \<Rightarrow> card option" where
  "read_card cards i = (let b = i * csize nv_ioctl_card_info_t;
                            p = b + foff nv_ioctl_card_info_t ''pci_info'' in do {
     v \<leftarrow> peek8 (b + foff nv_ioctl_card_info_t ''valid'') cards;
     d \<leftarrow> peek32 (p + foff nv_pci_info_t ''domain'') cards;
     bu \<leftarrow> peek8 (p + foff nv_pci_info_t ''bus'') cards;
     sl \<leftarrow> peek8 (p + foff nv_pci_info_t ''slot'') cards;
     fu \<leftarrow> peek8 (p + foff nv_pci_info_t ''function'') cards;
     g \<leftarrow> peek32 (b + foff nv_ioctl_card_info_t ''gpu_id'') cards;
     m \<leftarrow> peek32 (b + foff nv_ioctl_card_info_t ''minor_number'') cards;
     Some \<lparr>valid = v, domain = d, bus = bu, slot = sl, pci_function = fu, gpu_id = g,
           minor_number = m\<rparr>
   })"

fun resolve_cards ::
  "'w kernel \<Rightarrow> int \<Rightarrow> u32 \<Rightarrow> int \<Rightarrow> bytes \<Rightarrow> nat list \<Rightarrow> ('w, (u32 \<times> u32) option) proc" where
  "resolve_cards K nvidiactl_fd client minor cards [] = do {
     err (printf ''No attached GPU matches minor %d\<newline>'' [FInt minor]);
     ret None
   }"
| "resolve_cards K nvidiactl_fd client minor cards (i # is) =
     (case read_card cards i of
        None \<Rightarrow> do { tell EvFault; ret None }
      | Some c \<Rightarrow>
          if valid c = 0 \<or> minor_number c \<noteq> word_of_int minor
          then resolve_cards K nvidiactl_fd client minor cards is
          else do {
            let info = poke32 (foff NV0000_CTRL_GPU_GET_ID_INFO_V2_PARAMS ''gpuId'') (gpu_id c)
                         (zeroed NV0000_CTRL_GPU_GET_ID_INFO_V2_PARAMS);
            (status, bufs) \<leftarrow> rm_control K nvidiactl_fd client client
                NV0000_CTRL_CMD_GPU_GET_ID_INFO_V2 [info]
                (csize NV0000_CTRL_GPU_GET_ID_INFO_V2_PARAMS);
            if \<not> rm_ok status then do {
              err (printf ''RM GPU ID lookup failed: os=%d rm=0x%08x\<newline>''
                     [FInt (os_error status), FUInt (rm_status status)]);
              ret None
            } else do {
              let info' = bufs ! 0;
              let device_instance =
                get32 (foff NV0000_CTRL_GPU_GET_ID_INFO_V2_PARAMS ''deviceInstance'') info';
              let subdevice_instance =
                get32 (foff NV0000_CTRL_GPU_GET_ID_INFO_V2_PARAMS ''subDeviceInstance'') info';
              err (printf
                ''RM mapping: minor=%d pci=%04x:%02x:%02x.%u device=%u subdevice=%u\<newline>''
                [FInt minor, FUInt (domain c), FUInt (ucast (bus c)), FUInt (ucast (slot c)),
                 FUInt (ucast (pci_function c)), FUInt device_instance, FUInt subdevice_instance]);
              ret (Some (device_instance, subdevice_instance))
            }
          })"

definition resolve_device_instances ::
  "'w kernel \<Rightarrow> int \<Rightarrow> u32 \<Rightarrow> int \<Rightarrow> ('w, (u32 \<times> u32) option) proc" where
  "resolve_device_instances K nvidiactl_fd client minor = do {
     (rc, e, bufs) \<leftarrow> sys_ioctl K nvidiactl_fd CARD_INFO_request
       [replicate (128 * csize nv_ioctl_card_info_t) 0];
     if rc \<noteq> 0 then do {
       err (printf ''NV_ESC_CARD_INFO failed: %s\<newline>'' [FStr (k_strerror K e)]);
       ret None
     } else resolve_cards K nvidiactl_fd client minor (bufs ! 0) [0..<128]
   }"

end
