(* ===== verification/Rm_Print.thy ===== *)
theory Rm_Print
  imports Rm_Control
begin

text \<open>
  The reporting side of \<open>verify/rm_issue_rate.c\<close>: the name tables and every \<open>print_\<close> function,
  as the text it writes for the result and the buffers the driver left behind.  A function gives
  \<open>None\<close> if it would read outside a table or a buffer, or misuse a format string.
\<close>

section \<open>Name tables\<close>

definition v1_names :: "string list" where
  "v1_names = [''IMLA0'', ''FMLA16'', ''DP'', ''FMLA32'', ''FFMA'',
    ''IMLA1'', ''IMLA2'', ''IMLA3'', ''IMLA4'']"

definition v2_names :: "string list" where
  "v2_names = [''FMLA16'', ''DP'', ''FMLA32'', ''FFMA'', ''IMLA0'', ''IMLA1'', ''IMLA2'',
    ''IMLA3'', ''IMLA4'', ''FP16'', ''FP32'', ''DFMA'', ''DMLA'']"

definition throttle_names :: "string list" where
  "throttle_names = [''MASK'', ''CREDIT'']"

definition gpu_info_names :: "string list" where
  "gpu_info_names = [''NETLIST_REV0'', ''NETLIST_REV1'', ''CMP_SKU'', ''DISPLAY_ENABLED'']"

definition gr_info_names :: "string list" where
  "gr_info_names = [''GPU_CORE_COUNT'', ''RT_CORE_COUNT'', ''TENSOR_CORE_COUNT'',
    ''GFX_CAPABILITIES'']"

definition context_buffer_names :: "string list" where
  "context_buffer_names = [
    ''GRAPHICS'', ''VLD'', ''VIDEO'', ''MPEG'', ''CAPTURE'', ''DISPLAY'',
    ''ENCRYPTION'', ''POSTPROCESS'', ''GRAPHICS_ZCULL'', ''GRAPHICS_PM'',
    ''COMPUTE_PREEMPT'', ''GRAPHICS_PREEMPT'', ''GRAPHICS_SPILL'',
    ''GRAPHICS_PAGEPOOL'', ''GRAPHICS_BETACB'', ''GRAPHICS_RTV'',
    ''GRAPHICS_PATCH'', ''GRAPHICS_BUNDLE_CB'', ''GRAPHICS_PAGEPOOL_GLOBAL'',
    ''GRAPHICS_ATTRIBUTE_CB'', ''GRAPHICS_RTV_CB_GLOBAL'', ''GRAPHICS_GFXP_POOL'',
    ''GRAPHICS_GFXP_CTRL_BLK'', ''GRAPHICS_FECS_EVENT'',
    ''GRAPHICS_PRIV_ACCESS_MAP'', ''GRAPHICS_SETUP'']"

definition speed_names :: "string list" where
  "speed_names = [''full'', ''1/2'', ''1/4'', ''1/8'', ''1/16'', ''1/32'', ''1/64'']"

definition speed_name :: "u32 \<Rightarrow> bool \<Rightarrow> string option" where
  "speed_name v dp_field =
     (if dp_field
      then Some (if v = 0 then ''full'' else if v = 1 then ''reduced'' else ''unknown'')
      else if unat v < length speed_names then tbl speed_names (unat v) else Some ''unknown'')"

definition engine_type_name :: "u32 \<Rightarrow> string" where
  "engine_type_name engine_type =
     (if engine_type = NV2080_ENGINE_TYPE_GRAPHICS then ''GRAPHICS''
      else if engine_type = NV2080_ENGINE_TYPE_NVDEC0 then ''NVDEC0''
      else if engine_type = NV2080_ENGINE_TYPE_NVENC0 then ''NVENC0''
      else if engine_type = NV2080_ENGINE_TYPE_DPU then ''DPU''
      else ''OTHER'')"

section \<open>Shared pieces\<close>

definition true_false :: "bool \<Rightarrow> string" where
  "true_false b = (if b then ''true'' else ''false'')"

text \<open>The separator in front of the \<open>i\<close>-th element of a printed list.\<close>

definition sep :: "nat \<Rightarrow> string" where
  "sep i = (if i = 0 then [] else '','')"

definition commasp :: "nat \<Rightarrow> string" where
  "commasp i = (if i = 0 then [] else '', '')"

text \<open>Entry \<open>i\<close> of an array of index/data pairs: \<open>(items[i].index, items[i].data)\<close>.\<close>

definition read_item :: "bytes \<Rightarrow> nat \<Rightarrow> (u32 \<times> u32) option" where
  "read_item items i = (let b = i * csize NVXXXX_CTRL_XXX_INFO in do {
     x \<leftarrow> peek32 (b + foff NVXXXX_CTRL_XXX_INFO ''index'') items;
     d \<leftarrow> peek32 (b + foff NVXXXX_CTRL_XXX_INFO ''data'') items;
     Some (x, d) })"

definition print_result_header :: "string \<Rightarrow> u32 \<Rightarrow> ControlResult \<Rightarrow> string option" where
  "print_result_header name command result = cat [
     printf ''    \"%s\": {\<newline>'' [FStr name],
     printf ''      \"command\": \"0x%08x\",\<newline>'' [FUInt command],
     printf ''      \"os_error\": %d,\<newline>'' [FInt (os_error result)],
     printf ''      \"rm_status\": \"0x%08x\",\<newline>'' [FUInt (rm_status result)]]"

section \<open>Issue rates\<close>

definition v1_fields :: "string list" where
  "v1_fields = [''imla0'', ''fmla16'', ''dp'', ''fmla32'', ''ffma'',
    ''imla1'', ''imla2'', ''imla3'', ''imla4'']"

definition print_v1 :: "ControlResult \<Rightarrow> bytes \<Rightarrow> string option" where
  "print_v1 result params = cat [
     print_result_header ''v1'' NV2080_CTRL_CMD_GR_GET_SM_ISSUE_RATE_MODIFIER result,
     printf ''      \"values\": ['' [],
     (if rm_ok result then cat [
        cat (map (\<lambda>i. do {
          f \<leftarrow> tbl v1_fields i;
          v \<leftarrow> peek8 (foff GR_GET_SM_ISSUE_RATE_MODIFIER_PARAMS f) params;
          nm \<leftarrow> tbl v1_names i;
          sp \<leftarrow> speed_name (ucast v) (i = 2);
          printf ''%s\<newline>        {\"name\": \"%s\", \"raw\": %u, \"speed\": \"%s\"}''
            [FStr (sep i), FStr nm, FUInt (ucast v), FStr sp] }) [0..<9]),
        printf ''\<newline>      '' []]
      else Some []),
     printf '']\<newline>    },\<newline>'' []]"

definition print_info_list ::
  "string \<Rightarrow> u32 \<Rightarrow> ControlResult \<Rightarrow> u32 \<Rightarrow> bytes \<Rightarrow> bool \<Rightarrow> bool \<Rightarrow> bool \<Rightarrow> string option" where
  "print_info_list name command result cnt items v2_fields print_speed trailing_comma =
    (let safe_count = (if cnt > 0xff then 0xff else cnt) in cat [
     print_result_header name command result,
     printf ''      \"values\": ['' [],
     (if rm_ok result then cat [
        cat (map (\<lambda>i. do {
          (x, d) \<leftarrow> read_item items i;
          field \<leftarrow> (if v2_fields
             then (if unat x < length v2_names then tbl v2_names (unat x) else Some ''UNKNOWN'')
             else (if unat x < length throttle_names then tbl throttle_names (unat x)
                   else Some ''UNKNOWN''));
          cat [
            printf ''%s\<newline>        {\"index\": %u, \"name\": \"%s\", \"raw\": %u''
              [FStr (sep i), FUInt x, FStr field, FUInt d],
            (if print_speed then do {
               sp \<leftarrow> speed_name d (x = 1);
               printf '', \"speed\": \"%s\"'' [FStr sp] }
             else Some []),
            printf ''}'' []] }) [0..<unat safe_count]),
        (if safe_count \<noteq> 0 then printf ''\<newline>      '' [] else Some [])]
      else Some []),
     printf '']\<newline>    }%s\<newline>'' [FStr (if trailing_comma then '','' else [])]])"

section \<open>GPU and GR information\<close>

definition print_gpu_info :: "ControlResult \<Rightarrow> bytes \<Rightarrow> string option" where
  "print_gpu_info result items = cat [
     print_result_header ''gpu_info'' NV2080_CTRL_CMD_GPU_GET_INFO_V2 result,
     printf ''      \"values\": ['' [],
     (if rm_ok result then cat [
        cat (map (\<lambda>i. do {
          (x, d) \<leftarrow> read_item items i;
          nm \<leftarrow> tbl gpu_info_names i;
          printf ''%s\<newline>        {\"index\": %u, \"name\": \"%s\", \"raw\": %u, \"set\": %s}''
            [FStr (sep i), FUInt x, FStr nm, FUInt d, FStr (true_false (d \<noteq> 0))] })
          [0..<length gpu_info_names]),
        printf ''\<newline>      '' []]
      else Some []),
     printf '']\<newline>    },\<newline>'' []]"

definition print_gr_info :: "ControlResult \<Rightarrow> bytes \<Rightarrow> string option" where
  "print_gr_info result items = do {
     (x3, capabilities) \<leftarrow> read_item items 3;
     cat [
       print_result_header ''gr_info'' NV2080_CTRL_CMD_GR_GET_INFO result,
       printf ''      \"values\": ['' [],
       (if rm_ok result then cat [
          cat (map (\<lambda>i. do {
            (x, d) \<leftarrow> read_item items i;
            nm \<leftarrow> tbl gr_info_names i;
            printf ''%s\<newline>        {\"index\": %u, \"name\": \"%s\", \"raw\": %u}''
              [FStr (sep i), FUInt x, FStr nm, FUInt d] }) [0..<4]),
          printf ''\<newline>      '' []]
        else Some []),
       printf ''],\<newline>'' [],
       (if rm_ok result
        then printf ''      \"gfx_capabilities\": {\"2d\": %s, \"3d\": %s, \"compute\": %s, \"i2m\": %s}\<newline>''
          [FStr (true_false (capabilities AND 0x1 \<noteq> 0)),
           FStr (true_false (capabilities AND 0x2 \<noteq> 0)),
           FStr (true_false (capabilities AND 0x4 \<noteq> 0)),
           FStr (true_false (capabilities AND 0x8 \<noteq> 0))]
        else printf ''      \"gfx_capabilities\": null\<newline>'' []),
       printf ''    },\<newline>'' []] }"

definition print_context_buffers :: "ControlResult list \<Rightarrow> bytes list \<Rightarrow> string option" where
  "print_context_buffers results params = cat [
     printf ''    \"gr_context_buffers\": {\<newline>'' [],
     printf ''      \"command\": \"0x%08x\",\<newline>''
       [FUInt NV2080_CTRL_CMD_GR_GET_ENGINE_CONTEXT_PROPERTIES],
     printf ''      \"entries\": ['' [],
     cat (map (\<lambda>i. do {
       nm \<leftarrow> tbl context_buffer_names i;
       r \<leftarrow> tbl results i;
       p \<leftarrow> tbl params i;
       al \<leftarrow> peek32 (foff GR_GET_ENGINE_CONTEXT_PROPERTIES_PARAMS ''alignment'') p;
       sz \<leftarrow> peek32 (foff GR_GET_ENGINE_CONTEXT_PROPERTIES_PARAMS ''size'') p;
       po \<leftarrow> peek8 (foff GR_GET_ENGINE_CONTEXT_PROPERTIES_PARAMS ''bInfoPopulated'') p;
       printf ''%s\<newline>        {\"engine_id\": %u, \"name\": \"%s\", \"os_error\": %d, \"rm_status\": \"0x%08x\", \"alignment\": %u, \"size\": %u, \"populated\": %s}''
         [FStr (sep i), FUInt (of_nat i), FStr nm, FInt (os_error r), FUInt (rm_status r),
          FUInt al, FUInt sz, FStr (true_false (po \<noteq> 0))] })
       [0..<CONTEXT_PROPERTIES_ENGINE_ID_COUNT]),
     printf ''\<newline>      ]\<newline>    },\<newline>'' []]"

section \<open>Engine classes, falcons, engines\<close>

record EngineClassQuery =
  q_name :: string
  engine_type :: u32
  num_classes :: u32
  classes :: bytes
  q_result :: ControlResult

definition print_engine_classes :: "EngineClassQuery \<Rightarrow> bool \<Rightarrow> string option" where
  "print_engine_classes query trailing_comma = cat [
     print_result_header (q_name query) NV2080_CTRL_CMD_GPU_GET_ENGINE_CLASSLIST (q_result query),
     printf ''      \"engine_type\": \"0x%08x\",\<newline>'' [FUInt (engine_type query)],
     printf ''      \"capacity\": %u,\<newline>'' [FUInt (of_nat CMP_ENGINE_CLASS_CAPACITY)],
     printf ''      \"num_classes\": %u,\<newline>'' [FUInt (num_classes query)],
     printf ''      \"classes\": ['' [],
     (if rm_ok (q_result query) then
        (let safe_count =
           (if num_classes query > of_nat CMP_ENGINE_CLASS_CAPACITY
            then of_nat CMP_ENGINE_CLASS_CAPACITY else num_classes query) in
         cat (map (\<lambda>i. do {
           c \<leftarrow> peek32 (i * 4) (classes query);
           printf ''%s\"0x%08x\"'' [FStr (commasp i), FUInt c] }) [0..<unat safe_count]))
      else Some []),
     printf '']\<newline>    }%s\<newline>'' [FStr (if trailing_comma then '','' else [])]]"

definition print_constructed_falcons :: "ControlResult \<Rightarrow> bytes \<Rightarrow> string option" where
  "print_constructed_falcons result params = do {
     n \<leftarrow> peek32 (foff GPU_GET_CONSTRUCTED_FALCON_INFO_PARAMS ''numConstructedFalcons'') params;
     cat [
       print_result_header ''constructed_falcons''
         NV2080_CTRL_CMD_GPU_GET_CONSTRUCTED_FALCON_INFO result,
       printf ''      \"num_falcons\": %u,\<newline>'' [FUInt n],
       printf ''      \"falcons\": ['' [],
       (if rm_ok result then
          (let cnt = (if n > of_nat MAX_CONSTRUCTED_FALCONS
                        then of_nat MAX_CONSTRUCTED_FALCONS else n) in cat [
           cat (map (\<lambda>i. (let b =
               foff GPU_GET_CONSTRUCTED_FALCON_INFO_PARAMS ''constructedFalconsTable''
                 + i * csize GPU_CONSTRUCTED_FALCON_INFO in do {
             ed \<leftarrow> peek32 (b + foff GPU_CONSTRUCTED_FALCON_INFO ''engDesc'') params;
             ca \<leftarrow> peek32 (b + foff GPU_CONSTRUCTED_FALCON_INFO ''ctxAttr'') params;
             cb \<leftarrow> peek32 (b + foff GPU_CONSTRUCTED_FALCON_INFO ''ctxBufferSize'') params;
             asl \<leftarrow> peek32 (b + foff GPU_CONSTRUCTED_FALCON_INFO ''addrSpaceList'') params;
             rb \<leftarrow> peek32 (b + foff GPU_CONSTRUCTED_FALCON_INFO ''registerBase'') params;
             printf ''%s\<newline>        {\"eng_desc\": \"0x%08x\", \"class_id\": \"0x%06x\", \"instance\": %u, \"ctx_attr\": \"0x%08x\", \"ctx_buffer_size\": %u, \"addr_space_list\": \"0x%08x\", \"register_base\": \"0x%08x\"}''
               [FStr (sep i), FUInt ed, FUInt (drop_bit 8 ed), FUInt (ed AND 0xff), FUInt ca,
                FUInt cb, FUInt asl, FUInt rb] }))
             [0..<unat cnt]),
           (if cnt \<noteq> 0 then printf ''\<newline>      '' [] else Some [])])
        else Some []),
       printf '']\<newline>    },\<newline>'' []] }"

definition print_engine_list :: "ControlResult \<Rightarrow> bytes \<Rightarrow> string option" where
  "print_engine_list result params = do {
     n \<leftarrow> peek32 (foff GPU_GET_ENGINES_V2_PARAMS ''engineCount'') params;
     cat [
       print_result_header ''engines_v2'' NV2080_CTRL_CMD_GPU_GET_ENGINES_V2 result,
       printf ''      \"engine_count\": %u,\<newline>'' [FUInt n],
       printf ''      \"engines\": ['' [],
       (if rm_ok result then
          (let cnt = (if n > of_nat GPU_MAX_ENGINES_LIST_SIZE
                        then of_nat GPU_MAX_ENGINES_LIST_SIZE else n) in cat [
           cat (map (\<lambda>i. do {
             et \<leftarrow> peek32 (foff GPU_GET_ENGINES_V2_PARAMS ''engineList'' + i * 4) params;
             printf ''%s\<newline>        {\"type\": \"0x%08x\", \"name\": \"%s\"}''
               [FStr (sep i), FUInt et, FStr (engine_type_name et)] }) [0..<unat cnt]),
           (if cnt \<noteq> 0 then printf ''\<newline>      '' [] else Some [])])
        else Some []),
       printf '']\<newline>    },\<newline>'' []] }"

section \<open>The FIFO device table\<close>

definition print_device_info_table :: "ControlResult \<Rightarrow> bytes \<Rightarrow> string option" where
  "print_device_info_table result params = do {
     bi \<leftarrow> peek32 (foff FIFO_GET_DEVICE_INFO_TABLE_PARAMS ''baseIndex'') params;
     n \<leftarrow> peek32 (foff FIFO_GET_DEVICE_INFO_TABLE_PARAMS ''numEntries'') params;
     mo \<leftarrow> peek8 (foff FIFO_GET_DEVICE_INFO_TABLE_PARAMS ''bMore'') params;
     cat [
       print_result_header ''fifo_device_info'' NV2080_CTRL_CMD_FIFO_GET_DEVICE_INFO_TABLE result,
       printf ''      \"base_index\": %u,\<newline>'' [FUInt bi],
       printf ''      \"num_entries\": %u,\<newline>'' [FUInt n],
       printf ''      \"more\": %s,\<newline>'' [FStr (true_false (mo \<noteq> 0))],
       printf ''      \"entries\": ['' [],
       (if rm_ok result then
          (let cnt = (if n > of_nat DEVICE_INFO_TABLE_MAX_ENTRIES
                        then of_nat DEVICE_INFO_TABLE_MAX_ENTRIES else n) in cat [
           cat (map (\<lambda>i. (let b = foff FIFO_GET_DEVICE_INFO_TABLE_PARAMS ''entries''
                                 + i * csize FIFO_DEVICE_ENTRY in do {
             np \<leftarrow> peek32 (b + foff FIFO_DEVICE_ENTRY ''numPbdmas'') params;
             cat [
               printf ''%s\<newline>        {\"engine_name_hex\": \"'' [FStr (sep i)],
               cat (map (\<lambda>j. do {
                 ch \<leftarrow> peek8 (b + foff FIFO_DEVICE_ENTRY ''engineName'' + j) params;
                 printf ''%02x'' [FUInt (ucast ch)] }) [0..<ENGINE_MAX_NAME_LEN]),
               printf ''\", \"num_pbdmas\": %u, \"engine_data\": ['' [FUInt np],
               cat (map (\<lambda>j. do {
                 d \<leftarrow> peek32 (b + foff FIFO_DEVICE_ENTRY ''engineData'' + j * 4) params;
                 printf ''%s\"0x%08x\"'' [FStr (commasp j), FUInt d] }) [0..<ENGINE_DATA_TYPES]),
               printf '']}'' []] }))
             [0..<unat cnt]),
           (if cnt \<noteq> 0 then printf ''\<newline>      '' [] else Some [])])
        else Some []),
       printf '']\<newline>    },\<newline>'' []] }"

end
