(* ===== verification/Rm_Probe.thy ===== *)
theory Rm_Probe
  imports Rm_Print
begin

text \<open>
  \<open>run_probe\<close> and \<open>main\<close> of \<open>verify/rm_issue_rate.c\<close>: the parameter objects, the order of the
  controls, the report, the exit status, and the clean-up label.
\<close>

section \<open>Parameter objects\<close>

definition poke_bytes :: "nat \<Rightarrow> bytes \<Rightarrow> bytes \<Rightarrow> bytes" where
  "poke_bytes o1 bs b = take o1 b @ bs @ drop (o1 + length bs) b"

lemma length_poke_bytes [simp, buf]:
  "o1 + length bs \<le> length b \<Longrightarrow> length (poke_bytes o1 bs b) = length b"
  by (simp add: poke_bytes_def)

text \<open>An array of index/data pairs whose data are 0.\<close>

definition info_list :: "u32 list \<Rightarrow> bytes" where
  "info_list idxs = concat (map (\<lambda>x. le_bytes 4 (unat x) @ le_bytes 4 0) idxs)"

lemma length_info_list [simp, buf]: "length (info_list idxs) = 8 * length idxs"
  by (induction idxs) (simp_all add: info_list_def)

definition gpu_info_init :: bytes where
  "gpu_info_init =
     poke_bytes (foff GPU_GET_INFO_V2_PARAMS ''gpuInfoList'')
       (info_list [NV2080_CTRL_GPU_INFO_INDEX_NETLIST_REV0, NV2080_CTRL_GPU_INFO_INDEX_NETLIST_REV1,
                   NV2080_CTRL_GPU_INFO_INDEX_CMP_SKU, NV2080_CTRL_GPU_INFO_INDEX_DISPLAY_ENABLED])
       (poke32 (foff GPU_GET_INFO_V2_PARAMS ''gpuInfoListSize'') 4 (zeroed GPU_GET_INFO_V2_PARAMS))"

definition gr_info_list_init :: bytes where
  "gr_info_list_init =
     info_list [NV2080_CTRL_GR_INFO_INDEX_GPU_CORE_COUNT, NV2080_CTRL_GR_INFO_INDEX_RT_CORE_COUNT,
                NV2080_CTRL_GR_INFO_INDEX_TENSOR_CORE_COUNT,
                NV2080_CTRL_GR_INFO_INDEX_GFX_CAPABILITIES]"

definition gr_info_init :: bytes where
  "gr_info_init = poke32 (foff GR_GET_INFO_PARAMS ''grInfoListSize'') 4 (zeroed GR_GET_INFO_PARAMS)"

definition empty_query :: "string \<Rightarrow> u32 \<Rightarrow> EngineClassQuery" where
  "empty_query nm et = \<lparr>q_name = nm, engine_type = et, num_classes = 0,
     classes = replicate (CMP_ENGINE_CLASS_CAPACITY * 4) 0,
     q_result = \<lparr>os_error = 0, rm_status = 0\<rparr>\<rparr>"

definition engine_queries_init :: "EngineClassQuery list" where
  "engine_queries_init = [
     empty_query ''engine_classes_graphics'' NV2080_ENGINE_TYPE_GRAPHICS,
     empty_query ''engine_classes_nvdec0'' NV2080_ENGINE_TYPE_NVDEC0,
     empty_query ''engine_classes_nvenc0'' NV2080_ENGINE_TYPE_NVENC0,
     empty_query ''engine_classes_dpu'' NV2080_ENGINE_TYPE_DPU]"

section \<open>The loops of controls\<close>

definition query_engine_classes ::
  "'w kernel \<Rightarrow> int \<Rightarrow> u32 \<Rightarrow> u32 \<Rightarrow> EngineClassQuery \<Rightarrow> ('w, EngineClassQuery) proc" where
  "query_engine_classes K nvidiactl_fd client subdevice query = do {
     let params =
       poke32 (foff GPU_GET_ENGINE_CLASSLIST_PARAMS ''numClasses'') (of_nat CMP_ENGINE_CLASS_CAPACITY)
         (poke32 (foff GPU_GET_ENGINE_CLASSLIST_PARAMS ''engineType'') (engine_type query)
           (zeroed GPU_GET_ENGINE_CLASSLIST_PARAMS));
     (result, bufs) \<leftarrow> rm_control K nvidiactl_fd client subdevice
       NV2080_CTRL_CMD_GPU_GET_ENGINE_CLASSLIST [params, classes query]
       (csize GPU_GET_ENGINE_CLASSLIST_PARAMS);
     ret (query\<lparr>q_result := result, classes := bufs ! 1,
       num_classes := (if rm_ok result
         then get32 (foff GPU_GET_ENGINE_CLASSLIST_PARAMS ''numClasses'') (bufs ! 0) else 0)\<rparr>)
   }"

fun query_all ::
  "'w kernel \<Rightarrow> int \<Rightarrow> u32 \<Rightarrow> u32 \<Rightarrow> EngineClassQuery list \<Rightarrow> ('w, EngineClassQuery list) proc" where
  "query_all K nvidiactl_fd client subdevice [] = ret []"
| "query_all K nvidiactl_fd client subdevice (q # qs) = do {
     q' \<leftarrow> query_engine_classes K nvidiactl_fd client subdevice q;
     qs' \<leftarrow> query_all K nvidiactl_fd client subdevice qs;
     ret (q' # qs')
   }"

fun context_all ::
  "'w kernel \<Rightarrow> int \<Rightarrow> u32 \<Rightarrow> u32 \<Rightarrow> nat list \<Rightarrow> ('w, (ControlResult \<times> bytes) list) proc" where
  "context_all K nvidiactl_fd client subdevice [] = ret []"
| "context_all K nvidiactl_fd client subdevice (i # is) = do {
     let params = poke32 (foff GR_GET_ENGINE_CONTEXT_PROPERTIES_PARAMS ''engineId'') (of_nat i)
                    (zeroed GR_GET_ENGINE_CONTEXT_PROPERTIES_PARAMS);
     (result, bufs) \<leftarrow> rm_control K nvidiactl_fd client subdevice
       NV2080_CTRL_CMD_GR_GET_ENGINE_CONTEXT_PROPERTIES [params]
       (csize GR_GET_ENGINE_CONTEXT_PROPERTIES_PARAMS);
     rest \<leftarrow> context_all K nvidiactl_fd client subdevice is;
     ret ((result, bufs ! 0) # rest)
   }"

section \<open>The probe\<close>

text \<open>Everything the controls of one run left behind.\<close>

record probe_data =
  v1_result :: ControlResult
  v1_buf :: bytes
  v2_result :: ControlResult
  v2_buf :: bytes
  gpu_info_result :: ControlResult
  gpu_info_buf :: bytes
  gr_info_result :: ControlResult
  gr_info_items :: bytes
  falcons_result :: ControlResult
  falcons_buf :: bytes
  engines_result :: ControlResult
  engines_buf :: bytes
  context_results :: "ControlResult list"
  context_bufs :: "bytes list"
  device_info_result :: ControlResult
  device_info_buf :: bytes
  engine_queries :: "EngineClassQuery list"

text \<open>The first half of \<open>run_probe\<close>: all controls, in the source's order.\<close>

definition run_controls :: "'w kernel \<Rightarrow> int \<Rightarrow> u32 \<Rightarrow> u32 \<Rightarrow> ('w, probe_data) proc" where
  "run_controls K nvidiactl_fd client subdevice = do {
     (r1, b1) \<leftarrow> rm_control K nvidiactl_fd client subdevice
       NV2080_CTRL_CMD_GR_GET_SM_ISSUE_RATE_MODIFIER
       [zeroed GR_GET_SM_ISSUE_RATE_MODIFIER_PARAMS] (csize GR_GET_SM_ISSUE_RATE_MODIFIER_PARAMS);
     (r2, b2) \<leftarrow> rm_control K nvidiactl_fd client subdevice
       NV2080_CTRL_CMD_GR_GET_SM_ISSUE_RATE_MODIFIER_V2
       [zeroed GR_GET_SM_ISSUE_RATE_MODIFIER_V2_PARAMS]
       (csize GR_GET_SM_ISSUE_RATE_MODIFIER_V2_PARAMS);
     (r3, b3) \<leftarrow> rm_control K nvidiactl_fd client subdevice
       NV2080_CTRL_CMD_GPU_GET_INFO_V2 [gpu_info_init] (csize GPU_GET_INFO_V2_PARAMS);
     (r4, b4) \<leftarrow> rm_control K nvidiactl_fd client subdevice
       NV2080_CTRL_CMD_GR_GET_INFO [gr_info_init, gr_info_list_init] (csize GR_GET_INFO_PARAMS);
     (r5, b5) \<leftarrow> rm_control K nvidiactl_fd client subdevice
       NV2080_CTRL_CMD_GPU_GET_CONSTRUCTED_FALCON_INFO
       [zeroed GPU_GET_CONSTRUCTED_FALCON_INFO_PARAMS]
       (csize GPU_GET_CONSTRUCTED_FALCON_INFO_PARAMS);
     (r6, b6) \<leftarrow> rm_control K nvidiactl_fd client subdevice
       NV2080_CTRL_CMD_GPU_GET_ENGINES_V2 [zeroed GPU_GET_ENGINES_V2_PARAMS]
       (csize GPU_GET_ENGINES_V2_PARAMS);
     ctx \<leftarrow> context_all K nvidiactl_fd client subdevice [0..<CONTEXT_PROPERTIES_ENGINE_ID_COUNT];
     (r7, b7) \<leftarrow> rm_control K nvidiactl_fd client subdevice
       NV2080_CTRL_CMD_FIFO_GET_DEVICE_INFO_TABLE [zeroed FIFO_GET_DEVICE_INFO_TABLE_PARAMS]
       (csize FIFO_GET_DEVICE_INFO_TABLE_PARAMS);
     qs \<leftarrow> query_all K nvidiactl_fd client subdevice engine_queries_init;
     ret \<lparr>v1_result = r1, v1_buf = b1 ! 0, v2_result = r2, v2_buf = b2 ! 0,
          gpu_info_result = r3, gpu_info_buf = b3 ! 0,
          gr_info_result = r4, gr_info_items = b4 ! 1,
          falcons_result = r5, falcons_buf = b5 ! 0,
          engines_result = r6, engines_buf = b6 ! 0,
          context_results = map fst ctx, context_bufs = map snd ctx,
          device_info_result = r7, device_info_buf = b7 ! 0, engine_queries = qs\<rparr>
   }"

text \<open>
  The shape of a run's data: every buffer has the size of its object, and the queries are the
  four of the source.
\<close>

definition wf_probe :: "probe_data \<Rightarrow> bool" where
  "wf_probe d \<longleftrightarrow>
     length (v1_buf d) = 32 \<and> length (v2_buf d) = 2044 \<and> length (gpu_info_buf d) = 580 \<and>
     length (gr_info_items d) = 32 \<and> length (falcons_buf d) = 1284 \<and> length (engines_buf d) = 340 \<and>
     length (context_results d) = 26 \<and> map length (context_bufs d) = replicate 26 32 \<and>
     length (device_info_buf d) = 3212 \<and>
     map q_name (engine_queries d) = map q_name engine_queries_init \<and>
     map (length \<circ> classes) (engine_queries d) = [800, 800, 800, 800]"

text \<open>The texts of the second half of \<open>run_probe\<close>, in the order they are printed.\<close>

definition report_pieces :: "probe_data \<Rightarrow> int \<Rightarrow> string option list" where
  "report_pieces d device_index = [
     printf ''{\<newline>'' [],
     printf ''  \"mode\": \"NVIDIA RM GET controls only\",\<newline>'' [],
     printf ''  \"device_index\": %d,\<newline>'' [FInt device_index],
     printf ''  \"controls\": {\<newline>'' [],
     print_v1 (v1_result d) (v1_buf d),
     print_info_list ''v2'' NV2080_CTRL_CMD_GR_GET_SM_ISSUE_RATE_MODIFIER_V2 (v2_result d)
       (get32 (foff GR_GET_SM_ISSUE_RATE_MODIFIER_V2_PARAMS ''smIssueRateModifierListSize'') (v2_buf d))
       (drop (foff GR_GET_SM_ISSUE_RATE_MODIFIER_V2_PARAMS ''smIssueRateModifierList'') (v2_buf d))
       True False True,
     print_gpu_info (gpu_info_result d)
       (drop (foff GPU_GET_INFO_V2_PARAMS ''gpuInfoList'') (gpu_info_buf d)),
     print_gr_info (gr_info_result d) (gr_info_items d),
     print_context_buffers (context_results d) (context_bufs d),
     print_constructed_falcons (falcons_result d) (falcons_buf d),
     print_engine_list (engines_result d) (engines_buf d),
     print_device_info_table (device_info_result d) (device_info_buf d)]
     @ map (\<lambda>i. Option.bind (tbl (engine_queries d) i)
              (\<lambda>q. print_engine_classes q (i + 1 < length engine_queries_init)))
         [0..<length engine_queries_init]
     @ [printf ''  }\<newline>'' [], printf ''}\<newline>'' []]"

fun out_all :: "string option list \<Rightarrow> ('w, unit) proc" where
  "out_all [] = skip"
| "out_all (r # rs) = do { out r; out_all rs }"

definition run_probe :: "'w kernel \<Rightarrow> int \<Rightarrow> u32 \<Rightarrow> u32 \<Rightarrow> int \<Rightarrow> ('w, int) proc" where
  "run_probe K nvidiactl_fd client subdevice device_index = do {
     d \<leftarrow> run_controls K nvidiactl_fd client subdevice;
     out_all (report_pieces d device_index);
     ret (if rm_ok (v1_result d) \<or> rm_ok (v2_result d) then 0 else 1)
   }"

section \<open>main\<close>

definition usage :: "string \<Rightarrow> ('w, int) proc" where
  "usage prog = do {
     err (printf ''Usage: %s NVIDIA_DEVICE_INDEX\<newline>'' [FStr prog]);
     ret 2
   }"

definition cleanup :: "'w kernel \<Rightarrow> int \<Rightarrow> int \<Rightarrow> int \<Rightarrow> ('w, int) proc" where
  "cleanup K nvidia_fd nvidiactl_fd result = do {
     (if nvidia_fd \<ge> 0 then sys_close K nvidia_fd else skip);
     (if nvidiactl_fd \<ge> 0 then sys_close K nvidiactl_fd else skip);
     ret result
   }"

text \<open>The allocations and the probe, up to the label: \<open>1\<close> is the initial \<open>result\<close>.\<close>

definition probe_device :: "'w kernel \<Rightarrow> int \<Rightarrow> int \<Rightarrow> ('w, int) proc" where
  "probe_device K nvidiactl_fd device_index = do {
     c \<leftarrow> alloc_client K nvidiactl_fd;
     (case c of None \<Rightarrow> ret 1 | Some client \<Rightarrow> do {
       r \<leftarrow> resolve_device_instances K nvidiactl_fd client device_index;
       (case r of None \<Rightarrow> ret 1 | Some inst \<Rightarrow> do {
         d \<leftarrow> alloc_device K nvidiactl_fd client (sint (fst inst));
         (case d of None \<Rightarrow> ret 1 | Some device \<Rightarrow> do {
           s \<leftarrow> alloc_subdevice K nvidiactl_fd client device (snd inst);
           (case s of None \<Rightarrow> ret 1 | Some subdevice \<Rightarrow>
              run_probe K nvidiactl_fd client subdevice device_index)
         })
       })
     })
   }"

definition probe_main :: "'w kernel \<Rightarrow> string list \<Rightarrow> ('w, int) proc" where
  "probe_main K argv =
     (if length argv \<noteq> 2 then usage (if argv = [] then ''(null)'' else argv ! 0)
      else case parse_device_index (argv ! 1) of None \<Rightarrow> usage (argv ! 0) | Some device_index \<Rightarrow> do {
        (nvidiactl_fd, e) \<leftarrow> sys_open K ''/dev/nvidiactl'' (O_RDWR + O_CLOEXEC);
        if nvidiactl_fd < 0 then do {
          err (printf ''Cannot open /dev/nvidiactl: %s\<newline>'' [FStr (k_strerror K e)]);
          cleanup K (-1) nvidiactl_fd 1
        } else (case snprintf 32 (printf ''/dev/nvidia%d'' [FInt device_index]) of
          None \<Rightarrow> do { tell EvFault; cleanup K (-1) nvidiactl_fd 1 }
        | Some (device_path, n) \<Rightarrow> do {
          (nvidia_fd, e') \<leftarrow> sys_open K device_path (O_RDWR + O_CLOEXEC);
          if nvidia_fd < 0 then do {
            err (printf ''Cannot open %s: %s\<newline>'' [FStr device_path, FStr (k_strerror K e')]);
            cleanup K nvidia_fd nvidiactl_fd 1
          } else do {
            (ok, e'') \<leftarrow> register_device_fd K nvidia_fd nvidiactl_fd;
            if \<not> ok then do {
              err (printf ''NV_ESC_REGISTER_FD failed: %s\<newline>'' [FStr (k_strerror K e'')]);
              cleanup K nvidia_fd nvidiactl_fd 1
            } else do {
              result \<leftarrow> probe_device K nvidiactl_fd device_index;
              cleanup K nvidia_fd nvidiactl_fd result
            }
          }
        })
      })"

end
