(* ===== verification/Rm_Session.thy ===== *)
theory Rm_Session
  imports Rm_Probe
begin

text \<open>
  What the probe may do with the driver, as an automaton over the events of a run: which device
  files it opens, that it registers the descriptor, and that each later request carries exactly
  the handles, the card and the instances that earlier answers gave, and only GET commands.
  \<open>session_run\<close> replays a trace; \<open>None\<close> means the trace breaks the protocol.  The lemmas
  \<open>emits_\<close>... show that each function of the probe keeps to it, whatever the kernel answers.
\<close>

section \<open>The protocol\<close>

definition probe_commands :: "u32 list" where
  "probe_commands = [
     NV2080_CTRL_CMD_GR_GET_SM_ISSUE_RATE_MODIFIER,
     NV2080_CTRL_CMD_GR_GET_SM_ISSUE_RATE_MODIFIER_V2,
     NV2080_CTRL_CMD_GPU_GET_INFO_V2, NV2080_CTRL_CMD_GR_GET_INFO,
     NV2080_CTRL_CMD_GR_GET_ENGINE_CONTEXT_PROPERTIES,
     NV2080_CTRL_CMD_GPU_GET_ENGINES_V2, NV2080_CTRL_CMD_GPU_GET_ENGINE_CLASSLIST,
     NV2080_CTRL_CMD_GPU_GET_CONSTRUCTED_FALCON_INFO, NV2080_CTRL_CMD_FIFO_GET_DEVICE_INFO_TABLE]"

text \<open>The card the source's loop stops at: the first valid one with the wanted minor number.\<close>

definition card_matches :: "int \<Rightarrow> card \<Rightarrow> bool" where
  "card_matches minor c \<longleftrightarrow> valid c \<noteq> 0 \<and> minor_number c = word_of_int minor"

fun first_card :: "int \<Rightarrow> card list \<Rightarrow> card option" where
  "first_card minor [] = None"
| "first_card minor (c # cs) = (if card_matches minor c then Some c else first_card minor cs)"

definition all_cards :: "bytes \<Rightarrow> card list" where
  "all_cards cards = map (\<lambda>i. the (read_card cards i)) [0..<128]"

datatype session =
    Start
  | Ctl int
  | Dev int int
  | Registered int
  | Client int u32
  | Cards int u32 bytes
  | Instance int u32 u32 u32
  | Device int u32 u32 u32
  | Subdevice int u32 u32
  | Stopped

text \<open>The fields of an allocation and of a control request.\<close>

definition alloc_fields :: "bytes \<Rightarrow> u32 \<times> u32 \<times> u32 \<times> u32" where
  "alloc_fields b = (get32 (foff NVOS64_PARAMETERS ''hRoot'') b,
     get32 (foff NVOS64_PARAMETERS ''hObjectParent'') b, get32 (foff NVOS64_PARAMETERS ''hClass'') b,
     get32 (foff NVOS64_PARAMETERS ''paramsSize'') b)"

definition control_fields :: "bytes \<Rightarrow> u32 \<times> u32 \<times> u32 \<times> u32" where
  "control_fields b = (get32 (foff NVOS54_PARAMETERS ''hClient'') b,
     get32 (foff NVOS54_PARAMETERS ''hObject'') b, get32 (foff NVOS54_PARAMETERS ''cmd'') b,
     get32 (foff NVOS54_PARAMETERS ''paramsSize'') b)"

definition on_success :: "int \<Rightarrow> u32 \<Rightarrow> session \<Rightarrow> session" where
  "on_success rc status st = (if rc = 0 \<and> status = 0 then st else Stopped)"

text \<open>
  One request in a state.  A failing request stops the session: only closing may follow, apart
  from controls on the subdevice, whose errors the probe reports and goes on.  The code takes a
  control's operating-system error from \<open>errno\<close>, hence the test of \<open>e\<close> in state \<open>Cards\<close>.
  The size the request number encodes is always that of the argument object.
\<close>

definition session_ioctl ::
  "int \<Rightarrow> session \<Rightarrow> int \<Rightarrow> u64 \<Rightarrow> bytes list \<Rightarrow> int \<Rightarrow> int \<Rightarrow> bytes list \<Rightarrow> session option" where
  "session_ioctl minor st fd req bufs rc e bufs' =
     (let b = bufs ! 0; b' = bufs' ! 0; p = bufs ! 1; p' = bufs' ! 1 in
      if IOC_SIZE req \<noteq> length b then None else case st of
        Dev ctl dev \<Rightarrow>
          if fd = dev \<and> req = REGISTER_FD_request \<and> bufs = [int_object ctl]
          then Some (on_success rc 0 (Registered ctl)) else None
      | Registered ctl \<Rightarrow>
          if fd = ctl \<and> req = RM_ALLOC21_request \<and> bufs = [zeroed NVOS21_PARAMETERS]
          then Some (on_success rc (get32 (foff NVOS21_PARAMETERS ''status'') b')
            (Client ctl (get32 (foff NVOS21_PARAMETERS ''hObjectNew'') b')))
          else None
      | Client ctl c \<Rightarrow>
          if fd = ctl \<and> req = CARD_INFO_request \<and> map length bufs = [IOC_SIZE req]
          then Some (on_success rc 0 (Cards ctl c b')) else None
      | Cards ctl c cards \<Rightarrow>
          if fd = ctl \<and> req = RM_CONTROL_request \<and> length bufs = 2 \<and>
             control_fields b = (c, c, NV0000_CTRL_CMD_GPU_GET_ID_INFO_V2, of_nat (length p)) \<and>
             map_option gpu_id (first_card minor (all_cards cards)) =
               Some (get32 (foff NV0000_CTRL_GPU_GET_ID_INFO_V2_PARAMS ''gpuId'') p)
          then Some (on_success (if rc = 0 then 0 else e) (get32 (foff NVOS54_PARAMETERS ''status'') b')
            (Instance ctl c
              (get32 (foff NV0000_CTRL_GPU_GET_ID_INFO_V2_PARAMS ''deviceInstance'') p')
              (get32 (foff NV0000_CTRL_GPU_GET_ID_INFO_V2_PARAMS ''subDeviceInstance'') p')))
          else None
      | Instance ctl c di si \<Rightarrow>
          if fd = ctl \<and> req = RM_ALLOC64_request \<and> length bufs = 2 \<and>
             alloc_fields b = (c, c, NV01_DEVICE_0, of_nat (length p)) \<and>
             get32 (foff NV0080_ALLOC_PARAMETERS ''deviceId'') p = di
          then Some (on_success rc (get32 (foff NVOS64_PARAMETERS ''status'') b')
            (Device ctl c (get32 (foff NVOS64_PARAMETERS ''hObjectNew'') b') si))
          else None
      | Device ctl c d si \<Rightarrow>
          if fd = ctl \<and> req = RM_ALLOC64_request \<and> length bufs = 2 \<and>
             alloc_fields b = (c, d, NV20_SUBDEVICE_0, of_nat (length p)) \<and>
             get32 (foff NV2080_ALLOC_PARAMETERS ''subDeviceId'') p = si
          then Some (on_success rc (get32 (foff NVOS64_PARAMETERS ''status'') b')
            (Subdevice ctl c (get32 (foff NVOS64_PARAMETERS ''hObjectNew'') b')))
          else None
      | Subdevice ctl c s \<Rightarrow>
          if fd = ctl \<and> req = RM_CONTROL_request \<and> 2 \<le> length bufs \<and>
             get32 (foff NVOS54_PARAMETERS ''cmd'') b \<in> set probe_commands \<and>
             control_fields b = (c, s, get32 (foff NVOS54_PARAMETERS ''cmd'') b, of_nat (length p))
          then Some (Subdevice ctl c s) else None
      | _ \<Rightarrow> None)"

definition session_step :: "int \<Rightarrow> session \<Rightarrow> event \<Rightarrow> session option" where
  "session_step minor st ev =
     (case ev of
        EvOpen path flags fd \<Rightarrow>
          (case st of
             Start \<Rightarrow>
               if path = ''/dev/nvidiactl'' then Some (if fd < 0 then Stopped else Ctl fd) else None
           | Ctl ctl \<Rightarrow>
               if path = ''/dev/nvidia'' @ show_int minor
               then Some (if fd < 0 then Stopped else Dev ctl fd) else None
           | _ \<Rightarrow> None)
      | EvIoctl fd req bufs rc e bufs' \<Rightarrow> session_ioctl minor st fd req bufs rc e bufs'
      | EvClose fd \<Rightarrow> Some Stopped
      | EvOut s \<Rightarrow> Some st
      | EvErr s \<Rightarrow> Some st
      | _ \<Rightarrow> None)"

lemma session_step_simps [simp]:
  "session_step minor Start (EvOpen path flags fd) =
     (if path = ''/dev/nvidiactl'' then Some (if fd < 0 then Stopped else Ctl fd) else None)"
  "session_step minor (Ctl ctl) (EvOpen path flags fd) =
     (if path = ''/dev/nvidia'' @ show_int minor
      then Some (if fd < 0 then Stopped else Dev ctl fd) else None)"
  "session_step minor st (EvIoctl fd req bufs rc e bufs') = session_ioctl minor st fd req bufs rc e bufs'"
  "session_step minor st (EvClose fd) = Some Stopped"
  "session_step minor st (EvOut s) = Some st"
  "session_step minor st (EvErr s) = Some st"
  "session_step minor st EvFault = None"
  by (simp_all add: session_step_def)

fun session_run :: "int \<Rightarrow> session \<Rightarrow> event list \<Rightarrow> session option" where
  "session_run minor st [] = Some st"
| "session_run minor st (ev # evs) =
     Option.bind (session_step minor st ev) (\<lambda>st'. session_run minor st' evs)"

definition accepted :: "int \<Rightarrow> session \<Rightarrow> event list \<Rightarrow> bool" where
  "accepted minor st evs \<longleftrightarrow> session_run minor st evs \<noteq> None"

interpretation session: acceptor "session_step minor" "session_run minor" "\<lambda>_. True" "accepted minor" for minor
  by unfold_locales (simp_all add: accepted_def split: option.splits)

declare session.ok_append [simp]

section \<open>Each function keeps to it\<close>

lemma word_of_int_sint [simp]: "word_of_int (sint (x :: u32)) = x"
  by simp

lemma on_success_ok [simp]: "on_success 0 0 st = st"
  by (simp add: on_success_def)

text \<open>A stage: on success it moves the session on, on failure it only does nothing wrong.\<close>

definition stage :: "int \<Rightarrow> session \<Rightarrow> ('a \<Rightarrow> session) \<Rightarrow> 'a option \<Rightarrow> event list \<Rightarrow> bool" where
  "stage minor st nxt r evs \<longleftrightarrow>
     (case r of None \<Rightarrow> accepted minor st evs | Some x \<Rightarrow> session_run minor st evs = Some (nxt x))"

lemma stage_simps [simp]:
  "stage minor st nxt None evs \<longleftrightarrow> accepted minor st evs"
  "stage minor st nxt (Some x) evs \<longleftrightarrow> session_run minor st evs = Some (nxt x)"
  by (simp_all add: stage_def)

lemma request_sizes [simp]:
  "IOC_SIZE 0xc00446c9 = 4" "IOC_SIZE 0xe40046c8 = 9216" "IOC_SIZE 0xc020462b = 32"
  "IOC_SIZE 0xc030462b = 48" "IOC_SIZE 0xc020462a = 32"
  by (simp_all add: IOC_SIZE_def)

lemma length_int_object [simp]: "length (int_object i) = 4"
  by (simp add: int_object_def)

lemmas requests = session_ioctl_def Let_def on_success_def alloc_fields_def control_fields_def

lemma emits_alloc_client:
  "emits (alloc_client K ctl) (stage minor (Registered ctl) (Client ctl))"
  unfolding alloc_client_def Let_def
  by (auto simp: requests intro!: emit)

lemma emits_alloc_device:
  "emits (alloc_device K ctl c (sint di)) (stage minor (Instance ctl c di si) (\<lambda>d. Device ctl c d si))"
  unfolding alloc_device_def Let_def
  by (auto simp: requests intro!: emit)

lemma emits_alloc_subdevice:
  "emits (alloc_subdevice K ctl c d si) (stage minor (Device ctl c d si) (Subdevice ctl c))"
  unfolding alloc_subdevice_def Let_def
  by (auto simp: requests intro!: emit)

section \<open>Finding the card\<close>

lemma read_card_in:
  assumes "length cards = 9216" and "i < 128"
  shows "read_card cards i \<noteq> None"
proof -
  have "i * 72 + 72 \<le> length cards" using assms by simp
  then have "\<And>k. k + 4 \<le> 72 \<Longrightarrow> \<exists>v. peek32 (i * 72 + k) cards = Some v"
    and "\<And>k. k < 72 \<Longrightarrow> \<exists>v. peek8 (i * 72 + k) cards = Some v"
    by (simp_all add: peek32_Some_iff peek8_Some_iff)
  from this(1) [of 4] this(1) [of 16] this(1) [of 56] this(2) [of 0] this(2) [of 8] this(2) [of 9]
    this(2) [of 10]
  show ?thesis by (auto simp: read_card_def Let_def add_ac)
qed

lemma emits_resolve_cards:
  assumes "length cards = 9216" and "\<forall>i \<in> set is. i < 128"
    and "first_card minor (all_cards cards) = first_card minor (map (\<lambda>i. the (read_card cards i)) is)"
  shows "emits (resolve_cards K ctl c minor cards is)
    (stage minor (Cards ctl c cards) (\<lambda>(di, si). Instance ctl c di si))"
  using assms(2,3)
proof (induction "is")
  case Nil
  show ?case by (auto intro!: emit)
next
  case (Cons i "is")
  then obtain cd where cd: "read_card cards i = Some cd"
    using read_card_in [OF assms(1), of i] by auto
  show ?case
  proof (cases "card_matches minor cd")
    case False
    with Cons cd have "emits (resolve_cards K ctl c minor cards is)
        (stage minor (Cards ctl c cards) (\<lambda>(di, si). Instance ctl c di si))" by simp
    with False cd show ?thesis by (simp add: card_matches_def)
  next
    case True
    with Cons.prems cd have f: "first_card minor (all_cards cards) = Some cd" by simp
    from True cd show ?thesis
      unfolding resolve_cards.simps rm_control_def Let_def
      by (auto simp: card_matches_def requests f rm_ok_def nth_tl intro!: emit)
  qed
qed

lemma emits_resolve_device_instances:
  "emits (resolve_device_instances K ctl c minor)
    (stage minor (Client ctl c) (\<lambda>(di, si). Instance ctl c di si))"
proof -
  have "emits (resolve_cards K ctl c minor (overlays [replicate 9216 0] rs ! 0) [0..<128])
      (stage minor (Cards ctl c (overlays [replicate 9216 0] rs ! 0)) (\<lambda>(di, si). Instance ctl c di si))"
    for rs
    by (rule emits_resolve_cards) (simp_all only: length_hd_overlays length_replicate all_cards_def, simp)
  note e = emits_mono [OF this]
  show ?thesis
    unfolding resolve_device_instances_def
    by (auto simp: requests stage_def split: option.splits intro!: emit e)
qed

section \<open>The controls\<close>

text \<open>An event of the second phase: a GET control on the subdevice.\<close>

definition control_event :: "int \<Rightarrow> u32 \<Rightarrow> u32 \<Rightarrow> event \<Rightarrow> bool" where
  "control_event ctl c s ev =
     (case ev of EvIoctl fd req bufs rc e bufs' \<Rightarrow>
        session_ioctl 0 (Subdevice ctl c s) fd req bufs rc e bufs' = Some (Subdevice ctl c s)
      | _ \<Rightarrow> False)"

lemma control_events:
  assumes "list_all (control_event ctl c s) evs"
  shows "session_run minor (Subdevice ctl c s) evs = Some (Subdevice ctl c s)"
    and "stdout_of evs = []" and "list_all (fd_neutral ctl) evs"
  using assms
  by (induction evs)
    (auto simp: control_event_def session_ioctl_def fd_neutral_def Let_def
      split: event.splits if_splits)

lemma emits_rm_control:
  assumes "command \<in> set probe_commands" and "n = length p"
  shows "emits (rm_control K ctl c s command (p # ps) n)
    (\<lambda>(r, bufs) evs. list_all (control_event ctl c s) evs \<and> map length bufs = length p # map length ps)"
  using assms unfolding rm_control_def Let_def
  by (auto simp: control_event_def requests intro!: emit)

lemma emits_control:
  assumes "command \<in> set probe_commands" and "n = length p"
    and "\<And>r bufs e1. list_all (control_event ctl c s) e1 \<Longrightarrow>
      map length bufs = length p # map length ps \<Longrightarrow> emits (f r bufs) (\<lambda>y e2. Q y (e1 @ e2))"
  shows "emits (do { (r, bufs) \<leftarrow> rm_control K ctl c s command (p # ps) n; f r bufs }) Q"
  by (rule emits_bindI [OF emits_rm_control]) (use assms in \<open>auto intro: emits_prod\<close>)

lemma probe_commands_in [simp]:
  "NV2080_CTRL_CMD_GR_GET_SM_ISSUE_RATE_MODIFIER \<in> set probe_commands"
  "NV2080_CTRL_CMD_GR_GET_SM_ISSUE_RATE_MODIFIER_V2 \<in> set probe_commands"
  "NV2080_CTRL_CMD_GPU_GET_INFO_V2 \<in> set probe_commands"
  "NV2080_CTRL_CMD_GR_GET_INFO \<in> set probe_commands"
  "NV2080_CTRL_CMD_GR_GET_ENGINE_CONTEXT_PROPERTIES \<in> set probe_commands"
  "NV2080_CTRL_CMD_GPU_GET_ENGINES_V2 \<in> set probe_commands"
  "NV2080_CTRL_CMD_GPU_GET_ENGINE_CLASSLIST \<in> set probe_commands"
  "NV2080_CTRL_CMD_GPU_GET_CONSTRUCTED_FALCON_INFO \<in> set probe_commands"
  "NV2080_CTRL_CMD_FIFO_GET_DEVICE_INFO_TABLE \<in> set probe_commands"
  by (simp_all add: probe_commands_def)

lemma emits_query_engine_classes:
  "emits (query_engine_classes K ctl c s q)
    (\<lambda>q' evs. list_all (control_event ctl c s) evs \<and> q_name q' = q_name q \<and>
       length (classes q') = length (classes q))"
  unfolding query_engine_classes_def Let_def
  by (rule emits_bindI [OF emits_rm_control]) (auto simp: nth_map [symmetric] intro!: emit)

lemma emits_query_all:
  "emits (query_all K ctl c s qs)
    (\<lambda>qs' evs. list_all (control_event ctl c s) evs \<and> map q_name qs' = map q_name qs \<and>
       map (length \<circ> classes) qs' = map (length \<circ> classes) qs)"
proof (induction qs)
  case (Cons q qs)
  show ?case unfolding query_all.simps
    by (rule emits_bindI [OF emits_query_engine_classes], rule emits_bindI [OF Cons])
      (auto intro!: emit)
qed (simp add: emits_return)

lemma emits_context_all:
  "emits (context_all K ctl c s is)
    (\<lambda>rs evs. list_all (control_event ctl c s) evs \<and> length rs = length is \<and> map (length \<circ> snd) rs = replicate (length is) 32)"
proof (induction "is")
  case (Cons i "is")
  show ?case unfolding context_all.simps Let_def
    by (rule emits_bindI [OF emits_rm_control])
      (auto simp: intro!: emit emits_bindI [OF Cons])
qed (simp add: emits_return)

lemma length_init [simp]:
  "length gpu_info_init = 580" "length gr_info_init = 32" "length gr_info_list_init = 32"
  by (simp_all add: gpu_info_init_def gr_info_init_def gr_info_list_init_def)

lemma engine_queries_init_sizes:
  "map (length \<circ> classes) engine_queries_init = [800, 800, 800, 800]"
  by (simp add: engine_queries_init_def empty_query_def)

text \<open>The length of one buffer a control gave back.\<close>

lemma buf_length: "map length bufs = ls \<Longrightarrow> i < length ls \<Longrightarrow> length (bufs ! i) = ls ! i"
  by auto

lemma emits_run_controls:
  "emits (run_controls K ctl c s) (\<lambda>d evs. list_all (control_event ctl c s) evs \<and> wf_probe d)"
  unfolding run_controls_def
  by (intro emits_control emits_bindI [OF emits_context_all] emits_bindI [OF emits_query_all] emits_return)
    (auto simp: wf_probe_def buf_length engine_queries_init_sizes)

section \<open>Reporting and the exit status\<close>

lemma emits_out_all:
  "emits (out_all rs) (\<lambda>_ evs. case cat rs of
     Some t \<Rightarrow> list_all (\<lambda>ev. \<exists>s. ev = EvOut s) evs \<and> stdout_of evs = t | None \<Rightarrow> True)"
proof (induction rs)
  case Nil
  show ?case by (simp add: emits_skip)
next
  case (Cons r rs)
  show ?case
    unfolding out_all.simps
    by (cases r) (auto split: option.splits Option.bind_splits intro!: emit emits_mono [OF Cons])
qed

section \<open>Which controls, with which parameters\<close>

text \<open>The command of a control request and the objects it passes.\<close>

definition event_control :: "event \<Rightarrow> u32 \<times> bytes list" where
  "event_control ev = (case ev of
     EvIoctl fd req bufs rc e bufs' \<Rightarrow> (get32 (foff NVOS54_PARAMETERS ''cmd'') (bufs ! 0), tl bufs)
   | _ \<Rightarrow> (0, []))"

definition context_params :: "nat \<Rightarrow> bytes" where
  "context_params i =
     poke32 (foff GR_GET_ENGINE_CONTEXT_PROPERTIES_PARAMS ''engineId'') (of_nat i)
       (zeroed GR_GET_ENGINE_CONTEXT_PROPERTIES_PARAMS)"

definition class_params :: "u32 \<Rightarrow> bytes" where
  "class_params t =
     poke32 (foff GPU_GET_ENGINE_CLASSLIST_PARAMS ''numClasses'') 200
       (poke32 (foff GPU_GET_ENGINE_CLASSLIST_PARAMS ''engineType'') t (zeroed GPU_GET_ENGINE_CLASSLIST_PARAMS))"

definition planned_controls :: "(u32 \<times> bytes list) list" where
  "planned_controls =
     [(NV2080_CTRL_CMD_GR_GET_SM_ISSUE_RATE_MODIFIER, [zeroed GR_GET_SM_ISSUE_RATE_MODIFIER_PARAMS]),
      (NV2080_CTRL_CMD_GR_GET_SM_ISSUE_RATE_MODIFIER_V2, [zeroed GR_GET_SM_ISSUE_RATE_MODIFIER_V2_PARAMS]),
      (NV2080_CTRL_CMD_GPU_GET_INFO_V2, [gpu_info_init]),
      (NV2080_CTRL_CMD_GR_GET_INFO, [gr_info_init, gr_info_list_init]),
      (NV2080_CTRL_CMD_GPU_GET_CONSTRUCTED_FALCON_INFO, [zeroed GPU_GET_CONSTRUCTED_FALCON_INFO_PARAMS]),
      (NV2080_CTRL_CMD_GPU_GET_ENGINES_V2, [zeroed GPU_GET_ENGINES_V2_PARAMS])]
     @ map (\<lambda>i. (NV2080_CTRL_CMD_GR_GET_ENGINE_CONTEXT_PROPERTIES, [context_params i])) [0..<26]
     @ [(NV2080_CTRL_CMD_FIFO_GET_DEVICE_INFO_TABLE, [zeroed FIFO_GET_DEVICE_INFO_TABLE_PARAMS])]
     @ map (\<lambda>t. (NV2080_CTRL_CMD_GPU_GET_ENGINE_CLASSLIST, [class_params t, replicate 800 0]))
         [NV2080_ENGINE_TYPE_GRAPHICS, NV2080_ENGINE_TYPE_NVDEC0, NV2080_ENGINE_TYPE_NVENC0,
          NV2080_ENGINE_TYPE_DPU]"

lemma plan_rm_control:
  "emits (rm_control K ctl c s command params n) (\<lambda>_ evs. map event_control evs = [(command, params)])"
  unfolding rm_control_def Let_def by (auto simp: event_control_def intro!: emit)

lemma plan_control:
  assumes "\<And>r bufs e1. map event_control e1 = [(command, params)] \<Longrightarrow>
    emits (f r bufs) (\<lambda>y e2. Q y (e1 @ e2))"
  shows "emits (do { (r, bufs) \<leftarrow> rm_control K ctl c s command params n; f r bufs }) Q"
  by (rule emits_bindI [OF plan_rm_control], rule emits_prod, rule assms)

lemma plan_context_all:
  "emits (context_all K ctl c s is) (\<lambda>_ evs. map event_control evs =
     map (\<lambda>i. (NV2080_CTRL_CMD_GR_GET_ENGINE_CONTEXT_PROPERTIES, [context_params i])) is)"
proof (induction "is")
  case (Cons i "is")
  show ?case
    unfolding context_all.simps Let_def context_params_def [symmetric]
    by (intro plan_control emits_bindI [OF Cons] emits_return) auto
qed (simp add: emits_return)

lemma plan_query_all:
  "emits (query_all K ctl c s qs) (\<lambda>_ evs. map event_control evs =
     map (\<lambda>q. (NV2080_CTRL_CMD_GPU_GET_ENGINE_CLASSLIST, [class_params (engine_type q), classes q])) qs)"
proof (induction qs)
  case (Cons q qs)
  have "emits (query_engine_classes K ctl c s q) (\<lambda>_ evs. map event_control evs =
      [(NV2080_CTRL_CMD_GPU_GET_ENGINE_CLASSLIST, [class_params (engine_type q), classes q])])"
    unfolding query_engine_classes_def Let_def
    by (intro plan_control emits_return) (simp add: class_params_def)
  then show ?case
    unfolding query_all.simps
    by (rule emits_bindI) (auto intro!: emits_bindI [OF Cons] emits_return)
qed (simp add: emits_return)

text \<open>
  C30. \<open>run_probe\<close> issues exactly these controls in this order, each with exactly these parameter
  objects; nothing in a request depends on what the driver answered before.
\<close>

theorem run_controls_plan:
  "map event_control (trace_of (run_controls K ctl c s) w) = planned_controls"
proof -
  have "emits (run_controls K ctl c s) (\<lambda>_ evs. map event_control evs = planned_controls)"
    unfolding run_controls_def
    by (intro plan_control emits_bindI [OF plan_context_all] emits_bindI [OF plan_query_all] emits_return)
      (simp add: planned_controls_def engine_queries_init_def empty_query_def del: upt_rec_numeral)
  then show ?thesis by (rule emits_traceD)
qed

section \<open>The card lookup as a function of the driver's answers\<close>

definition control_request :: "u32 \<Rightarrow> u32 \<Rightarrow> u32 \<Rightarrow> nat \<Rightarrow> bytes" where
  "control_request client object command n =
     poke32 (foff NVOS54_PARAMETERS ''paramsSize'') (of_nat n)
       (poke32 (foff NVOS54_PARAMETERS ''cmd'') command
         (poke32 (foff NVOS54_PARAMETERS ''hObject'') object
           (poke32 (foff NVOS54_PARAMETERS ''hClient'') client (zeroed NVOS54_PARAMETERS))))"

definition id_info_query :: "u32 \<Rightarrow> bytes" where
  "id_info_query g =
     poke32 (foff NV0000_CTRL_GPU_GET_ID_INFO_V2_PARAMS ''gpuId'') g
       (zeroed NV0000_CTRL_GPU_GET_ID_INFO_V2_PARAMS)"

text \<open>One card-information request, then one lookup of the first matching card, and its answer.\<close>

definition lookup_reference :: "'w kernel \<Rightarrow> int \<Rightarrow> u32 \<Rightarrow> int \<Rightarrow> 'w \<Rightarrow> (u32 \<times> u32) option" where
  "lookup_reference K ctl client minor w =
     (let ((rc, e, rs), w1) = k_ioctl K ctl CARD_INFO_request [replicate 9216 0] w;
          cards = overlays [replicate 9216 0] rs ! 0 in
      if rc \<noteq> 0 then None
      else case first_card minor (all_cards cards) of
        None \<Rightarrow> None
      | Some cd \<Rightarrow>
          (let bufs = [control_request client client NV0000_CTRL_CMD_GPU_GET_ID_INFO_V2 32,
                       id_info_query (gpu_id cd)];
               ((rc2, e2, rs2), w2) = k_ioctl K ctl RM_CONTROL_request bufs w1;
               answer = overlays bufs rs2 in
           if (rc2 \<noteq> 0 \<and> e2 \<noteq> 0) \<or> get32 (foff NVOS54_PARAMETERS ''status'') (answer ! 0) \<noteq> 0 then None
           else Some
             (get32 (foff NV0000_CTRL_GPU_GET_ID_INFO_V2_PARAMS ''deviceInstance'') (answer ! 1),
              get32 (foff NV0000_CTRL_GPU_GET_ID_INFO_V2_PARAMS ''subDeviceInstance'') (answer ! 1))))"

lemma fst_case_const: "fst (case p of (a, s') \<Rightarrow> (x, s')) = x"
  by (cases p) simp

lemma resolve_cards_reference:
  assumes "length cards = 9216" and "\<forall>i \<in> set is. i < 128"
  shows "fst (run_state (resolve_cards K ctl c minor cards is) (w, tr)) =
    (case first_card minor (map (\<lambda>i. the (read_card cards i)) is) of
       None \<Rightarrow> None
     | Some cd \<Rightarrow>
         (let bufs = [control_request c c NV0000_CTRL_CMD_GPU_GET_ID_INFO_V2 32, id_info_query (gpu_id cd)];
              ((rc2, e2, rs2), w2) = k_ioctl K ctl RM_CONTROL_request bufs w;
              answer = overlays bufs rs2 in
          if (rc2 \<noteq> 0 \<and> e2 \<noteq> 0) \<or> get32 (foff NVOS54_PARAMETERS ''status'') (answer ! 0) \<noteq> 0 then None
          else Some
            (get32 (foff NV0000_CTRL_GPU_GET_ID_INFO_V2_PARAMS ''deviceInstance'') (answer ! 1),
             get32 (foff NV0000_CTRL_GPU_GET_ID_INFO_V2_PARAMS ''subDeviceInstance'') (answer ! 1))))"
  using assms(2)
proof (induction "is")
  case Nil
  show ?case by (simp add: fst_case_const)
next
  case (Cons i "is")
  then obtain cd where cd: "read_card cards i = Some cd"
    using read_card_in [OF assms(1), of i] by auto
  show ?case
  proof (cases "card_matches minor cd")
    case False
    with cd have f: "first_card minor (map (\<lambda>i. the (read_card cards i)) (i # is)) =
        first_card minor (map (\<lambda>i. the (read_card cards i)) is)" by simp
    from False cd have r: "resolve_cards K ctl c minor cards (i # is) =
        resolve_cards K ctl c minor cards is" by (simp add: card_matches_def)
    show ?thesis unfolding f r by (rule Cons.IH) (use Cons.prems in simp)
  next
    case True
    obtain rc2 e2 rs2 w2 where k: "k_ioctl K ctl RM_CONTROL_request
        [control_request c c NV0000_CTRL_CMD_GPU_GET_ID_INFO_V2 32, id_info_query (gpu_id cd)] w =
        ((rc2, e2, rs2), w2)" by (metis prod.collapse)
    obtain b p where o: "overlays [control_request c c NV0000_CTRL_CMD_GPU_GET_ID_INFO_V2 32,
        id_info_query (gpu_id cd)] rs2 = [b, p]"
      using overlays_pair by blast
    from True cd k o show ?thesis
      by (simp add: card_matches_def rm_control_def Let_def control_request_def
          id_info_query_def sys_ioctl_def fst_case_const rm_ok_def del: request_values)
  qed
qed

text \<open>
  C19. \<open>resolve_device_instances\<close> computes the reference lookup: the instances the driver reports for
  the first valid card with the wanted minor number, and nothing when a request fails or no card
  matches.
\<close>

theorem resolve_refines_reference:
  "result_of (resolve_device_instances K ctl c minor) w = lookup_reference K ctl c minor w"
proof -
  obtain rc e rs w1 where k: "k_ioctl K ctl CARD_INFO_request [replicate 9216 0] w = ((rc, e, rs), w1)"
    by (metis prod.collapse)
  have l: "length (overlays [replicate 9216 0] rs ! 0) = 9216" by simp
  have i: "\<forall>i \<in> set [0..<128]. i < (128 :: nat)" by simp
  show ?thesis
    using k by (simp add: resolve_cards_reference [OF l i] result_of_def resolve_device_instances_def lookup_reference_def sys_ioctl_def Let_def
        fst_case_const all_cards_def del: request_values upt_rec_numeral resolve_cards.simps)
qed

end
