(* ===== verification/Json.thy ===== *)
theory Json
  imports C_Text
begin

text \<open>
  The JSON the probe's readers parse: values, tokens, and an executable reader from text to
  value (a lexer and a recursive-descent parser).  The reader accepts a sublanguage of RFC 8259:
  no escapes in strings, integers only.  \<open>toks v\<close> is the token sequence of a value and
  \<open>parse_toks\<close> shows the parser turns it back into \<open>v\<close>; the components show that what they print
  lexes to the tokens of the value they mean.  Collection \<open>lexing\<close>: how the lexer reads a
  printed piece in front of any rest.
\<close>

named_theorems lexing

section \<open>Values and tokens\<close>

datatype json =
    JNull | JBool bool | JNum int | JStr string
  | JArr "json list" | JObj "(string \<times> json) list"

datatype token =
    TLBrace | TRBrace | TLBrack | TRBrack | TComma | TColon
  | TStr string | TNum int | TTrue | TFalse | TNull

fun commas :: "token list list \<Rightarrow> token list" where
  "commas [] = []"
| "commas [ts] = ts"
| "commas (ts # tss) = ts @ TComma # commas tss"

fun toks :: "json \<Rightarrow> token list" where
  "toks JNull = [TNull]"
| "toks (JBool b) = [if b then TTrue else TFalse]"
| "toks (JNum i) = [TNum i]"
| "toks (JStr s) = [TStr s]"
| "toks (JArr vs) = TLBrack # commas (map toks vs) @ [TRBrack]"
| "toks (JObj ms) = TLBrace # commas (map (\<lambda>(k, v). TStr k # TColon # toks v) ms) @ [TRBrace]"

abbreviation member_toks :: "string \<times> json \<Rightarrow> token list" where
  "member_toks \<equiv> \<lambda>(k, v). TStr k # TColon # toks v"

section \<open>The lexer\<close>

definition json_space :: "char \<Rightarrow> bool" where
  "json_space c \<longleftrightarrow> c \<in> set [CHR '' '', CHR 0x0A, CHR 0x0D, CHR 0x09]"

text \<open>A character that may stand unescaped inside a string: not a quote, backslash or control.\<close>

definition plain_char :: "char \<Rightarrow> bool" where
  "plain_char c \<longleftrightarrow> c \<noteq> CHR 0x22 \<and> c \<noteq> CHR 0x5C \<and> (32 :: nat) \<le> of_char c"

definition plain :: "string \<Rightarrow> bool" where
  "plain s \<longleftrightarrow> list_all plain_char s"

definition json_number :: "string \<Rightarrow> int option" where
  "json_number ds =
     (if ds = [] \<or> (hd ds = CHR ''0'' \<and> length ds > 1) then None else Some (int (num_of 10 ds)))"

function (sequential) lexer :: "string \<Rightarrow> token list option" where
  "lexer [] = Some []"
| "lexer (c # s) =
     (if json_space c then lexer s
      else if c = CHR ''{'' then map_option (Cons TLBrace) (lexer s)
      else if c = CHR ''}'' then map_option (Cons TRBrace) (lexer s)
      else if c = CHR ''['' then map_option (Cons TLBrack) (lexer s)
      else if c = CHR '']'' then map_option (Cons TRBrack) (lexer s)
      else if c = CHR '','' then map_option (Cons TComma) (lexer s)
      else if c = CHR '':'' then map_option (Cons TColon) (lexer s)
      else if c = CHR 0x22 then
        (case dropWhile plain_char s of
           q # r \<Rightarrow> if q = CHR 0x22
             then map_option (Cons (TStr (takeWhile plain_char s))) (lexer r) else None
         | [] \<Rightarrow> None)
      else if c = CHR ''t'' then
        (if take 3 s = ''rue'' then map_option (Cons TTrue) (lexer (drop 3 s)) else None)
      else if c = CHR ''f'' then
        (if take 4 s = ''alse'' then map_option (Cons TFalse) (lexer (drop 4 s)) else None)
      else if c = CHR ''n'' then
        (if take 3 s = ''ull'' then map_option (Cons TNull) (lexer (drop 3 s)) else None)
      else if c = CHR ''-'' then
        (case json_number (takeWhile (is_digit 10) s) of
           Some n \<Rightarrow> map_option (Cons (TNum (- n))) (lexer (dropWhile (is_digit 10) s))
         | None \<Rightarrow> None)
      else
        (case json_number (takeWhile (is_digit 10) (c # s)) of
           Some n \<Rightarrow> map_option (Cons (TNum n)) (lexer (dropWhile (is_digit 10) s))
         | None \<Rightarrow> None))"
  by pat_completeness auto
termination
proof (relation "measure length", goal_cases)
  case (9 c s q r)
  then have "length (q # r) \<le> length s" using length_dropWhile_le [of plain_char s] by simp
  then show ?case by simp
qed (auto simp: le_imp_less_Suc length_dropWhile_le)

section \<open>The parser\<close>

fun pvalue :: "nat \<Rightarrow> token list \<Rightarrow> (json \<times> token list) option"
  and pelems :: "nat \<Rightarrow> token list \<Rightarrow> (json list \<times> token list) option"
  and pmembers :: "nat \<Rightarrow> token list \<Rightarrow> ((string \<times> json) list \<times> token list) option" where
  "pvalue 0 ts = None"
| "pvalue (Suc n) (TNull # ts) = Some (JNull, ts)"
| "pvalue (Suc n) (TTrue # ts) = Some (JBool True, ts)"
| "pvalue (Suc n) (TFalse # ts) = Some (JBool False, ts)"
| "pvalue (Suc n) (TNum i # ts) = Some (JNum i, ts)"
| "pvalue (Suc n) (TStr s # ts) = Some (JStr s, ts)"
| "pvalue (Suc n) (TLBrack # TRBrack # ts) = Some (JArr [], ts)"
| "pvalue (Suc n) (TLBrack # ts) = map_option (\<lambda>(vs, r). (JArr vs, r)) (pelems n ts)"
| "pvalue (Suc n) (TLBrace # TRBrace # ts) = Some (JObj [], ts)"
| "pvalue (Suc n) (TLBrace # ts) = map_option (\<lambda>(ms, r). (JObj ms, r)) (pmembers n ts)"
| "pvalue (Suc n) _ = None"
| "pelems 0 ts = None"
| "pelems (Suc n) ts =
     (case pvalue n ts of
        Some (v, TComma # r) \<Rightarrow> map_option (\<lambda>(vs, r'). (v # vs, r')) (pelems n r)
      | Some (v, TRBrack # r) \<Rightarrow> Some ([v], r)
      | _ \<Rightarrow> None)"
| "pmembers 0 ts = None"
| "pmembers (Suc n) (TStr k # TColon # ts) =
     (case pvalue n ts of
        Some (v, TComma # r) \<Rightarrow> map_option (\<lambda>(ms, r'). ((k, v) # ms, r')) (pmembers n r)
      | Some (v, TRBrace # r) \<Rightarrow> Some ([(k, v)], r)
      | _ \<Rightarrow> None)"
| "pmembers (Suc n) _ = None"

text \<open>A whole text: every token read, nothing left over; one unit of fuel per token is enough.\<close>

definition json_of :: "string \<Rightarrow> json option" where
  "json_of s =
     (case lexer s of
        None \<Rightarrow> None
      | Some ts \<Rightarrow>
          (case pvalue (Suc (length ts)) ts of Some (v, []) \<Rightarrow> Some v | _ \<Rightarrow> None))"

section \<open>The parser turns the tokens of a value back into the value\<close>

lemma pvalue_bracket:
  "t \<noteq> TRBrack \<Longrightarrow>
     pvalue (Suc n) (TLBrack # t # ts) = map_option (\<lambda>(vs, r). (JArr vs, r)) (pelems n (t # ts))"
  by (cases t) simp_all

lemma toks_head: "\<exists>t ts. toks v = t # ts \<and> t \<noteq> TRBrack \<and> t \<noteq> TRBrace"
  by (cases v) auto

lemma toks_length_pos: "0 < length (toks v)"
  using toks_head [of v] by auto

lemma parse_toks:
  "length (toks v) \<le> n \<Longrightarrow> pvalue n (toks v @ r) = Some (v, r)"
  "vs \<noteq> [] \<Longrightarrow> length (commas (map toks vs)) < n \<Longrightarrow>
     pelems n (commas (map toks vs) @ TRBrack # r) = Some (vs, r)"
  "ms \<noteq> [] \<Longrightarrow> length (commas (map member_toks ms)) < n \<Longrightarrow>
     pmembers n (commas (map member_toks ms) @ TRBrace # r) = Some (ms, r)"
proof (induction n arbitrary: v vs ms r)
  case 0
  { case 1 then show ?case using toks_length_pos [of v] by simp }
  { case 2 then show ?case by simp }
  { case 3 then show ?case by simp }
next
  case (Suc n)
  {
    case 1
    then show ?case
    proof (cases v)
      case (JArr us)
      show ?thesis
      proof (cases us)
        case (Cons u us')
        obtain t ts where t: "toks u = t # ts" "t \<noteq> TRBrack" using toks_head [of u] by blast
        then obtain ts' where c: "commas (map toks us) = t # ts'"
          using Cons by (cases us') auto
        from 1 JArr have "length (commas (map toks us)) < n" by simp
        with Suc.IH(2) [of us r] Cons
        have "pelems n (commas (map toks us) @ TRBrack # r) = Some (us, r)" by simp
        with JArr c t show ?thesis by (simp add: pvalue_bracket)
      qed (use JArr in simp)
    next
      case (JObj ns)
      show ?thesis
      proof (cases ns)
        case (Cons m ns')
        obtain k u where m: "m = (k, u)" by (cases m)
        then obtain ts' where c: "commas (map member_toks ns) = TStr k # ts'"
          using Cons by (cases ns') auto
        from 1 JObj have "length (commas (map member_toks ns)) < n" by simp
        with Suc.IH(3) [of ns r] Cons
        have "pmembers n (commas (map member_toks ns) @ TRBrace # r) = Some (ns, r)" by simp
        with JObj c show ?thesis by simp
      qed (use JObj in simp)
    qed auto
  next
    case 2
    then obtain u us where vs: "vs = u # us" by (cases vs) auto
    show ?case
    proof (cases us)
      case Nil
      with 2 vs have "pvalue n (toks u @ TRBrack # r) = Some (u, TRBrack # r)"
        by (intro Suc.IH(1)) simp
      with vs Nil show ?thesis by simp
    next
      case (Cons u' us')
      with 2 vs have l: "length (toks u) \<le> n" "length (commas (map toks us)) < n" by auto
      have "pvalue n (toks u @ TComma # commas (map toks us) @ TRBrack # r)
          = Some (u, TComma # commas (map toks us) @ TRBrack # r)"
        using l by (intro Suc.IH(1)) simp
      moreover have "pelems n (commas (map toks us) @ TRBrack # r) = Some (us, r)"
        using l Cons by (intro Suc.IH(2)) simp_all
      ultimately show ?thesis using vs Cons by simp
    qed
  next
    case 3
    then obtain k u ns where ms: "ms = (k, u) # ns" by (cases ms) auto
    show ?case
    proof (cases ns)
      case Nil
      with 3 ms have "pvalue n (toks u @ TRBrace # r) = Some (u, TRBrace # r)"
        by (intro Suc.IH(1)) simp
      with ms Nil show ?thesis by simp
    next
      case (Cons m' ns')
      with 3 ms have l: "length (toks u) \<le> n" "length (commas (map member_toks ns)) < n" by auto
      have "pvalue n (toks u @ TComma # commas (map member_toks ns) @ TRBrace # r)
          = Some (u, TComma # commas (map member_toks ns) @ TRBrace # r)"
        using l by (intro Suc.IH(1)) simp
      moreover have "pmembers n (commas (map member_toks ns) @ TRBrace # r) = Some (ns, r)"
        using l Cons by (intro Suc.IH(3)) simp_all
      ultimately show ?thesis using ms Cons by simp
    qed
  }
qed

lemma json_of_toks: "lexer s = Some (toks v) \<Longrightarrow> json_of s = Some v"
  using parse_toks(1) [of v "Suc (length (toks v))" "[]"] by (simp add: json_of_def)

section \<open>Lexing printed pieces\<close>

definition lexes :: "string \<Rightarrow> token list \<Rightarrow> bool" where
  "lexes s ts \<longleftrightarrow> (\<forall>r. lexer (s @ r) = map_option (append ts) (lexer r))"

text \<open>The same as two facts about the rest, which is the form rewriting can use.\<close>

lemma lexes_alt:
  "lexes s ts \<longleftrightarrow>
     (\<forall>r. (\<forall>x. lexer r = Some x \<longrightarrow> lexer (s @ r) = Some (ts @ x)) \<and>
          (lexer r = None \<longrightarrow> lexer (s @ r) = None))"
proof -
  have "lexer (s @ r) = map_option (append ts) (lexer r) \<longleftrightarrow>
      (\<forall>x. lexer r = Some x \<longrightarrow> lexer (s @ r) = Some (ts @ x)) \<and>
      (lexer r = None \<longrightarrow> lexer (s @ r) = None)" for r
    by (cases "lexer r") auto
  then show ?thesis by (simp add: lexes_def)
qed

lemma lexesD: "lexes s ts \<Longrightarrow> lexer s = Some ts"
  unfolding lexes_def by (drule spec [of _ "[]"]) simp

lemma lexes_Nil [simp]: "lexes [] []"
  by (simp add: lexes_def) (metis append_Nil option.map_ident_strong)

lemma lexes_append: "lexes s ts \<Longrightarrow> lexes s' ts' \<Longrightarrow> lexes (s @ s') (ts @ ts')"
  by (simp add: lexes_def option.map_comp o_def) (metis append_assoc option.map_cong0)

lemma lexes_concat:
  "(\<And>x. x \<in> set xs \<Longrightarrow> lexes (f x) (g x)) \<Longrightarrow> lexes (concat (map f xs)) (concat (map g xs))"
  by (induction xs) (auto intro: lexes_append)

lemma lex_space [simp, lexing]:
  "lexer (CHR '' '' # s) = lexer s"
  "lexer (CHR 0x0A # s) = lexer s"
  by (simp_all add: json_space_def)

lemma lex_punctuation [simp, lexing]:
  "lexer (CHR ''{'' # s) = map_option (Cons TLBrace) (lexer s)"
  "lexer (CHR ''}'' # s) = map_option (Cons TRBrace) (lexer s)"
  "lexer (CHR ''['' # s) = map_option (Cons TLBrack) (lexer s)"
  "lexer (CHR '']'' # s) = map_option (Cons TRBrack) (lexer s)"
  "lexer (CHR '','' # s) = map_option (Cons TComma) (lexer s)"
  "lexer (CHR '':'' # s) = map_option (Cons TColon) (lexer s)"
  by (simp_all add: json_space_def)

lemma lex_words [simp, lexing]:
  "lexer (''true'' @ s) = map_option (Cons TTrue) (lexer s)"
  "lexer (''false'' @ s) = map_option (Cons TFalse) (lexer s)"
  "lexer (''null'' @ s) = map_option (Cons TNull) (lexer s)"
  by (simp_all add: json_space_def)

lemma takeWhile_plain [simp]: "plain s \<Longrightarrow> takeWhile plain_char (s @ CHR 0x22 # r) = s"
  by (induction s) (auto simp: plain_def plain_char_def)

lemma dropWhile_plain [simp]: "plain s \<Longrightarrow> dropWhile plain_char (s @ CHR 0x22 # r) = CHR 0x22 # r"
  by (induction s) (auto simp: plain_def plain_char_def)

lemma lex_string [lexing]:
  "plain s \<Longrightarrow> lexer (CHR 0x22 # s @ CHR 0x22 # r) = map_option (Cons (TStr s)) (lexer r)"
  by (simp add: json_space_def)

declare lexer.simps [simp del]

lemma lex_Nil [simp]: "lexer [] = Some []"
  by (simp add: lexer.simps)

lemma takeWhile_digits:
  "list_all P ds \<Longrightarrow> \<not> P c \<Longrightarrow> takeWhile P (ds @ c # r) = ds"
  by (induction ds) auto

lemma dropWhile_digits:
  "list_all P ds \<Longrightarrow> \<not> P c \<Longrightarrow> dropWhile P (ds @ c # r) = c # r"
  by (induction ds) auto

lemma json_number_dec: "json_number (dec n) = Some (int n)"
proof -
  have "\<not> (hd (dec n) = CHR ''0'' \<and> length (dec n) > 1)"
  proof (cases "n = 0")
    case True
    then show ?thesis by (subst digs.simps) simp
  next
    case False
    then show ?thesis using dec_no_leading_zero [of n] by simp
  qed
  then show ?thesis by (simp add: json_number_def num_of_digs)
qed

text \<open>The first character of a printed number is none of those the lexer tests before.\<close>

lemma is_digit_10_cases:
  "is_digit 10 c \<Longrightarrow> c \<in> set ''0123456789''"
proof -
  assume "is_digit 10 c"
  then have "48 \<le> (of_char c :: nat) \<and> (of_char c :: nat) \<le> 57"
    by (auto simp: is_digit_def digit_of_def Let_def split: if_splits)
  then have "(of_char c :: nat) \<in> set (map of_char ''0123456789'')" by simp arith
  then show ?thesis by (auto simp: of_char_eq_iff simp del: of_char_Char)
qed

lemma number_char:
  "d \<in> set ''0123456789'' \<Longrightarrow>
   \<not> json_space d \<and> d \<noteq> CHR ''{'' \<and> d \<noteq> CHR ''}'' \<and> d \<noteq> CHR ''['' \<and> d \<noteq> CHR '']'' \<and> d \<noteq> CHR '','' \<and>
   d \<noteq> CHR '':'' \<and> d \<noteq> CHR 0x22 \<and> d \<noteq> CHR ''t'' \<and> d \<noteq> CHR ''f'' \<and> d \<noteq> CHR ''n'' \<and> d \<noteq> CHR ''-''"
  by (auto simp: json_space_def)

lemma lex_dec [lexing]:
  assumes "\<not> is_digit 10 c"
  shows "lexer (dec n @ c # r) = map_option (Cons (TNum (int n))) (lexer (c # r))"
proof -
  obtain d ds where d: "dec n = d # ds" by (cases "dec n") auto
  then have "is_digit 10 d" using hd_digs [of 10 n] by simp
  then have dc: "d \<in> set ''0123456789''" by (rule is_digit_10_cases)
  have all: "list_all (is_digit 10) (d # ds)" using set_digs [of 10 n] d by simp
  then have "takeWhile (is_digit 10) (d # ds @ c # r) = dec n"
    and "dropWhile (is_digit 10) (ds @ c # r) = c # r"
    using assms d takeWhile_digits [OF all assms, of r] dropWhile_digits [of "is_digit 10" ds c r]
    by simp_all
  then have "lexer (d # ds @ c # r) = map_option (Cons (TNum (int n))) (lexer (c # r))"
    using number_char [OF dc] by (simp add: lexer.simps(2) [of d] json_number_dec)
  then show ?thesis by (simp add: d)
qed

lemma lex_show_int [lexing]:
  assumes "\<not> is_digit 10 c"
  shows "lexer (show_int i @ c # r) = map_option (Cons (TNum i)) (lexer (c # r))"
proof (cases "i < 0")
  case True
  let ?ds = "dec (nat (- i))"
  have "list_all (is_digit 10) ?ds" using set_digs [of 10] by simp
  then have "takeWhile (is_digit 10) (?ds @ c # r) = ?ds" "dropWhile (is_digit 10) (?ds @ c # r) = c # r"
    using assms by (simp_all add: takeWhile_digits dropWhile_digits)
  then have "lexer (CHR ''-'' # ?ds @ c # r) = map_option (Cons (TNum i)) (lexer (c # r))"
    using True by (simp add: lexer.simps(2) json_space_def json_number_dec)
  with True show ?thesis by (simp add: show_int_def)
next
  case False
  then show ?thesis using lex_dec [OF assms, of "nat i" r] by (simp add: show_int_def)
qed

text \<open>Strings, one character or one plain piece at a time.\<close>

definition lex_str :: "string \<Rightarrow> string \<Rightarrow> token list option" where
  "lex_str acc s =
     (case dropWhile plain_char s of
        q # r \<Rightarrow> if q = CHR 0x22
          then map_option (Cons (TStr (acc @ takeWhile plain_char s))) (lexer r) else None
      | [] \<Rightarrow> None)"

lemma lex_quote [simp, lexing]: "lexer (CHR 0x22 # s) = lex_str [] s"
  by (simp add: lexer.simps json_space_def lex_str_def cong: list.case_cong if_cong)

lemma lex_str_char [simp, lexing]: "plain_char c \<Longrightarrow> lex_str acc (c # s) = lex_str (acc @ [c]) s"
  by (simp add: lex_str_def cong: list.case_cong if_cong)

lemma lex_str_end [simp, lexing]:
  "lex_str acc (CHR 0x22 # s) = map_option (Cons (TStr acc)) (lexer s)"
  by (simp add: lex_str_def plain_char_def)

lemma lex_str_plain [simp, lexing]: "plain t \<Longrightarrow> lex_str acc (t @ s) = lex_str (acc @ t) s"
  by (induction t arbitrary: acc) (simp_all add: plain_def)

lemma plain_simps [simp]:
  "plain []" "plain (c # s) \<longleftrightarrow> plain_char c \<and> plain s" "plain (s @ t) \<longleftrightarrow> plain s \<and> plain t"
  by (simp_all add: plain_def)

lemma plain_digit_char: "d < 16 \<Longrightarrow> plain_char (digit_char d)"
  by (drule less_16_cases) (auto simp: digit_char_def plain_char_def)

lemma plain_digs [simp]:
  assumes "2 \<le> b" and "b \<le> 16"
  shows "plain (digs b n)"
  using assms
proof (induction b n rule: digs.induct)
  case (1 b n)
  have m: "n mod b < 16" using "1.prems" mod_less_divisor [of b n] by linarith
  show ?case
    by (cases "n < b")
      (use 1 m in \<open>subst digs.simps; simp add: plain_digit_char\<close>)+
qed

lemma plain_zero_pad [simp]: "plain (zero_pad w s) \<longleftrightarrow> plain s"
  by (induction "w - length s") (auto simp: zero_pad_def plain_def plain_char_def list_all_iff)

section \<open>Printed output and its tokens\<close>

text \<open>\<open>prints o1 ts\<close>: the output function succeeds, and its text lexes to \<open>ts\<close> in front of any rest.\<close>

definition prints :: "string option \<Rightarrow> token list \<Rightarrow> bool" where
  "prints o1 ts \<longleftrightarrow> (\<exists>t. o1 = Some t \<and> lexes t ts)"

lemma prints_SomeI: "lexes t ts \<Longrightarrow> prints (Some t) ts"
  by (simp add: prints_def)

lemma prints_empty [simp]: "prints (Some []) []"
  by (simp add: prints_def)

lemma prints_cat_Nil: "prints (cat []) []"
  by (simp add: prints_def)

lemma prints_cat_Cons:
  "prints x ts \<Longrightarrow> prints (cat xs) ts' \<Longrightarrow> prints (cat (x # xs)) (ts @ ts')"
  by (auto simp: prints_def intro: lexes_append)

lemmas prints_cat = prints_cat_Cons prints_cat_Nil

lemma prints_loop:
  "(\<And>i. i \<in> set xs \<Longrightarrow> prints (f i) (h i)) \<Longrightarrow> prints (cat (map f xs)) (concat (map h xs))"
proof (induction xs)
  case (Cons x xs)
  then have "prints (f x) (h x)" "prints (cat (map f xs)) (concat (map h xs))" by auto
  then have "prints (cat (f x # map f xs)) (h x @ concat (map h xs))" by (rule prints_cat_Cons)
  then show ?case by simp
qed (simp add: prints_cat_Nil)

lemma prints_if:
  "(b \<Longrightarrow> prints x ts) \<Longrightarrow> (\<not> b \<Longrightarrow> prints y ts') \<Longrightarrow>
     prints (if b then x else y) (if b then ts else ts')"
  by simp

lemma prints_eq: "prints x ts \<Longrightarrow> ts = ts' \<Longrightarrow> prints x ts'"
  by simp

definition sep_toks :: "nat \<Rightarrow> token list" where
  "sep_toks i = (if i = 0 then [] else [TComma])"

lemma commas_snoc: "xs \<noteq> [] \<Longrightarrow> commas (xs @ [x]) = commas xs @ TComma # x"
  by (induction xs rule: commas.induct) auto

lemma commas_loop: "concat (map (\<lambda>i. sep_toks i @ h i) [0..<n]) = commas (map h [0..<n])"
  by (induction n) (auto simp: sep_toks_def commas_snoc)

end
