(* ===== verification/Rm_Report.thy ===== *)
theory Rm_Report
  imports Rm_Probe Json
begin

text \<open>
  What each section of the report means, as JSON values over the results and buffers, and the
  proof that each \<open>print_\<close> function of \<open>verify/rm_issue_rate.c\<close> prints exactly that value: the
  function never reads outside a table or a buffer, and its text lexes to the tokens of the
  section (\<open>prints\<close>), whatever the driver wrote into the buffers.
\<close>

section \<open>Reading a buffer that is long enough\<close>

definition get8 :: "nat \<Rightarrow> bytes \<Rightarrow> u8" where
  "get8 o1 b = b ! o1"

lemma peek8_get8 [simp]: "o1 < length b \<Longrightarrow> peek8 o1 b = Some (get8 o1 b)"
  by (simp add: peek8_def peek_def get8_def Cons_nth_drop_Suc [symmetric])

lemma peek32_get32 [simp]: "o1 + 4 \<le> length b \<Longrightarrow> peek32 o1 b = Some (get32 o1 b)"
  by (rule get32_peek32)

definition item_index :: "bytes \<Rightarrow> nat \<Rightarrow> u32" where
  "item_index items i = get32 (8 * i) items"

definition item_data :: "bytes \<Rightarrow> nat \<Rightarrow> u32" where
  "item_data items i = get32 (8 * i + 4) items"

lemma read_item_in [simp]:
  "8 * i + 8 \<le> length items \<Longrightarrow> read_item items i = Some (item_index items i, item_data items i)"
  by (simp add: read_item_def item_index_def item_data_def Let_def mult.commute)

section \<open>Pieces\<close>

definition hex_field :: "nat \<Rightarrow> u32 \<Rightarrow> string" where
  "hex_field w v = zero_pad w (digs 16 (unat v))"

definition hex32 :: "u32 \<Rightarrow> string" where
  "hex32 v = ''0x'' @ hex_field 8 v"

abbreviation jnum :: "u32 \<Rightarrow> json" where
  "jnum v \<equiv> JNum (int (unat v))"

lemma plain_hex_field [simp]: "plain (hex_field w v)"
  by (simp add: hex_field_def)

lemma plain_hex32 [simp]: "plain (hex32 v)"
  by (simp add: hex32_def plain_char_def)

lemma zero_pad_hex [simp]: "zero_pad w (digs 16 (unat v)) = hex_field w v"
  by (simp add: hex_field_def)

definition header_json :: "u32 \<Rightarrow> ControlResult \<Rightarrow> (string \<times> json) list" where
  "header_json command result =
     [(''command'', JStr (hex32 command)), (''os_error'', JNum (os_error result)),
      (''rm_status'', JStr (hex32 (rm_status result)))]"

definition header_toks :: "string \<Rightarrow> u32 \<Rightarrow> ControlResult \<Rightarrow> token list" where
  "header_toks name command result =
     TStr name # TColon # TLBrace # commas (map member_toks (header_json command result)) @ [TComma]"

lemma not_digit [simp]:
  "\<not> is_digit 10 CHR '',''" "\<not> is_digit 10 CHR ''}''" "\<not> is_digit 10 CHR 0x0A"
  by (simp_all add: is_digit_def digit_of_def)

lemmas render = prints_def lexes_alt lex_dec lex_show_int plain_char_def

lemma print_result_header_prints:
  "plain name \<Longrightarrow> prints (print_result_header name command result) (header_toks name command result)"
  by (simp add: print_result_header_def header_toks_def header_json_def hex32_def render)

text \<open>A section is the header members followed by its own; it may be followed by a comma.\<close>

definition section_toks :: "string \<Rightarrow> json \<Rightarrow> bool \<Rightarrow> token list" where
  "section_toks name v trail = member_toks (name, v) @ (if trail then [TComma] else [])"

lemma section_header:
  "section_toks name (JObj (header_json command result @ m # ms)) trail =
     header_toks name command result @ commas (map member_toks (m # ms)) @ [TRBrace] @
       (if trail then [TComma] else [])"
  by (simp add: section_toks_def header_toks_def header_json_def)

lemma prints_values_open: "prints (printf ''      \"values\": ['' []) [TStr ''values'', TColon, TLBrack]"
  by (simp add: render)

lemma prints_close: "prints (printf '']\<newline>    },\<newline>'' []) [TRBrack, TRBrace, TComma]"
  by (simp add: render)

lemma prints_close_more:
  "prints (printf '']\<newline>    }%s\<newline>'' [FStr (if trail then '','' else [])])
     ([TRBrack, TRBrace] @ (if trail then [TComma] else []))"
  by (simp add: render)

lemma prints_list_end: "prints (printf ''],\<newline>'' []) [TRBrack, TComma]"
  by (simp add: render)

lemma prints_object_end: "prints (printf ''    },\<newline>'' []) [TRBrace, TComma]"
  by (simp add: render)

lemma prints_newline: "prints (printf ''\<newline>      '' []) []"
  by (simp add: render)

lemma prints_newline_if: "prints (if b then printf ''\<newline>      '' [] else Some []) []"
  by (cases b) (simp_all add: render)

text \<open>The separators of lists.\<close>

lemma prints_cat2:
  "prints a ta \<Longrightarrow> prints b tb \<Longrightarrow> ts = ta @ tb \<Longrightarrow> prints (cat [a, b]) ts"
  using prints_cat_Cons [OF _ prints_cat_Cons [OF _ prints_cat_Nil]] by fastforce

lemma prints_cat_step:
  "prints a ta \<Longrightarrow> prints (cat (b # xs)) tb \<Longrightarrow> ts = ta @ tb \<Longrightarrow> prints (cat (a # b # xs)) ts"
  using prints_cat_Cons by blast

lemma prints_cat4:
  "prints a ta \<Longrightarrow> prints b tb \<Longrightarrow> prints c tc \<Longrightarrow> prints d td \<Longrightarrow> ts = ta @ tb @ tc @ td \<Longrightarrow>
     prints (cat [a, b, c, d]) ts"
  by (rule prints_cat_step [OF _ prints_cat_step [OF _ prints_cat2]]) simp_all

lemmas prints_cat_seq = prints_cat_step [OF _ _ refl]
lemmas prints_cat_end = prints_cat2 [OF _ _ refl]

lemma prints_items:
  assumes "\<And>i. i < n \<Longrightarrow> prints (f i) (sep_toks i @ toks (g i))"
  shows "prints (cat (map f [0..<n])) (commas (map toks (map g [0..<n])))"
proof -
  have "prints (cat (map f [0..<n])) (concat (map (\<lambda>i. sep_toks i @ toks (g i)) [0..<n]))"
    by (rule prints_loop) (simp add: assms)
  then show ?thesis by (simp add: commas_loop o_def)
qed

lemma prints_array:
  assumes "\<And>i. ok \<Longrightarrow> i < n \<Longrightarrow> prints (f i) (sep_toks i @ toks (g i))" and "prints nl []"
  shows "prints (if ok then cat [cat (map f [0..<n]), nl] else Some [])
    (commas (map toks (if ok then map g [0..<n] else [])))"
proof (cases ok)
  case True
  then have "prints (cat (map f [0..<n])) (commas (map toks (map g [0..<n])))"
    using assms(1) by (intro prints_items) simp
  with True assms(2) show ?thesis by (simp del: cat.simps add: prints_cat2)
qed simp

lemmas seps = sep_def commasp_def sep_toks_def

lemma plain_true_false [simp]: "lexer (true_false b @ s) = map_option (Cons (if b then TTrue else TFalse)) (lexer s)"
  using lex_words [of s] by (simp add: true_false_def)

section \<open>Issue rates\<close>

definition speed_spec :: "nat \<Rightarrow> bool \<Rightarrow> string" where
  "speed_spec v dp_field =
     (if dp_field then (if v = 0 then ''full'' else if v = 1 then ''reduced'' else ''unknown'')
      else if v < 7 then speed_names ! v else ''unknown'')"

lemma speed_name_spec: "speed_name v dp_field = Some (speed_spec (unat v) dp_field)"
proof -
  have "v = 1 \<longleftrightarrow> unat v = 1" by (metis unat_1 unsigned_word_eqI)
  moreover have "v = 0 \<longleftrightarrow> unat v = 0" by (simp add: unat_eq_0)
  ultimately show ?thesis by (simp add: speed_name_def speed_spec_def speed_names_def)
qed

lemma less_7_cases: "v < (7 :: nat) \<Longrightarrow> v \<in> {0, 1, 2, 3, 4, 5, 6}"
  by simp arith

lemma plain_speed_spec [simp]: "plain (speed_spec v dp)"
proof (cases "v < 7")
  case True
  then show ?thesis
    by (auto dest!: less_7_cases simp: speed_spec_def speed_names_def plain_char_def)
qed (simp add: speed_spec_def plain_char_def)

definition v1_item :: "bytes \<Rightarrow> nat \<Rightarrow> json" where
  "v1_item b i = JObj
     [(''name'', JStr (v1_names ! i)), (''raw'', JNum (int (unat (get8 (16 + i) b)))),
      (''speed'', JStr (speed_spec (unat (get8 (16 + i) b)) (i = 2)))]"

definition v1_json :: "ControlResult \<Rightarrow> bytes \<Rightarrow> json" where
  "v1_json r b = JObj (header_json NV2080_CTRL_CMD_GR_GET_SM_ISSUE_RATE_MODIFIER r @
     [(''values'', JArr (if rm_ok r then map (v1_item b) [0..<9] else []))])"

lemma less_9_cases: "i < (9 :: nat) \<Longrightarrow> i \<in> {0, 1, 2, 3, 4, 5, 6, 7, 8}"
  by simp arith

lemma v1_tables:
  "i < 9 \<Longrightarrow> tbl v1_fields i = Some (v1_fields ! i) \<and> tbl v1_names i = Some (v1_names ! i) \<and>
     foff GR_GET_SM_ISSUE_RATE_MODIFIER_PARAMS (v1_fields ! i) = 16 + i"
  by (drule less_9_cases) (auto simp: v1_fields_def v1_names_def plain_char_def)

lemma plain_v1_names [simp]: "i < 9 \<Longrightarrow> plain (v1_names ! i)"
  by (drule less_9_cases) (auto simp: v1_names_def plain_char_def)

lemma unat_ucast_u8 [simp]: "unat (ucast (v :: u8) :: u32) = unat v"
proof -
  have "unat v < 2 ^ 32" by (rule less_trans [OF unat_u8_less]) simp
  then show ?thesis by (simp add: unsigned_ucast_eq take_bit_nat_eq_self)
qed

lemma print_v1_prints:
  assumes "length b = 32"
  shows "prints (print_v1 r b) (section_toks ''v1'' (v1_json r b) True)"
  unfolding print_v1_def
proof (rule prints_cat4 [OF print_result_header_prints prints_values_open prints_array [where g = "v1_item b"] prints_close],
    goal_cases)
  case (2 i)
  with assms v1_tables [of i] show ?case
    by (simp add: render speed_name_spec v1_item_def seps)
next
  case 3
  show ?case by (rule prints_newline)
next
  case 4
  show ?case by (simp add: v1_json_def section_header del: upt_rec_numeral)
qed (simp add: plain_char_def)

lemma plain_nth: "list_all plain xs \<Longrightarrow> i < length xs \<Longrightarrow> plain (xs ! i)"
  by (simp add: list_all_length)

lemma unat_clamp: "unat (if m < v then m else v :: u32) = min (unat m) (unat v)"
  by (simp add: word_less_nat_alt min_def)

definition info_field :: "bool \<Rightarrow> nat \<Rightarrow> string" where
  "info_field v2_fields x =
     (let names = if v2_fields then v2_names else throttle_names in
      if x < length names then names ! x else ''UNKNOWN'')"

lemma plain_info_field [simp]: "plain (info_field v2_fields x)"
proof -
  have "list_all plain v2_names" "list_all plain throttle_names"
    by (simp_all add: v2_names_def throttle_names_def plain_char_def)
  then show ?thesis by (simp add: info_field_def Let_def plain_nth plain_char_def)
qed

definition info_item :: "bool \<Rightarrow> bool \<Rightarrow> bytes \<Rightarrow> nat \<Rightarrow> json" where
  "info_item v2_fields print_speed items i = JObj
     ([(''index'', jnum (item_index items i)),
       (''name'', JStr (info_field v2_fields (unat (item_index items i)))),
       (''raw'', jnum (item_data items i))] @
      (if print_speed
       then [(''speed'', JStr (speed_spec (unat (item_data items i)) (item_index items i = 1)))]
       else []))"

definition info_list_json ::
  "u32 \<Rightarrow> ControlResult \<Rightarrow> u32 \<Rightarrow> bytes \<Rightarrow> bool \<Rightarrow> bool \<Rightarrow> json" where
  "info_list_json command r cnt items v2_fields print_speed = JObj (header_json command r @
     [(''values'', JArr (if rm_ok r
        then map (info_item v2_fields print_speed items) [0..<min 255 (unat cnt)] else []))])"

lemma info_field_tbl:
  "(if v2_fields
    then (if unat x < length v2_names then tbl v2_names (unat x) else Some ''UNKNOWN'')
    else (if unat x < length throttle_names then tbl throttle_names (unat x) else Some ''UNKNOWN''))
   = Some (info_field v2_fields (unat x))"
  by (simp add: info_field_def Let_def)

lemma print_info_item_prints:
  assumes "length items = 2040" and "i < 255"
  shows "prints (do {
          (x, d) \<leftarrow> read_item items i;
          field \<leftarrow> Some (info_field v2_fields (unat x));
          cat [
            printf ''%s\<newline>        {\"index\": %u, \"name\": \"%s\", \"raw\": %u''
              [FStr (sep i), FUInt x, FStr field, FUInt d],
            (if print_speed then do {
               sp \<leftarrow> speed_name d (x = 1);
               printf '', \"speed\": \"%s\"'' [FStr sp] }
             else Some []),
            printf ''}'' []] })
       (sep_toks i @ toks (info_item v2_fields print_speed items i))"
  using assms
  by (cases print_speed; cases "i = 0")
    (simp_all add: render speed_name_spec info_item_def seps)

lemma print_info_list_prints:
  assumes "length items = 2040" and "plain name"
  shows "prints (print_info_list name command r cnt items v2_fields print_speed comma)
    (section_toks name (info_list_json command r cnt items v2_fields print_speed) comma)"
  unfolding print_info_list_def Let_def info_field_tbl
proof (rule prints_cat4 [OF print_result_header_prints prints_values_open prints_array [where g = "info_item v2_fields print_speed items"]
      prints_close_more], goal_cases)
  case (2 i)
  then have "i < 255" by (simp add: unat_clamp split: if_splits)
  with assms(1) show ?case by (rule print_info_item_prints)
next
  case 4
  show ?case by (simp only: info_list_json_def section_header unat_clamp) simp
qed (rule assms(2), rule prints_newline_if)

section \<open>GPU and GR information\<close>

definition gpu_info_item :: "bytes \<Rightarrow> nat \<Rightarrow> json" where
  "gpu_info_item items i = JObj
     [(''index'', jnum (item_index items i)), (''name'', JStr (gpu_info_names ! i)),
      (''raw'', jnum (item_data items i)), (''set'', JBool (item_data items i \<noteq> 0))]"

definition gpu_info_json :: "ControlResult \<Rightarrow> bytes \<Rightarrow> json" where
  "gpu_info_json r items = JObj (header_json NV2080_CTRL_CMD_GPU_GET_INFO_V2 r @
     [(''values'', JArr (if rm_ok r then map (gpu_info_item items) [0..<length gpu_info_names] else []))])"

lemma plain_names [simp]:
  "i < length gpu_info_names \<Longrightarrow> plain (gpu_info_names ! i)"
  "i < length gr_info_names \<Longrightarrow> plain (gr_info_names ! i)"
  "i < length context_buffer_names \<Longrightarrow> plain (context_buffer_names ! i)"
  by (rule plain_nth, simp add: gpu_info_names_def gr_info_names_def context_buffer_names_def
      plain_char_def, assumption)+

lemma length_names:
  "length gpu_info_names = 4" "length gr_info_names = 4" "length context_buffer_names = 26"
  by (simp_all add: gpu_info_names_def gr_info_names_def context_buffer_names_def)

lemma print_gpu_info_prints:
  assumes "length items = 576"
  shows "prints (print_gpu_info r items) (section_toks ''gpu_info'' (gpu_info_json r items) True)"
  unfolding print_gpu_info_def
proof (rule prints_cat4 [OF print_result_header_prints prints_values_open prints_array [where g = "gpu_info_item items"] prints_close],
    goal_cases)
  case (2 i)
  then have "i < 4" by (simp add: length_names)
  with 2 assms show ?case by (cases "i = 0") (simp_all add: render gpu_info_item_def seps)
next
  case 3
  show ?case by (rule prints_newline)
next
  case 4
  show ?case by (simp add: gpu_info_json_def section_header)
qed (simp add: plain_char_def)

definition gr_info_item :: "bytes \<Rightarrow> nat \<Rightarrow> json" where
  "gr_info_item items i = JObj
     [(''index'', jnum (item_index items i)), (''name'', JStr (gr_info_names ! i)),
      (''raw'', jnum (item_data items i))]"

definition gfx_json :: "u32 \<Rightarrow> json" where
  "gfx_json capabilities = JObj
     [(''2d'', JBool (capabilities AND 0x1 \<noteq> 0)), (''3d'', JBool (capabilities AND 0x2 \<noteq> 0)),
      (''compute'', JBool (capabilities AND 0x4 \<noteq> 0)),
      (''i2m'', JBool (capabilities AND 0x8 \<noteq> 0))]"

definition gr_info_json :: "ControlResult \<Rightarrow> bytes \<Rightarrow> json" where
  "gr_info_json r items = JObj (header_json NV2080_CTRL_CMD_GR_GET_INFO r @
     [(''values'', JArr (if rm_ok r then map (gr_info_item items) [0..<4] else [])),
      (''gfx_capabilities'', if rm_ok r then gfx_json (item_data items 3) else JNull)])"

lemma print_gr_info_prints:
  assumes "length items = 32"
  shows "prints (print_gr_info r items) (section_toks ''gr_info'' (gr_info_json r items) True)"
proof -
  have i: "read_item items 3 = Some (item_index items 3, item_data items 3)"
    using assms by simp
  have g: "prints (if rm_ok r
        then printf ''      \"gfx_capabilities\": {\"2d\": %s, \"3d\": %s, \"compute\": %s, \"i2m\": %s}\<newline>''
          [FStr (true_false (item_data items 3 AND 0x1 \<noteq> 0)),
           FStr (true_false (item_data items 3 AND 0x2 \<noteq> 0)),
           FStr (true_false (item_data items 3 AND 0x4 \<noteq> 0)),
           FStr (true_false (item_data items 3 AND 0x8 \<noteq> 0))]
        else printf ''      \"gfx_capabilities\": null\<newline>'' [])
      (TStr ''gfx_capabilities'' # TColon #
         toks (if rm_ok r then gfx_json (item_data items 3) else JNull))"
    using lex_words(3) by (cases "rm_ok r") (simp_all add: render gfx_json_def)
  show ?thesis
    unfolding print_gr_info_def i
    unfolding bind.bind_lunit prod.case
  proof (rule prints_cat_step [OF print_result_header_prints
        prints_cat_seq [OF prints_values_open
        prints_cat_seq [OF prints_array [where g = "gr_info_item items"]
        prints_cat_seq [OF prints_list_end prints_cat_end [OF g prints_object_end]]]]], goal_cases)
    case (2 i)
    with assms show ?case by (cases "i = 0") (simp_all add: render gr_info_item_def seps length_names)
  next
    case 3
    show ?case by (rule prints_newline)
  qed (simp_all add: plain_char_def gr_info_json_def section_header)
qed

section \<open>Context buffers\<close>

definition context_item :: "ControlResult list \<Rightarrow> bytes list \<Rightarrow> nat \<Rightarrow> json" where
  "context_item rs bs i = JObj
     [(''engine_id'', JNum (int i)), (''name'', JStr (context_buffer_names ! i)),
      (''os_error'', JNum (os_error (rs ! i))), (''rm_status'', JStr (hex32 (rm_status (rs ! i)))),
      (''alignment'', jnum (get32 20 (bs ! i))), (''size'', jnum (get32 24 (bs ! i))),
      (''populated'', JBool (get8 28 (bs ! i) \<noteq> 0))]"

definition context_json :: "ControlResult list \<Rightarrow> bytes list \<Rightarrow> json" where
  "context_json rs bs = JObj
     [(''command'', JStr (hex32 NV2080_CTRL_CMD_GR_GET_ENGINE_CONTEXT_PROPERTIES)),
      (''entries'', JArr (map (context_item rs bs) [0..<26]))]"

lemma unat_of_nat_small: "n < 26 \<Longrightarrow> unat (of_nat n :: u32) = n"
  by (simp add: unat_of_nat)

lemma print_context_buffers_prints:
  assumes "length rs = 26" and "map length bs = replicate 26 32"
  shows "prints (print_context_buffers rs bs) (section_toks ''gr_context_buffers'' (context_json rs bs) True)"
proof -
  from assms(2) have bs: "length bs = 26" "\<And>i. i < 26 \<Longrightarrow> length (bs ! i) = 32"
    by (metis length_map length_replicate, metis length_map length_replicate nth_map nth_replicate)
  have a: "prints (printf ''    \"gr_context_buffers\": {\<newline>'' [])
      [TStr ''gr_context_buffers'', TColon, TLBrace]" by (simp add: render)
  have b: "prints (printf ''      \"command\": \"0x%08x\",\<newline>''
       [FUInt NV2080_CTRL_CMD_GR_GET_ENGINE_CONTEXT_PROPERTIES])
      [TStr ''command'', TColon, TStr (hex32 NV2080_CTRL_CMD_GR_GET_ENGINE_CONTEXT_PROPERTIES), TComma]"
    by (simp add: render hex32_def)
  have c: "prints (printf ''      \"entries\": ['' []) [TStr ''entries'', TColon, TLBrack]"
    by (simp add: render)
  have d: "prints (printf ''\<newline>      ]\<newline>    },\<newline>'' []) [TRBrack, TRBrace, TComma]"
    by (simp add: render)
  show ?thesis
    unfolding print_context_buffers_def CONTEXT_PROPERTIES_ENGINE_ID_COUNT_def
  proof (rule prints_cat_step [OF a prints_cat_seq [OF b prints_cat_seq [OF c
        prints_cat_end [OF prints_items [where g = "context_item rs bs"] d]]]], goal_cases)
    case (1 i)
    with assms bs show ?case
      by (cases "i = 0")
        (simp_all add: render context_item_def seps length_names hex32_def unat_of_nat_small)
  qed (simp_all add: context_json_def section_toks_def del: upt_rec_numeral)
qed

section \<open>Engine classes, falcons, engines\<close>

definition class_item :: "EngineClassQuery \<Rightarrow> nat \<Rightarrow> json" where
  "class_item q i = JStr (hex32 (get32 (i * 4) (classes q)))"

definition classes_json :: "EngineClassQuery \<Rightarrow> json" where
  "classes_json q = JObj (header_json NV2080_CTRL_CMD_GPU_GET_ENGINE_CLASSLIST (q_result q) @
     [(''engine_type'', JStr (hex32 (engine_type q))), (''capacity'', JNum 200),
      (''num_classes'', jnum (num_classes q)),
      (''classes'', JArr (if rm_ok (q_result q)
         then map (class_item q) [0..<min 200 (unat (num_classes q))] else []))])"

lemma prints_array_plain:
  assumes "\<And>i. ok \<Longrightarrow> i < n \<Longrightarrow> prints (f i) (sep_toks i @ toks (g i))"
  shows "prints (if ok then cat (map f [0..<n]) else Some [])
    (commas (map toks (if ok then map g [0..<n] else [])))"
  using assms prints_items [of n f g] by (cases ok) simp_all

lemma prints_hex_item:
  "prints (printf ''%s\"0x%08x\"'' [FStr (commasp i), FUInt c]) (sep_toks i @ toks (JStr (hex32 c)))"
  by (cases "i = 0") (simp_all add: render seps hex32_def)

lemma prints_member_hex:
  "prints (printf ''      \"engine_type\": \"0x%08x\",\<newline>'' [FUInt v])
     [TStr ''engine_type'', TColon, TStr (hex32 v), TComma]"
  by (simp add: render hex32_def)

lemma prints_member_num:
  "prints (printf ''      \"capacity\": %u,\<newline>'' [FUInt v]) [TStr ''capacity'', TColon, TNum (int (unat v)), TComma]"
  "prints (printf ''      \"num_classes\": %u,\<newline>'' [FUInt v]) [TStr ''num_classes'', TColon, TNum (int (unat v)), TComma]"
  "prints (printf ''      \"num_falcons\": %u,\<newline>'' [FUInt v]) [TStr ''num_falcons'', TColon, TNum (int (unat v)), TComma]"
  "prints (printf ''      \"engine_count\": %u,\<newline>'' [FUInt v]) [TStr ''engine_count'', TColon, TNum (int (unat v)), TComma]"
  "prints (printf ''      \"base_index\": %u,\<newline>'' [FUInt v]) [TStr ''base_index'', TColon, TNum (int (unat v)), TComma]"
  "prints (printf ''      \"num_entries\": %u,\<newline>'' [FUInt v]) [TStr ''num_entries'', TColon, TNum (int (unat v)), TComma]"
  by (simp_all add: render)

lemma prints_array_open:
  "prints (printf ''      \"classes\": ['' []) [TStr ''classes'', TColon, TLBrack]"
  "prints (printf ''      \"falcons\": ['' []) [TStr ''falcons'', TColon, TLBrack]"
  "prints (printf ''      \"engines\": ['' []) [TStr ''engines'', TColon, TLBrack]"
  "prints (printf ''      \"entries\": ['' []) [TStr ''entries'', TColon, TLBrack]"
  by (simp_all add: render)

lemma print_engine_classes_prints:
  assumes "length (classes q) = 800" and "plain (q_name q)"
  shows "prints (print_engine_classes q comma) (section_toks (q_name q) (classes_json q) comma)"
  unfolding print_engine_classes_def Let_def CMP_ENGINE_CLASS_CAPACITY_def
proof (rule prints_cat_step [OF print_result_header_prints
        prints_cat_seq [OF prints_member_hex
        prints_cat_seq [OF prints_member_num(1)
        prints_cat_seq [OF prints_member_num(2)
        prints_cat_seq [OF prints_array_open(1)
        prints_cat_end [OF prints_array_plain [where g = "class_item q"] prints_close_more]]]]]],
      goal_cases)
  case (2 i)
  then have "i < 200" by (simp only: unat_clamp) simp
  with assms(1) prints_hex_item [of i "get32 (i * 4) (classes q)"] show ?case
    by (simp add: class_item_def)
next
  case 3
  show ?case by (simp only: classes_json_def section_header unat_clamp) simp
qed (simp_all add: assms(2))

definition falcon_item :: "bytes \<Rightarrow> nat \<Rightarrow> json" where
  "falcon_item b i = (let o1 = 4 + i * 20 in JObj
     [(''eng_desc'', JStr (hex32 (get32 o1 b))),
      (''class_id'', JStr (''0x'' @ hex_field 6 (drop_bit 8 (get32 o1 b)))),
      (''instance'', jnum (get32 o1 b AND 0xff)),
      (''ctx_attr'', JStr (hex32 (get32 (o1 + 4) b))),
      (''ctx_buffer_size'', jnum (get32 (o1 + 8) b)),
      (''addr_space_list'', JStr (hex32 (get32 (o1 + 12) b))),
      (''register_base'', JStr (hex32 (get32 (o1 + 16) b)))])"

definition falcons_json :: "ControlResult \<Rightarrow> bytes \<Rightarrow> json" where
  "falcons_json r b = JObj (header_json NV2080_CTRL_CMD_GPU_GET_CONSTRUCTED_FALCON_INFO r @
     [(''num_falcons'', jnum (get32 0 b)),
      (''falcons'', JArr (if rm_ok r then map (falcon_item b) [0..<min 64 (unat (get32 0 b))] else []))])"

lemma print_constructed_falcons_prints:
  assumes "length b = 1284"
  shows "prints (print_constructed_falcons r b) (section_toks ''constructed_falcons'' (falcons_json r b) True)"
proof -
  have n: "peek32 (foff GPU_GET_CONSTRUCTED_FALCON_INFO_PARAMS ''numConstructedFalcons'') b
      = Some (get32 0 b)" using assms by simp
  show ?thesis
    unfolding print_constructed_falcons_def n bind.bind_lunit Let_def MAX_CONSTRUCTED_FALCONS_def
  proof (rule prints_cat_step [OF print_result_header_prints
        prints_cat_seq [OF prints_member_num(3)
        prints_cat_seq [OF prints_array_open(2)
        prints_cat_end [OF prints_array [where g = "falcon_item b"] prints_close]]]], goal_cases)
    case (2 i)
    then have "i < 64" by (simp only: unat_clamp) simp
    with assms show ?case
      by (cases "i = 0") (simp_all add: render falcon_item_def Let_def seps hex32_def)
  next
    case 3
    show ?case by (rule prints_newline_if)
  next
    case 4
    show ?case by (simp only: falcons_json_def section_header unat_clamp) simp
  qed (simp_all add: plain_char_def)
qed

definition engine_item :: "bytes \<Rightarrow> nat \<Rightarrow> json" where
  "engine_item b i = JObj
     [(''type'', JStr (hex32 (get32 (4 + i * 4) b))),
      (''name'', JStr (engine_type_name (get32 (4 + i * 4) b)))]"

definition engines_json :: "ControlResult \<Rightarrow> bytes \<Rightarrow> json" where
  "engines_json r b = JObj (header_json NV2080_CTRL_CMD_GPU_GET_ENGINES_V2 r @
     [(''engine_count'', jnum (get32 0 b)),
      (''engines'', JArr (if rm_ok r then map (engine_item b) [0..<min 84 (unat (get32 0 b))] else []))])"

lemma plain_engine_type_name [simp]: "plain (engine_type_name t)"
  by (simp add: engine_type_name_def plain_char_def)

lemma print_engine_list_prints:
  assumes "length b = 340"
  shows "prints (print_engine_list r b) (section_toks ''engines_v2'' (engines_json r b) True)"
proof -
  have n: "peek32 (foff GPU_GET_ENGINES_V2_PARAMS ''engineCount'') b = Some (get32 0 b)"
    using assms by simp
  show ?thesis
    unfolding print_engine_list_def n bind.bind_lunit Let_def GPU_MAX_ENGINES_LIST_SIZE_def
  proof (rule prints_cat_step [OF print_result_header_prints
        prints_cat_seq [OF prints_member_num(4)
        prints_cat_seq [OF prints_array_open(3)
        prints_cat_end [OF prints_array [where g = "engine_item b"] prints_close]]]], goal_cases)
    case (2 i)
    then have "i < 84" by (simp only: unat_clamp) simp
    with assms show ?case
      by (cases "i = 0") (simp_all add: render engine_item_def seps hex32_def)
  next
    case 3
    show ?case by (rule prints_newline_if)
  next
    case 4
    show ?case by (simp only: engines_json_def section_header unat_clamp) simp
  qed (simp_all add: plain_char_def)
qed

section \<open>The FIFO device table\<close>

definition hex_bytes :: "bytes \<Rightarrow> string" where
  "hex_bytes bs = concat (map (\<lambda>c. zero_pad 2 (digs 16 (unat c))) bs)"

lemma plain_hex_bytes [simp]: "plain (hex_bytes bs)"
  by (induction bs) (simp_all add: hex_bytes_def)

definition device_item :: "bytes \<Rightarrow> nat \<Rightarrow> json" where
  "device_item b i = (let o1 = 12 + i * 100 in JObj
     [(''engine_name_hex'', JStr (hex_bytes (take 16 (drop (o1 + 84) b)))),
      (''num_pbdmas'', jnum (get32 (o1 + 80) b)),
      (''engine_data'', JArr (map (\<lambda>j. JStr (hex32 (get32 (o1 + j * 4) b))) [0..<16]))])"

definition device_json :: "ControlResult \<Rightarrow> bytes \<Rightarrow> json" where
  "device_json r b = JObj (header_json NV2080_CTRL_CMD_FIFO_GET_DEVICE_INFO_TABLE r @
     [(''base_index'', jnum (get32 0 b)), (''num_entries'', jnum (get32 4 b)),
      (''more'', JBool (get8 8 b \<noteq> 0)),
      (''entries'', JArr (if rm_ok r then map (device_item b) [0..<min 32 (unat (get32 4 b))] else []))])"

lemma cat_hex_bytes:
  "o1 + n \<le> length b \<Longrightarrow>
     cat (map (\<lambda>j. do { ch \<leftarrow> peek8 (o1 + j) b; printf ''%02x'' [FUInt (ucast ch)] }) [0..<n])
     = Some (hex_bytes (take n (drop o1 b)))"
proof (induction n)
  case (Suc n)
  moreover from Suc.prems have "take (Suc n) (drop o1 b) = take n (drop o1 b) @ [get8 (o1 + n) b]"
    by (simp add: take_Suc_conv_app_nth get8_def)
  ultimately show ?case by (simp add: cat_append hex_bytes_def)
qed (simp add: hex_bytes_def)

text \<open>A string value printed in pieces: opening quote, the bytes, closing quote.\<close>

lemma prints_name_pieces:
  assumes "o1 + 16 \<le> length b"
  shows "prints (cat [
      printf ''%s\<newline>        {\"engine_name_hex\": \"'' [FStr (sep i)],
      cat (map (\<lambda>j. do { ch \<leftarrow> peek8 (o1 + j) b; printf ''%02x'' [FUInt (ucast ch)] }) [0..<16]),
      printf ''\", \"num_pbdmas\": %u, \"engine_data\": ['' [FUInt np]])
    (sep_toks i @ [TLBrace, TStr ''engine_name_hex'', TColon,
       TStr (hex_bytes (take 16 (drop o1 b))), TComma, TStr ''num_pbdmas'', TColon,
       TNum (int (unat np)), TComma, TStr ''engine_data'', TColon, TLBrack])"
  unfolding cat_hex_bytes [OF assms] by (cases "i = 0") (simp_all add: render seps)

lemma cat_group: "cat (a # b # c # xs) = cat [cat [a, b, c], cat xs]"
  by (simp add: Option.bind_assoc split: Option.bind_splits)

lemma print_device_item_prints:
  assumes "length b = 3212" and "i < 32"
  shows "prints (let o1 = foff FIFO_GET_DEVICE_INFO_TABLE_PARAMS ''entries''
                                 + i * csize FIFO_DEVICE_ENTRY in do {
             np \<leftarrow> peek32 (o1 + foff FIFO_DEVICE_ENTRY ''numPbdmas'') b;
             cat [
               printf ''%s\<newline>        {\"engine_name_hex\": \"'' [FStr (sep i)],
               cat (map (\<lambda>j. do {
                 ch \<leftarrow> peek8 (o1 + foff FIFO_DEVICE_ENTRY ''engineName'' + j) b;
                 printf ''%02x'' [FUInt (ucast ch)] }) [0..<ENGINE_MAX_NAME_LEN]),
               printf ''\", \"num_pbdmas\": %u, \"engine_data\": ['' [FUInt np],
               cat (map (\<lambda>j. do {
                 d \<leftarrow> peek32 (o1 + foff FIFO_DEVICE_ENTRY ''engineData'' + j * 4) b;
                 printf ''%s\"0x%08x\"'' [FStr (commasp j), FUInt d] }) [0..<ENGINE_DATA_TYPES]),
               printf '']}'' []] })
    (sep_toks i @ toks (device_item b i))"
proof -
  let ?o = "12 + i * 100"
  have np: "peek32 (?o + 80) b = Some (get32 (?o + 80) b)" using assms by simp
  have a: "?o + 84 + 16 \<le> length b" using assms by simp
  have d: "prints (cat (map (\<lambda>j. do {
        d \<leftarrow> peek32 (?o + 0 + j * 4) b;
        printf ''%s\"0x%08x\"'' [FStr (commasp j), FUInt d] }) [0..<16]))
      (commas (map toks (map (\<lambda>j. JStr (hex32 (get32 (?o + j * 4) b))) [0..<16])))"
  proof (rule prints_items)
    fix j :: nat assume "j < 16"
    with assms prints_hex_item [of j "get32 (?o + j * 4) b"]
    show "prints (do {
        d \<leftarrow> peek32 (?o + 0 + j * 4) b;
        printf ''%s\"0x%08x\"'' [FStr (commasp j), FUInt d] })
      (sep_toks j @ toks (JStr (hex32 (get32 (?o + j * 4) b))))" by simp
  qed
  have e: "prints (printf '']}'' []) [TRBrack, TRBrace]" by (simp add: render)
  show ?thesis
    unfolding Let_def foff_control_params csize_structs np bind.bind_lunit ENGINE_MAX_NAME_LEN_def
      ENGINE_DATA_TYPES_def
    by (subst cat_group)
      (rule prints_cat2 [OF prints_name_pieces [OF a] prints_cat_end [OF d e]],
        simp add: device_item_def Let_def del: upt_rec_numeral)
qed

lemma print_device_info_table_prints:
  assumes "length b = 3212"
  shows "prints (print_device_info_table r b) (section_toks ''fifo_device_info'' (device_json r b) True)"
proof -
  have n: "peek32 (foff FIFO_GET_DEVICE_INFO_TABLE_PARAMS ''baseIndex'') b = Some (get32 0 b)"
    "peek32 (foff FIFO_GET_DEVICE_INFO_TABLE_PARAMS ''numEntries'') b = Some (get32 4 b)"
    "peek8 (foff FIFO_GET_DEVICE_INFO_TABLE_PARAMS ''bMore'') b = Some (get8 8 b)"
    using assms by simp_all
  have m: "prints (printf ''      \"more\": %s,\<newline>'' [FStr (true_false v)])
    [TStr ''more'', TColon, if v then TTrue else TFalse, TComma]" for v
    by (simp add: render)
  show ?thesis
    unfolding print_device_info_table_def n bind.bind_lunit DEVICE_INFO_TABLE_MAX_ENTRIES_def
      Let_def [of "if of_nat 32 < get32 4 b then of_nat 32 else get32 4 b"]
  proof (rule prints_cat_step [OF print_result_header_prints
        prints_cat_seq [OF prints_member_num(5)
        prints_cat_seq [OF prints_member_num(6)
        prints_cat_seq [OF m
        prints_cat_seq [OF prints_array_open(4)
        prints_cat_end [OF prints_array [where g = "device_item b"] prints_close]]]]]], goal_cases)
    case (2 i)
    then have "i < 32" by (simp only: unat_clamp) simp
    with assms show ?case by (rule print_device_item_prints)
  next
    case 3
    show ?case by (rule prints_newline_if)
  next
    case 4
    show ?case by (simp only: device_json_def section_header unat_clamp) simp
  qed (simp_all add: plain_char_def)
qed

section \<open>The whole report\<close>

definition controls_json :: "probe_data \<Rightarrow> (string \<times> json) list" where
  "controls_json d = [
     (''v1'', v1_json (v1_result d) (v1_buf d)),
     (''v2'', info_list_json NV2080_CTRL_CMD_GR_GET_SM_ISSUE_RATE_MODIFIER_V2 (v2_result d)
        (get32 0 (v2_buf d)) (drop 4 (v2_buf d)) True False),
     (''gpu_info'', gpu_info_json (gpu_info_result d) (drop 4 (gpu_info_buf d))),
     (''gr_info'', gr_info_json (gr_info_result d) (gr_info_items d)),
     (''gr_context_buffers'', context_json (context_results d) (context_bufs d)),
     (''constructed_falcons'', falcons_json (falcons_result d) (falcons_buf d)),
     (''engines_v2'', engines_json (engines_result d) (engines_buf d)),
     (''fifo_device_info'', device_json (device_info_result d) (device_info_buf d))]
     @ map (\<lambda>q. (q_name q, classes_json q)) (engine_queries d)"

definition report_json :: "probe_data \<Rightarrow> int \<Rightarrow> json" where
  "report_json d device_index = JObj
     [(''mode'', JStr ''NVIDIA RM GET controls only''), (''device_index'', JNum device_index),
      (''controls'', JObj (controls_json d))]"

lemma four_queries:
  assumes "wf_probe d"
  obtains q0 q1 q2 q3 where "engine_queries d = [q0, q1, q2, q3]"
    and "\<forall>q \<in> {q0, q1, q2, q3}. length (classes q) = 800 \<and> plain (q_name q)"
proof -
  from assms have l: "map (length \<circ> classes) (engine_queries d) = [800, 800, 800, 800]"
    and n: "map q_name (engine_queries d) = map q_name engine_queries_init"
    by (simp_all add: wf_probe_def)
  from l obtain q0 q1 q2 q3 where q: "engine_queries d = [q0, q1, q2, q3]"
    by (auto simp: map_eq_Cons_conv)
  with l n have "\<forall>q \<in> {q0, q1, q2, q3}. length (classes q) = 800 \<and> plain (q_name q)"
    by (simp add: engine_queries_init_def empty_query_def plain_char_def)
  with q show thesis by (rule that)
qed

lemma report_frame:
  "prints (printf ''{\<newline>'' []) [TLBrace]"
  "prints (printf ''  \"mode\": \"NVIDIA RM GET controls only\",\<newline>'' [])
     [TStr ''mode'', TColon, TStr ''NVIDIA RM GET controls only'', TComma]"
  "prints (printf ''  \"device_index\": %d,\<newline>'' [FInt i])
     [TStr ''device_index'', TColon, TNum i, TComma]"
  "prints (printf ''  \"controls\": {\<newline>'' []) [TStr ''controls'', TColon, TLBrace]"
  "prints (printf ''  }\<newline>'' []) [TRBrace]"
  "prints (printf ''}\<newline>'' []) [TRBrace]"
  by (simp_all add: render)

lemma report_prints:
  assumes "wf_probe d"
  shows "prints (cat (report_pieces d i)) (toks (report_json d i))"
proof -
  obtain q0 q1 q2 q3 where q: "engine_queries d = [q0, q1, q2, q3]"
    and wq: "\<forall>q \<in> {q0, q1, q2, q3}. length (classes q) = 800 \<and> plain (q_name q)"
    using assms by (rule four_queries)
  have u: "[0..<length engine_queries_init] = [0, 1, 2, 3]"
    by (simp add: engine_queries_init_def upt_rec)
  have n: "length engine_queries_init = 4" by (simp add: engine_queries_init_def)
  let ?f = "\<lambda>i. Option.bind (tbl (engine_queries d) i)
    (\<lambda>q. print_engine_classes q (i + 1 < length engine_queries_init))"
  have f: "?f 0 = print_engine_classes q0 True" "?f 1 = print_engine_classes q1 True"
    "?f 2 = print_engine_classes q2 True" "?f 3 = print_engine_classes q3 False"
    by (simp_all add: q n)
  have m: "map ?f [0..<length engine_queries_init] =
      [print_engine_classes q0 True, print_engine_classes q1 True, print_engine_classes q2 True,
       print_engine_classes q3 False]"
    unfolding u list.map f ..
  from assms have w: "length (v1_buf d) = 32" "length (drop 4 (v2_buf d)) = 2040"
    "length (drop 4 (gpu_info_buf d)) = 576" "length (gr_info_items d) = 32"
    "length (falcons_buf d) = 1284" "length (engines_buf d) = 340"
    "length (context_results d) = 26" "map length (context_bufs d) = replicate 26 32"
    "length (device_info_buf d) = 3212"
    by (simp_all add: wf_probe_def)
  have v2: "plain ''v2''" by (simp add: plain_char_def)
  note pq = print_engine_classes_prints [OF wq [THEN bspec, THEN conjunct1] wq [THEN bspec, THEN conjunct2]]
  show ?thesis
    unfolding report_pieces_def m append.simps foff_control_params
    by (rule prints_cat_step [OF report_frame(1) prints_cat_seq [OF report_frame(2)
          prints_cat_seq [OF report_frame(3) prints_cat_seq [OF report_frame(4)
          prints_cat_seq [OF print_v1_prints [OF w(1)]
          prints_cat_seq [OF print_info_list_prints [OF w(2) v2]
          prints_cat_seq [OF print_gpu_info_prints [OF w(3)]
          prints_cat_seq [OF print_gr_info_prints [OF w(4)]
          prints_cat_seq [OF print_context_buffers_prints [OF w(7,8)]
          prints_cat_seq [OF print_constructed_falcons_prints [OF w(5)]
          prints_cat_seq [OF print_engine_list_prints [OF w(6)]
          prints_cat_seq [OF print_device_info_table_prints [OF w(9)]
          prints_cat_seq [OF pq prints_cat_seq [OF pq prints_cat_seq [OF pq prints_cat_seq [OF pq
          prints_cat_end [OF report_frame(5,6)]]]]]]]]]]]]]]]]])
      (simp_all add: report_json_def controls_json_def section_toks_def q)
qed

lemma report_text:
  "wf_probe d \<Longrightarrow> \<exists>t. cat (report_pieces d i) = Some t \<and> json_of t = Some (report_json d i)"
  using report_prints [of d i] by (auto simp: prints_def dest: lexesD json_of_toks)

section \<open>Whatever the driver wrote\<close>

text \<open>
  The contract between a section's printer and the report: on a buffer of the object's size it
  prints the section's value.  A buffer that was in a request keeps its size, so the contract holds
  for every reply.
\<close>

locale report_section =
  fixes pr :: "ControlResult \<Rightarrow> bytes \<Rightarrow> string option"
    and name :: string and js :: "ControlResult \<Rightarrow> bytes \<Rightarrow> json" and n :: nat
  assumes prints_at_size: "length b = n \<Longrightarrow> prints (pr r b) (section_toks name (js r b) True)"
begin

lemma printed:
  "length init = n \<Longrightarrow>
     prints (pr r (overlay init reply)) (section_toks name (js r (overlay init reply)) True)"
  by (rule prints_at_size) simp

lemma never_faults: "length init = n \<Longrightarrow> pr r (overlay init reply) \<noteq> None"
  using printed [of init r reply] by (auto simp: prints_def)

end

interpretation v1_section: report_section print_v1 "''v1''" v1_json 32
  by unfold_locales (rule print_v1_prints)

interpretation gpu_info_section: report_section print_gpu_info "''gpu_info''" gpu_info_json 576
  by unfold_locales (rule print_gpu_info_prints)

interpretation gr_info_section: report_section print_gr_info "''gr_info''" gr_info_json 32
  by unfold_locales (rule print_gr_info_prints)

interpretation falcons_section:
  report_section print_constructed_falcons "''constructed_falcons''" falcons_json 1284
  by unfold_locales (rule print_constructed_falcons_prints)

interpretation engines_section: report_section print_engine_list "''engines_v2''" engines_json 340
  by unfold_locales (rule print_engine_list_prints)

interpretation devices_section:
  report_section print_device_info_table "''fifo_device_info''" device_json 3212
  by unfold_locales (rule print_device_info_table_prints)

section \<open>Tables and lists on whole replies\<close>


end
