(* ===== verification/Rm_Main.thy ===== *)
theory Rm_Main
  imports Rm_Session Rm_Report
begin

text \<open>
  What a whole run of the probe does: the report it prints, its exit status, the protocol it
  keeps with the driver, and the descriptors it opens and closes.
\<close>

section \<open>The report of a run\<close>

definition exit_status :: "probe_data \<Rightarrow> int" where
  "exit_status d = (if rm_ok (v1_result d) \<or> rm_ok (v2_result d) then 0 else 1)"

text \<open>A text is the report of the data a run collected, and the exit status is the one the data give.\<close>

definition reports :: "int \<Rightarrow> probe_data \<Rightarrow> int \<Rightarrow> string \<Rightarrow> bool" where
  "reports i d rc text1 \<longleftrightarrow>
     wf_probe d \<and> json_of text1 = Some (report_json d i) \<and> rc = exit_status d"

lemma emits_print_report:
  assumes "wf_probe d"
  shows "emits (do { out_all (report_pieces d i);
       ret (if rm_ok (v1_result d) \<or> rm_ok (v2_result d) then 0 else 1) })
     (\<lambda>rc evs. reports i d rc (stdout_of evs) \<and> list_all (\<lambda>ev. \<exists>s. ev = EvOut s) evs)"
proof -
  obtain t where t: "cat (report_pieces d i) = Some t" "json_of t = Some (report_json d i)"
    using report_text [OF assms, of i] by blast
  show ?thesis
    by (rule emits_bindI [OF emits_out_all])
      (use t assms in \<open>auto simp: reports_def exit_status_def intro!: emits_return\<close>)
qed

lemma emits_run_probe:
  "emits (run_probe K ctl c s i) (\<lambda>rc evs. \<exists>d e1 e2. evs = e1 @ e2 \<and>
     list_all (control_event ctl c s) e1 \<and> list_all (\<lambda>ev. \<exists>s. ev = EvOut s) e2 \<and> reports i d rc (stdout_of evs))"
  unfolding run_probe_def
proof (rule emits_bindI [OF emits_run_controls], elim conjE)
  fix d e1 assume c: "list_all (control_event ctl c s) e1" and w: "wf_probe d"
  show "emits (do { out_all (report_pieces d i);
       ret (if rm_ok (v1_result d) \<or> rm_ok (v2_result d) then 0 else 1) })
     (\<lambda>rc e2. \<exists>d e1' e2'. e1 @ e2 = e1' @ e2' \<and> list_all (control_event ctl c s) e1' \<and>
        list_all (\<lambda>ev. \<exists>s. ev = EvOut s) e2' \<and> reports i d rc (stdout_of (e1 @ e2)))"
    by (rule emits_mono [OF emits_print_report [OF w]])
      (use c in \<open>auto simp: reports_def control_events(2)\<close>)
qed

lemma run_probe_json:
  "json_of (stdout_of (trace_of (run_probe K ctl c s i) w)) =
     Some (report_json (result_of (run_controls K ctl c s) w) i)"
proof -
  have "\<exists>e1 e2. trace_of (run_probe K ctl c s i) w = e1 @ e2 \<and>
      (list_all (control_event ctl c s) e1 \<and> wf_probe (result_of (run_controls K ctl c s) w)) \<and>
      (reports i (result_of (run_controls K ctl c s) w) (result_of (run_probe K ctl c s i) w) (stdout_of e2) \<and>
       list_all (\<lambda>ev. \<exists>s. ev = EvOut s) e2)"
    unfolding run_probe_def
    by (rule emits_bindD [OF emits_run_controls]) (blast intro: emits_print_report)
  then show ?thesis by (auto simp: reports_def control_events(2))
qed

text \<open>
  C1. Whatever the driver answers, what \<open>run_probe\<close> writes to standard output is one JSON text,
  and it is exactly the report of the results and buffers its controls left behind.
\<close>

theorem run_probe_report:
  "json_of (stdout_of (trace_of (run_probe K ctl c s i) w)) =
     Some (report_json (result_of (run_controls K ctl c s) w) i)"
  by (rule run_probe_json)

section \<open>The stages before the report\<close>

text \<open>Nothing on standard output, no descriptor opened or closed, only \<open>ctl\<close> used.\<close>

definition quiet :: "int \<Rightarrow> event \<Rightarrow> bool" where
  "quiet ctl ev \<longleftrightarrow> fd_neutral ctl ev \<and> (\<forall>s. ev \<noteq> EvOut s)"

lemma quiet_simps [simp]:
  "quiet ctl (EvIoctl fd req bufs rc e bufs') \<longleftrightarrow> fd = ctl"
  "quiet ctl (EvErr s)" "quiet ctl EvFault"
  by (simp_all add: quiet_def fd_neutral_def)

lemma quiet_trace:
  "list_all (quiet ctl) evs \<Longrightarrow> stdout_of evs = [] \<and> list_all (fd_neutral ctl) evs"
  by (induction evs) (auto simp: quiet_def fd_neutral_def split: event.splits)

lemma quiet_alloc_client: "emits (alloc_client K ctl) (\<lambda>_. list_all (quiet ctl))"
  unfolding alloc_client_def Let_def by (auto intro!: emit)

lemma quiet_alloc_device: "emits (alloc_device K ctl c i) (\<lambda>_. list_all (quiet ctl))"
  unfolding alloc_device_def Let_def by (auto intro!: emit)

lemma quiet_alloc_subdevice: "emits (alloc_subdevice K ctl c d i) (\<lambda>_. list_all (quiet ctl))"
  unfolding alloc_subdevice_def Let_def by (auto intro!: emit)

lemma quiet_resolve_cards: "emits (resolve_cards K ctl c minor cards is) (\<lambda>_. list_all (quiet ctl))"
  by (induction "is") (auto simp: rm_control_def Let_def intro!: emit split: option.splits)

lemma quiet_resolve: "emits (resolve_device_instances K ctl c minor) (\<lambda>_. list_all (quiet ctl))"
  unfolding resolve_device_instances_def
  by (auto intro!: emit emits_mono [OF quiet_resolve_cards])

text \<open>What the part of \<open>main\<close> between registering and cleaning up does.\<close>

definition device_run :: "int \<Rightarrow> session \<Rightarrow> int \<Rightarrow> int \<Rightarrow> event list \<Rightarrow> bool" where
  "device_run i st ctl rc evs \<longleftrightarrow>
     accepted i st evs \<and> list_all (fd_neutral ctl) evs \<and>
     (stdout_of evs = [] \<and> rc = 1 \<or> (\<exists>d. reports i d rc (stdout_of evs)))"

lemma device_run_quiet:
  "session_run i st e1 = Some st' \<Longrightarrow> list_all (quiet ctl) e1 \<Longrightarrow> device_run i st' ctl rc e2 \<Longrightarrow>
     device_run i st ctl rc (e1 @ e2)"
  using quiet_trace [of ctl e1] by (auto simp: device_run_def reports_def)

lemma device_run_stop:
  "accepted i st evs \<Longrightarrow> list_all (quiet ctl) evs \<Longrightarrow> device_run i st ctl 1 evs"
  using quiet_trace [of ctl evs] by (simp add: device_run_def)

lemma outputs_accepted:
  "list_all (\<lambda>ev. \<exists>s. ev = EvOut s) evs \<Longrightarrow> accepted i st evs \<and> list_all (fd_neutral ctl) evs"
  by (induction evs) (auto simp: fd_neutral_def)

lemma emits_run_probe_device:
  "emits (run_probe K ctl c s i) (device_run i (Subdevice ctl c s) ctl)"
  by (rule emits_mono [OF emits_run_probe])
    (auto simp: device_run_def control_events outputs_accepted)

lemma emits_stage:
  assumes "emits m (stage i st nxt)" and "emits m (\<lambda>_. list_all (quiet ctl))"
    and "\<And>x. emits (f x) (device_run i (nxt x) ctl)"
  shows "emits (do { r \<leftarrow> m; (case r of None \<Rightarrow> ret 1 | Some x \<Rightarrow> f x) }) (device_run i st ctl)"
proof (rule emits_bindI [OF emits_conj [OF assms(1,2)]], elim conjE)
  fix r e1 assume r: "stage i st nxt r e1" and q: "list_all (quiet ctl) e1"
  show "emits (case r of None \<Rightarrow> ret 1 | Some x \<Rightarrow> f x) (\<lambda>y e2. device_run i st ctl y (e1 @ e2))"
  proof (cases r)
    case None
    with r q show ?thesis by (simp add: emits_return device_run_stop)
  next
    case (Some x)
    with r q have "emits (f x) (\<lambda>y e2. device_run i st ctl y (e1 @ e2))"
      by (auto intro: emits_mono [OF assms(3)] device_run_quiet)
    with Some show ?thesis by simp
  qed
qed

lemma emits_probe_device: "emits (probe_device K ctl i) (device_run i (Registered ctl) ctl)"
  unfolding probe_device_def
proof (rule emits_stage [OF emits_alloc_client quiet_alloc_client],
    rule emits_stage [OF emits_resolve_device_instances quiet_resolve], goal_cases)
  case (1 client inst)
  obtain di si where inst: "inst = (di, si)" by (cases inst)
  show ?case
    unfolding inst prod.case fst_conv snd_conv
    by (rule emits_stage [OF emits_alloc_device quiet_alloc_device],
        rule emits_stage [OF emits_alloc_subdevice quiet_alloc_subdevice],
        rule emits_run_probe_device)
qed

section \<open>main\<close>

text \<open>The device index the command line asks for; \<open>None\<close> is a usage error.\<close>

definition wanted_index :: "string list \<Rightarrow> int option" where
  "wanted_index argv = (if length argv = 2 then parse_device_index (argv ! 1) else None)"

text \<open>The contract of the probe: protocol, descriptors, output, exit status.\<close>

definition main_ok :: "int option \<Rightarrow> int \<Rightarrow> event list \<Rightarrow> bool" where
  "main_ok wanted rc evs \<longleftrightarrow>
     fd_run {#} evs = Some {#} \<and>
     (case wanted of
        None \<Rightarrow> rc = 2 \<and> (\<exists>s. evs = [EvErr s])
      | Some i \<Rightarrow> accepted i Start evs \<and>
          (stdout_of evs = [] \<and> rc = 1 \<or> (\<exists>d. reports i d rc (stdout_of evs))))"

lemma emits_cleanup:
  "emits (cleanup K dev ctl rc) (\<lambda>rc' evs. rc' = rc \<and>
     evs = (if dev \<ge> 0 then [EvClose dev] else []) @ (if ctl \<ge> 0 then [EvClose ctl] else []))"
  unfolding cleanup_def by (auto intro!: emit)

lemma parse_device_index_range: "parse_device_index s = Some i \<Longrightarrow> 0 \<le> i \<and> i \<le> 127"
  by (auto simp: parse_device_index_def split: option.splits if_splits)

lemma device_path_short: "0 \<le> i \<Longrightarrow> i \<le> 127 \<Longrightarrow> length (''/dev/nvidia'' @ show_int i) \<le> 14"
  using length_digs [of 10 3 "nat i"] by (simp add: show_int_def)

lemma device_path:
  assumes "0 \<le> i" and "i \<le> 127"
  shows "snprintf 32 (printf ''/dev/nvidia%d'' [FInt i]) =
    Some (''/dev/nvidia'' @ show_int i, length (''/dev/nvidia'' @ show_int i))"
  using device_path_short [OF assms] by (simp add: snprintf_def)

lemma device_run_closed:
  assumes "device_run i st ctl rc evs"
  shows "accepted i st (evs @ [EvClose a, EvClose b])"
    and "fd_run {#dev, ctl#} (evs @ [EvClose dev, EvClose ctl]) = Some {#}"
    and "stdout_of evs = [] \<and> rc = 1 \<or> (\<exists>d. reports i d rc (stdout_of evs))"
  using assms
  by (auto simp: device_run_def accepted_def session.run_append fd.run_append fd_run_neutral)

lemma emits_probe_main: "emits (probe_main K argv) (main_ok (wanted_index argv))"
proof (cases "wanted_index argv")
  case None
  then have "probe_main K argv = usage (if argv = [] then ''(null)'' else argv ! 0)"
    by (auto simp: probe_main_def wanted_index_def split: option.splits if_splits)
  with None show ?thesis
    by (auto simp: usage_def main_ok_def intro!: emit)
next
  case (Some i)
  then have l: "length argv = 2" and i: "parse_device_index (argv ! 1) = Some i"
    by (auto simp: wanted_index_def split: if_splits)
  note r = parse_device_index_range [OF i]
  note p = device_path [OF r [THEN conjunct1] r [THEN conjunct2]]
  show ?thesis
    unfolding probe_main_def main_ok_def Some register_device_fd_def option.case
    using l i
    apply (simp only: p numeral_2_eq_2 option.case prod.case simp_thms if_False)
    apply (auto intro!: emit emits_mono [OF emits_cleanup] emits_bindI [OF emits_probe_device])
        apply (simp_all add: requests device_run_closed)
     apply (drule device_run_closed(3), blast)+
    done
qed

text \<open>
  C2. The session protocol: for every command line and every behaviour of the kernel, the run opens
  only \<open>/dev/nvidiactl\<close> and the wanted \<open>/dev/nvidiaN\<close>, registers the second with the first, and each
  request then carries the client, card, instance, device and subdevice handles that the earlier
  answers gave; the card is the first valid one with the wanted minor number, and the last phase
  has only GET controls on the subdevice.
\<close>

theorem probe_keeps_session:
  "session_run (case wanted_index argv of None \<Rightarrow> 0 | Some i \<Rightarrow> i) Start
     (trace_of (probe_main K argv) w) \<noteq> None"
  using emits_traceD [OF emits_probe_main [of K argv], of w]
  by (auto simp: main_ok_def accepted_def split: option.splits)

text \<open>
  C17. Every descriptor the run opens is closed exactly once, and none is used when it is not open,
  on every path through \<open>main\<close>.
\<close>

theorem probe_closes_descriptors: "fd_run {#} (trace_of (probe_main K argv) w) = Some {#}"
  using emits_traceD [OF emits_probe_main [of K argv], of w] by (simp add: main_ok_def)

text \<open>A request that reads state: the set-up requests, and GET controls.\<close>

definition get_only :: "event \<Rightarrow> bool" where
  "get_only ev = (case ev of
     EvIoctl fd req bufs rc e bufs' \<Rightarrow>
       req \<in> {REGISTER_FD_request, CARD_INFO_request, RM_ALLOC21_request}
       \<or> req = RM_ALLOC64_request \<and>
           get32 (foff NVOS64_PARAMETERS ''hClass'') (bufs ! 0) \<in> {NV01_DEVICE_0, NV20_SUBDEVICE_0}
       \<or> req = RM_CONTROL_request \<and>
           get32 (foff NVOS54_PARAMETERS ''cmd'') (bufs ! 0)
             \<in> insert NV0000_CTRL_CMD_GPU_GET_ID_INFO_V2 (set probe_commands)
   | EvOpen path flags fd \<Rightarrow> True | EvClose fd \<Rightarrow> True | EvOut s \<Rightarrow> True | EvErr s \<Rightarrow> True
   | _ \<Rightarrow> False)"

lemma session_step_get_only: "session_step i st ev = Some st' \<Longrightarrow> get_only ev"
  by (auto simp: session_step_def session_ioctl_def get_only_def Let_def alloc_fields_def
      control_fields_def split: event.splits session.splits if_splits)

lemma accepted_get_only: "accepted i st evs \<Longrightarrow> list_all get_only evs"
  by (induction evs arbitrary: st) (auto split: option.splits dest: session_step_get_only)


text \<open>
  C12. The exit status and the output of \<open>main\<close>: a wrong command line gives status 2 and no output;
  otherwise the run either writes nothing and gives 1, or it writes the complete JSON report of
  some data and gives 0 exactly when the issue-rate control of one of the two ABIs succeeded.
\<close>

theorem probe_outcome:
  "case wanted_index argv of
     None \<Rightarrow> result_of (probe_main K argv) w = 2 \<and> stdout_of (trace_of (probe_main K argv) w) = []
   | Some i \<Rightarrow>
       (result_of (probe_main K argv) w, stdout_of (trace_of (probe_main K argv) w)) = (1, []) \<or>
       (\<exists>d. json_of (stdout_of (trace_of (probe_main K argv) w)) = Some (report_json d i) \<and>
            result_of (probe_main K argv) w =
              (if rm_ok (v1_result d) \<or> rm_ok (v2_result d) then 0 else 1))"
  using emits_traceD [OF emits_probe_main [of K argv], of w]
  by (auto simp: main_ok_def reports_def exit_status_def split: option.splits)

section \<open>The device index\<close>

text \<open>
  C38. A device index printed in decimal is read back, and exactly the indices 0 to 127 are taken.
\<close>

theorem parse_device_index_show:
  "parse_device_index (show_int i) = (if 0 \<le> i \<and> i \<le> 127 then Some i else None)"
  by (auto simp: parse_device_index_def strtol10_show_int)

end
