(* ===== verification/Mapping_Test.thy ===== *)
theory Mapping_Test
  imports Rm_Session
begin

text \<open>
  \<open>tests/test_rm_mapping.c\<close>: the mock of the driver's requests and the checks of the test, run on the
  model of the probe.  The world of the mock is whether every \<open>assert\<close> inside \<open>mock_ioctl\<close> held.
\<close>

section \<open>The mock\<close>

definition mock_cards :: "bytes \<Rightarrow> bytes" where
  "mock_cards cards =
     poke 1 (foff nv_ioctl_card_info_t ''pci_info'' + foff nv_pci_info_t ''bus'') 4
       (poke32 (foff nv_ioctl_card_info_t ''gpu_id'') 0x12345678
         (poke32 (foff nv_ioctl_card_info_t ''minor_number'') 2
           (poke 1 (foff nv_ioctl_card_info_t ''valid'') 1 cards)))"

definition mock_ioctl :: "nat \<Rightarrow> int \<Rightarrow> u64 \<Rightarrow> bytes list \<Rightarrow> bool \<Rightarrow> (int \<times> int \<times> bytes list) \<times> bool" where
  "mock_ioctl failure fd request bufs w =
     (if IOC_NR request = NV_ESC_CARD_INFO then
        (if failure = 1 then ((- 1, 5, bufs), w) else ((0, 0, [mock_cards (bufs ! 0)]), w))
      else if IOC_NR request = NV_ESC_RM_CONTROL then
        (let control = bufs ! 0; info = bufs ! 1 in
         ((0, 0,
           [poke32 (foff NVOS54_PARAMETERS ''status'') (if failure = 2 then 0x22 else 0) control,
            poke32 (foff NV0000_CTRL_GPU_GET_ID_INFO_V2_PARAMS ''subDeviceInstance'') 3
              (poke32 (foff NV0000_CTRL_GPU_GET_ID_INFO_V2_PARAMS ''deviceInstance'') 7 info)]),
          w \<and> get32 (foff NVOS54_PARAMETERS ''cmd'') control = NV0000_CTRL_CMD_GPU_GET_ID_INFO_V2
            \<and> get32 (foff NV0000_CTRL_GPU_GET_ID_INFO_V2_PARAMS ''gpuId'') info = 0x12345678))
      else if IOC_NR request = NV_ESC_RM_ALLOC then
        (let allocation = bufs ! 0; params = bufs ! 1 in
         ((0, 0, [poke32 (foff NVOS64_PARAMETERS ''hObjectNew'') 10 allocation, params]),
          w \<and> (if get32 (foff NVOS64_PARAMETERS ''hClass'') allocation = NV01_DEVICE_0
                then get32 (foff NV0080_ALLOC_PARAMETERS ''deviceId'') params = 7
                else get32 (foff NVOS64_PARAMETERS ''hClass'') allocation = NV20_SUBDEVICE_0 \<and>
                  get32 (foff NV2080_ALLOC_PARAMETERS ''subDeviceId'') params = 3)))
      else ((- 1, 0, bufs), False))"

text \<open>The test calls only ioctls; the other calls fail.\<close>

definition mock_kernel :: "nat \<Rightarrow> bool kernel" where
  "mock_kernel failure = \<lparr>
     k_open = \<lambda>path flags w. ((- 1, 2), w), k_close = \<lambda>fd w. w, k_ioctl = mock_ioctl failure,
     k_fopen = \<lambda>path w. ((None, 2), w), k_fgets = \<lambda>f n w. ((None, 0), w), k_fclose = \<lambda>f w. w,
     k_mmap = \<lambda>fd len w. ((None, 12), w), k_munmap = \<lambda>a len w. w,
     k_load32 = \<lambda>a w. (0, w), k_store32 = \<lambda>a v w. w, k_strerror = \<lambda>e. ''error''\<rparr>"

section \<open>The checks\<close>

definition test_main :: "(bool, bool) proc" where
  "test_main = do {
     r \<leftarrow> resolve_device_instances (mock_kernel 0) (- 1) 1 2;
     (case r of None \<Rightarrow> ret False | Some (device, subdevice) \<Rightarrow> do {
       d \<leftarrow> alloc_device (mock_kernel 0) (- 1) 1 (sint device);
       (case d of None \<Rightarrow> ret False | Some object \<Rightarrow> do {
         s \<leftarrow> alloc_subdevice (mock_kernel 0) (- 1) 1 object subdevice;
         r1 \<leftarrow> resolve_device_instances (mock_kernel 0) (- 1) 1 1;
         r2 \<leftarrow> resolve_device_instances (mock_kernel 1) (- 1) 1 2;
         r3 \<leftarrow> resolve_device_instances (mock_kernel 2) (- 1) 1 2;
         ret ((device, subdevice) = (7, 3) \<and> s \<noteq> None \<and> r1 = None \<and> r2 = None \<and> r3 = None)
       })
     })
   }"

section \<open>They pass\<close>

lemma mock_card_0: "read_card (mock_cards (replicate 9216 0)) 0 =
    Some \<lparr>valid = 1, domain = 0, bus = 4, slot = 0, pci_function = 0, gpu_id = 0x12345678, minor_number = 2\<rparr>"
  by (simp add: read_card_def mock_cards_def peek_poke)

lemma peek_mock_other:
  "72 \<le> o1 \<Longrightarrow> o1 + n \<le> 9216 \<Longrightarrow> peek n o1 (mock_cards (replicate 9216 0)) = Some 0"
  by (simp add: mock_cards_def poke32_def peek_poke_other peek_replicate_0)

lemma mock_card_other:
  assumes "0 < i" and "i < 128"
  shows "\<exists>cd. read_card (mock_cards (replicate 9216 0)) i = Some cd \<and> valid cd = 0"
proof -
  have "72 \<le> i * 72" "i * 72 + 72 \<le> 9216" using assms by simp_all
  then show ?thesis by (simp add: read_card_def peek8_def peek32_def peek_mock_other Let_def)
qed

lemma resolve_no_match:
  "\<forall>i \<in> set is. \<exists>cd. read_card cards i = Some cd \<and> \<not> card_matches minor cd \<Longrightarrow>
     runs (resolve_cards K ctl c minor cards is) w None w"
proof (induction "is")
  case Nil
  show ?case unfolding resolve_cards.simps by (rule runs_bind [OF runs_err runs_return])
next
  case (Cons i "is")
  then obtain cd where "read_card cards i = Some cd" "\<not> card_matches minor cd" by auto
  with Cons show ?case by (simp add: card_matches_def)
qed

lemma card_list: "[0..<128] = 0 # [Suc 0..<128]"
  by (simp add: upt_conv_Cons)

lemma request_numbers:
  "IOC_NR CARD_INFO_request = NV_ESC_CARD_INFO" "IOC_NR RM_CONTROL_request = NV_ESC_RM_CONTROL"
  "IOC_NR RM_ALLOC64_request = NV_ESC_RM_ALLOC"
  by (simp_all add: IOC_NR_def NV_ESC_CARD_INFO_def NV_ESC_RM_CONTROL_def NV_ESC_RM_ALLOC_def)

lemmas mock = mock_kernel_def mock_ioctl_def request_numbers NV_ESC_CARD_INFO_def NV_ESC_RM_CONTROL_def
  NV_ESC_RM_ALLOC_def NV01_DEVICE_0_def NV20_SUBDEVICE_0_def

lemma length_mock_cards [simp]: "length (mock_cards (replicate 9216 0)) = 9216"
  by (simp add: mock_cards_def)

lemma runs_ioctl:
  "k_ioctl K fd req bufs w = ((rc, e, rs), w') \<Longrightarrow> runs (sys_ioctl K fd req bufs) w (rc, e, overlays bufs rs) w'"
  by (simp add: runs_def sys_ioctl_def Let_def)

lemma runs_card_info:
  assumes "failure \<noteq> 1"
    and "runs (resolve_cards (mock_kernel failure) ctl c minor (mock_cards (replicate 9216 0)) [0..<128]) w r w'"
  shows "runs (resolve_device_instances (mock_kernel failure) ctl c minor) w r w'"
  unfolding resolve_device_instances_def
proof (rule runs_bind [OF runs_ioctl])
  show "k_ioctl (mock_kernel failure) ctl CARD_INFO_request [replicate (128 * csize nv_ioctl_card_info_t) 0] w
      = ((0, 0, [mock_cards (replicate 9216 0)]), w)"
    using assms(1) by (simp add: mock del: request_values)
qed (use assms(2) in simp)

lemma no_card:
  assumes "word_of_int minor \<noteq> (2 :: u32)"
  shows "runs (resolve_device_instances (mock_kernel 0) ctl c minor) w None w"
proof (rule runs_card_info)
  have "\<forall>i \<in> set [0..<128]. \<exists>cd. read_card (mock_cards (replicate 9216 0)) i = Some cd \<and>
      \<not> card_matches minor cd"
  proof
    fix i :: nat assume "i \<in> set [0..<128]"
    then consider "i = 0" | "0 < i" "i < 128" by fastforce
    then show "\<exists>cd. read_card (mock_cards (replicate 9216 0)) i = Some cd \<and> \<not> card_matches minor cd"
      using assms mock_card_other [of i] mock_card_0 by cases (auto simp: card_matches_def)
  qed
  then show "runs (resolve_cards (mock_kernel 0) ctl c minor (mock_cards (replicate 9216 0)) [0..<128]) w None w"
    by (rule resolve_no_match)
qed simp

lemma card_request_fails: "runs (resolve_device_instances (mock_kernel 1) ctl c minor) w None w"
  unfolding resolve_device_instances_def
  by (rule runs_bind [OF runs_ioctl [where rc = "- 1" and e = 5 and w' = w]])
    (auto simp: mock intro!: runs_bind [OF runs_err] runs_return simp del: request_values)

lemma lookup_mock:
  assumes "failure \<noteq> 1"
  shows "runs (resolve_device_instances (mock_kernel failure) ctl c 2) w
    (if failure = 2 then None else Some (7, 3)) w"
proof (rule runs_card_info [OF assms])
  show "runs (resolve_cards (mock_kernel failure) ctl c 2 (mock_cards (replicate 9216 0)) [0..<128]) w
    (if failure = 2 then None else Some (7, 3)) w"
    unfolding card_list resolve_cards.simps mock_card_0 rm_control_def
    by (cases "failure = 2")
      (auto simp: runs_def sys_ioctl_def err_def tell_def Let_def mock rm_ok_def
        NV0000_CTRL_CMD_GPU_GET_ID_INFO_V2_def simp del: request_values upt_rec_numeral)
qed

lemma alloc_device_mock: "runs (alloc_device (mock_kernel 0) ctl c (sint (7 :: u32))) w (Some 10) w"
  unfolding alloc_device_def Let_def
  by (rule runs_bind [OF runs_ioctl]) (auto simp: mock Let_def intro!: runs_return simp del: request_values)

lemma alloc_subdevice_mock: "runs (alloc_subdevice (mock_kernel 0) ctl c d 3) w (Some 10) w"
  unfolding alloc_subdevice_def Let_def
  by (rule runs_bind [OF runs_ioctl]) (auto simp: mock Let_def intro!: runs_return simp del: request_values)

text \<open>
  Minor 2 resolves to instances 7 and 3, which the allocations then use; a minor without a card, a failing
  card request and a failing lookup each give no instances; and no \<open>assert\<close> inside the mock fails.
\<close>

lemma mapping_test_holds: "result_of test_main True \<and> world_of test_main True"
proof -
  have l0: "runs (resolve_device_instances (mock_kernel 0) (- 1) 1 2) True (Some (7, 3)) True"
    using lookup_mock [of 0] by simp
  have l2: "runs (resolve_device_instances (mock_kernel 2) (- 1) 1 2) True None True"
    using lookup_mock [of 2] by simp
  have n: "runs (resolve_device_instances (mock_kernel 0) (- 1) 1 1) True None True"
    by (rule no_card) simp
  have "runs test_main True
      (((7, 3) :: u32 \<times> u32) = (7, 3) \<and> Some (10 :: u32) \<noteq> None \<and> (None :: (u32 \<times> u32) option) = None \<and>
       (None :: (u32 \<times> u32) option) = None \<and> (None :: (u32 \<times> u32) option) = None) True"
    unfolding test_main_def
    apply (rule runs_bind [OF l0])
    unfolding option.case prod.case
    apply (rule runs_bind [OF alloc_device_mock])
    unfolding option.case
    by (rule runs_bind [OF alloc_subdevice_mock], rule runs_bind [OF n],
        rule runs_bind [OF card_request_fails], rule runs_bind [OF l2], rule runs_return)
  then show ?thesis using runsD by fastforce
qed

end
