(* ===== verification/Bar0.thy ===== *)
theory Bar0
  imports Process
begin

text \<open>
  What \<open>tools/cmp50-bar0-gen2-prepare.c\<close> and \<open>tools/cmp50-bar0-link-rate.c\<close> have in common: the
  constants, leaving \<open>main\<close> through \<open>exit\<close>, the four identity files of a PCI device, the list of
  boards that may be touched, and the contract of such a tool as an automaton over its events.
  The locale \<open>sysfs_reader\<close> is the interface between the tools and their \<open>read_sysfs_hex\<close>.
\<close>

section \<open>Shared code\<close>

definition BAR0_MAP_SIZE :: nat where "BAR0_MAP_SIZE = 0x90000"

text \<open>\<open>exit(code)\<close> inside a callee is \<open>Inl code\<close>; the caller stops with that status.\<close>

definition or_exit :: "('w, int + 'a) proc \<Rightarrow> ('a \<Rightarrow> ('w, int) proc) \<Rightarrow> ('w, int) proc" where
  "or_exit m f = do { r \<leftarrow> m; (case r of Inl code \<Rightarrow> ret code | Inr x \<Rightarrow> f x) }"

text \<open>The four fields both tools read, in their order.\<close>

definition read_identity ::
  "('w kernel \<Rightarrow> string \<Rightarrow> string \<Rightarrow> ('w, int + u64) proc) \<Rightarrow> 'w kernel \<Rightarrow> string \<Rightarrow>
     (u64 \<Rightarrow> u64 \<Rightarrow> u64 \<Rightarrow> u64 \<Rightarrow> ('w, int) proc) \<Rightarrow> ('w, int) proc" where
  "read_identity rd K device_dir f =
     or_exit (rd K device_dir ''vendor'') (\<lambda>vendor.
     or_exit (rd K device_dir ''device'') (\<lambda>device.
     or_exit (rd K device_dir ''subsystem_vendor'') (\<lambda>subsystem_vendor.
     or_exit (rd K device_dir ''subsystem_device'') (\<lambda>subsystem_device.
     f vendor device subsystem_vendor subsystem_device))))"

definition supported :: "u64 \<Rightarrow> u64 \<Rightarrow> u64 \<Rightarrow> u64 \<Rightarrow> bool" where
  "supported vendor device subsystem_vendor subsystem_device \<longleftrightarrow>
     \<not> (vendor \<noteq> 0x10de \<or> device \<noteq> 0x1e09 \<or>
        \<not> ((subsystem_vendor = 0x10de \<and> subsystem_device = 0x1554) \<or>
           (subsystem_vendor = 0x1462 \<and> subsystem_device = 0x371f)))"

text \<open>The device directory of a command line.\<close>

definition pci_dir :: "string \<Rightarrow> string" where
  "pci_dir bdf = ''/sys/bus/pci/devices/'' @ bdf"

section \<open>The contract\<close>

definition identity_fields :: "string list" where
  "identity_fields = [''vendor'', ''device'', ''subsystem_vendor'', ''subsystem_device'']"

definition supported_list :: "u64 list \<Rightarrow> bool" where
  "supported_list vs \<longleftrightarrow>
     vs \<in> {[0x10de, 0x1e09, 0x10de, 0x1554], [0x10de, 0x1e09, 0x1462, 0x371f]}"

lemma supported_list: "supported_list [a, b, c, d] \<longleftrightarrow> supported a b c d"
  by (auto simp: supported_list_def supported_def)

text \<open>
  The states of a run: between two identity files with the values read so far, with an open
  stream, after its line; then the resource file, its mapping, and the read-modify-write with its
  fences; \<open>Released\<close> has only the descriptor left, \<open>Finished\<close> nothing.
\<close>

datatype tool =
    Sysfs "u64 list"
  | File "u64 list" nat
  | Line "u64 list" nat "string option"
  | Resource int
  | Mapped int nat
  | Before int nat u32
  | Armed int nat u32
  | Stored int nat u32
  | Settled int nat u32
  | After int nat int
  | Released int int
  | Finished int

definition sysfs_value :: "string \<Rightarrow> u64 option" where
  "sysfs_value text1 =
     (case strtoul0 text1 of Some (v, False, rest) \<Rightarrow> Some v | _ \<Rightarrow> None)"

text \<open>
  One event: \<open>dir\<close> is the device directory, \<open>off\<close> the register's offset, \<open>upd\<close> the value to
  write for the value read.
\<close>

definition tool_step :: "string \<Rightarrow> nat \<Rightarrow> (u32 \<Rightarrow> u32) \<Rightarrow> tool \<Rightarrow> event \<Rightarrow> tool option" where
  "tool_step dir off upd st ev =
     (case ev of
        EvErr s \<Rightarrow> Some st
      | EvFopen path file \<Rightarrow>
          (case st of
             Sysfs vs \<Rightarrow>
               if length vs < 4 \<and> path = dir @ ''/'' @ identity_fields ! length vs
               then Some (case file of None \<Rightarrow> Finished 2 | Some f \<Rightarrow> File vs f) else None
           | _ \<Rightarrow> None)
      | EvFgets file n line \<Rightarrow>
          (case st of
             File vs f \<Rightarrow>
               if file = f \<and> n = 64 then Some (Line vs f line) else None
           | _ \<Rightarrow> None)
      | EvFclose file \<Rightarrow>
          (case st of
             Line vs f t \<Rightarrow>
               if file = f
               then Some (case Option.bind t sysfs_value of None \<Rightarrow> Finished 2 | Some v \<Rightarrow> Sysfs (vs @ [v])) else None
           | _ \<Rightarrow> None)
      | EvOpen path flags fd \<Rightarrow>
          (case st of
             Sysfs vs \<Rightarrow>
               if supported_list vs \<and> path = dir @ ''/resource0'' \<and> flags = O_RDWR + O_SYNC
               then Some (if fd < 0 then Finished 4 else Resource fd) else None
           | _ \<Rightarrow> None)
      | EvMmap fd len base \<Rightarrow>
          (case st of
             Resource fd' \<Rightarrow>
               if fd = fd' \<and> len = BAR0_MAP_SIZE
               then Some (case base of None \<Rightarrow> Released fd 4 | Some a \<Rightarrow> Mapped fd a) else None
           | _ \<Rightarrow> None)
      | EvLoad a v \<Rightarrow>
          (case st of
             Mapped fd base \<Rightarrow>
               if a = base + off \<and> off + 4 \<le> BAR0_MAP_SIZE
               then Some (if v = - 1 then After fd base 5 else Before fd base v) else None
           | Settled fd base before \<Rightarrow>
               if a = base + off then Some (After fd base (if v = upd before then 0 else 5)) else None
           | _ \<Rightarrow> None)
      | EvBarrier \<Rightarrow>
          (case st of
             Before fd base before \<Rightarrow> Some (Armed fd base before)
           | Stored fd base before \<Rightarrow> Some (Settled fd base before)
           | _ \<Rightarrow> None)
      | EvStore a v \<Rightarrow>
          (case st of
             Armed fd base before \<Rightarrow>
               if a = base + off \<and> v = upd before then Some (Stored fd base before) else None
           | _ \<Rightarrow> None)
      | EvOut s \<Rightarrow> (case st of After fd base code \<Rightarrow> Some st | _ \<Rightarrow> None)
      | EvMunmap a len \<Rightarrow>
          (case st of
             After fd base code \<Rightarrow>
               if a = base \<and> len = BAR0_MAP_SIZE then Some (Released fd code) else None
           | _ \<Rightarrow> None)
      | EvClose fd \<Rightarrow>
          (case st of Released fd' code \<Rightarrow> if fd = fd' then Some (Finished code) else None | _ \<Rightarrow> None)
      | EvIoctl fd req bufs rc e bufs' \<Rightarrow> None
      | EvFault \<Rightarrow> None)"

fun tool_run :: "string \<Rightarrow> nat \<Rightarrow> (u32 \<Rightarrow> u32) \<Rightarrow> tool \<Rightarrow> event list \<Rightarrow> tool option" where
  "tool_run dir off upd st [] = Some st"
| "tool_run dir off upd st (ev # evs) =
     Option.bind (tool_step dir off upd st ev) (\<lambda>st'. tool_run dir off upd st' evs)"

text \<open>
  Where a run may end and with which status: nothing is held, and the status tells the reason.
\<close>

definition tool_exit :: "tool \<Rightarrow> int \<Rightarrow> bool" where
  "tool_exit st code \<longleftrightarrow>
     (case st of
        Finished c \<Rightarrow> code = c
      | Sysfs vs \<Rightarrow> if length vs = 4 then \<not> supported_list vs \<and> code = 3 else code = 2
      | _ \<Rightarrow> False)"

definition tool_ok :: "string \<Rightarrow> nat \<Rightarrow> (u32 \<Rightarrow> u32) \<Rightarrow> tool \<Rightarrow> int \<Rightarrow> event list \<Rightarrow> bool" where
  "tool_ok dir off upd st code evs \<longleftrightarrow>
     (\<exists>st'. tool_run dir off upd st evs = Some st' \<and> tool_exit st' code)"

interpretation tool: acceptor "tool_step dir off upd" "tool_run dir off upd"
    "\<lambda>st. tool_exit st code" "\<lambda>st. tool_ok dir off upd st code"
  for dir off upd code
  by unfold_locales (auto simp: tool_ok_def split: option.splits)

section \<open>The interface to the reader\<close>

text \<open>
  The law of a \<open>read_sysfs_hex\<close>: reading the next identity field takes the run to the next value,
  or ends it with status 2 and no stream left open (a path that is too long opens none).
\<close>

definition reads_field :: "string \<Rightarrow> string \<Rightarrow> int + u64 \<Rightarrow> event list \<Rightarrow> bool" where
  "reads_field dir name r evs \<longleftrightarrow>
     (\<forall>off upd vs. length vs < 4 \<longrightarrow> name = identity_fields ! length vs \<longrightarrow>
        (case r of
           Inl code \<Rightarrow> code = 2 \<and>
             tool_run dir off upd (Sysfs vs) evs \<in> {Some (Finished 2), Some (Sysfs vs)}
         | Inr v \<Rightarrow> tool_run dir off upd (Sysfs vs) evs = Some (Sysfs (vs @ [v]))))"

locale sysfs_reader =
  fixes rd :: "'w kernel \<Rightarrow> string \<Rightarrow> string \<Rightarrow> ('w, int + u64) proc"
  assumes reads: "name \<in> set identity_fields \<Longrightarrow> emits (rd K dir name) (reads_field dir name)"
begin

lemma emits_field:
  assumes "name = identity_fields ! length vs" and "length vs < 4"
    and "\<And>v. emits (f v) (tool_ok dir off upd (Sysfs (vs @ [v])))"
  shows "emits (or_exit (rd K dir name) f) (tool_ok dir off upd (Sysfs vs))"
proof -
  have n: "name \<in> set identity_fields"
    using assms(1,2) nth_mem [of "length vs" identity_fields] by (simp add: identity_fields_def)
  show ?thesis
    unfolding or_exit_def
  proof (rule emits_bindI [OF reads [OF n]])
    fix r e1 assume r: "reads_field dir name r e1"
    show "emits (case r of Inl code \<Rightarrow> ret code | Inr x \<Rightarrow> f x)
        (\<lambda>y e2. tool_ok dir off upd (Sysfs vs) y (e1 @ e2))"
    proof (cases r)
      case (Inl code)
      with r assms have "tool_run dir off upd (Sysfs vs) e1 = Some (Finished 2) \<or>
          tool_run dir off upd (Sysfs vs) e1 = Some (Sysfs vs)" "code = 2"
        by (auto simp: reads_field_def)
      with Inl assms(2) show ?thesis by (auto simp: emits_return tool.ok_append tool_exit_def)
    next
      case (Inr v)
      with r assms have "tool_run dir off upd (Sysfs vs) e1 = Some (Sysfs (vs @ [v]))"
        by (auto simp: reads_field_def)
      with Inr assms(3) [of v] show ?thesis by (simp add: tool.ok_append)
    qed
  qed
qed

lemma emits_identity:
  assumes "\<And>a b c d. emits (f a b c d) (tool_ok dir off upd (Sysfs [a, b, c, d]))"
  shows "emits (read_identity rd K dir f) (tool_ok dir off upd (Sysfs []))"
  unfolding read_identity_def
  by (intro emits_field) (use assms in \<open>simp_all add: identity_fields_def\<close>)

end

end
