(* ===== verification/Gen2_Prepare.thy ===== *)
theory Gen2_Prepare
  imports Bar0
begin

text \<open>
  \<open>tools/cmp50-bar0-gen2-prepare.c\<close>: write the Gen2 policy bits of \<open>PL_LINK_RATE\<close> through BAR0 of a
  supported board, and check that they stuck.
\<close>

section \<open>The program\<close>

definition PL_LINK_RATE_OFFSET :: nat where "PL_LINK_RATE_OFFSET = 0x8c1c0"
definition PL_LINK_RATE_POLICY_MASK :: u32 where "PL_LINK_RATE_POLICY_MASK = 0x00160000"
definition PL_LINK_RATE_GEN2 :: u32 where "PL_LINK_RATE_GEN2 = 0x00040000"

definition gen2_desired :: "u32 \<Rightarrow> u32" where
  "gen2_desired before = (before AND NOT PL_LINK_RATE_POLICY_MASK) OR PL_LINK_RATE_GEN2"

definition gen2_read_sysfs_hex :: "'w kernel \<Rightarrow> string \<Rightarrow> string \<Rightarrow> ('w, int + u64) proc" where
  "gen2_read_sysfs_hex K device_dir name =
     (case snprintf 512 (printf ''%s/%s'' [FStr device_dir, FStr name]) of
        None \<Rightarrow> do { tell EvFault; ret (Inl 2) }
      | Some (path, n) \<Rightarrow>
          if n \<ge> 512 then ret (Inl 2)
          else do {
            (file, e) \<leftarrow> sys_fopen K path;
            (case file of
               None \<Rightarrow> do {
                 err (printf ''cannot read %s: %s\<newline>'' [FStr path, FStr (k_strerror K e)]);
                 ret (Inl 2)
               }
             | Some f \<Rightarrow> do {
                 (line, e') \<leftarrow> sys_fgets K f 64;
                 (case line of
                    None \<Rightarrow> do {
                      err (printf ''cannot read %s: %s\<newline>'' [FStr path, FStr (k_strerror K e')]);
                      sys_fclose K f;
                      ret (Inl 2)
                    }
                  | Some text1 \<Rightarrow> do {
                      sys_fclose K f;
                      (case strtoul0 text1 of
                         None \<Rightarrow> ret (Inl 2)
                       | Some (v, erange, rest) \<Rightarrow> if erange then ret (Inl 2) else ret (Inr v))
                    })
               })
          })"

text \<open>\<open>main\<close> from the opened resource file on.\<close>

definition gen2_write :: "'w kernel \<Rightarrow> string \<Rightarrow> string \<Rightarrow> int \<Rightarrow> ('w, int) proc" where
  "gen2_write K bdf resource_path fd = do {
     (bar0, e) \<leftarrow> sys_mmap K fd BAR0_MAP_SIZE;
     (case bar0 of
        None \<Rightarrow> do {
          err (printf ''cannot map %s: %s\<newline>'' [FStr resource_path, FStr (k_strerror K e)]);
          sys_close K fd;
          ret 4
        }
      | Some base \<Rightarrow> do {
          before \<leftarrow> mmio_load K (base + PL_LINK_RATE_OFFSET);
          if before = - 1 then do {
            err (printf ''%s BAR0 is not responding; refusing write\<newline>'' [FStr bdf]);
            sys_munmap K base BAR0_MAP_SIZE;
            sys_close K fd;
            ret 5
          } else do {
            let desired = gen2_desired before;
            sync_synchronize;
            mmio_store K (base + PL_LINK_RATE_OFFSET) desired;
            sync_synchronize;
            after \<leftarrow> mmio_load K (base + PL_LINK_RATE_OFFSET);
            out (printf ''%s PL_LINK_RATE before=0x%08x desired=0x%08x after=0x%08x\<newline>''
              [FStr bdf, FUInt before, FUInt desired, FUInt after]);
            sys_munmap K base BAR0_MAP_SIZE;
            sys_close K fd;
            ret (if after = desired then 0 else 5)
          }
        })
   }"

definition gen2_device :: "'w kernel \<Rightarrow> string \<Rightarrow> string \<Rightarrow> ('w, int) proc" where
  "gen2_device K bdf device_dir =
     read_identity gen2_read_sysfs_hex K device_dir
       (\<lambda>vendor device subsystem_vendor subsystem_device.
         if \<not> supported vendor device subsystem_vendor subsystem_device then do {
           err (printf ''refusing unsupported PCI device\<newline>'' []);
           ret 3
         } else (case snprintf 544 (printf ''%s/resource0'' [FStr device_dir]) of
           None \<Rightarrow> do { tell EvFault; ret 2 }
         | Some (resource_path, n) \<Rightarrow>
             if n \<ge> 544 then ret 2
             else do {
               (fd, e) \<leftarrow> sys_open K resource_path (O_RDWR + O_SYNC);
               if fd < 0 then do {
                 err (printf ''cannot open %s: %s\<newline>'' [FStr resource_path, FStr (k_strerror K e)]);
                 ret 4
               } else gen2_write K bdf resource_path fd
             }))"

definition gen2_main :: "'w kernel \<Rightarrow> string list \<Rightarrow> ('w, int) proc" where
  "gen2_main K argv =
     (if length argv \<noteq> 3 \<or> argv ! 2 \<noteq> ''--apply'' then do {
        err (printf ''usage: %s DOMAIN:BUS:DEVICE.FUNCTION --apply\<newline>''
          [FStr (if argv = [] then ''(null)'' else argv ! 0)]);
        ret 2
      } else (case snprintf 512 (printf ''/sys/bus/pci/devices/%s'' [FStr (argv ! 1)]) of
        None \<Rightarrow> do { tell EvFault; ret 2 }
      | Some (device_dir, n) \<Rightarrow>
          if n \<ge> 512 then ret 2 else gen2_device K (argv ! 1) device_dir))"

section \<open>The reader keeps its contract\<close>

lemma reads_gen2: "name \<in> set identity_fields \<Longrightarrow>
  emits (gen2_read_sysfs_hex K dir name) (reads_field dir name)"
  unfolding gen2_read_sysfs_hex_def snprintf_def
  by (auto simp: reads_field_def tool_step_def sysfs_value_def split: option.splits intro!: emit)

interpretation gen2_reader: sysfs_reader gen2_read_sysfs_hex
  by unfold_locales (rule reads_gen2)

section \<open>The tool keeps its contract\<close>

lemma emits_gen2_write:
  "emits (gen2_write K bdf path fd) (tool_ok dir PL_LINK_RATE_OFFSET gen2_desired (Resource fd))"
  unfolding gen2_write_def Let_def
  by (auto simp: tool_step_def tool_exit_def PL_LINK_RATE_OFFSET_def BAR0_MAP_SIZE_def intro!: emit)

lemma emits_gen2_device:
  "length dir < 512 \<Longrightarrow>
     emits (gen2_device K bdf dir) (tool_ok dir PL_LINK_RATE_OFFSET gen2_desired (Sysfs []))"
  unfolding gen2_device_def snprintf_def
  by (rule gen2_reader.emits_identity)
    (auto simp: tool_step_def tool_exit_def supported_list
      intro!: emit emits_mono [OF emits_gen2_write])

lemma emits_gen2_main:
  "emits (gen2_main K argv)
     (tool_ok (pci_dir (argv ! 1)) PL_LINK_RATE_OFFSET gen2_desired (Sysfs []))"
proof -
  have "emits (gen2_device K (argv ! 1) (pci_dir (argv ! 1)))
     (tool_ok (pci_dir (argv ! 1)) PL_LINK_RATE_OFFSET gen2_desired (Sysfs []))"
    if "length (pci_dir (argv ! 1)) < 512"
    using that by (rule emits_gen2_device)
  then show ?thesis
    unfolding gen2_main_def snprintf_def
    by (auto simp: tool_step_def tool_exit_def pci_dir_def intro!: emit)
qed

text \<open>
  C3. For every command line and every behaviour of the kernel and the hardware, a run of
  \<open>cmp50-bar0-gen2-prepare\<close> keeps the tool contract: it reads the four identity fields, opens
  \<open>resource0\<close> only for a supported board, maps it once, touches only the \<open>PL_LINK_RATE\<close> register,
  stores once, only after a read that was not all ones, exactly the value with the Gen2 policy
  bits, between two barriers, reads it back, and always unmaps and closes; the exit status tells
  the reason, and is 0 exactly when the value read back is the value written.
\<close>

theorem gen2_main_contract:
  "\<exists>st. tool_run (pci_dir (argv ! 1)) PL_LINK_RATE_OFFSET gen2_desired (Sysfs [])
      (trace_of (gen2_main K argv) w) = Some st \<and> tool_exit st (result_of (gen2_main K argv) w)"
  using emits_traceD [OF emits_gen2_main [of K argv], of w] by (simp add: tool_ok_def)

text \<open>
  The value written: the policy field becomes Gen2, every other bit is kept, writing it again
  changes nothing, and the driver's own gate \<open>(v AND 0x00060000) == 0x00040000\<close> accepts it.
\<close>

lemma gen2_desired_bits:
  "gen2_desired v AND PL_LINK_RATE_POLICY_MASK = PL_LINK_RATE_GEN2 \<and>
   gen2_desired v AND NOT PL_LINK_RATE_POLICY_MASK = v AND NOT PL_LINK_RATE_POLICY_MASK \<and>
   gen2_desired (gen2_desired v) = gen2_desired v \<and>
   gen2_desired v AND 0x00060000 = 0x00040000"
proof -
  have m: "PL_LINK_RATE_GEN2 AND PL_LINK_RATE_POLICY_MASK = PL_LINK_RATE_GEN2"
    "PL_LINK_RATE_GEN2 AND NOT PL_LINK_RATE_POLICY_MASK = 0"
    "(NOT PL_LINK_RATE_POLICY_MASK) AND 0x00060000 = 0"
    "PL_LINK_RATE_GEN2 AND 0x00060000 = 0x00040000"
    by (simp_all add: PL_LINK_RATE_GEN2_def PL_LINK_RATE_POLICY_MASK_def)
  have z: "(v AND NOT PL_LINK_RATE_POLICY_MASK) AND 0x00060000 = 0"
    by (metis (no_types) m(3) bit.conj_zero_right and.assoc)
  show ?thesis
    by (simp add: gen2_desired_def bit.conj_disj_distrib2 m z and.assoc)
qed

end
