(* ===== verification/Link_Rate.thy ===== *)
theory Link_Rate
  imports Bar0
begin

text \<open>
  \<open>tools/cmp50-bar0-link-rate.c\<close>: write the link-rate register through BAR0 of a supported board,
  and check that the value stuck.
\<close>

section \<open>The program\<close>

definition LINK_RATE_OFFSET :: nat where "LINK_RATE_OFFSET = 0x8872c"

definition link_read_sysfs_hex :: "'w kernel \<Rightarrow> string \<Rightarrow> string \<Rightarrow> ('w, int + u64) proc" where
  "link_read_sysfs_hex K device_dir name =
     (case snprintf 512 (printf ''%s/%s'' [FStr device_dir, FStr name]) of
        None \<Rightarrow> do { tell EvFault; ret (Inl 2) }
      | Some (path, n) \<Rightarrow>
          if n \<ge> 512 then do { err (printf ''sysfs path is too long\<newline>'' []); ret (Inl 2) }
          else do {
            (file, e) \<leftarrow> sys_fopen K path;
            (case file of
               None \<Rightarrow> do {
                 err (printf ''cannot read %s: %s\<newline>'' [FStr path, FStr (k_strerror K e)]);
                 ret (Inl 2)
               }
             | Some f \<Rightarrow> do {
                 (line, e') \<leftarrow> sys_fgets K f 64;
                 (case line of
                    None \<Rightarrow> do {
                      err (printf ''cannot read %s: %s\<newline>'' [FStr path, FStr (k_strerror K e')]);
                      sys_fclose K f;
                      ret (Inl 2)
                    }
                  | Some text1 \<Rightarrow> do {
                      sys_fclose K f;
                      (case strtoul0 text1 of
                         None \<Rightarrow> do {
                           err (printf ''invalid value in %s\<newline>'' [FStr path]);
                           ret (Inl 2)
                         }
                       | Some (v, erange, rest) \<Rightarrow>
                           if erange then do {
                             err (printf ''invalid value in %s\<newline>'' [FStr path]);
                             ret (Inl 2)
                           } else ret (Inr v))
                    })
               })
          })"

definition link_supported :: "u64 \<Rightarrow> u64 \<Rightarrow> u64 \<Rightarrow> u64 \<Rightarrow> bool" where
  "link_supported vendor device subsystem_vendor subsystem_device \<longleftrightarrow>
     \<not> (vendor \<noteq> 0x10de \<or> device \<noteq> 0x1e09 \<or>
        \<not> ((subsystem_vendor = 0x10de \<and> subsystem_device = 0x1554) \<or>
           (subsystem_vendor = 0x1462 \<and> subsystem_device = 0x371f)))"

text \<open>\<open>main\<close> from the opened resource file on.\<close>

definition link_write :: "'w kernel \<Rightarrow> string \<Rightarrow> string \<Rightarrow> int \<Rightarrow> ('w, int) proc" where
  "link_write K bdf resource_path fd = do {
     (bar0, e) \<leftarrow> sys_mmap K fd BAR0_MAP_SIZE;
     (case bar0 of
        None \<Rightarrow> do {
          err (printf ''cannot map %s: %s\<newline>'' [FStr resource_path, FStr (k_strerror K e)]);
          sys_close K fd;
          ret 4
        }
      | Some base \<Rightarrow> do {
          before \<leftarrow> mmio_load K (base + LINK_RATE_OFFSET);
          if before = - 1 then do {
            err (printf ''%s BAR0 is not responding; refusing write\<newline>'' [FStr bdf]);
            sys_munmap K base BAR0_MAP_SIZE;
            sys_close K fd;
            ret 5
          } else do {
            sync_synchronize;
            mmio_store K (base + LINK_RATE_OFFSET) 6;
            sync_synchronize;
            after \<leftarrow> mmio_load K (base + LINK_RATE_OFFSET);
            out (printf ''%s BAR0+0x%05lx before=0x%08x after=0x%08x\<newline>''
              [FStr bdf, FULong (of_nat LINK_RATE_OFFSET), FUInt before, FUInt after]);
            sys_munmap K base BAR0_MAP_SIZE;
            sys_close K fd;
            ret (if after = 6 then 0 else 5)
          }
        })
   }"

definition link_device :: "'w kernel \<Rightarrow> string \<Rightarrow> string \<Rightarrow> ('w, int) proc" where
  "link_device K bdf device_dir =
     read_identity link_read_sysfs_hex K device_dir
       (\<lambda>vendor device subsystem_vendor subsystem_device.
         if \<not> link_supported vendor device subsystem_vendor subsystem_device then do {
           err (printf ''refusing unsupported PCI device %04lx:%04lx subsystem %04lx:%04lx\<newline>''
             [FULong vendor, FULong device, FULong subsystem_vendor, FULong subsystem_device]);
           ret 3
         } else (case snprintf 544 (printf ''%s/resource0'' [FStr device_dir]) of
           None \<Rightarrow> do { tell EvFault; ret 2 }
         | Some (resource_path, n) \<Rightarrow>
             if n \<ge> 544 then do { err (printf ''resource path is too long\<newline>'' []); ret 2 }
             else do {
               (fd, e) \<leftarrow> sys_open K resource_path (O_RDWR + O_SYNC);
               if fd < 0 then do {
                 err (printf ''cannot open %s: %s\<newline>'' [FStr resource_path, FStr (k_strerror K e)]);
                 ret 4
               } else link_write K bdf resource_path fd
             }))"

definition link_main :: "'w kernel \<Rightarrow> string list \<Rightarrow> ('w, int) proc" where
  "link_main K argv =
     (if length argv \<noteq> 2 then do {
        err (printf ''usage: %s DOMAIN:BUS:DEVICE.FUNCTION\<newline>''
          [FStr (if argv = [] then ''(null)'' else argv ! 0)]);
        ret 2
      } else (case snprintf 512 (printf ''/sys/bus/pci/devices/%s'' [FStr (argv ! 1)]) of
        None \<Rightarrow> do { tell EvFault; ret 2 }
      | Some (device_dir, n) \<Rightarrow>
          if n \<ge> 512 then do { err (printf ''PCI address is too long\<newline>'' []); ret 2 }
          else link_device K (argv ! 1) device_dir))"

section \<open>The reader keeps its contract\<close>

lemma reads_link: "name \<in> set identity_fields \<Longrightarrow>
  emits (link_read_sysfs_hex K dir name) (reads_field dir name)"
  unfolding link_read_sysfs_hex_def snprintf_def
  by (auto simp: reads_field_def tool_step_def sysfs_value_def split: option.splits intro!: emit)

interpretation link_reader: sysfs_reader link_read_sysfs_hex
  by unfold_locales (rule reads_link)

lemma link_supported_eq: "link_supported a b c d = supported a b c d"
  by (simp add: link_supported_def supported_def)

section \<open>The tool keeps its contract\<close>

lemma emits_link_write:
  "emits (link_write K bdf path fd) (tool_ok dir LINK_RATE_OFFSET (\<lambda>_. 6) (Resource fd))"
  unfolding link_write_def Let_def
  by (auto simp: tool_step_def tool_exit_def LINK_RATE_OFFSET_def BAR0_MAP_SIZE_def intro!: emit)

lemma emits_link_device:
  "length dir < 512 \<Longrightarrow>
     emits (link_device K bdf dir) (tool_ok dir LINK_RATE_OFFSET (\<lambda>_. 6) (Sysfs []))"
  unfolding link_device_def snprintf_def
  by (rule link_reader.emits_identity)
    (auto simp: tool_step_def tool_exit_def supported_list link_supported_eq
      intro!: emit emits_mono [OF emits_link_write])

lemma emits_link_main:
  "emits (link_main K argv)
     (tool_ok (pci_dir (argv ! 1)) LINK_RATE_OFFSET (\<lambda>_. 6) (Sysfs []))"
proof -
  have "emits (link_device K (argv ! 1) (pci_dir (argv ! 1)))
     (tool_ok (pci_dir (argv ! 1)) LINK_RATE_OFFSET (\<lambda>_. 6) (Sysfs []))"
    if "length (pci_dir (argv ! 1)) < 512"
    using that by (rule emits_link_device)
  then show ?thesis
    unfolding link_main_def snprintf_def
    by (auto simp: tool_step_def tool_exit_def pci_dir_def intro!: emit)
qed

text \<open>
  C13. The same contract for \<open>cmp50-bar0-link-rate\<close>, with its own register and the constant 6: only a
  supported board, one mapping, one guarded and fenced store, read back, everything released, and
  an exit status that is 0 exactly when 6 is read back.
\<close>

theorem link_main_contract:
  "\<exists>st. tool_run (pci_dir (argv ! 1)) LINK_RATE_OFFSET (\<lambda>_. 6) (Sysfs [])
      (trace_of (link_main K argv) w) = Some st \<and> tool_exit st (result_of (link_main K argv) w)"
  using emits_traceD [OF emits_link_main [of K argv], of w] by (simp add: tool_ok_def)

end
