(* ===== verification/Board.thy ===== *)
theory Board
  imports Gen2_Prepare Link_Rate
begin

text \<open>
  The two BAR0 tools side by side, and on a simulated board: a kernel whose sysfs files hold four
  given identity values and whose BAR0 is memory.  On such a board the tools do exactly what they
  are for, whatever the registers held.
\<close>

section \<open>The two copies agree\<close>

text \<open>
  C32. The two copies of \<open>read_sysfs_hex\<close> give the same value or the same exit status and leave the
  same world behind; the two copies of the board check accept the same boards.
\<close>

theorem tools_agree:
  "result_of (gen2_read_sysfs_hex K dir name) w = result_of (link_read_sysfs_hex K dir name) w \<and>
   world_of (gen2_read_sysfs_hex K dir name) w = world_of (link_read_sysfs_hex K dir name) w \<and>
   link_supported = supported"
  by (auto simp: result_of_def world_of_def gen2_read_sysfs_hex_def link_read_sysfs_hex_def snprintf_def
      running link_supported_eq fun_eq_iff split: prod.splits option.splits)

section \<open>A simulated board\<close>

definition sim_dir :: string where "sim_dir = pci_dir ''0000:04:00.0''"

definition sim_base :: nat where "sim_base = 0x7f0000000000"

definition sim_file :: "string \<Rightarrow> nat option" where
  "sim_file path =
     (if path = sim_dir @ ''/vendor'' then Some 0 else if path = sim_dir @ ''/device'' then Some 1
      else if path = sim_dir @ ''/subsystem_vendor'' then Some 2
      else if path = sim_dir @ ''/subsystem_device'' then Some 3 else None)"

definition sim_kernel :: "u64 list \<Rightarrow> (nat \<Rightarrow> u32) kernel" where
  "sim_kernel vs = \<lparr>
     k_open = \<lambda>path flags w. ((if path = sim_dir @ ''/resource0'' then 3 else - 1, 2), w),
     k_close = \<lambda>fd w. w,
     k_ioctl = \<lambda>fd req bufs w. ((- 1, 25, bufs), w),
     k_fopen = \<lambda>path w. ((sim_file path, 2), w),
     k_fgets = \<lambda>f n w. ((Some (''0x'' @ zero_pad 4 (digs 16 (unat (vs ! f))) @ ''\<newline>''), 0), w),
     k_fclose = \<lambda>f w. w,
     k_mmap = \<lambda>fd len w. ((Some sim_base, 0), w),
     k_munmap = \<lambda>a len w. w,
     k_load32 = \<lambda>a w. (w a, w),
     k_store32 = \<lambda>a v w. w(a := v),
     k_strerror = \<lambda>e. ''error''\<rparr>"

lemma sim_line:
  "strtoul0 (take 63 (''0x'' @ zero_pad 4 (digs 16 (unat (v :: u64))) @ ''\<newline>'')) = Some (v, False, ''\<newline>'')"
proof -
  have v: "unat v < 2 ^ 64" using unsigned_less [of v] by simp
  then have "length (digs 16 (unat v)) \<le> 16" by (intro length_digs) simp_all
  then have "length (''0x'' @ zero_pad 4 (digs 16 (unat v)) @ ''\<newline>'') \<le> 63" by (simp add: zero_pad_def)
  then show ?thesis
    using strtoul0_hex [OF v, of "CHR 0x0A" 4 "[]"] by (simp add: is_digit_def digit_of_def)
qed

section \<open>The tools on it\<close>

lemma runs_or_exit:
  assumes "runs m w (Inr v) w" and "runs (f v) w x w'"
  shows "runs (or_exit m f) w x w'"
  unfolding or_exit_def by (rule runs_bind [OF assms(1)]) (simp add: assms(2))

lemma sim_read:
  assumes "sim_file (sim_dir @ ''/'' @ name) = Some i" and "length name \<le> 16"
  shows "runs (gen2_read_sysfs_hex (sim_kernel vs) sim_dir name) w (Inr (vs ! i)) w"
    and "runs (link_read_sysfs_hex (sim_kernel vs) sim_dir name) w (Inr (vs ! i)) w"
  using assms sim_line [of "vs ! i"]
  by (auto simp: runs_def gen2_read_sysfs_hex_def link_read_sysfs_hex_def snprintf_def running
      sim_kernel_def sim_dir_def pci_dir_def)

lemma sim_files:
  "sim_file (sim_dir @ ''/'' @ ''vendor'') = Some 0" "sim_file (sim_dir @ ''/'' @ ''device'') = Some 1"
  "sim_file (sim_dir @ ''/'' @ ''subsystem_vendor'') = Some 2"
  "sim_file (sim_dir @ ''/'' @ ''subsystem_device'') = Some 3"
  by (simp_all add: sim_file_def)

lemma sim_identity:
  assumes "runs (f (vs ! 0) (vs ! 1) (vs ! 2) (vs ! 3)) w x w'"
  shows "runs (read_identity gen2_read_sysfs_hex (sim_kernel vs) sim_dir f) w x w'"
    and "runs (read_identity link_read_sysfs_hex (sim_kernel vs) sim_dir f) w x w'"
  unfolding read_identity_def
  by (intro runs_or_exit [OF sim_read(1) [OF sim_files(1)]] runs_or_exit [OF sim_read(1) [OF sim_files(2)]]
      runs_or_exit [OF sim_read(1) [OF sim_files(3)]] runs_or_exit [OF sim_read(1) [OF sim_files(4)]] assms,
      simp_all)
    (intro runs_or_exit [OF sim_read(2) [OF sim_files(1)]] runs_or_exit [OF sim_read(2) [OF sim_files(2)]]
      runs_or_exit [OF sim_read(2) [OF sim_files(3)]] runs_or_exit [OF sim_read(2) [OF sim_files(4)]] assms,
      simp_all)

definition gen2_register :: nat where "gen2_register = sim_base + PL_LINK_RATE_OFFSET"
definition link_register :: nat where "link_register = sim_base + LINK_RATE_OFFSET"

lemma sim_gen2_device:
  "runs (gen2_device (sim_kernel [a, b, c, d]) bdf sim_dir) w
     (if \<not> supported a b c d then 3 else if w gen2_register = - 1 then 5 else 0)
     (if supported a b c d \<and> w gen2_register \<noteq> - 1
      then w(gen2_register := gen2_desired (w gen2_register)) else w)"
  unfolding gen2_device_def
  by (rule sim_identity)
    (auto simp: runs_def running snprintf_def gen2_write_def sim_kernel_def sim_dir_def pci_dir_def
      gen2_register_def)

lemma sim_link_device:
  "runs (link_device (sim_kernel [a, b, c, d]) bdf sim_dir) w
     (if \<not> supported a b c d then 3 else if w link_register = - 1 then 5 else 0)
     (if supported a b c d \<and> w link_register \<noteq> - 1 then w(link_register := 6) else w)"
  unfolding link_device_def
  by (rule sim_identity)
    (auto simp: runs_def running snprintf_def link_write_def sim_kernel_def sim_dir_def pci_dir_def
      link_register_def link_supported_eq)

text \<open>
  On a board that works, with any identity and any register contents, \<open>cmp50-bar0-gen2-prepare\<close>
  leaves an unsupported or silent board untouched (status 3 or 5), and otherwise changes exactly
  the Gen2 policy bits of one register and exits with 0.
\<close>

lemma gen2_on_board:
  "(result_of (gen2_main (sim_kernel [a, b, c, d]) [prog, ''0000:04:00.0'', ''--apply'']) w,
    world_of (gen2_main (sim_kernel [a, b, c, d]) [prog, ''0000:04:00.0'', ''--apply'']) w) =
   (if \<not> supported a b c d then (3, w)
    else if w gen2_register = - 1 then (5, w)
    else (0, w(gen2_register := gen2_desired (w gen2_register))))"
proof -
  have "gen2_main (sim_kernel [a, b, c, d]) [prog, ''0000:04:00.0'', ''--apply''] =
      gen2_device (sim_kernel [a, b, c, d]) ''0000:04:00.0'' sim_dir"
    by (simp add: gen2_main_def snprintf_def sim_dir_def pci_dir_def)
  then show ?thesis
    using runsD [OF sim_gen2_device [of a b c d "''0000:04:00.0''" w]] by simp
qed

text \<open>
  The same for \<open>cmp50-bar0-link-rate\<close>: it writes 6 to its register, or nothing.
\<close>

lemma link_on_board:
  "(result_of (link_main (sim_kernel [a, b, c, d]) [prog, ''0000:04:00.0'']) w,
    world_of (link_main (sim_kernel [a, b, c, d]) [prog, ''0000:04:00.0'']) w) =
   (if \<not> supported a b c d then (3, w)
    else if w link_register = - 1 then (5, w)
    else (0, w(link_register := 6)))"
proof -
  have "link_main (sim_kernel [a, b, c, d]) [prog, ''0000:04:00.0''] =
      link_device (sim_kernel [a, b, c, d]) ''0000:04:00.0'' sim_dir"
    by (simp add: link_main_def snprintf_def sim_dir_def pci_dir_def)
  then show ?thesis
    using runsD [OF sim_link_device [of a b c d "''0000:04:00.0''" w]] by simp
qed

text \<open>
  C20.
  On a board that works, with any identity and any register contents, both tools leave an unsupported
  or silent board untouched (status 3 or 5); otherwise \<open>cmp50-bar0-gen2-prepare\<close> changes exactly the Gen2
  policy bits of one register, \<open>cmp50-bar0-link-rate\<close> writes 6 to one register, and they exit with 0.
\<close>

theorem tools_on_board:
  "(result_of (gen2_main (sim_kernel [a, b, c, d]) [prog, ''0000:04:00.0'', ''--apply'']) w,
    world_of (gen2_main (sim_kernel [a, b, c, d]) [prog, ''0000:04:00.0'', ''--apply'']) w) =
   (if \<not> supported a b c d then (3, w)
    else if w gen2_register = - 1 then (5, w)
    else (0, w(gen2_register := gen2_desired (w gen2_register)))) \<and>
   (result_of (link_main (sim_kernel [a, b, c, d]) [prog, ''0000:04:00.0'']) w,
    world_of (link_main (sim_kernel [a, b, c, d]) [prog, ''0000:04:00.0'']) w) =
   (if \<not> supported a b c d then (3, w)
    else if w link_register = - 1 then (5, w)
    else (0, w(link_register := 6)))"
  by (rule conjI [OF gen2_on_board link_on_board])

end
