(* ===== verification/Pci.thy ===== *)
theory Pci
  imports Process
begin

text \<open>
  The part of the Linux driver interface the patches use, in the style of \<open>Process\<close>: the record
  \<open>linux\<close> of calls that are not in the sources, an event per call, and the trace rules.  The
  register numbers and bits are those of the kernel headers \<open>uapi/linux/pci_regs.h\<close>, \<open>linux/ioport.h\<close>
  and \<open>asm-generic/errno-base.h\<close>.
\<close>

section \<open>Header constants\<close>

definition PCI_VENDOR_ID_NVIDIA :: u16 where "PCI_VENDOR_ID_NVIDIA = 0x10de"
definition PCI_EXP_LNKCTL :: nat where "PCI_EXP_LNKCTL = 0x10"
definition PCI_EXP_LNKCTL_RL :: u16 where "PCI_EXP_LNKCTL_RL = 0x20"
definition PCI_EXP_LNKSTA :: nat where "PCI_EXP_LNKSTA = 0x12"
definition PCI_EXP_LNKSTA_CLS :: u16 where "PCI_EXP_LNKSTA_CLS = 0xf"
definition PCI_EXP_LNKSTA_CLS_5_0GB :: u16 where "PCI_EXP_LNKSTA_CLS_5_0GB = 2"
definition PCI_EXP_LNKCTL2 :: nat where "PCI_EXP_LNKCTL2 = 0x30"
definition PCI_EXP_LNKCTL2_TLS :: u16 where "PCI_EXP_LNKCTL2_TLS = 0xf"
definition PCI_EXP_LNKCTL2_TLS_5_0GT :: u16 where "PCI_EXP_LNKCTL2_TLS_5_0GT = 2"

definition IORESOURCE_MEM :: u64 where "IORESOURCE_MEM = 0x200"
definition PCI_COMMAND :: nat where "PCI_COMMAND = 4"
definition PCI_COMMAND_MEMORY :: u16 where "PCI_COMMAND_MEMORY = 2"
definition PCI_EXT_CAP_ID_REBAR :: nat where "PCI_EXT_CAP_ID_REBAR = 0x15"
definition PCI_REBAR_CTRL :: nat where "PCI_REBAR_CTRL = 8"
definition PCI_REBAR_CTRL_BAR_IDX :: u32 where "PCI_REBAR_CTRL_BAR_IDX = 7"
definition PCI_REBAR_CTRL_NBAR_MASK :: u32 where "PCI_REBAR_CTRL_NBAR_MASK = 0xe0"
definition PCI_REBAR_CTRL_NBAR_SHIFT :: nat where "PCI_REBAR_CTRL_NBAR_SHIFT = 5"
definition PCI_REBAR_CTRL_BAR_SIZE :: u32 where "PCI_REBAR_CTRL_BAR_SIZE = 0x1f00"
definition PCI_REBAR_CTRL_BAR_SHIFT :: nat where "PCI_REBAR_CTRL_BAR_SHIFT = 8"
definition EIO :: int where "EIO = 5"
definition ENOMEM :: int where "ENOMEM = 12"
definition ENODEV :: int where "ENODEV = 19"
definition EINVAL :: int where "EINVAL = 22"

lemmas pci_regs = PCI_EXP_LNKCTL_def PCI_EXP_LNKSTA_def PCI_EXP_LNKCTL2_def

section \<open>Devices and calls\<close>

record pci_ids =
  p_vendor :: u16
  p_device :: u16
  p_subsystem_vendor :: u16
  p_subsystem_device :: u16

datatype pci_dev = Gpu | Upstream

record 'w linux =
  l_upstream :: "'w \<Rightarrow> bool"
  l_resource_start :: "nat \<Rightarrow> 'w \<Rightarrow> nat"
  l_resource_len :: "nat \<Rightarrow> 'w \<Rightarrow> u64"
  l_resource_flags :: "nat \<Rightarrow> 'w \<Rightarrow> u64"
  l_ioremap :: "nat \<Rightarrow> nat \<Rightarrow> 'w \<Rightarrow> nat option \<times> 'w"
  l_iounmap :: "nat \<Rightarrow> 'w \<Rightarrow> 'w"
  l_readl :: "nat \<Rightarrow> 'w \<Rightarrow> u32 \<times> 'w"
  l_writel :: "u32 \<Rightarrow> nat \<Rightarrow> 'w \<Rightarrow> 'w"
  l_cap_read :: "pci_dev \<Rightarrow> nat \<Rightarrow> 'w \<Rightarrow> (int \<times> u16) \<times> 'w"
  l_cap_write :: "pci_dev \<Rightarrow> nat \<Rightarrow> u16 \<Rightarrow> 'w \<Rightarrow> int \<times> 'w"
  l_msleep :: "nat \<Rightarrow> 'w \<Rightarrow> 'w"
  l_possible_sizes :: "nat \<Rightarrow> 'w \<Rightarrow> u32 \<times> 'w"
  l_find_ext_capability :: "nat \<Rightarrow> 'w \<Rightarrow> nat \<times> 'w"
  l_config_read16 :: "nat \<Rightarrow> 'w \<Rightarrow> u16 \<times> 'w"
  l_config_read32 :: "nat \<Rightarrow> 'w \<Rightarrow> u32 \<times> 'w"
  l_config_write16 :: "nat \<Rightarrow> u16 \<Rightarrow> 'w \<Rightarrow> 'w"
  l_config_write32 :: "nat \<Rightarrow> u32 \<Rightarrow> 'w \<Rightarrow> 'w"

datatype pci_event =
    PIoremap nat "nat option"
  | PIounmap nat
  | PReadl nat u32
  | PWritel u32 nat
  | PCapRead pci_dev nat int u16
  | PCapWrite pci_dev nat u16 int
  | PSleep nat
  | PLen nat u64
  | PSizes nat u32
  | PFindCap nat nat
  | PConfRead16 nat u16
  | PConfRead32 nat u32
  | PConfWrite16 nat u16
  | PConfWrite32 nat u32
  | PSetParam string int
  | PLog string
  | PFault

type_synonym ('w, 'a) driver = "('w, pci_event, 'a) traced"

definition has_upstream :: "'w linux \<Rightarrow> ('w, bool) driver" where
  "has_upstream L = State (\<lambda>(w, tr). (l_upstream L w, (w, tr)))"

definition ioremap :: "'w linux \<Rightarrow> nat \<Rightarrow> nat \<Rightarrow> ('w, nat option) driver" where
  "ioremap L bar len = State (\<lambda>(w, tr).
     let (a, w') = l_ioremap L (l_resource_start L bar w) len w in (a, (w', tr @ [PIoremap len a])))"

definition iounmap :: "'w linux \<Rightarrow> nat \<Rightarrow> ('w, unit) driver" where
  "iounmap L a = State (\<lambda>(w, tr). ((), (l_iounmap L a w, tr @ [PIounmap a])))"

definition readl :: "'w linux \<Rightarrow> nat \<Rightarrow> ('w, u32) driver" where
  "readl L a = State (\<lambda>(w, tr). let (v, w') = l_readl L a w in (v, (w', tr @ [PReadl a v])))"

definition writel :: "'w linux \<Rightarrow> u32 \<Rightarrow> nat \<Rightarrow> ('w, unit) driver" where
  "writel L v a = State (\<lambda>(w, tr). ((), (l_writel L v a w, tr @ [PWritel v a])))"

definition cap_read :: "'w linux \<Rightarrow> pci_dev \<Rightarrow> nat \<Rightarrow> ('w, int \<times> u16) driver" where
  "cap_read L d reg = State (\<lambda>(w, tr).
     let ((r, v), w') = l_cap_read L d reg w in ((r, v), (w', tr @ [PCapRead d reg r v])))"

definition cap_write :: "'w linux \<Rightarrow> pci_dev \<Rightarrow> nat \<Rightarrow> u16 \<Rightarrow> ('w, int) driver" where
  "cap_write L d reg v = State (\<lambda>(w, tr).
     let (r, w') = l_cap_write L d reg v w in (r, (w', tr @ [PCapWrite d reg v r])))"

definition msleep :: "'w linux \<Rightarrow> nat \<Rightarrow> ('w, unit) driver" where
  "msleep L ms = State (\<lambda>(w, tr). ((), (l_msleep L ms w, tr @ [PSleep ms])))"

text \<open>What \<open>pci_resource_len\<close> and \<open>pci_resource_flags\<close> read is cached by the kernel.\<close>

definition resource_len :: "'w linux \<Rightarrow> nat \<Rightarrow> ('w, u64) driver" where
  "resource_len L bar = State (\<lambda>(w, tr). let v = l_resource_len L bar w in (v, (w, tr @ [PLen bar v])))"

definition resource_flags :: "'w linux \<Rightarrow> nat \<Rightarrow> ('w, u64) driver" where
  "resource_flags L bar = State (\<lambda>(w, tr). (l_resource_flags L bar w, (w, tr)))"

text \<open>\<open>ioremap\<close> at an offset into a resource.\<close>

definition ioremap_at :: "'w linux \<Rightarrow> nat \<Rightarrow> nat \<Rightarrow> nat \<Rightarrow> ('w, nat option) driver" where
  "ioremap_at L bar off len = State (\<lambda>(w, tr).
     let (a, w') = l_ioremap L (l_resource_start L bar w + off) len w in (a, (w', tr @ [PIoremap len a])))"

definition possible_sizes :: "'w linux \<Rightarrow> nat \<Rightarrow> ('w, u32) driver" where
  "possible_sizes L bar = State (\<lambda>(w, tr).
     let (v, w') = l_possible_sizes L bar w in (v, (w', tr @ [PSizes bar v])))"

definition find_ext_capability :: "'w linux \<Rightarrow> nat \<Rightarrow> ('w, nat) driver" where
  "find_ext_capability L cap = State (\<lambda>(w, tr).
     let (p, w') = l_find_ext_capability L cap w in (p, (w', tr @ [PFindCap cap p])))"

definition config_read16 :: "'w linux \<Rightarrow> nat \<Rightarrow> ('w, u16) driver" where
  "config_read16 L off = State (\<lambda>(w, tr).
     let (v, w') = l_config_read16 L off w in (v, (w', tr @ [PConfRead16 off v])))"

definition config_read32 :: "'w linux \<Rightarrow> nat \<Rightarrow> ('w, u32) driver" where
  "config_read32 L off = State (\<lambda>(w, tr).
     let (v, w') = l_config_read32 L off w in (v, (w', tr @ [PConfRead32 off v])))"

definition config_write16 :: "'w linux \<Rightarrow> nat \<Rightarrow> u16 \<Rightarrow> ('w, unit) driver" where
  "config_write16 L off v = State (\<lambda>(w, tr). ((), (l_config_write16 L off v w, tr @ [PConfWrite16 off v])))"

definition config_write32 :: "'w linux \<Rightarrow> nat \<Rightarrow> u32 \<Rightarrow> ('w, unit) driver" where
  "config_write32 L off v = State (\<lambda>(w, tr). ((), (l_config_write32 L off v w, tr @ [PConfWrite32 off v])))"

text \<open>Assignment of a module parameter or other global of the driver.\<close>

definition set_param :: "string \<Rightarrow> int \<Rightarrow> ('w, unit) driver" where
  "set_param name v = tell (PSetParam name v)"

definition dev_printf :: "string option \<Rightarrow> ('w, unit) driver" where
  "dev_printf r = tell (case r of Some s \<Rightarrow> PLog s | None \<Rightarrow> PFault)"

section \<open>Trace rules\<close>

lemma emits_has_upstream [emit]: "(\<And>b. Q b []) \<Longrightarrow> emits (has_upstream L) Q"
  by (auto simp: emits_def has_upstream_def)

lemma emits_ioremap [emit]: "(\<And>a. Q a [PIoremap len a]) \<Longrightarrow> emits (ioremap L bar len) Q"
  by (auto simp: emits_def ioremap_def Let_def split: prod.splits)

lemma emits_iounmap [emit]: "Q () [PIounmap a] \<Longrightarrow> emits (iounmap L a) Q"
  by (auto simp: emits_def iounmap_def)

lemma emits_readl [emit]: "(\<And>v. Q v [PReadl a v]) \<Longrightarrow> emits (readl L a) Q"
  by (auto simp: emits_def readl_def Let_def split: prod.splits)

lemma emits_writel [emit]: "Q () [PWritel v a] \<Longrightarrow> emits (writel L v a) Q"
  by (auto simp: emits_def writel_def)

lemma emits_cap_read [emit]: "(\<And>r v. Q (r, v) [PCapRead d reg r v]) \<Longrightarrow> emits (cap_read L d reg) Q"
  by (auto simp: emits_def cap_read_def Let_def split: prod.splits)

lemma emits_cap_write [emit]: "(\<And>r. Q r [PCapWrite d reg v r]) \<Longrightarrow> emits (cap_write L d reg v) Q"
  by (auto simp: emits_def cap_write_def Let_def split: prod.splits)

lemma emits_msleep [emit]: "Q () [PSleep ms] \<Longrightarrow> emits (msleep L ms) Q"
  by (auto simp: emits_def msleep_def)

lemma emits_dev_printf [emit]:
  "(\<And>s. r = Some s \<Longrightarrow> Q () [PLog s]) \<Longrightarrow> (r = None \<Longrightarrow> Q () [PFault]) \<Longrightarrow> emits (dev_printf r) Q"
  by (cases r) (auto simp: dev_printf_def intro: emits_tell)

lemma emits_resource_len [emit]: "(\<And>v. Q v [PLen bar v]) \<Longrightarrow> emits (resource_len L bar) Q"
  by (auto simp: emits_def resource_len_def Let_def)

lemma emits_resource_flags [emit]: "(\<And>v. Q v []) \<Longrightarrow> emits (resource_flags L bar) Q"
  by (auto simp: emits_def resource_flags_def)

lemma emits_ioremap_at [emit]: "(\<And>a. Q a [PIoremap len a]) \<Longrightarrow> emits (ioremap_at L bar off len) Q"
  by (auto simp: emits_def ioremap_at_def Let_def split: prod.splits)

lemma emits_possible_sizes [emit]: "(\<And>v. Q v [PSizes bar v]) \<Longrightarrow> emits (possible_sizes L bar) Q"
  by (auto simp: emits_def possible_sizes_def Let_def split: prod.splits)

lemma emits_find_ext_capability [emit]:
  "(\<And>p. Q p [PFindCap cap p]) \<Longrightarrow> emits (find_ext_capability L cap) Q"
  by (auto simp: emits_def find_ext_capability_def Let_def split: prod.splits)

lemma emits_config_read16 [emit]: "(\<And>v. Q v [PConfRead16 off v]) \<Longrightarrow> emits (config_read16 L off) Q"
  by (auto simp: emits_def config_read16_def Let_def split: prod.splits)

lemma emits_config_read32 [emit]: "(\<And>v. Q v [PConfRead32 off v]) \<Longrightarrow> emits (config_read32 L off) Q"
  by (auto simp: emits_def config_read32_def Let_def split: prod.splits)

lemma emits_config_write16 [emit]: "Q () [PConfWrite16 off v] \<Longrightarrow> emits (config_write16 L off v) Q"
  by (auto simp: emits_def config_write16_def)

lemma emits_config_write32 [emit]: "Q () [PConfWrite32 off v] \<Longrightarrow> emits (config_write32 L off v) Q"
  by (auto simp: emits_def config_write32_def)

lemma emits_set_param [emit]: "Q () [PSetParam name v] \<Longrightarrow> emits (set_param name v) Q"
  by (auto simp: set_param_def intro: emits_tell)

end
