(* ===== verification/Retrain.thy ===== *)
theory Retrain
  imports Pci
begin

text \<open>
  \<open>nv_cmp50hx_retrain_gen2\<close> of \<open>04-cmp50-pcie-gen2.patch\<close>: the driver's request for a Gen2 link, made
  once per first open of a supported board when the register policy is in place.  The \<open>goto\<close>
  labels are the functions \<open>restore_ctl\<close>, \<open>restore_ctl_unmap\<close> and \<open>capability_error_unmap\<close>.
\<close>

section \<open>The program\<close>

definition nv_cmp50hx_is_supported :: "pci_ids option \<Rightarrow> bool" where
  "nv_cmp50hx_is_supported gpu =
     (case gpu of
        None \<Rightarrow> False
      | Some g \<Rightarrow> p_vendor g = PCI_VENDOR_ID_NVIDIA \<and> p_device g = 0x1e09 \<and>
          (p_subsystem_vendor g = PCI_VENDOR_ID_NVIDIA \<and> p_subsystem_device g = 0x1554 \<or>
           p_subsystem_vendor g = 0x1462 \<and> p_subsystem_device g = 0x371f))"

definition policy_missing :: "u32 \<Rightarrow> u32 \<Rightarrow> u32 \<Rightarrow> bool" where
  "policy_missing cya0 link_config pl_link_rate \<longleftrightarrow>
     cya0 AND push_bit 2 1 \<noteq> 0 \<or> drop_bit 18 link_config AND 3 \<noteq> 2 \<or>
     pl_link_rate AND 0x00060000 \<noteq> 0x00040000"

definition target_gen2 :: "u16 \<Rightarrow> u16" where
  "target_gen2 ctl2 = (ctl2 AND NOT PCI_EXP_LNKCTL2_TLS) OR PCI_EXP_LNKCTL2_TLS_5_0GT"

definition has_target :: "u16 \<Rightarrow> bool" where
  "has_target ctl2 \<longleftrightarrow> ctl2 AND PCI_EXP_LNKCTL2_TLS = PCI_EXP_LNKCTL2_TLS_5_0GT"

definition link_up :: "int \<Rightarrow> u16 \<Rightarrow> bool" where
  "link_up r link_status \<longleftrightarrow> r = 0 \<and> link_status AND PCI_EXP_LNKSTA_CLS \<ge> PCI_EXP_LNKSTA_CLS_5_0GB"

definition capability_error_unmap :: "'w linux \<Rightarrow> nat \<Rightarrow> int \<Rightarrow> ('w, unit) driver" where
  "capability_error_unmap L bar0 r = do {
     iounmap L bar0;
     dev_printf (printf ''CMP50_GEN2: PCI capability error=%d; retrain stopped\<newline>'' [FInt r])
   }"

definition restore_ctl_unmap :: "'w linux \<Rightarrow> nat \<Rightarrow> u16 \<Rightarrow> u16 \<Rightarrow> int \<Rightarrow> ('w, unit) driver" where
  "restore_ctl_unmap L bar0 gpu_ctl upstream_ctl r = do {
     cap_write L Upstream PCI_EXP_LNKCTL upstream_ctl;
     cap_write L Gpu PCI_EXP_LNKCTL gpu_ctl;
     capability_error_unmap L bar0 r
   }"

definition restore_ctl :: "'w linux \<Rightarrow> u16 \<Rightarrow> u16 \<Rightarrow> ('w, unit) driver" where
  "restore_ctl L gpu_ctl upstream_ctl = do {
     cap_write L Gpu PCI_EXP_LNKCTL gpu_ctl;
     cap_write L Upstream PCI_EXP_LNKCTL upstream_ctl;
     ret ()
   }"

text \<open>Ask the endpoint, then the downstream port, for Recovery; a nonzero result is an error.\<close>

definition request_recovery :: "'w linux \<Rightarrow> u16 \<Rightarrow> u16 \<Rightarrow> ('w, int) driver" where
  "request_recovery L gpu_ctl upstream_ctl = do {
     r \<leftarrow> cap_write L Gpu PCI_EXP_LNKCTL (gpu_ctl OR PCI_EXP_LNKCTL_RL);
     if r \<noteq> 0 then ret r
     else do {
       msleep L 50;
       cap_write L Upstream PCI_EXP_LNKCTL (upstream_ctl OR PCI_EXP_LNKCTL_RL)
     }
   }"

text \<open>
  One observation window over the given attempts.  \<open>None\<close>: the link came up and the function has
  returned; otherwise the last \<open>link_status\<close>, \<open>upstream_status\<close> and \<open>ret\<close>.
\<close>

fun wait_link ::
  "'w linux \<Rightarrow> u16 \<Rightarrow> u16 \<Rightarrow> nat \<Rightarrow> nat list \<Rightarrow> u16 \<times> u16 \<times> int \<Rightarrow> ('w, (u16 \<times> u16 \<times> int) option) driver" where
  "wait_link L gpu_ctl upstream_ctl first [] st = ret (Some st)"
| "wait_link L gpu_ctl upstream_ctl first (attempt # attempts) st = do {
     msleep L 10;
     (r, link_status) \<leftarrow> cap_read L Gpu PCI_EXP_LNKSTA;
     (r', upstream_status) \<leftarrow> cap_read L Upstream PCI_EXP_LNKSTA;
     if link_up r link_status then do {
       dev_printf (printf ''CMP50_GEN2: RETRAIN_PASS GPU=%04x ROOT=%04x attempt=%d\<newline>''
         [FUInt (ucast link_status), FUInt (ucast upstream_status), FInt (int (attempt + first))]);
       cap_write L Gpu PCI_EXP_LNKCTL gpu_ctl;
       cap_write L Upstream PCI_EXP_LNKCTL upstream_ctl;
       ret None
     } else wait_link L gpu_ctl upstream_ctl first attempts (link_status, upstream_status, r)
   }"

text \<open>From the first Recovery request on, with the mapping already gone.\<close>

definition retrain_link :: "'w linux \<Rightarrow> u16 \<Rightarrow> u16 \<Rightarrow> ('w, unit) driver" where
  "retrain_link L gpu_ctl upstream_ctl = do {
     msleep L 20;
     r \<leftarrow> request_recovery L gpu_ctl upstream_ctl;
     if r \<noteq> 0 then restore_ctl L gpu_ctl upstream_ctl
     else do {
       first \<leftarrow> wait_link L gpu_ctl upstream_ctl 1 [0..<200] (0, 0, 0);
       (case first of
          None \<Rightarrow> ret ()
        | Some (link_status, upstream_status, r1) \<Rightarrow> do {
            dev_printf (printf ''CMP50_GEN2: RETRAIN_RETRY GPU=%04x ROOT=%04x\<newline>''
              [FUInt (ucast link_status), FUInt (ucast upstream_status)]);
            msleep L 500;
            r2 \<leftarrow> request_recovery L gpu_ctl upstream_ctl;
            if r2 \<noteq> 0 then restore_ctl L gpu_ctl upstream_ctl
            else do {
              second \<leftarrow> wait_link L gpu_ctl upstream_ctl 201 [0..<200] (link_status, upstream_status, r2);
              (case second of
                 None \<Rightarrow> ret ()
               | Some (link_status', upstream_status', r3) \<Rightarrow> do {
                   dev_printf (printf ''CMP50_GEN2: RETRAIN_FAIL GPU=%04x ROOT=%04x ret=%d\<newline>''
                     [FUInt (ucast link_status'), FUInt (ucast upstream_status'), FInt r3]);
                   restore_ctl L gpu_ctl upstream_ctl
                 })
            }
          })
     }
   }"

text \<open>Program both target speeds and check them, with the mapping still there.\<close>

definition program_targets ::
  "'w linux \<Rightarrow> nat \<Rightarrow> u16 \<Rightarrow> u16 \<Rightarrow> u16 \<Rightarrow> u16 \<Rightarrow> ('w, unit) driver" where
  "program_targets L bar0 gpu_ctl gpu_ctl2 upstream_ctl upstream_ctl2 = do {
     r \<leftarrow> cap_write L Gpu PCI_EXP_LNKCTL2 (target_gen2 gpu_ctl2);
     if r \<noteq> 0 then restore_ctl_unmap L bar0 gpu_ctl upstream_ctl r else do {
     r \<leftarrow> cap_write L Upstream PCI_EXP_LNKCTL2 (target_gen2 upstream_ctl2);
     if r \<noteq> 0 then restore_ctl_unmap L bar0 gpu_ctl upstream_ctl r else do {
     (r, gpu_ctl2_readback) \<leftarrow> cap_read L Gpu PCI_EXP_LNKCTL2;
     if r \<noteq> 0 then restore_ctl_unmap L bar0 gpu_ctl upstream_ctl r else do {
     (r, upstream_ctl2_readback) \<leftarrow> cap_read L Upstream PCI_EXP_LNKCTL2;
     if r \<noteq> 0 then restore_ctl_unmap L bar0 gpu_ctl upstream_ctl r
     else if \<not> has_target gpu_ctl2_readback \<or> \<not> has_target upstream_ctl2_readback then do {
       dev_printf (printf ''CMP50_GEN2: target readback failed GPU=%04x ROOT=%04x\<newline>''
         [FUInt (ucast gpu_ctl2_readback), FUInt (ucast upstream_ctl2_readback)]);
       restore_ctl_unmap L bar0 gpu_ctl upstream_ctl r
     } else do {
       writel L 6 (bar0 + 0x8872c);
       readl L (bar0 + 0x8872c);
       iounmap L bar0;
       retrain_link L gpu_ctl upstream_ctl
     } } } }
   }"

definition nv_cmp50hx_retrain_gen2 :: "'w linux \<Rightarrow> pci_ids option \<Rightarrow> ('w, unit) driver" where
  "nv_cmp50hx_retrain_gen2 L gpu =
     (if \<not> nv_cmp50hx_is_supported gpu then ret ()
      else do {
        up \<leftarrow> has_upstream L;
        if \<not> up then dev_printf (printf ''CMP50_GEN2: no upstream bridge; retrain skipped\<newline>'' [])
        else do {
          m \<leftarrow> ioremap L 0 0x90000;
          (case m of
             None \<Rightarrow> dev_printf (printf ''CMP50_GEN2: BAR0 map failed; retrain skipped\<newline>'' [])
           | Some bar0 \<Rightarrow> do {
               cya0 \<leftarrow> readl L (bar0 + 0x8c2c0);
               link_config \<leftarrow> readl L (bar0 + 0x8c040);
               pl_link_rate \<leftarrow> readl L (bar0 + 0x8c1c0);
               if policy_missing cya0 link_config pl_link_rate then do {
                 dev_printf (printf
                   ''CMP50_GEN2: GSP policy missing CYA=%08x CFG=%08x PL=%08x; retrain skipped\<newline>''
                   [FUInt cya0, FUInt link_config, FUInt pl_link_rate]);
                 iounmap L bar0
               } else do {
                 (r, gpu_ctl) \<leftarrow> cap_read L Gpu PCI_EXP_LNKCTL;
                 if r \<noteq> 0 then capability_error_unmap L bar0 r else do {
                 (r, gpu_ctl2) \<leftarrow> cap_read L Gpu PCI_EXP_LNKCTL2;
                 if r \<noteq> 0 then capability_error_unmap L bar0 r else do {
                 (r, upstream_ctl) \<leftarrow> cap_read L Upstream PCI_EXP_LNKCTL;
                 if r \<noteq> 0 then capability_error_unmap L bar0 r else do {
                 (r, upstream_ctl2) \<leftarrow> cap_read L Upstream PCI_EXP_LNKCTL2;
                 if r \<noteq> 0 then capability_error_unmap L bar0 r
                 else program_targets L bar0 gpu_ctl gpu_ctl2 upstream_ctl upstream_ctl2
                 } } }
               }
             })
        }
      })"

section \<open>The contract\<close>

text \<open>
  What the replay remembers: the mapping, the three policy words, for each device the original
  link control and target words, whether its target was read back as Gen2, whether its link
  control differs from the original, and how far the request has got.
\<close>

record link_state =
  mapping :: "nat option"
  policy :: "u32 list"
  ctl :: "pci_dev \<Rightarrow> u16 option"
  ctl2 :: "pci_dev \<Rightarrow> u16 option"
  confirmed :: "pci_dev \<Rightarrow> bool"
  raised :: "pci_dev \<Rightarrow> bool"
  armed :: bool
  asked :: bool

definition link_start :: link_state where
  "link_start = \<lparr>mapping = None, policy = [], ctl = (\<lambda>_. None), ctl2 = (\<lambda>_. None),
     confirmed = (\<lambda>_. False), raised = (\<lambda>_. False), armed = False, asked = False\<rparr>"

definition policy_offsets :: "nat list" where
  "policy_offsets = [0x8c2c0, 0x8c040, 0x8c1c0]"

definition policy_ready :: "link_state \<Rightarrow> bool" where
  "policy_ready st \<longleftrightarrow> (case policy st of [a, b, c] \<Rightarrow> \<not> policy_missing a b c | _ \<Rightarrow> False)"

definition saved :: "link_state \<Rightarrow> bool" where
  "saved st \<longleftrightarrow> ctl st Gpu \<noteq> None \<and> ctl st Upstream \<noteq> None \<and> ctl2 st Gpu \<noteq> None \<and> ctl2 st Upstream \<noteq> None"

definition link_read :: "link_state \<Rightarrow> pci_dev \<Rightarrow> nat \<Rightarrow> int \<Rightarrow> u16 \<Rightarrow> link_state option" where
  "link_read st d reg r v =
     (if reg = PCI_EXP_LNKSTA then Some st
      else if \<not> policy_ready st then None
      else if reg = PCI_EXP_LNKCTL \<and> ctl st d = None then
        Some (if r = 0 then st\<lparr>ctl := (ctl st)(d := Some v)\<rparr> else st)
      else if reg = PCI_EXP_LNKCTL2 \<and> ctl2 st d = None then
        Some (if r = 0 then st\<lparr>ctl2 := (ctl2 st)(d := Some v)\<rparr> else st)
      else if reg = PCI_EXP_LNKCTL2 then
        Some (st\<lparr>confirmed := (confirmed st)(d := r = 0 \<and> has_target v)\<rparr>)
      else None)"

definition link_write :: "link_state \<Rightarrow> pci_dev \<Rightarrow> nat \<Rightarrow> u16 \<Rightarrow> link_state option" where
  "link_write st d reg v =
     (if \<not> saved st then None
      else if reg = PCI_EXP_LNKCTL2 then
        (if mapping st \<noteq> None \<and> v = target_gen2 (the (ctl2 st d)) then Some st else None)
      else if reg = PCI_EXP_LNKCTL then
        (let orig = the (ctl st d); rl = armed st \<and> v = orig OR PCI_EXP_LNKCTL_RL \<and> (d = Gpu \<or> asked st) in
         if v = orig \<or> rl
         then Some (st\<lparr>raised := (raised st)(d := v \<noteq> orig), asked := asked st \<or> rl \<and> d = Gpu\<rparr>)
         else None)
      else None)"

definition link_step :: "link_state \<Rightarrow> pci_event \<Rightarrow> link_state option" where
  "link_step st ev =
     (case ev of
        PIoremap len a \<Rightarrow>
          if mapping st = None \<and> policy st = [] \<and> len = 0x90000 then Some (st\<lparr>mapping := a\<rparr>) else None
      | PIounmap a \<Rightarrow> if mapping st = Some a then Some (st\<lparr>mapping := None\<rparr>) else None
      | PReadl a v \<Rightarrow>
          (case mapping st of
             None \<Rightarrow> None
           | Some b \<Rightarrow>
               if length (policy st) < 3 \<and> a = b + policy_offsets ! length (policy st)
               then Some (st\<lparr>policy := policy st @ [v]\<rparr>)
               else if armed st \<and> a = b + 0x8872c then Some st else None)
      | PWritel v a \<Rightarrow>
          (case mapping st of
             None \<Rightarrow> None
           | Some b \<Rightarrow>
               if a = b + 0x8872c \<and> v = 6 \<and> confirmed st Gpu \<and> confirmed st Upstream
               then Some (st\<lparr>armed := True\<rparr>) else None)
      | PCapRead d reg r v \<Rightarrow> link_read st d reg r v
      | PCapWrite d reg v r \<Rightarrow> link_write st d reg v
      | PSleep ms \<Rightarrow> Some st
      | PLog s \<Rightarrow> Some st
      | _ \<Rightarrow> None)"

fun link_run :: "link_state \<Rightarrow> pci_event list \<Rightarrow> link_state option" where
  "link_run st [] = Some st"
| "link_run st (ev # evs) = Option.bind (link_step st ev) (\<lambda>st'. link_run st' evs)"

text \<open>At the end nothing is mapped and both link control words are the original ones.\<close>

definition link_clean :: "link_state \<Rightarrow> bool" where
  "link_clean st \<longleftrightarrow> mapping st = None \<and> \<not> raised st Gpu \<and> \<not> raised st Upstream"

definition link_ok :: "link_state \<Rightarrow> pci_event list \<Rightarrow> bool" where
  "link_ok st evs \<longleftrightarrow> (case link_run st evs of None \<Rightarrow> False | Some st' \<Rightarrow> link_clean st')"

interpretation link: acceptor link_step link_run link_clean link_ok
  by unfold_locales (simp_all add: link_ok_def)

lemmas link_defs = link_step_def link_read_def link_write_def pci_regs link_clean_def

text \<open>The states after the target speeds are confirmed and the mapping is gone.\<close>

definition ready :: "u16 \<Rightarrow> u16 \<Rightarrow> link_state \<Rightarrow> bool" where
  "ready g u st \<longleftrightarrow> mapping st = None \<and> armed st \<and> saved st \<and> ctl st Gpu = Some g \<and> ctl st Upstream = Some u"

lemma ready_update [simp]:
  "ready g u (st\<lparr>raised := f, asked := a\<rparr>) = ready g u st"
  by (simp add: ready_def saved_def)

text \<open>What a write of a link control word does in such a state.\<close>

lemma ready_write:
  assumes "ready g u st"
  shows "link_write st Gpu PCI_EXP_LNKCTL (g OR PCI_EXP_LNKCTL_RL) =
      Some (st\<lparr>raised := (raised st)(Gpu := g OR PCI_EXP_LNKCTL_RL \<noteq> g), asked := True\<rparr>)"
    and "asked st \<Longrightarrow> link_write st Upstream PCI_EXP_LNKCTL (u OR PCI_EXP_LNKCTL_RL) =
      Some (st\<lparr>raised := (raised st)(Upstream := u OR PCI_EXP_LNKCTL_RL \<noteq> u), asked := True\<rparr>)"
    and "\<exists>st'. link_write st Gpu PCI_EXP_LNKCTL g = Some st' \<and> ready g u st' \<and>
      \<not> raised st' Gpu \<and> raised st' Upstream = raised st Upstream"
    and "\<exists>st'. link_write st Upstream PCI_EXP_LNKCTL u = Some st' \<and> ready g u st' \<and>
      \<not> raised st' Upstream \<and> raised st' Gpu = raised st Gpu"
  using assms by (auto simp: link_write_def ready_def saved_def pci_regs)

lemma link_step_simps [simp]:
  "link_step st (PCapWrite d reg v r) = link_write st d reg v"
  "link_step st (PCapRead d reg r v) = link_read st d reg r v"
  "link_step st (PSleep ms) = Some st"
  "link_step st (PLog t) = Some st"
  by (simp_all add: link_step_def)

lemma link_read_status [simp]: "link_read st d PCI_EXP_LNKSTA r v = Some st"
  by (simp add: link_read_def)

text \<open>Writing both originals, in either order, cleans up.\<close>

lemma restored:
  assumes "ready g u st"
  shows "link_ok st [PCapWrite Gpu PCI_EXP_LNKCTL g r, PCapWrite Upstream PCI_EXP_LNKCTL u r']"
proof -
  obtain st1 where 1: "link_write st Gpu PCI_EXP_LNKCTL g = Some st1" "ready g u st1" "\<not> raised st1 Gpu"
    using ready_write(3) [OF assms] by blast
  obtain st2 where "link_write st1 Upstream PCI_EXP_LNKCTL u = Some st2" "ready g u st2"
    "\<not> raised st2 Upstream" "raised st2 Gpu = raised st1 Gpu"
    using ready_write(4) [OF 1(2)] by blast
  with 1 show ?thesis by (simp add: link_clean_def ready_def)
qed

lemma emits_restore_ctl: "ready g u st \<Longrightarrow> emits (restore_ctl L g u) (\<lambda>_. link_ok st)"
  unfolding restore_ctl_def
  by (auto simp del: link.ok_Cons link.ok_Nil intro!: emit restored)

lemma emits_request_recovery:
  "ready g u st \<Longrightarrow>
     emits (request_recovery L g u) (\<lambda>_ evs. \<exists>st'. link_run st evs = Some st' \<and> ready g u st')"
  unfolding request_recovery_def
  by (auto simp: ready_write intro!: emit)

lemma emits_wait_link:
  assumes "ready g u st"
  shows "emits (wait_link L g u first attempts x)
    (\<lambda>r evs. case r of None \<Rightarrow> link_ok st evs | Some _ \<Rightarrow> link_run st evs = Some st)"
  using assms
proof (induction attempts arbitrary: x)
  case Nil
  show ?case by (simp add: emits_return)
next
  case (Cons attempt attempts)
  have r: "link_ok st (PCapWrite Gpu PCI_EXP_LNKCTL g r # PCapWrite Upstream PCI_EXP_LNKCTL u r' # [])"
    for r r' using restored [OF Cons.prems] by simp
  show ?case
    unfolding wait_link.simps
    by (auto intro!: emit emits_mono [OF Cons.IH [OF Cons.prems]]
        simp: r [simplified] split: option.splits)
qed

lemma emits_request_then:
  assumes "ready g u st" and "\<And>r st'. ready g u st' \<Longrightarrow> emits (m r) (\<lambda>_. link_ok st')"
  shows "emits (do { r \<leftarrow> request_recovery L g u; if r \<noteq> 0 then restore_ctl L g u else m r })
    (\<lambda>_. link_ok st)"
  by (rule emits_bindI [OF emits_request_recovery [OF assms(1)]])
    (auto simp: link.ok_append intro: emits_restore_ctl assms(2))

lemma emits_wait_then:
  assumes "ready g u st" and "\<And>x. emits (f x) (\<lambda>_. link_ok st)"
  shows "emits (do { r \<leftarrow> wait_link L g u first attempts y; (case r of None \<Rightarrow> ret () | Some x \<Rightarrow> f x) })
    (\<lambda>_. link_ok st)"
  by (rule emits_bindI [OF emits_wait_link [OF assms(1)]])
    (auto simp: link.ok_append intro: emits_return assms(2) split: option.splits)

lemma printf_retry:
  "printf ''CMP50_GEN2: RETRAIN_RETRY GPU=%04x ROOT=%04x\<newline>'' [FUInt a, FUInt b] =
     Some (''CMP50_GEN2: RETRAIN_RETRY GPU='' @ zero_pad 4 (digs 16 (unat a)) @ '' ROOT='' @
       zero_pad 4 (digs 16 (unat b)) @ ''\<newline>'')"
  by simp

lemma printf_fail:
  "printf ''CMP50_GEN2: RETRAIN_FAIL GPU=%04x ROOT=%04x ret=%d\<newline>'' [FUInt a, FUInt b, FInt i] =
     Some (''CMP50_GEN2: RETRAIN_FAIL GPU='' @ zero_pad 4 (digs 16 (unat a)) @ '' ROOT='' @
       zero_pad 4 (digs 16 (unat b)) @ '' ret='' @ show_int i @ ''\<newline>'')"
  by simp

lemma emits_sleep_then: "emits m (\<lambda>_. link_ok st) \<Longrightarrow> emits (do { msleep L ms; m }) (\<lambda>_. link_ok st)"
  by (rule emits_bind, rule emits_msleep) simp

lemma emits_log_then:
  "emits m (\<lambda>_. link_ok st) \<Longrightarrow> emits (do { dev_printf (Some s); m }) (\<lambda>_. link_ok st)"
  by (rule emits_bind, rule emits_dev_printf) simp_all

lemma emits_retrain_link:
  assumes "ready g u st"
  shows "emits (retrain_link L g u) (\<lambda>_. link_ok st)"
  unfolding retrain_link_def
proof (rule emits_sleep_then, rule emits_request_then [OF assms], rule emits_wait_then, assumption, goal_cases)
  case (1 r st' x)
  note ready = this
  obtain ls us r1 where x: "x = (ls, us, r1)" by (cases x)
  show ?case
    unfolding x prod.case
  proof (simp only: printf_retry, rule emits_log_then, rule emits_sleep_then, rule emits_request_then [OF ready],
      rule emits_wait_then, assumption, goal_cases)
    case (1 r st' x)
    obtain ls us r1 where x: "x = (ls, us, r1)" by (cases x)
    show ?case
      unfolding x prod.case
      by (simp only: printf_fail, rule emits_log_then, rule emits_restore_ctl [OF 1])
  qed
qed

text \<open>The states in which the originals are known and the mapping is still there.\<close>

definition programming :: "nat \<Rightarrow> u16 \<Rightarrow> u16 \<Rightarrow> u16 \<Rightarrow> u16 \<Rightarrow> link_state \<Rightarrow> bool" where
  "programming b g g2 u u2 st \<longleftrightarrow> mapping st = Some b \<and> policy_ready st \<and> length (policy st) = 3 \<and>
     ctl st Gpu = Some g \<and> ctl2 st Gpu = Some g2 \<and> ctl st Upstream = Some u \<and>
     ctl2 st Upstream = Some u2 \<and> \<not> raised st Gpu \<and> \<not> raised st Upstream"

lemma emits_capability_error:
  "mapping st = Some b \<Longrightarrow> \<not> raised st Gpu \<Longrightarrow> \<not> raised st Upstream \<Longrightarrow>
     emits (capability_error_unmap L b r) (\<lambda>_. link_ok st)"
  unfolding capability_error_unmap_def
  by (auto simp: link_step_def link_clean_def intro!: emit)

lemma emits_restore_ctl_unmap:
  "programming b g g2 u u2 st \<Longrightarrow> emits (restore_ctl_unmap L b g u r) (\<lambda>_. link_ok st)"
  unfolding restore_ctl_unmap_def programming_def
  by (intro emit)
    (auto simp: link_write_def saved_def pci_regs intro!: emits_capability_error)

lemma programming_confirm:
  "programming b g g2 u u2 st \<Longrightarrow> programming b g g2 u u2 (st\<lparr>confirmed := f\<rparr>)"
  by (simp add: programming_def policy_ready_def)

lemma programming_write2:
  assumes "programming b g g2 u u2 st"
  shows "link_write st Gpu PCI_EXP_LNKCTL2 (target_gen2 g2) = Some st"
    and "link_write st Upstream PCI_EXP_LNKCTL2 (target_gen2 u2) = Some st"
    and "link_read st Gpu PCI_EXP_LNKCTL2 r v =
      Some (st\<lparr>confirmed := (confirmed st)(Gpu := r = 0 \<and> has_target v)\<rparr>)"
    and "link_read st Upstream PCI_EXP_LNKCTL2 r v =
      Some (st\<lparr>confirmed := (confirmed st)(Upstream := r = 0 \<and> has_target v)\<rparr>)"
  using assms by (simp_all add: link_write_def link_read_def programming_def saved_def pci_regs)

lemma emits_program_targets:
  assumes p: "programming b g g2 u u2 st"
  shows "emits (program_targets L b g g2 u u2) (\<lambda>_. link_ok st)"
proof -
  have r: "emits (retrain_link L g u) (\<lambda>_. link_ok (st\<lparr>confirmed := f, armed := True, mapping := None\<rparr>))"
    "emits (retrain_link L g u) (\<lambda>_. link_ok (st\<lparr>mapping := None, confirmed := f, armed := True\<rparr>))" for f
    by (rule emits_retrain_link, use p in \<open>simp add: programming_def ready_def saved_def\<close>)+
  have m: "mapping st = Some b" "length (policy st) = 3" using p by (simp_all add: programming_def)
  note q = programming_confirm [OF p]
  note w = programming_write2 [OF p] programming_write2 [OF q]
  show ?thesis
    unfolding program_targets_def
    by (intro emit)
      (auto simp: w m link_step_def intro: emits_restore_ctl_unmap [OF p] emits_restore_ctl_unmap [OF q] r)
qed

lemma emits_retrain: "emits (nv_cmp50hx_retrain_gen2 L gpu) (\<lambda>_. link_ok link_start)"
  unfolding nv_cmp50hx_retrain_gen2_def
  by (intro emit)
    (auto simp: link_step_def link_read_def link_start_def link_clean_def policy_offsets_def
      policy_ready_def pci_regs programming_def
      intro!: emits_capability_error emits_program_targets)

end
