(* ===== verification/Retrain_Link.thy ===== *)
theory Retrain_Link
  imports Retrain
begin

text \<open>
  The Gen2 retrain on whole runs: its contract for every kernel and every hardware, and what it does
  on a simulated link, where the endpoint's status changes to Gen2 at a chosen poll.
\<close>

section \<open>Any hardware\<close>

text \<open>
  C4. Whatever the hardware answers, a run reads the three policy words of BAR0 and nothing else
  unless they show the policy in place; saves the four control words of the endpoint and the port
  before it writes any of them; changes only the target-speed field, and only to Gen2; writes 6 to
  the one link-rate register only after both targets were read back as Gen2; asks for Recovery only
  after that, endpoint first; and on every path, errors included, ends with BAR0 unmapped and both
  link control words as they were.  An unsupported device sees no access at all.
\<close>

theorem retrain_contract:
  "link_ok link_start (trace_of (nv_cmp50hx_retrain_gen2 L gpu) w) \<and>
   (nv_cmp50hx_is_supported gpu \<or> trace_of (nv_cmp50hx_retrain_gen2 L gpu) w = [])"
proof
  show "link_ok link_start (trace_of (nv_cmp50hx_retrain_gen2 L gpu) w)"
    by (rule emits_traceD [OF emits_retrain])
  show "nv_cmp50hx_is_supported gpu \<or> trace_of (nv_cmp50hx_retrain_gen2 L gpu) w = []"
    by (simp add: nv_cmp50hx_retrain_gen2_def trace_of_def)
qed

section \<open>A simulated link\<close>

text \<open>
  BAR0 words, control words of both devices, the number of endpoint status reads so far and the
  time slept.  The link runs at Gen2 from endpoint status read number \<open>n\<close> on (counted from 0); the
  Retrain bit reads back as 0.
\<close>

record link_hw =
  hw_regs :: "nat \<Rightarrow> u32"
  hw_ctl :: "pci_dev \<Rightarrow> u16"
  hw_ctl2 :: "pci_dev \<Rightarrow> u16"
  hw_polls :: nat
  hw_ms :: nat

definition hw_read :: "nat \<Rightarrow> pci_dev \<Rightarrow> nat \<Rightarrow> link_hw \<Rightarrow> (int \<times> u16) \<times> link_hw" where
  "hw_read n d reg w =
     (if reg = PCI_EXP_LNKCTL then ((0, hw_ctl w d), w)
      else if reg = PCI_EXP_LNKCTL2 then ((0, hw_ctl2 w d), w)
      else ((0, if hw_polls w < n then 0x1041 else 0x1042),
        if d = Gpu then w\<lparr>hw_polls := hw_polls w + 1\<rparr> else w))"

definition hw_write :: "pci_dev \<Rightarrow> nat \<Rightarrow> u16 \<Rightarrow> link_hw \<Rightarrow> int \<times> link_hw" where
  "hw_write d reg v w =
     (0, if reg = PCI_EXP_LNKCTL then w\<lparr>hw_ctl := (hw_ctl w)(d := v AND NOT PCI_EXP_LNKCTL_RL)\<rparr>
         else w\<lparr>hw_ctl2 := (hw_ctl2 w)(d := v)\<rparr>)"

definition sim_linux :: "nat \<Rightarrow> link_hw linux" where
  "sim_linux n = \<lparr>
     l_upstream = \<lambda>w. True,
     l_resource_start = \<lambda>bar w. 0,
     l_resource_len = \<lambda>bar w. 0x1000000,
     l_resource_flags = \<lambda>bar w. IORESOURCE_MEM,
     l_ioremap = \<lambda>start len w. (Some start, w),
     l_iounmap = \<lambda>a w. w,
     l_readl = \<lambda>a w. (hw_regs w a, w),
     l_writel = \<lambda>v a w. w\<lparr>hw_regs := (hw_regs w)(a := v)\<rparr>,
     l_cap_read = hw_read n,
     l_cap_write = hw_write,
     l_msleep = \<lambda>ms w. w\<lparr>hw_ms := hw_ms w + ms\<rparr>,
     l_possible_sizes = \<lambda>bar w. (0, w),
     l_find_ext_capability = \<lambda>cap w. (0, w),
     l_config_read16 = \<lambda>off w. (0, w),
     l_config_read32 = \<lambda>off w. (0, w),
     l_config_write16 = \<lambda>off v w. w,
     l_config_write32 = \<lambda>off v w. w\<rparr>"

section \<open>Running on it\<close>

lemma sim_runs:
  "runs (has_upstream (sim_linux n)) w True w"
  "runs (ioremap (sim_linux n) bar len) w (Some 0) w"
  "runs (iounmap (sim_linux n) a) w () w"
  "runs (readl (sim_linux n) a) w (hw_regs w a) w"
  "runs (writel (sim_linux n) v a) w () (w\<lparr>hw_regs := (hw_regs w)(a := v)\<rparr>)"
  "runs (cap_read (sim_linux n) d reg) w (fst (hw_read n d reg w)) (snd (hw_read n d reg w))"
  "runs (cap_write (sim_linux n) d reg c) w (fst (hw_write d reg c w)) (snd (hw_write d reg c w))"
  "runs (msleep (sim_linux n) ms) w () (w\<lparr>hw_ms := hw_ms w + ms\<rparr>)"
  "runs (dev_printf r) w () w"
  by (auto simp: runs_def sim_linux_def has_upstream_def ioremap_def iounmap_def readl_def writel_def
      cap_read_def cap_write_def msleep_def dev_printf_def tell_def Let_def split: prod.splits)

lemmas sim_step = sim_runs [THEN runs_bind]

text \<open>The two original control words, with the Retrain bit read back as 0.\<close>

definition set_ctl :: "u16 \<Rightarrow> u16 \<Rightarrow> link_hw \<Rightarrow> link_hw" where
  "set_ctl g u w = w\<lparr>hw_ctl := (\<lambda>d. (case d of Gpu \<Rightarrow> g | Upstream \<Rightarrow> u) AND NOT PCI_EXP_LNKCTL_RL)\<rparr>"

definition waited :: "nat \<Rightarrow> link_hw \<Rightarrow> link_hw" where
  "waited k w = w\<lparr>hw_ms := hw_ms w + 10 * k, hw_polls := hw_polls w + k\<rparr>"

lemma link_up_words [simp]: "\<not> link_up 0 0x1041" "link_up 0 0x1042"
  by (simp_all add: link_up_def PCI_EXP_LNKSTA_CLS_def PCI_EXP_LNKSTA_CLS_5_0GB_def word_le_nat_alt)

lemma pci_regs_differ [simp]:
  "PCI_EXP_LNKSTA \<noteq> PCI_EXP_LNKCTL" "PCI_EXP_LNKSTA \<noteq> PCI_EXP_LNKCTL2" "PCI_EXP_LNKCTL2 \<noteq> PCI_EXP_LNKCTL"
  by (simp_all add: pci_regs)

lemma waited_simps [simp]:
  "waited a (waited b w) = waited (b + a) w" "hw_polls (waited k w) = hw_polls w + k"
  "hw_polls (set_ctl g u w) = hw_polls w" "set_ctl g u (set_ctl g u w) = set_ctl g u w"
  "waited k (set_ctl g u w) = set_ctl g u (waited k w)"
  by (simp_all add: waited_def set_ctl_def algebra_simps)

text \<open>One round of the wait loop, with the link up and with the link not up yet.\<close>

lemmas sim_defs = sim_linux_def cap_read_def cap_write_def msleep_def dev_printf_def tell_def
  hw_read_def hw_write_def waited_def set_ctl_def

lemma ctl_both: "f(Gpu := a, Upstream := b) = (\<lambda>d. case d of Gpu \<Rightarrow> a | Upstream \<Rightarrow> b)"
  by (auto simp: fun_eq_iff split: pci_dev.split)

lemma wait_round_up:
  "n \<le> hw_polls w \<Longrightarrow>
     runs (wait_link (sim_linux n) g u first (attempt # attempts) x) w None (set_ctl g u (waited 1 w))"
  by (simp add: runs_def sim_defs Let_def ctl_both pci_dev.case_distrib [of "\<lambda>v. v AND _"])

lemma wait_round_down:
  "hw_polls w < n \<Longrightarrow> \<exists>st. \<forall>r w'. runs (wait_link (sim_linux n) g u first attempts st) (waited 1 w) r w' \<longrightarrow>
     runs (wait_link (sim_linux n) g u first (attempt # attempts) x) w r w'"
  by (rule exI [of _ "(0x1041, if Suc (hw_polls w) < n then 0x1041 else 0x1042, 0)"])
    (auto simp: runs_def sim_defs Let_def)

lemma runs_wait_link:
  assumes "hw_polls w \<le> n"
  shows "\<exists>r. runs (wait_link (sim_linux n) g u first attempts x) w r
     (if n < hw_polls w + length attempts
      then set_ctl g u (waited (n + 1 - hw_polls w) w) else waited (length attempts) w) \<and>
     (r = None \<longleftrightarrow> n < hw_polls w + length attempts)"
  using assms
proof (induction attempts arbitrary: w x)
  case Nil
  then show ?case by (intro exI [of _ "Some x"]) (simp add: waited_def runs_return)
next
  case (Cons attempt attempts)
  show ?case
  proof (cases "hw_polls w < n")
    case True
    then obtain st where st: "\<And>r w'. runs (wait_link (sim_linux n) g u first attempts st) (waited 1 w) r w' \<Longrightarrow>
        runs (wait_link (sim_linux n) g u first (attempt # attempts) x) w r w'"
      using wait_round_down by meson
    from Cons.IH [of "waited 1 w" st] True obtain r where
      r: "runs (wait_link (sim_linux n) g u first attempts st) (waited 1 w) r
        (if n < hw_polls w + length (attempt # attempts)
         then set_ctl g u (waited (1 + (n + 1 - (hw_polls w + 1))) w) else waited (1 + length attempts) w)"
        "r = None \<longleftrightarrow> n < hw_polls w + length (attempt # attempts)"
      by auto
    from True have "1 + (n + 1 - (hw_polls w + 1)) = n + 1 - hw_polls w" by simp
    from st [OF r(1), unfolded this] r(2) show ?thesis
      by (intro exI [of _ r]) (simp del: wait_link.simps split: if_splits)
  next
    case False
    with Cons.prems show ?thesis
      using wait_round_up [of n w g u first attempt attempts x] by (auto intro!: exI [of _ None])
  qed
qed

lemma ask_bit: "(v OR PCI_EXP_LNKCTL_RL) AND NOT PCI_EXP_LNKCTL_RL = v AND NOT PCI_EXP_LNKCTL_RL" for v :: u16
  by (simp add: bit_eq_iff bit_simps) blast

lemma runs_request:
  "runs (request_recovery (sim_linux n) g u) w 0 (set_ctl g u (w\<lparr>hw_ms := hw_ms w + 50\<rparr>))"
  by (simp add: runs_def request_recovery_def sim_defs Let_def ctl_both ask_bit
      pci_dev.case_distrib [of "\<lambda>v. v AND _"])

lemma runs_restore_ctl: "runs (restore_ctl (sim_linux n) g u) w () (set_ctl g u w)"
  by (simp add: runs_def restore_ctl_def sim_defs Let_def ctl_both pci_dev.case_distrib [of "\<lambda>v. v AND _"])

text \<open>The number of polls, and the time from the first request on.\<close>

definition polls_needed :: "nat \<Rightarrow> nat" where
  "polls_needed n = min (n + 1) 400"

definition ms_needed :: "nat \<Rightarrow> nat" where
  "ms_needed n = 70 + 10 * polls_needed n + (if n < 200 then 0 else 550)"

lemma runs_retrain_link:
  assumes p: "hw_polls w = 0"
  shows "runs (retrain_link (sim_linux n) g u) w ()
    (set_ctl g u (w\<lparr>hw_ms := hw_ms w + ms_needed n, hw_polls := polls_needed n\<rparr>))"
proof -
  define w1 where "w1 = set_ctl g u (w\<lparr>hw_ms := hw_ms w + 70\<rparr>)"
  have p1: "hw_polls w1 \<le> n" by (simp add: w1_def p)
  obtain r where r: "runs (wait_link (sim_linux n) g u 1 [0..<200] (0, 0, 0)) w1 r
      (if n < 200 then set_ctl g u (waited (n + 1) w1) else waited 200 w1)" "r = None \<longleftrightarrow> n < 200"
    using runs_wait_link [OF p1, of g u 1 "[0..<200]" "(0, 0, 0)"] by (auto simp: w1_def p)
  have start: "runs (request_recovery (sim_linux n) g u) (w\<lparr>hw_ms := hw_ms w + 20\<rparr>) 0 w1"
    using runs_request [of n g u "w\<lparr>hw_ms := hw_ms w + 20\<rparr>"] by (simp add: w1_def ac_simps)
  define w2 where "w2 = set_ctl g u (w\<lparr>hw_ms := hw_ms w + 2620, hw_polls := 200\<rparr>)"
  have again: "runs (request_recovery (sim_linux n) g u) ((waited 200 w1)\<lparr>hw_ms := hw_ms (waited 200 w1) + 500\<rparr>) 0 w2"
    (is "runs ?m ?w 0 w2")
  proof -
    have "set_ctl g u (?w\<lparr>hw_ms := hw_ms ?w + 50\<rparr>) = w2"
      by (rule link_hw.equality) (simp_all add: w1_def w2_def waited_def set_ctl_def p)
    then show ?thesis using runs_request [of n g u ?w] by simp
  qed
  show ?thesis
  proof (cases "n < 200")
    case True
    have final: "set_ctl g u (waited (n + 1) w1) =
        set_ctl g u (w\<lparr>hw_ms := hw_ms w + ms_needed n, hw_polls := polls_needed n\<rparr>)"
      using True by (simp add: w1_def waited_def set_ctl_def ms_needed_def polls_needed_def p)
    have r0: "runs (wait_link (sim_linux n) g u 1 [0..<200] (0, 0, 0)) w1 None (set_ctl g u (waited (n + 1) w1))"
      using True r by simp
    show ?thesis
      unfolding retrain_link_def final [symmetric]
      by (rule runs_bind [OF sim_runs(8)], rule runs_bind [OF start], simp only: simp_thms if_False,
          rule runs_bind [OF r0], simp only: option.case, rule runs_return)
  next
    case False
    then obtain l s e where "r = Some (l, s, e)" using r(2) by (cases r) auto
    with r(1) False have r1: "runs (wait_link (sim_linux n) g u 1 [0..<200] (0, 0, 0)) w1 (Some (l, s, e)) (waited 200 w1)"
      by simp
    have p2: "hw_polls w2 \<le> n" using False by (simp add: w2_def)
    obtain q where q: "runs (wait_link (sim_linux n) g u 201 [0..<200] (l, s, 0)) w2 q
      (if n < 400 then set_ctl g u (waited (n + 1 - 200) w2) else waited 200 w2)" "q = None \<longleftrightarrow> n < 400"
      using runs_wait_link [OF p2, of g u 201 "[0..<200]" "(l, s, 0)"] by (auto simp: w2_def)
    have final: "(if n < 400 then set_ctl g u (waited (n + 1 - 200) w2) else set_ctl g u (waited 200 w2)) =
        set_ctl g u (w\<lparr>hw_ms := hw_ms w + ms_needed n, hw_polls := polls_needed n\<rparr>)"
      using False by (auto simp: w2_def waited_def set_ctl_def ms_needed_def polls_needed_def)
    show ?thesis
      unfolding retrain_link_def final [symmetric]
    proof (rule runs_bind [OF sim_runs(8)], rule runs_bind [OF start], simp only: simp_thms if_False,
        rule runs_bind [OF r1], simp only: option.case prod.case, rule runs_bind [OF sim_runs(9)], rule runs_bind [OF sim_runs(8)],
        rule runs_bind [OF again], simp only: simp_thms if_False, rule runs_bind [OF q(1)], goal_cases)
      case 1
      then show ?case
        using q(2) by (cases "n < 400")
          (auto intro!: runs_return runs_bind [OF sim_runs(9)] runs_restore_ctl)
    qed
  qed
qed

section \<open>The whole function on it\<close>

lemma has_target_gen2: "has_target (target_gen2 v)"
proof -
  have "((v AND NOT m) OR c) AND m = c AND m" for m c :: u16
    by (simp add: bit.conj_disj_distrib2 and.assoc)
  then show ?thesis
    by (simp add: has_target_def target_gen2_def) (simp add: PCI_EXP_LNKCTL2_TLS_def PCI_EXP_LNKCTL2_TLS_5_0GT_def)
qed

definition retrained :: "nat \<Rightarrow> link_hw \<Rightarrow> link_hw" where
  "retrained n w = set_ctl (hw_ctl w Gpu) (hw_ctl w Upstream)
     (w\<lparr>hw_ctl2 := \<lambda>d. target_gen2 (hw_ctl2 w d), hw_regs := (hw_regs w)(0x8872c := 6),
        hw_ms := hw_ms w + ms_needed n, hw_polls := polls_needed n\<rparr>)"

lemma runs_program_targets:
  assumes "hw_polls w = 0"
  shows "runs (program_targets (sim_linux n) 0 (hw_ctl w Gpu) (hw_ctl2 w Gpu) (hw_ctl w Upstream) (hw_ctl2 w Upstream))
    w () (retrained n w)"
proof -
  let ?w1 = "w\<lparr>hw_ctl2 := \<lambda>d. target_gen2 (hw_ctl2 w d), hw_regs := (hw_regs w)(0x8872c := 6)\<rparr>"
  have c: "(hw_ctl2 w)(Gpu := target_gen2 (hw_ctl2 w Gpu), Upstream := target_gen2 (hw_ctl2 w Upstream)) =
      (\<lambda>d. target_gen2 (hw_ctl2 w d))"
    by (rule ext, case_tac d) simp_all
  have "runs (retrain_link (sim_linux n) (hw_ctl w Gpu) (hw_ctl w Upstream)) ?w1 () (retrained n w)"
    using runs_retrain_link [of ?w1 n "hw_ctl w Gpu" "hw_ctl w Upstream"] assms by (simp add: retrained_def)
  then show ?thesis
    unfolding program_targets_def
    by (rule_tac runs_bind [OF sim_runs(7)], simp add: hw_write_def,
        rule_tac runs_bind [OF sim_runs(7)], simp add: hw_write_def c,
        rule_tac runs_bind [OF sim_runs(6)], simp add: hw_read_def c,
        rule_tac runs_bind [OF sim_runs(6)], simp add: hw_read_def c has_target_gen2,
        rule_tac runs_bind [OF sim_runs(5)], rule_tac runs_bind [OF sim_runs(4)],
        rule_tac runs_bind [OF sim_runs(3)], simp)
qed

lemma runs_retrain:
  assumes "hw_polls w = 0"
  shows "runs (nv_cmp50hx_retrain_gen2 (sim_linux n) gpu) w ()
    (if nv_cmp50hx_is_supported gpu \<and>
        \<not> policy_missing (hw_regs w 0x8c2c0) (hw_regs w 0x8c040) (hw_regs w 0x8c1c0)
     then retrained n w else w)"
proof (cases "nv_cmp50hx_is_supported gpu")
  case True
  show ?thesis
    unfolding nv_cmp50hx_retrain_gen2_def
    by (simp only: True simp_thms if_True if_False, rule runs_bind [OF sim_runs(1)],
        simp only: simp_thms if_False, rule runs_bind [OF sim_runs(2)], simp only: option.case add_0,
        (rule runs_bind [OF sim_runs(4)])+)
      (auto simp: hw_read_def intro!: runs_bind [OF sim_runs(9)] sim_runs(3) runs_bind [OF sim_runs(6)]
        runs_program_targets assms)
qed (simp add: nv_cmp50hx_retrain_gen2_def runs_return)

text \<open>
  C27. On a link that comes up at some poll \<open>n\<close>, whatever the registers and control words hold, the
  function ends; it leaves an unsupported board or one without the policy as it was; otherwise both
  target words ask for Gen2 with their other bits kept, both control words are the original ones,
  the link-rate register holds 6, and the function has polled until the link was up, at most 400
  times, having slept at most 4.62 seconds.
\<close>

theorem retrain_on_link:
  "world_of (nv_cmp50hx_retrain_gen2 (sim_linux n) gpu) (w\<lparr>hw_polls := 0\<rparr>) =
   (if nv_cmp50hx_is_supported gpu \<and>
       \<not> policy_missing (hw_regs w 0x8c2c0) (hw_regs w 0x8c040) (hw_regs w 0x8c1c0)
    then \<lparr>hw_regs = (hw_regs w)(0x8872c := 6),
      hw_ctl = (\<lambda>d. hw_ctl w d AND NOT PCI_EXP_LNKCTL_RL),
      hw_ctl2 = (\<lambda>d. target_gen2 (hw_ctl2 w d)),
      hw_polls = min (n + 1) 400,
      hw_ms = hw_ms w + ms_needed n\<rparr>
    else w\<lparr>hw_polls := 0\<rparr>) \<and> ms_needed n \<le> 4620"
proof -
  have "(case d of Gpu \<Rightarrow> f Gpu | Upstream \<Rightarrow> f Upstream) = f d" for d and f :: "pci_dev \<Rightarrow> u16"
    by (cases d) simp_all
  then show ?thesis
    using runsD [OF runs_retrain [of "w\<lparr>hw_polls := 0\<rparr>" n gpu]]
    by (auto simp: retrained_def set_ctl_def polls_needed_def ms_needed_def intro: link_hw.equality)
qed

end
