(* ===== verification/Retrain_Bound.thy ===== *)
theory Retrain_Bound
  imports Retrain
begin

text \<open>
  How long the Gen2 retrain takes at most, whatever the hardware answers: its calls and its sleeps.
\<close>

fun slept :: "pci_event list \<Rightarrow> nat" where
  "slept [] = 0"
| "slept (PSleep ms # evs) = ms + slept evs"
| "slept (_ # evs) = slept evs"

lemma slept_append [simp]: "slept (xs @ ys) = slept xs + slept ys"
  by (induction xs rule: slept.induct) auto

text \<open>At most \<open>n\<close> calls, and at most \<open>ms\<close> milliseconds of sleep.\<close>

definition within :: "nat \<Rightarrow> nat \<Rightarrow> pci_event list \<Rightarrow> bool" where
  "within n ms evs \<longleftrightarrow> length evs \<le> n \<and> slept evs \<le> ms"

lemma emits_within_bind:
  assumes "emits m (\<lambda>_. within n1 ms1)" and "\<And>x. emits (f x) (\<lambda>_. within n2 ms2)"
    and "n1 + n2 \<le> n" and "ms1 + ms2 \<le> ms"
  shows "emits (State_Monad.bind m f) (\<lambda>_. within n ms)"
  by (rule emits_bindI [OF assms(1)], rule emits_mono [OF assms(2)])
    (use assms(3,4) in \<open>auto simp: within_def\<close>)

lemma emits_weaken:
  "emits m (\<lambda>_. within n1 ms1) \<Longrightarrow> n1 \<le> n \<Longrightarrow> ms1 \<le> ms \<Longrightarrow> emits m (\<lambda>_. within n ms)"
  by (erule emits_mono) (auto simp: within_def)

lemma small_within:
  "emits (capability_error_unmap L bar0 r) (\<lambda>_. within 2 0)"
  "emits (restore_ctl_unmap L bar0 gpu_ctl upstream_ctl r) (\<lambda>_. within 4 0)"
  "emits (restore_ctl L gpu_ctl upstream_ctl) (\<lambda>_. within 2 0)"
  "emits (request_recovery L gpu_ctl upstream_ctl) (\<lambda>_. within 3 50)"
  unfolding restore_ctl_unmap_def capability_error_unmap_def restore_ctl_def request_recovery_def
  by (intro emit; simp add: within_def)+

lemma wait_link_within:
  "emits (wait_link L gpu_ctl upstream_ctl first attempts st)
     (\<lambda>r. within (3 * length attempts + (if r = None then 3 else 0)) (10 * length attempts))"
proof (induction attempts arbitrary: st)
  case (Cons a as)
  show ?case
    unfolding wait_link.simps
    by (intro emit; (rule emits_mono [OF Cons.IH])?) (auto simp: within_def)
qed (simp add: emits_return within_def)

lemma wait_200_within:
  assumes "\<And>st. emits (f (Some st)) (\<lambda>_. within n ms)" and "emits (f None) (\<lambda>_. within 0 0)"
    and "3 \<le> n"
  shows "emits (State_Monad.bind (wait_link L gpu_ctl upstream_ctl first [0..<200] st) f)
    (\<lambda>_. within (600 + n) (2000 + ms))"
proof (rule emits_bindI [OF wait_link_within])
  fix x :: "(u16 \<times> u16 \<times> int) option" and e1
  assume e1: "within (3 * length [0..<200] + (if x = None then 3 else 0)) (10 * length [0..<200]) e1"
  show "emits (f x) (\<lambda>y e2. within (600 + n) (2000 + ms) (e1 @ e2))"
  proof (cases x)
    case None
    show ?thesis unfolding None
      by (rule emits_mono [OF assms(2)]) (use e1 None assms(3) in \<open>auto simp: within_def\<close>)
  next
    case (Some st')
    show ?thesis unfolding Some
      by (rule emits_mono [OF assms(1)]) (use e1 Some in \<open>auto simp: within_def\<close>)
  qed
qed

lemma sleep_within: "emits (msleep L ms) (\<lambda>_. within 1 ms)" and printf_within: "emits (dev_printf s) (\<lambda>_. within 1 0)"
  by (intro emit; simp add: within_def)+

lemmas within_bind = emits_within_bind [OF _ _ order_refl order_refl]

lemma retrain_link_within: "emits (retrain_link L gpu_ctl upstream_ctl) (\<lambda>_. within 1212 4620)"
proof -
  have none: "emits (ret ()) (\<lambda>_. within 0 0)" by (simp add: emits_return within_def)
  have "emits (retrain_link L gpu_ctl upstream_ctl) (\<lambda>_. within
      (1 + (3 + (600 + (1 + (1 + (3 + (600 + 3))))))) (20 + (50 + (2000 + (0 + (500 + (50 + (2000 + 0))))))))"
    unfolding retrain_link_def
  proof (rule within_bind [OF sleep_within], rule within_bind [OF small_within(4)], rule emits_if, goal_cases)
    case 1
    show ?case by (rule emits_weaken [OF small_within(3)]) simp_all
  next
    case (2 _ r)
    show ?case
    proof (rule wait_200_within, goal_cases)
      case (1 st)
      show ?case
      proof (cases st)
        case (fields link_status upstream_status r1)
        show ?thesis
          unfolding fields option.case prod.case
        proof (rule within_bind [OF printf_within], rule within_bind [OF sleep_within],
            rule within_bind [OF small_within(4)], rule emits_if, goal_cases)
          case 1
          show ?case by (rule emits_weaken [OF small_within(3)]) simp_all
        next
          case 2
          show ?case
          proof (rule wait_200_within, goal_cases)
            case (1 st)
            show ?case unfolding restore_ctl_def by (cases st) (simp, intro emit, simp_all add: within_def)
          qed (simp_all add: none)
        qed
      qed
    qed (simp_all add: none)
  qed
  then show ?thesis by simp
qed

lemma program_targets_within:
  "emits (program_targets L bar0 gpu_ctl gpu_ctl2 upstream_ctl upstream_ctl2) (\<lambda>_. within 1219 4620)"
  unfolding program_targets_def restore_ctl_unmap_def capability_error_unmap_def
  by (intro emit; (rule emits_mono [OF retrain_link_within])?) (auto simp: within_def)

text \<open>
  C28. The Gen2 retrain ends on every hardware: whatever is read, and whether or not the link ever
  comes up, it makes at most 1228 calls and sleeps at most 4.62 seconds in all.
\<close>

theorem retrain_ends:
  "length (trace_of (nv_cmp50hx_retrain_gen2 L gpu) w) \<le> 1228 \<and>
   slept (trace_of (nv_cmp50hx_retrain_gen2 L gpu) w) \<le> 4620"
proof -
  have "emits (nv_cmp50hx_retrain_gen2 L gpu) (\<lambda>_. within 1228 4620)"
    unfolding nv_cmp50hx_retrain_gen2_def capability_error_unmap_def
    by (intro emit; (rule emits_mono [OF program_targets_within])?) (auto simp: within_def)
  from emits_traceD [OF this, of w] show ?thesis by (simp add: within_def)
qed

end
