(* ===== verification/Rebar.thy ===== *)
theory Rebar
  imports Pci
begin

text \<open>
  \<open>nv_cmp50_unlock_bar1_resize\<close> of \<open>03-cmp50-rebar.patch\<close>: before the driver's own BAR1 resize it
  makes the board offer the wanted size in its extended configuration space, and re-arms the
  physical control entry after a reset.  \<open>selector\<close> is the module parameter \<open>cmp50_rebar_size\<close>,
  \<open>bar1\<close> the driver's \<open>NV_GPU_BAR1\<close>, \<open>present\<close> tells whether the build has
  \<open>NV_PCI_REBAR_GET_POSSIBLE_SIZES_PRESENT\<close>.
\<close>

section \<open>The program\<close>

definition NV_CMP50_REBAR_XVE_BASE_OFFSET :: nat where "NV_CMP50_REBAR_XVE_BASE_OFFSET = 0x00088000"
definition NV_CMP50_REBAR_CYA_OFFSET :: nat where "NV_CMP50_REBAR_CYA_OFFSET = 0x00000724"
definition NV_CMP50_REBAR_CAP_OFFSET :: nat where "NV_CMP50_REBAR_CAP_OFFSET = 0x00000bbc"
definition NV_CMP50_REBAR_CFG_OFFSET :: nat where "NV_CMP50_REBAR_CFG_OFFSET = 0x00000dcc"
definition NV_CMP50_REBAR_CYA_UNLOCK :: u32 where "NV_CMP50_REBAR_CYA_UNLOCK = 0x00000030"
definition NV_CMP50_REBAR_CFG_ENABLE :: u32 where "NV_CMP50_REBAR_CFG_ENABLE = push_bit 31 1"
definition NV_CMP50_REBAR_CFG_SIZE_MASK :: u32 where "NV_CMP50_REBAR_CFG_SIZE_MASK = 0x0000000f"

definition rebar_supported :: "pci_ids \<Rightarrow> bool" where
  "rebar_supported gpu \<longleftrightarrow> p_vendor gpu = PCI_VENDOR_ID_NVIDIA \<and> p_device gpu = 0x1e09 \<and>
     (p_subsystem_vendor gpu = 0x10de \<and> p_subsystem_device gpu = 0x1554 \<or>
      p_subsystem_vendor gpu = 0x1462 \<and> p_subsystem_device gpu = 0x371f)"

definition new_cfg_word :: "u32 \<Rightarrow> u32 \<Rightarrow> u32" where
  "new_cfg_word cfg selector =
     (cfg AND NOT NV_CMP50_REBAR_CFG_SIZE_MASK) OR NV_CMP50_REBAR_CFG_ENABLE OR selector"

definition cfg_differs :: "u32 \<Rightarrow> u32 \<Rightarrow> bool" where
  "cfg_differs read_cfg new_cfg \<longleftrightarrow>
     read_cfg AND (NV_CMP50_REBAR_CFG_ENABLE OR NV_CMP50_REBAR_CFG_SIZE_MASK) \<noteq>
     new_cfg AND (NV_CMP50_REBAR_CFG_ENABLE OR NV_CMP50_REBAR_CFG_SIZE_MASK)"

definition offers_size :: "u64 \<Rightarrow> u32 \<Rightarrow> bool" where
  "offers_size sizes selector \<longleftrightarrow> sizes AND push_bit (unat (selector + 6)) 1 \<noteq> 0"

text \<open>The clean-up that every failing check after the first write repeats.\<close>

definition restore_xve :: "'w linux \<Rightarrow> nat \<Rightarrow> u32 \<Rightarrow> u32 \<Rightarrow> ('w, int) driver" where
  "restore_xve L xve cya cfg = do {
     writel L cfg (xve + NV_CMP50_REBAR_CFG_OFFSET);
     writel L cya (xve + NV_CMP50_REBAR_CYA_OFFSET);
     readl L (xve + NV_CMP50_REBAR_CYA_OFFSET);
     iounmap L xve;
     ret (- EIO)
   }"

fun find_bar1 :: "'w linux \<Rightarrow> nat \<Rightarrow> nat \<Rightarrow> nat list \<Rightarrow> ('w, (nat \<times> u32) option) driver" where
  "find_bar1 L bar1 rebar_pos [] = ret None"
| "find_bar1 L bar1 rebar_pos (entry # entries) = do {
     rebar_ctrl \<leftarrow> config_read32 L (rebar_pos + PCI_REBAR_CTRL + entry * 8);
     if unat (rebar_ctrl AND PCI_REBAR_CTRL_BAR_IDX) = bar1 then ret (Some (entry, rebar_ctrl))
     else find_bar1 L bar1 rebar_pos entries
   }"

definition needs_rearm :: "u64 \<Rightarrow> u32 \<Rightarrow> u32 \<Rightarrow> bool" where
  "needs_rearm bar1_len requested_size rebar_ctrl \<longleftrightarrow>
     bar1_len = push_bit (unat (requested_size + 20)) 1 \<and>
     drop_bit PCI_REBAR_CTRL_BAR_SHIFT (rebar_ctrl AND PCI_REBAR_CTRL_BAR_SIZE) \<noteq> requested_size"

definition sized_ctrl :: "u32 \<Rightarrow> u32 \<Rightarrow> u32" where
  "sized_ctrl rebar_ctrl requested_size =
     (rebar_ctrl AND NOT PCI_REBAR_CTRL_BAR_SIZE) OR push_bit PCI_REBAR_CTRL_BAR_SHIFT requested_size"

text \<open>Write the control entry with memory decoding off; the result is what it reads back as.\<close>

definition rearm :: "'w linux \<Rightarrow> nat \<Rightarrow> u32 \<Rightarrow> ('w, u32) driver" where
  "rearm L off rebar_ctrl = do {
     command \<leftarrow> config_read16 L PCI_COMMAND;
     config_write16 L PCI_COMMAND (command AND NOT PCI_COMMAND_MEMORY);
     config_write32 L off rebar_ctrl;
     rebar_ctrl_after \<leftarrow> config_read32 L off;
     config_write16 L PCI_COMMAND command;
     ret rebar_ctrl_after
   }"

type_synonym xve_words = "u32 \<times> u32 \<times> u32"

definition enable_resize ::
  "'w linux \<Rightarrow> nat \<Rightarrow> u32 \<Rightarrow> u64 \<Rightarrow> xve_words \<Rightarrow> xve_words \<Rightarrow> ('w, int) driver" where
  "enable_resize L xve selector sizes old new = do {
     let (cya, cfg, cap) = old;
     let (read_cya, read_cfg, read_cap) = new;
     set_param ''NVreg_EnableResizableBar'' 1;
     dev_printf (printf
       ''NVRM: CMP50_REBAR: selector=%u mask=0x%lx XVE=%08x/%08x/%08x->%08x/%08x/%08x\<newline>''
       [FUInt selector, FULong sizes, FUInt cya, FUInt cfg, FUInt cap, FUInt read_cya,
        FUInt read_cfg, FUInt read_cap]);
     iounmap L xve;
     ret 0
   }"

text \<open>With the control entry of BAR1 found.\<close>

definition check_found ::
  "'w linux \<Rightarrow> nat \<Rightarrow> nat \<Rightarrow> u32 \<Rightarrow> u64 \<Rightarrow> xve_words \<Rightarrow> xve_words \<Rightarrow> nat \<Rightarrow> nat \<Rightarrow> u32 \<Rightarrow> ('w, int) driver" where
  "check_found L bar1 xve selector sizes old new rebar_pos entry rebar_ctrl = do {
     let (cya, cfg, cap) = old;
     let requested_size = selector + 6;
     bar1_len \<leftarrow> resource_len L bar1;
     if needs_rearm bar1_len requested_size rebar_ctrl then do {
       let rebar_ctrl = sized_ctrl rebar_ctrl requested_size;
       rebar_ctrl_after \<leftarrow> rearm L (rebar_pos + PCI_REBAR_CTRL + entry * 8) rebar_ctrl;
       if rebar_ctrl_after AND PCI_REBAR_CTRL_BAR_SIZE \<noteq> rebar_ctrl AND PCI_REBAR_CTRL_BAR_SIZE
       then do {
         dev_printf (printf ''NVRM: CMP50_REBAR: FLR re-arm failed %08x/%08x\<newline>''
           [FUInt rebar_ctrl, FUInt rebar_ctrl_after]);
         restore_xve L xve cya cfg
       } else do {
         dev_printf (printf ''NVRM: CMP50_REBAR: FLR re-arm selector=%u control=%08x\<newline>''
           [FUInt requested_size, FUInt rebar_ctrl_after]);
         enable_resize L xve selector sizes old new
       }
     } else enable_resize L xve selector sizes old new
   }"

text \<open>From the search for the physical capability on.\<close>

definition check_physical ::
  "'w linux \<Rightarrow> nat \<Rightarrow> nat \<Rightarrow> u32 \<Rightarrow> u64 \<Rightarrow> xve_words \<Rightarrow> xve_words \<Rightarrow> ('w, int) driver" where
  "check_physical L bar1 xve selector sizes old new = do {
     let (cya, cfg, cap) = old;
     rebar_pos \<leftarrow> find_ext_capability L PCI_EXT_CAP_ID_REBAR;
     if rebar_pos = 0 then do {
       dev_printf (printf ''NVRM: CMP50_REBAR: physical ReBAR capability disappeared\<newline>'' []);
       restore_xve L xve cya cfg
     } else do {
       first_ctrl \<leftarrow> config_read32 L (rebar_pos + PCI_REBAR_CTRL);
       let nbar = drop_bit PCI_REBAR_CTRL_NBAR_SHIFT (first_ctrl AND PCI_REBAR_CTRL_NBAR_MASK);
       found \<leftarrow> find_bar1 L bar1 rebar_pos [0..<unat nbar];
       (case found of
          None \<Rightarrow> do {
            dev_printf (printf ''NVRM: CMP50_REBAR: BAR1 control entry not found\<newline>'' []);
            restore_xve L xve cya cfg
          }
        | Some (entry, rebar_ctrl) \<Rightarrow> check_found L bar1 xve selector sizes old new rebar_pos entry rebar_ctrl)
     }
   }"

text \<open>With the XVE page mapped.\<close>

definition program_xve :: "'w linux \<Rightarrow> nat \<Rightarrow> nat \<Rightarrow> u32 \<Rightarrow> ('w, int) driver" where
  "program_xve L bar1 xve selector = do {
     cya \<leftarrow> readl L (xve + NV_CMP50_REBAR_CYA_OFFSET);
     cfg \<leftarrow> readl L (xve + NV_CMP50_REBAR_CFG_OFFSET);
     cap \<leftarrow> readl L (xve + NV_CMP50_REBAR_CAP_OFFSET);
     let new_cfg = new_cfg_word cfg selector;
     writel L NV_CMP50_REBAR_CYA_UNLOCK (xve + NV_CMP50_REBAR_CYA_OFFSET);
     read_cya \<leftarrow> readl L (xve + NV_CMP50_REBAR_CYA_OFFSET);
     writel L new_cfg (xve + NV_CMP50_REBAR_CFG_OFFSET);
     read_cfg \<leftarrow> readl L (xve + NV_CMP50_REBAR_CFG_OFFSET);
     read_cap \<leftarrow> readl L (xve + NV_CMP50_REBAR_CAP_OFFSET);
     if cfg_differs read_cfg new_cfg then do {
       dev_printf (printf
         ''NVRM: CMP50_REBAR: XVE readback failed old=%08x/%08x/%08x new=%08x/%08x/%08x\<newline>''
         [FUInt cya, FUInt cfg, FUInt cap, FUInt read_cya, FUInt read_cfg, FUInt read_cap]);
       restore_xve L xve cya cfg
     } else do {
       mask \<leftarrow> possible_sizes L bar1;
       let sizes = (ucast mask :: u64);
       if \<not> offers_size sizes selector then do {
         dev_printf (printf
           ''NVRM: CMP50_REBAR: size mask 0x%lx has no selector %u XVE=%08x/%08x/%08x->%08x/%08x/%08x\<newline>''
           [FULong sizes, FUInt (selector + 6), FUInt cya, FUInt cfg, FUInt cap, FUInt read_cya,
            FUInt read_cfg, FUInt read_cap]);
         restore_xve L xve cya cfg
       } else check_physical L bar1 xve selector sizes (cya, cfg, cap) (read_cya, read_cfg, read_cap)
     }
   }"

definition nv_cmp50_unlock_bar1_resize ::
  "'w linux \<Rightarrow> bool \<Rightarrow> u32 \<Rightarrow> nat \<Rightarrow> pci_ids \<Rightarrow> nat \<Rightarrow> ('w, int) driver" where
  "nv_cmp50_unlock_bar1_resize L present selector bar1 gpu regs_bar_index =
     (if \<not> present then ret 0
      else if \<not> rebar_supported gpu \<or> selector = 0 then ret 0
      else if selector > 8 then do {
        dev_printf (printf ''NVRM: CMP50_REBAR: bad selector %u; use 0..8\<newline>'' [FUInt selector]);
        ret (- EINVAL)
      } else do {
        bar0_size \<leftarrow> resource_len L regs_bar_index;
        bar0_flags \<leftarrow> resource_flags L regs_bar_index;
        if bar0_flags AND IORESOURCE_MEM = 0 \<or>
           unat bar0_size < NV_CMP50_REBAR_XVE_BASE_OFFSET + 0x1000 then do {
          dev_printf (printf ''NVRM: CMP50_REBAR: BAR0 is not usable for XVE\<newline>'' []);
          ret (- ENODEV)
        } else do {
          m \<leftarrow> ioremap_at L regs_bar_index NV_CMP50_REBAR_XVE_BASE_OFFSET 0x1000;
          (case m of
             None \<Rightarrow> do {
               dev_printf (printf ''NVRM: CMP50_REBAR: XVE map failed\<newline>'' []);
               ret (- ENOMEM)
             }
           | Some xve \<Rightarrow> program_xve L bar1 xve selector)
        }
      })"

end
