(* ===== verification/Rebar_Contract.thy ===== *)
theory Rebar_Contract
  imports Rebar
begin

text \<open>
  What \<open>nv_cmp50_unlock_bar1_resize\<close> promises on every run, as an automaton over its events: the
  order of the checks, the only words it may write and when, and that a failing call leaves the
  XVE words as it found them.
\<close>

section \<open>The contract\<close>

text \<open>
  \<open>x_cya0\<close>, \<open>x_cfg0\<close> and \<open>x_command0\<close> are the words found, \<open>x_cya\<close>, \<open>x_cfg\<close> and \<open>x_command\<close> the words
  last written (or found); \<open>x_seen\<close> is the configuration word read back, \<open>x_entry\<close> the offset and
  value of the control entry last read, \<open>x_len\<close> the length of BAR1.
\<close>

record xve_state =
  x_map :: "nat option"
  x_cya0 :: "u32 option"
  x_cya :: "u32 option"
  x_cfg0 :: "u32 option"
  x_cfg :: "u32 option"
  x_seen :: "u32 option"
  x_sizes :: "u32 option"
  x_pos :: "nat option"
  x_entry :: "(nat \<times> u32) option"
  x_len :: "u64 option"
  x_command0 :: "u16 option"
  x_command :: "u16 option"
  x_enabled :: bool

definition x_start :: xve_state where
  "x_start = \<lparr>x_map = None, x_cya0 = None, x_cya = None, x_cfg0 = None, x_cfg = None, x_seen = None,
     x_sizes = None, x_pos = None, x_entry = None, x_len = None, x_command0 = None, x_command = None,
     x_enabled = False\<rparr>"

definition x_readl :: "xve_state \<Rightarrow> nat \<Rightarrow> u32 \<Rightarrow> xve_state option" where
  "x_readl st off v =
     (if off = NV_CMP50_REBAR_CYA_OFFSET then
        Some (if x_cya0 st = None then st\<lparr>x_cya0 := Some v, x_cya := Some v\<rparr> else st)
      else if off = NV_CMP50_REBAR_CFG_OFFSET then
        Some (if x_cfg0 st = None then st\<lparr>x_cfg0 := Some v, x_cfg := Some v\<rparr> else st\<lparr>x_seen := Some v\<rparr>)
      else if off = NV_CMP50_REBAR_CAP_OFFSET then Some st else None)"

definition x_writel :: "u32 \<Rightarrow> xve_state \<Rightarrow> nat \<Rightarrow> u32 \<Rightarrow> xve_state option" where
  "x_writel selector st off v =
     (case (x_cya0 st, x_cfg0 st) of
        (Some cya0, Some cfg0) \<Rightarrow>
          if off = NV_CMP50_REBAR_CYA_OFFSET then
            if v = NV_CMP50_REBAR_CYA_UNLOCK \<or> v = cya0 \<and> x_cfg st = Some cfg0
            then Some (st\<lparr>x_cya := Some v\<rparr>) else None
          else if off = NV_CMP50_REBAR_CFG_OFFSET then
            if v = cfg0 \<or> v = new_cfg_word cfg0 selector \<and> x_cya st = Some NV_CMP50_REBAR_CYA_UNLOCK
            then Some (st\<lparr>x_cfg := Some v, x_seen := None\<rparr>) else None
          else None
      | _ \<Rightarrow> None)"

text \<open>The three stages that must be passed: the configuration reads back, the size is offered,
  and the physical entry of BAR1 agrees with the length of BAR1.\<close>

definition x_programmed :: "u32 \<Rightarrow> xve_state \<Rightarrow> bool" where
  "x_programmed selector st \<longleftrightarrow>
     (case (x_cfg st, x_seen st) of (Some v, Some seen) \<Rightarrow> \<not> cfg_differs seen v | _ \<Rightarrow> False)"

definition x_offered :: "u32 \<Rightarrow> xve_state \<Rightarrow> bool" where
  "x_offered selector st \<longleftrightarrow> x_programmed selector st \<and>
     (case x_sizes st of Some m \<Rightarrow> offers_size (ucast m) selector | None \<Rightarrow> False)"

definition x_armed :: "u32 \<Rightarrow> xve_state \<Rightarrow> bool" where
  "x_armed selector st \<longleftrightarrow> x_offered selector st \<and> x_command st = x_command0 st \<and>
     (case (x_entry st, x_len st) of
        (Some (off, ctrl), Some len) \<Rightarrow> \<not> needs_rearm len (selector + 6) ctrl | _ \<Rightarrow> False)"

text \<open>The one write of the control entry: of BAR1, with memory decoding off, only the size field,
  and only if BAR1 already has the wanted length.\<close>

definition x_rearms :: "u32 \<Rightarrow> nat \<Rightarrow> xve_state \<Rightarrow> nat \<Rightarrow> u32 \<Rightarrow> bool" where
  "x_rearms selector bar1 st off v \<longleftrightarrow> x_offered selector st \<and>
     (case (x_entry st, x_len st, x_command0 st) of
        (Some (off', ctrl), Some len, Some command) \<Rightarrow>
          off = off' \<and> unat (ctrl AND PCI_REBAR_CTRL_BAR_IDX) = bar1 \<and>
          needs_rearm len (selector + 6) ctrl \<and> v = sized_ctrl ctrl (selector + 6) \<and>
          x_command st = Some (command AND NOT PCI_COMMAND_MEMORY)
      | _ \<Rightarrow> False)"

definition x_step :: "u32 \<Rightarrow> nat \<Rightarrow> xve_state \<Rightarrow> pci_event \<Rightarrow> xve_state option" where
  "x_step selector bar1 st ev =
     (case ev of
        PLen bar v \<Rightarrow> Some (if bar = bar1 then st\<lparr>x_len := Some v\<rparr> else st)
      | PIoremap len a \<Rightarrow>
          if x_map st = None \<and> x_cya0 st = None \<and> len = 0x1000 then Some (st\<lparr>x_map := a\<rparr>) else None
      | PIounmap a \<Rightarrow> if x_map st = Some a then Some (st\<lparr>x_map := None\<rparr>) else None
      | PReadl a v \<Rightarrow>
          (case x_map st of None \<Rightarrow> None | Some b \<Rightarrow> if b \<le> a then x_readl st (a - b) v else None)
      | PWritel v a \<Rightarrow>
          (case x_map st of None \<Rightarrow> None | Some b \<Rightarrow> if b \<le> a then x_writel selector st (a - b) v else None)
      | PSizes bar v \<Rightarrow>
          if bar = bar1 \<and> x_programmed selector st then Some (st\<lparr>x_sizes := Some v\<rparr>) else None
      | PFindCap cap p \<Rightarrow>
          if cap = PCI_EXT_CAP_ID_REBAR \<and> x_offered selector st then Some (st\<lparr>x_pos := Some p\<rparr>) else None
      | PConfRead32 off v \<Rightarrow>
          (case x_pos st of
             None \<Rightarrow> None
           | Some p \<Rightarrow>
               if p \<noteq> 0 \<and> off \<in> (\<lambda>k. p + PCI_REBAR_CTRL + k * 8) ` {..<7}
               then Some (st\<lparr>x_entry := Some (off, v)\<rparr>) else None)
      | PConfWrite32 off v \<Rightarrow> if x_rearms selector bar1 st off v then Some st else None
      | PConfRead16 off v \<Rightarrow>
          if off = PCI_COMMAND \<and> x_command0 st = None
          then Some (st\<lparr>x_command0 := Some v, x_command := Some v\<rparr>) else None
      | PConfWrite16 off v \<Rightarrow>
          (case x_command0 st of
             None \<Rightarrow> None
           | Some command \<Rightarrow>
               if off = PCI_COMMAND \<and> (v = command \<or> v = command AND NOT PCI_COMMAND_MEMORY)
               then Some (st\<lparr>x_command := Some v\<rparr>) else None)
      | PSetParam name v \<Rightarrow>
          if name = ''NVreg_EnableResizableBar'' \<and> v = 1 \<and> x_armed selector st
          then Some (st\<lparr>x_enabled := True\<rparr>) else None
      | PLog s \<Rightarrow> Some st
      | _ \<Rightarrow> None)"

fun x_run :: "u32 \<Rightarrow> nat \<Rightarrow> xve_state \<Rightarrow> pci_event list \<Rightarrow> xve_state option" where
  "x_run selector bar1 st [] = Some st"
| "x_run selector bar1 st (ev # evs) =
     Option.bind (x_step selector bar1 st ev) (\<lambda>st'. x_run selector bar1 st' evs)"

text \<open>
  At the end: nothing mapped, memory decoding as found; and either the resize was enabled and the
  call succeeds with the XVE page programmed, or the call fails with the XVE page as found.
\<close>

definition x_done :: "u32 \<Rightarrow> int \<Rightarrow> xve_state \<Rightarrow> bool" where
  "x_done selector r st \<longleftrightarrow> x_map st = None \<and> x_command st = x_command0 st \<and>
     (if x_enabled st
      then r = 0 \<and> x_cya st = Some NV_CMP50_REBAR_CYA_UNLOCK \<and>
        x_cfg st = map_option (\<lambda>cfg0. new_cfg_word cfg0 selector) (x_cfg0 st)
      else r < 0 \<and> x_cya st = x_cya0 st \<and> x_cfg st = x_cfg0 st)"

definition x_ok :: "u32 \<Rightarrow> nat \<Rightarrow> xve_state \<Rightarrow> int \<Rightarrow> pci_event list \<Rightarrow> bool" where
  "x_ok selector bar1 st r evs \<longleftrightarrow>
     (case x_run selector bar1 st evs of None \<Rightarrow> False | Some st' \<Rightarrow> x_done selector r st')"

interpretation xve: acceptor "x_step s b" "x_run s b" "x_done s r" "\<lambda>st. x_ok s b st r" for s b r
  by unfold_locales (simp_all add: x_ok_def)


section \<open>Arithmetic of the control words\<close>

lemma selector_cases:
  fixes s :: u32
  assumes "\<not> s > 8"
  shows "s \<in> {0, 1, 2, 3, 4, 5, 6, 7, 8}"
proof -
  have "unat s \<le> 8" using assms by (simp add: word_le_nat_alt not_less)
  then have "unat s \<in> {0, 1, 2, 3, 4, 5, 6, 7, 8}" by auto
  then show ?thesis by (simp add: word_unat_eq_iff)
qed

lemma sized_ctrl_size:
  "sized_ctrl c r AND PCI_REBAR_CTRL_BAR_SIZE = push_bit PCI_REBAR_CTRL_BAR_SHIFT r AND PCI_REBAR_CTRL_BAR_SIZE"
  by (simp add: sized_ctrl_def bit.conj_disj_distrib2 and.assoc)

lemma sized_ctrl_field:
  "\<not> s > 8 \<Longrightarrow> drop_bit PCI_REBAR_CTRL_BAR_SHIFT (sized_ctrl c (s + 6) AND PCI_REBAR_CTRL_BAR_SIZE) = s + 6"
  unfolding sized_ctrl_size
  by (drule selector_cases) (auto simp: PCI_REBAR_CTRL_BAR_SHIFT_def PCI_REBAR_CTRL_BAR_SIZE_def)

lemma nbar_less: "unat (drop_bit PCI_REBAR_CTRL_NBAR_SHIFT (c AND PCI_REBAR_CTRL_NBAR_MASK)) \<le> 7"
proof -
  have "drop_bit 5 (c AND 0xe0) = drop_bit 5 c AND 7" by (simp add: drop_bit_and)
  moreover have "unat (drop_bit 5 c AND 7) \<le> 7"
    using word_and_le1 [of "drop_bit 5 c" "7 :: u32"] by (simp add: word_le_nat_alt)
  ultimately show ?thesis by (simp add: PCI_REBAR_CTRL_NBAR_SHIFT_def PCI_REBAR_CTRL_NBAR_MASK_def)
qed


section \<open>The program keeps it\<close>

lemmas xve_offsets = NV_CMP50_REBAR_CYA_OFFSET_def NV_CMP50_REBAR_CAP_OFFSET_def NV_CMP50_REBAR_CFG_OFFSET_def

text \<open>The page is mapped, its original words are known, and memory decoding is as found.\<close>

definition x_page :: "nat \<Rightarrow> u32 \<Rightarrow> u32 \<Rightarrow> xve_state \<Rightarrow> bool" where
  "x_page b cya cfg st \<longleftrightarrow> x_map st = Some b \<and> x_cya0 st = Some cya \<and> x_cfg0 st = Some cfg \<and>
     \<not> x_enabled st \<and> x_command st = x_command0 st"

lemma emits_restore_xve: "x_page b cya cfg st \<Longrightarrow> emits (restore_xve L b cya cfg) (x_ok s bar1 st)"
  unfolding restore_xve_def x_page_def
  by (intro emit)
    (auto simp: x_step_def x_readl_def x_writel_def xve_offsets x_done_def EIO_def)

text \<open>Both words of the page are programmed, and the size is offered.\<close>

definition x_unlocked :: "u32 \<Rightarrow> nat \<Rightarrow> u32 \<Rightarrow> u32 \<Rightarrow> xve_state \<Rightarrow> bool" where
  "x_unlocked s b cya cfg st \<longleftrightarrow> x_page b cya cfg st \<and> x_cya st = Some NV_CMP50_REBAR_CYA_UNLOCK \<and>
     x_cfg st = Some (new_cfg_word cfg s) \<and> x_offered s st"

lemma emits_enable_resize:
  "x_unlocked s b cya cfg st \<Longrightarrow> x_armed s st \<Longrightarrow>
     emits (enable_resize L b s sizes (cya, cfg, cap) new) (x_ok s bar1 st)"
  unfolding enable_resize_def x_unlocked_def x_page_def
  by (cases new, simp, intro emit)
    (auto simp: x_step_def x_done_def)

lemma x_offered_update [simp]:
  "x_offered s (st\<lparr>x_pos := p\<rparr>) = x_offered s st" "x_offered s (st\<lparr>x_entry := e\<rparr>) = x_offered s st"
  "x_offered s (st\<lparr>x_len := l\<rparr>) = x_offered s st"
  "x_offered s (st\<lparr>x_command := c\<rparr>) = x_offered s st" "x_offered s (st\<lparr>x_command0 := c\<rparr>) = x_offered s st"
  by (simp_all add: x_offered_def x_programmed_def)

lemma x_unlocked_update [simp]:
  "x_unlocked s b cya cfg (st\<lparr>x_pos := p\<rparr>) = x_unlocked s b cya cfg st"
  "x_unlocked s b cya cfg (st\<lparr>x_entry := e\<rparr>) = x_unlocked s b cya cfg st"
  "x_unlocked s b cya cfg (st\<lparr>x_len := l\<rparr>) = x_unlocked s b cya cfg st"
  by (simp_all add: x_unlocked_def x_page_def)

definition entry_of :: "nat \<Rightarrow> u32 \<Rightarrow> bool" where
  "entry_of bar1 ctrl \<longleftrightarrow> unat (ctrl AND PCI_REBAR_CTRL_BAR_IDX) = bar1"

lemma emits_find_bar1:
  assumes "x_pos st = Some p" and "p \<noteq> 0" and "set entries \<subseteq> {..<7}"
  shows "emits (find_bar1 L bar1 p entries) (\<lambda>r evs. \<exists>e. x_run s bar1 st evs = Some (st\<lparr>x_entry := e\<rparr>) \<and>
    (\<forall>entry ctrl. r = Some (entry, ctrl) \<longrightarrow> entry < 7 \<and>
       e = Some (p + PCI_REBAR_CTRL + entry * 8, ctrl) \<and> entry_of bar1 ctrl))"
  using assms
proof (induction entries arbitrary: st)
  case Nil
  have "st\<lparr>x_entry := x_entry st\<rparr> = st" by simp
  then show ?case by (auto intro!: emits_return exI [of _ "x_entry st"])
next
  case (Cons entry entries)
  let ?st = "\<lambda>v. st\<lparr>x_entry := Some (p + PCI_REBAR_CTRL + entry * 8, v)\<rparr>"
  have step: "x_step s bar1 st (PConfRead32 (p + PCI_REBAR_CTRL + entry * 8) v) = Some (?st v)" for v
    using Cons.prems by (auto simp: x_step_def)
  have IH: "emits (find_bar1 L bar1 p entries) (\<lambda>r evs. \<exists>e. x_run s bar1 (?st v) evs = Some (st\<lparr>x_entry := e\<rparr>) \<and>
      (\<forall>entry ctrl. r = Some (entry, ctrl) \<longrightarrow> entry < 7 \<and>
         e = Some (p + PCI_REBAR_CTRL + entry * 8, ctrl) \<and> entry_of bar1 ctrl))" for v
    using Cons.IH [of "?st v"] Cons.prems by simp
  show ?case
    unfolding find_bar1.simps
    by (intro emit) (use Cons.prems in \<open>auto simp: step entry_of_def intro: IH [unfolded entry_of_def]\<close>)
qed

lemma emits_rearm:
  assumes "x_offered s st" and "x_pos st = Some p" and "p \<noteq> 0" and "entry < 7" and "x_command0 st = None"
    and "x_entry st = Some (p + PCI_REBAR_CTRL + entry * 8, ctrl)" and "x_len st = Some len"
    and "unat (ctrl AND PCI_REBAR_CTRL_BAR_IDX) = bar1" and "needs_rearm len (s + 6) ctrl"
  shows "emits (rearm L (p + PCI_REBAR_CTRL + entry * 8) (sized_ctrl ctrl (s + 6)))
    (\<lambda>after evs. \<exists>c. x_run s bar1 st evs = Some (st\<lparr>x_command0 := Some c,
       x_entry := Some (p + PCI_REBAR_CTRL + entry * 8, after), x_command := Some c\<rparr>))"
  unfolding rearm_def
  by (intro emit) (use assms in \<open>auto simp: x_step_def x_rearms_def\<close>)

lemma x_unlocked_command:
  "x_unlocked s b cya cfg st \<Longrightarrow> x_unlocked s b cya cfg (st\<lparr>x_command0 := Some c, x_entry := e, x_command := Some c\<rparr>)"
  by (simp add: x_unlocked_def x_page_def)

lemma rearmed_agrees:
  assumes "\<not> s > 8" and "after AND PCI_REBAR_CTRL_BAR_SIZE = sized_ctrl ctrl (s + 6) AND PCI_REBAR_CTRL_BAR_SIZE"
  shows "\<not> needs_rearm len (s + 6) after"
  using sized_ctrl_field [OF assms(1), of ctrl] assms(2) by (simp add: needs_rearm_def)

lemma emits_logged:
  "emits m (x_ok s b st) \<Longrightarrow> emits (do { dev_printf (Some t); m }) (x_ok s b st)"
  by (rule emits_bind, rule emits_dev_printf) (auto simp: x_step_def elim: emits_mono)

lemma emits_check_found:
  assumes u: "x_unlocked s b cya cfg st" and s: "\<not> s > 8" and pos: "x_pos st = Some p" "p \<noteq> 0"
    and entry: "entry < 7" "x_entry st = Some (p + PCI_REBAR_CTRL + entry * 8, ctrl)"
    and idx: "unat (ctrl AND PCI_REBAR_CTRL_BAR_IDX) = bar1" and c0: "x_command0 st = None"
  shows "emits (check_found L bar1 b s sizes (cya, cfg, cap) new p entry ctrl) (x_ok s bar1 st)"
proof -
  have len: "x_step s bar1 st (PLen bar1 l) = Some (st\<lparr>x_len := Some l\<rparr>)" for l
    by (simp add: x_step_def)
  have page: "x_page b cya cfg st'" if "x_unlocked s b cya cfg st'" for st'
    using that by (simp add: x_unlocked_def)
  have direct: "emits (enable_resize L b s sizes (cya, cfg, cap) new) (x_ok s bar1 (st\<lparr>x_len := Some l\<rparr>))"
    if "\<not> needs_rearm l (s + 6) ctrl" for l
    by (rule emits_enable_resize) (use u c0 entry that in \<open>auto simp: x_armed_def x_unlocked_def x_page_def\<close>)
  have rearmed: "emits (rearm L (p + PCI_REBAR_CTRL + entry * 8) (sized_ctrl ctrl (s + 6))) (\<lambda>after evs. \<exists>c.
      x_run s bar1 (st\<lparr>x_len := Some l\<rparr>) evs = Some (st\<lparr>x_len := Some l, x_command0 := Some c,
        x_entry := Some (p + PCI_REBAR_CTRL + entry * 8, after), x_command := Some c\<rparr>))"
    if "needs_rearm l (s + 6) ctrl" for l
    using emits_rearm [of s "st\<lparr>x_len := Some l\<rparr>" p entry ctrl l bar1 L] u pos entry idx c0 that
    by (simp add: x_unlocked_def)
  let ?st = "\<lambda>l c a. st\<lparr>x_len := Some l, x_command0 := Some c,
    x_entry := Some (p + PCI_REBAR_CTRL + entry * 8, a), x_command := Some c\<rparr>"
  have u': "x_unlocked s b cya cfg (?st l c a)" for l c a
    using u by (intro x_unlocked_command) simp
  have armed: "x_armed s (?st l c a)"
    if "a AND PCI_REBAR_CTRL_BAR_SIZE = sized_ctrl ctrl (s + 6) AND PCI_REBAR_CTRL_BAR_SIZE" for l c a
    using rearmed_agrees [OF s that] u' by (simp add: x_armed_def x_unlocked_def)
  show ?thesis
    unfolding check_found_def Let_def prod.case
    by (intro emits_bind [of "resource_len L bar1"] emits_resource_len emits_if)
      (auto simp: len xve.ok_append intro!: direct emits_bindI [OF rearmed] emits_logged
        emits_restore_xve page emits_enable_resize armed u')
qed

lemma emits_check_physical:
  assumes u: "x_unlocked s b cya cfg st" and s: "\<not> s > 8" and c0: "x_command0 st = None"
  shows "emits (check_physical L bar1 b s sizes (cya, cfg, cap) new) (x_ok s bar1 st)"
proof -
  let ?p = "\<lambda>p. st\<lparr>x_pos := Some p\<rparr>"
  have find: "x_step s bar1 st (PFindCap PCI_EXT_CAP_ID_REBAR p) = Some (?p p)" for p
    using u by (simp add: x_step_def x_unlocked_def)
  have first: "x_step s bar1 (?p p) (PConfRead32 (p + PCI_REBAR_CTRL) v) =
      Some (st\<lparr>x_pos := Some p, x_entry := Some (p + PCI_REBAR_CTRL, v)\<rparr>)" if "p \<noteq> 0" for p v
    using that by (auto simp: x_step_def image_iff intro!: bexI [of _ 0])
  have page: "x_page b cya cfg (st\<lparr>x_pos := p, x_entry := e\<rparr>)" "x_page b cya cfg (st\<lparr>x_pos := p\<rparr>)" for p e
    using u by (simp_all add: x_unlocked_def x_page_def)
  have search: "emits (find_bar1 L bar1 p [0..<unat (drop_bit PCI_REBAR_CTRL_NBAR_SHIFT (c AND PCI_REBAR_CTRL_NBAR_MASK))])
      (\<lambda>r evs. \<exists>e. x_run s bar1 (st\<lparr>x_pos := Some p, x_entry := Some (p + PCI_REBAR_CTRL, c)\<rparr>) evs =
          Some (st\<lparr>x_pos := Some p, x_entry := e\<rparr>) \<and>
        (\<forall>entry ctrl. r = Some (entry, ctrl) \<longrightarrow> entry < 7 \<and>
           e = Some (p + PCI_REBAR_CTRL + entry * 8, ctrl) \<and> entry_of bar1 ctrl))"
    if "p \<noteq> 0" for p c
    using emits_find_bar1 [of "st\<lparr>x_pos := Some p, x_entry := Some (p + PCI_REBAR_CTRL, c)\<rparr>" p
        "[0..<unat (drop_bit PCI_REBAR_CTRL_NBAR_SHIFT (c AND PCI_REBAR_CTRL_NBAR_MASK))]" L bar1 s]
      that nbar_less [of c] by (simp add: lessThan_def atLeastLessThan_def subset_iff)
  have found: "emits (check_found L bar1 b s sizes (cya, cfg, cap) new p entry ctrl)
      (x_ok s bar1 (st\<lparr>x_pos := Some p, x_entry := e\<rparr>))"
    if "p \<noteq> 0" "entry < 7" "e = Some (p + PCI_REBAR_CTRL + entry * 8, ctrl)"
      "entry_of bar1 ctrl" for p entry ctrl e
    by (rule emits_check_found) (use u s c0 that in \<open>auto simp: entry_of_def\<close>)
  show ?thesis
    unfolding check_physical_def Let_def prod.case
    by (intro emits_bind [of "find_ext_capability L PCI_EXT_CAP_ID_REBAR"] emits_find_ext_capability emits_if)
      (auto simp: find first xve.ok_append simp del: drop_bit_and intro!: emits_logged emits_restore_xve page
        emits_bind [of "config_read32 L _"] emits_config_read32 emits_bindI [OF search] emits_option emits_prod found)
qed

text \<open>One access after another.\<close>

lemma ok_readl:
  assumes "\<And>v. x_step s bar1 st (PReadl a v) = Some (g v)" and "\<And>v. emits (f v) (x_ok s bar1 (g v))"
  shows "emits (State_Monad.bind (readl L a) f) (x_ok s bar1 st)"
  by (rule emits_bind, rule emits_readl) (simp add: assms)

lemma ok_writel:
  assumes "x_step s bar1 st (PWritel v a) = Some st'" and "emits (f ()) (x_ok s bar1 st')"
  shows "emits (State_Monad.bind (writel L v a) f) (x_ok s bar1 st)"
  by (rule emits_bind, rule emits_writel) (simp add: assms)

lemma ok_sizes:
  assumes "\<And>v. x_step s bar1 st (PSizes bar1 v) = Some (g v)" and "\<And>v. emits (f v) (x_ok s bar1 (g v))"
  shows "emits (State_Monad.bind (possible_sizes L bar1) f) (x_ok s bar1 st)"
  by (rule emits_bind, rule emits_possible_sizes) (simp add: assms)

lemma emits_program_xve:
  assumes map: "x_map st = Some b" "x_cya0 st = None" "x_cfg0 st = None" "\<not> x_enabled st"
    and c0: "x_command0 st = None" "x_command st = None" and s: "\<not> s > 8"
  shows "emits (program_xve L bar1 b s) (x_ok s bar1 st)"
proof -
  note step = x_step_def x_readl_def x_writel_def xve_offsets map
  define s1 where "s1 cya = st\<lparr>x_cya0 := Some cya, x_cya := Some cya\<rparr>" for cya
  define s2 where "s2 cya cfg = (s1 cya)\<lparr>x_cfg0 := Some cfg, x_cfg := Some cfg\<rparr>" for cya cfg
  define s3 where "s3 cya cfg = (s2 cya cfg)\<lparr>x_cya := Some NV_CMP50_REBAR_CYA_UNLOCK\<rparr>" for cya cfg
  define s4 where "s4 cya cfg seen = (s3 cya cfg)\<lparr>x_cfg := Some (new_cfg_word cfg s), x_seen := seen\<rparr>" for cya cfg seen
  define s5 where "s5 cya cfg seen m = (s4 cya cfg (Some seen))\<lparr>x_sizes := Some m\<rparr>" for cya cfg seen m
  have r: "x_step s bar1 st (PReadl (b + NV_CMP50_REBAR_CYA_OFFSET) v) = Some (s1 v)"
    "x_step s bar1 (s1 cya) (PReadl (b + NV_CMP50_REBAR_CFG_OFFSET) v) = Some (s2 cya v)"
    "x_step s bar1 (s2 cya cfg) (PReadl (b + NV_CMP50_REBAR_CAP_OFFSET) v) = Some (s2 cya cfg)"
    "x_step s bar1 (s3 cya cfg) (PReadl (b + NV_CMP50_REBAR_CYA_OFFSET) v) = Some (s3 cya cfg)"
    "x_step s bar1 (s4 cya cfg None) (PReadl (b + NV_CMP50_REBAR_CFG_OFFSET) v) = Some (s4 cya cfg (Some v))"
    "x_step s bar1 (s4 cya cfg seen) (PReadl (b + NV_CMP50_REBAR_CAP_OFFSET) v) = Some (s4 cya cfg seen)"
    for v cya cfg seen
    by (simp_all add: step s1_def s2_def s3_def s4_def)
  have w: "x_step s bar1 (s2 cya cfg) (PWritel NV_CMP50_REBAR_CYA_UNLOCK (b + NV_CMP50_REBAR_CYA_OFFSET)) = Some (s3 cya cfg)"
    "x_step s bar1 (s3 cya cfg) (PWritel (new_cfg_word cfg s) (b + NV_CMP50_REBAR_CFG_OFFSET)) = Some (s4 cya cfg None)"
    for cya cfg
    by (simp_all add: step s1_def s2_def s3_def s4_def)
  have page: "x_page b cya cfg (s4 cya cfg seen)" "x_page b cya cfg (s5 cya cfg v m)" for cya cfg seen v m
    by (simp_all add: s1_def s2_def s3_def s4_def s5_def x_page_def map c0)
  have sizes: "x_step s bar1 (s4 cya cfg (Some v)) (PSizes bar1 m) = Some (s5 cya cfg v m)"
    if "\<not> cfg_differs v (new_cfg_word cfg s)" for cya cfg v m
    using that by (simp add: x_step_def x_programmed_def s4_def s5_def)
  have unlocked: "x_unlocked s b cya cfg (s5 cya cfg v m)"
    if "\<not> cfg_differs v (new_cfg_word cfg s)" "offers_size (ucast m) s" for cya cfg v m
    using that page by (simp add: x_unlocked_def x_offered_def x_programmed_def s3_def s4_def s5_def)
  have c5: "x_command0 (s5 cya cfg v m) = None" for cya cfg v m
    by (simp add: s1_def s2_def s3_def s4_def s5_def c0)
  show ?thesis
    unfolding program_xve_def Let_def
    by (intro ok_readl [OF r(1)] ok_readl [OF r(2)] ok_readl [OF r(3)] ok_writel [OF w(1)] ok_readl [OF r(4)]
        ok_writel [OF w(2)] ok_readl [OF r(5)] ok_readl [OF r(6)] emits_if)
      (auto intro!: emits_logged emits_restore_xve page ok_sizes [OF sizes] emits_check_physical unlocked s c5)
qed

lemma emits_unlock_bar1_resize:
  assumes "present" and "rebar_supported gpu" and "selector \<noteq> 0"
  shows "emits (nv_cmp50_unlock_bar1_resize L present selector bar1 gpu regs_bar_index) (x_ok selector bar1 x_start)"
proof -
  have prog: "emits (program_xve L bar1 b selector) (x_ok selector bar1 st)"
    if "\<not> selector > 8" and "st = x_start\<lparr>x_map := Some b\<rparr> \<or> st = x_start\<lparr>x_len := l, x_map := Some b\<rparr>" for b st l
    by (rule emits_program_xve) (use that in \<open>auto simp: x_start_def\<close>)
  have none: "x_done selector (- EINVAL) x_start" "x_done selector (- ENODEV) (x_start\<lparr>x_len := l\<rparr>)"
    "x_done selector (- ENOMEM) (x_start\<lparr>x_len := l\<rparr>)" "x_done selector (- ENODEV) x_start"
    "x_done selector (- ENOMEM) x_start" for l
    by (simp_all add: x_done_def x_start_def EINVAL_def ENODEV_def ENOMEM_def)
  have start: "x_map x_start = None" "x_cya0 x_start = None" "x_start\<lparr>x_map := None\<rparr> = x_start"
    "x_start\<lparr>x_len := l, x_map := None\<rparr> = x_start\<lparr>x_len := l\<rparr>" for l
    by (simp_all add: x_start_def)
  show ?thesis
    unfolding nv_cmp50_unlock_bar1_resize_def
    by (intro emits_if emits_bind [of "resource_len L _"] emits_resource_len emits_bind [of "resource_flags L _"]
        emits_resource_flags emits_bind [of "ioremap_at L _ _ _"] emits_ioremap_at emits_option)
      (auto simp: assms x_step_def none start intro!: emits_logged emits_return prog)
qed

text \<open>
  C14. Whatever the hardware answers, \<open>nv_cmp50_unlock_bar1_resize\<close> leaves other boards, a zero
  selector and builds without the interface alone (result 0, no access).  Otherwise it writes the
  XVE page only after reading its words, unlocks before it configures, and changes the size field
  and the enable bit only; it asks for the sizes only after the configuration read back, and looks
  for the physical entry only if the size is offered; it rewrites that entry at most with memory
  decoding off, only for BAR1, only the size field, and only if BAR1 already has the wanted length;
  it turns the driver's resize on only if entry and length then agree.  On every path the page is
  unmapped and memory decoding is as found, and the result is 0 with the resize turned on, or
  negative with the XVE words written back.
\<close>

theorem rebar_contract:
  "let m = nv_cmp50_unlock_bar1_resize L present selector bar1 gpu regs_bar_index in
   if present \<and> rebar_supported gpu \<and> selector \<noteq> 0
   then x_ok selector bar1 x_start (result_of m w) (trace_of m w)
   else result_of m w = 0 \<and> trace_of m w = []"
proof (cases "present \<and> rebar_supported gpu \<and> selector \<noteq> 0")
  case True
  then have "emits (nv_cmp50_unlock_bar1_resize L present selector bar1 gpu regs_bar_index) (x_ok selector bar1 x_start)"
    by (intro emits_unlock_bar1_resize) simp_all
  from emits_traceD [OF this] True show ?thesis by (simp add: Let_def)
next
  case False
  then have "nv_cmp50_unlock_bar1_resize L present selector bar1 gpu regs_bar_index = State_Monad.return 0"
    by (auto simp: nv_cmp50_unlock_bar1_resize_def)
  with False show ?thesis by (auto simp: Let_def result_of_def trace_of_def)
qed

end
