(* ===== verification/Rebar_Board.thy ===== *)
theory Rebar_Board
  imports Rebar_Contract
begin

text \<open>
  The BAR1 resize on a simulated board: an XVE page that is memory, a board that offers exactly the
  size its configuration word enables, and one physical ReBAR entry, of BAR1, that takes a new size
  only while memory decoding is off.
\<close>

section \<open>The words written\<close>

lemma new_cfg_size: "\<not> s > 8 \<Longrightarrow> new_cfg_word cfg s AND NV_CMP50_REBAR_CFG_SIZE_MASK = s"
proof -
  assume s: "\<not> s > 8"
  have "((c AND NOT m) OR e OR s) AND m = (e AND m) OR (s AND m)" for c m e :: u32
    by (simp add: bit.conj_disj_distrib2 and.assoc)
  then have "new_cfg_word cfg s AND NV_CMP50_REBAR_CFG_SIZE_MASK =
      (NV_CMP50_REBAR_CFG_ENABLE AND NV_CMP50_REBAR_CFG_SIZE_MASK) OR (s AND NV_CMP50_REBAR_CFG_SIZE_MASK)"
    by (simp only: new_cfg_word_def)
  then show ?thesis
    using selector_cases [OF s]
    by (auto simp: NV_CMP50_REBAR_CFG_ENABLE_def NV_CMP50_REBAR_CFG_SIZE_MASK_def)
qed

lemma new_cfg_enable: "new_cfg_word cfg s AND NV_CMP50_REBAR_CFG_ENABLE \<noteq> 0"
proof -
  have "bit (new_cfg_word cfg s AND NV_CMP50_REBAR_CFG_ENABLE) 31"
    by (simp add: new_cfg_word_def NV_CMP50_REBAR_CFG_ENABLE_def bit_simps)
  then show ?thesis by auto
qed

lemma offers_only: "\<not> s > 8 \<Longrightarrow> offers_size (ucast (push_bit (unat (s + 6)) 1 :: u32)) s"
  using selector_cases [of s] by (auto simp: offers_size_def)

text \<open>
  The configuration word written enables the feature and holds the selector, whatever the other
  bits were; for the selectors 1 to 8 the size that is asked for, and that BAR1 must have for a
  re-arm, is 128 MiB times a power of two up to 16 GiB, as the parameter's description says.
\<close>

lemma selector_sizes:
  "map (\<lambda>s. new_cfg_word cfg s AND NV_CMP50_REBAR_CFG_SIZE_MASK) [1, 2, 3, 4, 5, 6, 7, 8] = [1, 2, 3, 4, 5, 6, 7, 8] \<and>
   new_cfg_word cfg s AND NV_CMP50_REBAR_CFG_ENABLE = NV_CMP50_REBAR_CFG_ENABLE \<and>
   map (\<lambda>s. [mib \<leftarrow> [128, 256, 512, 1024, 2048, 4096, 8192, 16384]. needs_rearm (mib * 0x100000) (s + 6) 0x1f21])
     [1, 2, 3, 4, 5, 6, 7, 8] = [[128], [256], [512], [1024], [2048], [4096], [8192], [16384]]"
proof (intro conjI)
  show "map (\<lambda>s. new_cfg_word cfg s AND NV_CMP50_REBAR_CFG_SIZE_MASK) [1, 2, 3, 4, 5, 6, 7, 8] = [1, 2, 3, 4, 5, 6, 7, 8]"
    by (simp add: new_cfg_size)
  show "new_cfg_word cfg s AND NV_CMP50_REBAR_CFG_ENABLE = NV_CMP50_REBAR_CFG_ENABLE"
    by (simp add: new_cfg_word_def bit.conj_disj_distrib2)
  show "map (\<lambda>s. [mib \<leftarrow> [128, 256, 512, 1024, 2048, 4096, 8192, 16384]. needs_rearm (mib * 0x100000) (s + 6) 0x1f21])
     [1, 2, 3, 4, 5, 6, 7, 8] = [[128], [256], [512], [1024], [2048], [4096], [8192], [16384]]"
    by (simp add: needs_rearm_def PCI_REBAR_CTRL_BAR_SHIFT_def PCI_REBAR_CTRL_BAR_SIZE_def)
qed

section \<open>A simulated board\<close>

text \<open>
  \<open>bw_size\<close> is the size field of the physical entry, \<open>bw_len\<close> the length Linux gave BAR1.
  The XVE words are at their bus addresses; BAR0 starts at 0.
\<close>

record bar_hw =
  bw_xve :: "nat \<Rightarrow> u32"
  bw_size :: u32
  bw_command :: u16
  bw_len :: u64

definition xve_base :: nat where "xve_base = NV_CMP50_REBAR_XVE_BASE_OFFSET"

definition bw_cfg :: "bar_hw \<Rightarrow> u32" where
  "bw_cfg w = bw_xve w (xve_base + NV_CMP50_REBAR_CFG_OFFSET)"

definition bw_ctrl :: "bar_hw \<Rightarrow> u32" where
  "bw_ctrl w = push_bit 8 (bw_size w AND 0x1f) OR 0x21"

definition bw_linux :: "bar_hw linux" where
  "bw_linux = \<lparr>
     l_upstream = \<lambda>w. True,
     l_resource_start = \<lambda>bar w. 0,
     l_resource_len = \<lambda>bar w. if bar = 0 then 0x1000000 else bw_len w,
     l_resource_flags = \<lambda>bar w. IORESOURCE_MEM,
     l_ioremap = \<lambda>start len w. (Some start, w),
     l_iounmap = \<lambda>a w. w,
     l_readl = \<lambda>a w. (bw_xve w a, w),
     l_writel = \<lambda>v a w. w\<lparr>bw_xve := (bw_xve w)(a := v)\<rparr>,
     l_cap_read = \<lambda>d reg w. ((0, 0), w),
     l_cap_write = \<lambda>d reg v w. (0, w),
     l_msleep = \<lambda>ms w. w,
     l_possible_sizes = \<lambda>bar w.
       (if bw_cfg w AND NV_CMP50_REBAR_CFG_ENABLE \<noteq> 0
        then push_bit (unat ((bw_cfg w AND NV_CMP50_REBAR_CFG_SIZE_MASK) + 6)) 1 else 0x40, w),
     l_find_ext_capability = \<lambda>cap w. (if cap = PCI_EXT_CAP_ID_REBAR then 0xbb4 else 0, w),
     l_config_read16 = \<lambda>off w. (bw_command w, w),
     l_config_read32 = \<lambda>off w. (bw_ctrl w, w),
     l_config_write16 = \<lambda>off v w. w\<lparr>bw_command := v\<rparr>,
     l_config_write32 = \<lambda>off v w.
       if bw_command w AND PCI_COMMAND_MEMORY = 0
       then w\<lparr>bw_size := drop_bit 8 (v AND PCI_REBAR_CTRL_BAR_SIZE)\<rparr> else w\<rparr>"

lemma bw_runs:
  "runs (resource_len bw_linux bar) w (if bar = 0 then 0x1000000 else bw_len w) w"
  "runs (resource_flags bw_linux bar) w IORESOURCE_MEM w"
  "runs (ioremap_at bw_linux bar off len) w (Some off) w"
  "runs (iounmap bw_linux a) w () w"
  "runs (readl bw_linux a) w (bw_xve w a) w"
  "runs (writel bw_linux v a) w () (w\<lparr>bw_xve := (bw_xve w)(a := v)\<rparr>)"
  "runs (possible_sizes bw_linux bar) w
     (if bw_cfg w AND NV_CMP50_REBAR_CFG_ENABLE \<noteq> 0
      then push_bit (unat ((bw_cfg w AND NV_CMP50_REBAR_CFG_SIZE_MASK) + 6)) 1 else 0x40) w"
  "runs (find_ext_capability bw_linux PCI_EXT_CAP_ID_REBAR) w 0xbb4 w"
  "runs (config_read16 bw_linux n) w (bw_command w) w"
  "runs (config_read32 bw_linux n) w (bw_ctrl w) w"
  "runs (config_write16 bw_linux n c) w () (w\<lparr>bw_command := c\<rparr>)"
  "runs (config_write32 bw_linux n d) w () (if bw_command w AND PCI_COMMAND_MEMORY = 0
     then w\<lparr>bw_size := drop_bit 8 (d AND PCI_REBAR_CTRL_BAR_SIZE)\<rparr> else w)"
  "runs (set_param name x) w () w"
  "runs (dev_printf r) w () w"
  by (auto simp: runs_def bw_linux_def resource_len_def resource_flags_def ioremap_at_def iounmap_def readl_def
      writel_def possible_sizes_def find_ext_capability_def config_read16_def config_read32_def
      config_write16_def config_write32_def set_param_def dev_printf_def tell_def Let_def)

lemmas bw_step = bw_runs [THEN runs_bind]

lemma bw_ctrl_size: "bw_ctrl w AND PCI_REBAR_CTRL_BAR_SIZE = push_bit PCI_REBAR_CTRL_BAR_SHIFT (bw_size w) AND PCI_REBAR_CTRL_BAR_SIZE"
  by (simp add: bw_ctrl_def PCI_REBAR_CTRL_BAR_SHIFT_def PCI_REBAR_CTRL_BAR_SIZE_def bit.conj_disj_distrib2 and.assoc)

lemma bw_ctrl_fields:
  "drop_bit PCI_REBAR_CTRL_NBAR_SHIFT (bw_ctrl w AND PCI_REBAR_CTRL_NBAR_MASK) = 1"
  "bw_ctrl w AND PCI_REBAR_CTRL_BAR_IDX = 1"
  "drop_bit PCI_REBAR_CTRL_BAR_SHIFT (bw_ctrl w AND PCI_REBAR_CTRL_BAR_SIZE) = bw_size w AND 0x1f"
proof -
  have c: "bw_ctrl w = (push_bit 8 (bw_size w) AND 0x1f00) OR 0x21"
    by (simp add: bw_ctrl_def)
  have "(bw_ctrl w AND 0xe0) = 0x20" "bw_ctrl w AND 7 = 1" "bw_ctrl w AND 0x1f00 = push_bit 8 (bw_size w) AND 0x1f00"
    unfolding c by (simp_all add: bit.conj_disj_distrib2 and.assoc)
  moreover have "drop_bit 8 (push_bit 8 (bw_size w) AND 0x1f00) = bw_size w AND 0x1f"
  proof (rule bit_word_eqI)
    fix n assume "n < LENGTH(32)"
    have "bit (0x1f :: u32) n \<longleftrightarrow> n < 5"
      using bit_mask_iff [of 5 n, where ?'a = u32] by (auto simp: mask_eq_exp_minus_1)
    then show "bit (drop_bit 8 (push_bit 8 (bw_size w) AND 0x1f00)) n = bit (bw_size w AND 0x1f) n"
      by (auto simp: bit_simps)
  qed
  ultimately show "drop_bit PCI_REBAR_CTRL_NBAR_SHIFT (bw_ctrl w AND PCI_REBAR_CTRL_NBAR_MASK) = 1"
    "bw_ctrl w AND PCI_REBAR_CTRL_BAR_IDX = 1"
    "drop_bit PCI_REBAR_CTRL_BAR_SHIFT (bw_ctrl w AND PCI_REBAR_CTRL_BAR_SIZE) = bw_size w AND 0x1f"
    by (simp_all add: PCI_REBAR_CTRL_NBAR_SHIFT_def PCI_REBAR_CTRL_NBAR_MASK_def PCI_REBAR_CTRL_BAR_IDX_def
        PCI_REBAR_CTRL_BAR_SHIFT_def PCI_REBAR_CTRL_BAR_SIZE_def del: drop_bit_and)
qed

lemma runs_find:
  "runs (find_bar1 bw_linux 1 p [0..<unat (drop_bit PCI_REBAR_CTRL_NBAR_SHIFT (bw_ctrl w AND PCI_REBAR_CTRL_NBAR_MASK))])
     w (Some (0, bw_ctrl w)) w"
  unfolding bw_ctrl_fields by (simp, rule bw_step(10)) (simp add: bw_ctrl_fields runs_return)

text \<open>What the call leaves behind.\<close>

definition bw_programmed :: "u32 \<Rightarrow> bar_hw \<Rightarrow> bar_hw" where
  "bw_programmed s w = w\<lparr>bw_xve := (bw_xve w)(
     xve_base + NV_CMP50_REBAR_CYA_OFFSET := NV_CMP50_REBAR_CYA_UNLOCK,
     xve_base + NV_CMP50_REBAR_CFG_OFFSET := new_cfg_word (bw_cfg w) s)\<rparr>"

definition bw_armed :: "u32 \<Rightarrow> bar_hw \<Rightarrow> bar_hw" where
  "bw_armed s w = w\<lparr>bw_size := if needs_rearm (bw_len w) (s + 6) (bw_ctrl w) then s + 6 else bw_size w\<rparr>"

lemma bw_programmed_simps [simp]:
  "bw_len (bw_programmed s w) = bw_len w" "bw_size (bw_programmed s w) = bw_size w"
  "bw_ctrl (bw_programmed s w) = bw_ctrl w" "bw_cfg (bw_programmed s w) = new_cfg_word (bw_cfg w) s"
  by (simp_all add: bw_programmed_def bw_ctrl_def bw_cfg_def)

lemma command_dark: "(c AND NOT PCI_COMMAND_MEMORY) AND PCI_COMMAND_MEMORY = 0"
  by (simp add: and.assoc)

lemma runs_rearm:
  assumes "\<not> s > 8"
  shows "runs (rearm bw_linux off (sized_ctrl c (s + 6))) w (bw_ctrl (w\<lparr>bw_size := s + 6\<rparr>)) (w\<lparr>bw_size := s + 6\<rparr>)"
proof -
  have d: "drop_bit 8 (sized_ctrl c (s + 6) AND PCI_REBAR_CTRL_BAR_SIZE) = s + 6"
    using sized_ctrl_field [OF assms] by (simp add: PCI_REBAR_CTRL_BAR_SHIFT_def)
  show ?thesis
    unfolding rearm_def
    by (rule bw_step(9), rule bw_step(11), rule bw_step(12), rule bw_step(10), rule bw_step(11))
      (simp add: command_dark d bw_ctrl_def runs_return del: drop_bit_and)
qed

lemma runs_enable: "runs (enable_resize bw_linux xve s sizes old new) w 0 w"
  unfolding enable_resize_def
  by (cases old, cases new) (auto intro!: bw_step runs_return)

lemma runs_check_found:
  assumes s: "\<not> s > 8"
  shows "runs (check_found bw_linux 1 xve s sizes old new p entry (bw_ctrl w)) w 0 (bw_armed s w)"
proof -
  obtain cya cfg cap where old: "old = (cya, cfg, cap)" by (cases old)
  have agree: "bw_ctrl (w\<lparr>bw_size := s + 6\<rparr>) AND PCI_REBAR_CTRL_BAR_SIZE =
      sized_ctrl (bw_ctrl w) (s + 6) AND PCI_REBAR_CTRL_BAR_SIZE"
    by (simp add: bw_ctrl_size sized_ctrl_size)
  show ?thesis
    unfolding check_found_def old Let_def prod.case
    by (rule bw_step(1)) (auto simp: agree bw_armed_def intro!: runs_bind [OF runs_rearm [OF s]] bw_step(14) runs_enable)
qed

lemma runs_check_physical:
  assumes s: "\<not> s > 8"
  shows "runs (check_physical bw_linux 1 xve s sizes old new) w 0 (bw_armed s w)"
proof -
  obtain cya cfg cap where old: "old = (cya, cfg, cap)" by (cases old)
  show ?thesis
    unfolding check_physical_def Let_def old prod.case
    by (rule bw_step(8), simp del: One_nat_def drop_bit_and, rule bw_step(10), rule runs_bind [OF runs_find],
        simp only: option.case prod.case, rule runs_check_found [OF s])
qed

lemma xve_differ:
  "NV_CMP50_REBAR_CFG_OFFSET \<noteq> NV_CMP50_REBAR_CYA_OFFSET" "NV_CMP50_REBAR_CAP_OFFSET \<noteq> NV_CMP50_REBAR_CYA_OFFSET"
  "NV_CMP50_REBAR_CAP_OFFSET \<noteq> NV_CMP50_REBAR_CFG_OFFSET"
  by (simp_all add: xve_offsets)

lemma runs_program_xve:
  assumes s: "\<not> s > 8"
  shows "runs (program_xve bw_linux 1 xve_base s) w 0 (bw_armed s (bw_programmed s w))"
proof -
  let ?w = "w\<lparr>bw_xve := (bw_xve w)(xve_base + NV_CMP50_REBAR_CYA_OFFSET := NV_CMP50_REBAR_CYA_UNLOCK)\<rparr>"
  have writes: "?w\<lparr>bw_xve := (bw_xve ?w)(xve_base + NV_CMP50_REBAR_CFG_OFFSET := new_cfg_word (bw_cfg w) s)\<rparr> = bw_programmed s w"
    by (simp add: bw_programmed_def)
  have read: "bw_xve (bw_programmed s w) (xve_base + NV_CMP50_REBAR_CFG_OFFSET) = new_cfg_word (bw_cfg w) s"
    by (simp add: bw_programmed_def)
  have offered: "offers_size (ucast (if bw_cfg (bw_programmed s w) AND NV_CMP50_REBAR_CFG_ENABLE \<noteq> 0
      then push_bit (unat ((bw_cfg (bw_programmed s w) AND NV_CMP50_REBAR_CFG_SIZE_MASK) + 6)) 1 else 0x40 :: u32)) s"
    using offers_only [OF s] by (simp add: new_cfg_size [OF s] new_cfg_enable)
  show ?thesis
    unfolding program_xve_def Let_def
    by (rule bw_step(5), rule bw_step(5), rule bw_step(5), rule bw_step(6), rule bw_step(5), rule bw_step(6),
        fold bw_cfg_def, simp only: writes, rule bw_step(5), rule bw_step(5),
        simp only: read cfg_differs_def simp_thms if_False, rule bw_step(7), simp only: offered simp_thms if_False,
        rule runs_check_physical [OF s])
qed

lemma runs_unlock:
  assumes "rebar_supported gpu" and "s \<noteq> 0"
  shows "runs (nv_cmp50_unlock_bar1_resize bw_linux True s 1 gpu 0) w (if s > 8 then - EINVAL else 0)
    (if s > 8 then w else bw_armed s (bw_programmed s w))"
proof (cases "s > 8")
  case True
  then show ?thesis
    by (simp add: nv_cmp50_unlock_bar1_resize_def assms) (rule bw_step(14), rule runs_return)
next
  case False
  have usable: "\<not> (IORESOURCE_MEM AND IORESOURCE_MEM = 0 \<or>
      unat (if (0 :: nat) = 0 then 0x1000000 else bw_len w :: u64) < NV_CMP50_REBAR_XVE_BASE_OFFSET + 0x1000)"
    by (simp add: IORESOURCE_MEM_def NV_CMP50_REBAR_XVE_BASE_OFFSET_def)
  from False show ?thesis
    unfolding nv_cmp50_unlock_bar1_resize_def
    by (simp only: assms simp_thms if_False, rule_tac bw_step(1), rule_tac bw_step(2), simp only: usable if_False,
        rule_tac bw_step(3), simp only: option.case flip: xve_base_def) (rule runs_program_xve [OF False])
qed

text \<open>
  C29. On a working board with any XVE words, any size in the physical entry and any length of BAR1,
  the call succeeds for every selector from 1 to 8: it leaves the page unlocked with the wanted
  size, the command register as it was, and sets the size field of the physical entry exactly when
  BAR1 already has the wanted length but the entry, reset by the FLR, does not say so.  A larger
  selector is refused with \<open>-EINVAL\<close> and nothing is written.
\<close>

theorem rebar_on_board:
  "(let m = nv_cmp50_unlock_bar1_resize bw_linux present s 1 gpu 0 in (result_of m w, world_of m w)) =
   (if present \<and> rebar_supported gpu \<and> s \<noteq> 0 then
      if s > 8 then (- 22, w)
      else (0, \<lparr>bw_xve = (bw_xve w)(0x88724 := 0x30, 0x88dcc := new_cfg_word (bw_xve w 0x88dcc) s),
        bw_size = (if bw_len w = push_bit (unat (s + 26)) 1 \<and> bw_size w AND 0x1f \<noteq> s + 6 then s + 6 else bw_size w),
        bw_command = bw_command w, bw_len = bw_len w\<rparr>)
    else (0, w))"
proof (cases "present \<and> rebar_supported gpu \<and> s \<noteq> 0")
  case True
  have "needs_rearm (bw_len w) (s + 6) (bw_ctrl w) \<longleftrightarrow>
      bw_len w = push_bit (unat (s + 26)) 1 \<and> bw_size w AND 0x1f \<noteq> s + 6"
    unfolding needs_rearm_def bw_ctrl_fields by (simp add: add.assoc)
  then have "bw_armed s (bw_programmed s w) =
      \<lparr>bw_xve = (bw_xve w)(0x88724 := 0x30, 0x88dcc := new_cfg_word (bw_xve w 0x88dcc) s),
       bw_size = (if bw_len w = push_bit (unat (s + 26)) 1 \<and> bw_size w AND 0x1f \<noteq> s + 6 then s + 6 else bw_size w),
       bw_command = bw_command w, bw_len = bw_len w\<rparr>"
    by (intro bar_hw.equality) (simp_all add: bw_armed_def, simp_all add: bw_programmed_def bw_cfg_def xve_base_def
        xve_offsets NV_CMP50_REBAR_XVE_BASE_OFFSET_def NV_CMP50_REBAR_CYA_UNLOCK_def)
  with runsD [OF runs_unlock [of gpu s w]] True show ?thesis
    by (simp add: Let_def EINVAL_def)
next
  case False
  then have "nv_cmp50_unlock_bar1_resize bw_linux present s 1 gpu 0 = State_Monad.return 0"
    by (auto simp: nv_cmp50_unlock_bar1_resize_def)
  with False show ?thesis by (auto simp: Let_def result_of_def world_of_def)
qed

end
