(* ===== verification/Gen2_Policy.thy ===== *)
theory Gen2_Policy
  imports Retrain Gen2_Prepare
begin

text \<open>
  \<open>s_cmp50ApplyGen2Policy\<close> of \<open>01-cmp50-stockflow.patch\<close>: the driver's PCIe Gen2 policy, written to
  the board after its firmware is up, read back and rolled back as a whole.  \<open>GPU_REG_RD32\<close> and
  \<open>GPU_REG_WR32\<close> are \<open>readl\<close> and \<open>writel\<close> at the register's offset.  The reads inside the arguments
  of \<open>NV_PRINTF\<close> are made in the order they are written.
\<close>

section \<open>Registers\<close>

definition CMP50_PCIE_LINK_CAP :: nat where "CMP50_PCIE_LINK_CAP = 0x00088084"
definition CMP50_PCIE_LINK_CAP2 :: nat where "CMP50_PCIE_LINK_CAP2 = 0x000880A4"
definition CMP50_PCIE_LINK_CTRL2 :: nat where "CMP50_PCIE_LINK_CTRL2 = 0x000880A8"
definition CMP50_PCIE_LINK_STATUS :: nat where "CMP50_PCIE_LINK_STATUS = 0x00088088"
definition CMP50_PCIE_VSEC_DEVICE :: nat where "CMP50_PCIE_VSEC_DEVICE = 0x0008860C"
definition CMP50_PCIE_VSEC_HIERARCHY :: nat where "CMP50_PCIE_VSEC_HIERARCHY = 0x00088610"
definition CMP50_PCIE_LTSSM :: nat where "CMP50_PCIE_LTSSM = 0x0008872C"
definition CMP50_PCIE_PRIV_MISC_1 :: nat where "CMP50_PCIE_PRIV_MISC_1 = 0x0008841C"
definition CMP50_PCIE_PRIV_MISC_1_GEN2_EN :: u32 where
  "CMP50_PCIE_PRIV_MISC_1_GEN2_EN = push_bit 11 1 OR push_bit 13 1"
definition CMP50_PCIE_PRIV_MISC_1_GEN2_VAL :: u32 where
  "CMP50_PCIE_PRIV_MISC_1_GEN2_VAL = push_bit 12 1 OR push_bit 14 1"
definition CMP50_PCIE_LINK_CONFIG0 :: nat where "CMP50_PCIE_LINK_CONFIG0 = 0x0008C040"
definition CMP50_PCIE_PL_LINK_RATE :: nat where "CMP50_PCIE_PL_LINK_RATE = 0x0008C1C0"
definition CMP50_PCIE_CYA0 :: nat where "CMP50_PCIE_CYA0 = 0x0008C2C0"
definition CMP50_PCIE_XP3G_STATUS0 :: nat where "CMP50_PCIE_XP3G_STATUS0 = 0x0008E100"
definition CMP50_PCIE_XP3G_OVERRIDE0 :: nat where "CMP50_PCIE_XP3G_OVERRIDE0 = 0x0008E110"
definition CMP50_PCIE_XP3G_VALUE0 :: nat where "CMP50_PCIE_XP3G_VALUE0 = 0x0008E120"
definition CMP50_PCIE_XP3G_STATUS3 :: nat where "CMP50_PCIE_XP3G_STATUS3 = 0x0008E10C"
definition CMP50_PCIE_XP3G_OVERRIDE3 :: nat where "CMP50_PCIE_XP3G_OVERRIDE3 = 0x0008E11C"
definition CMP50_PCIE_XP3G_VALUE3 :: nat where "CMP50_PCIE_XP3G_VALUE3 = 0x0008E12C"
definition CMP50_PCIE_XP3G_PLM0 :: nat where "CMP50_PCIE_XP3G_PLM0 = 0x0008E1B0"
definition CMP50_PCIE_PL_LINK_RATE_SPEED_MASK :: u32 where "CMP50_PCIE_PL_LINK_RATE_SPEED_MASK = 0x00060000"
definition CMP50_PCIE_PL_LINK_RATE_GEN2 :: u32 where "CMP50_PCIE_PL_LINK_RATE_GEN2 = 0x00040000"

lemmas policy_regs = CMP50_PCIE_LINK_CAP_def CMP50_PCIE_LINK_CAP2_def CMP50_PCIE_LINK_CTRL2_def
  CMP50_PCIE_LINK_STATUS_def CMP50_PCIE_VSEC_DEVICE_def CMP50_PCIE_VSEC_HIERARCHY_def CMP50_PCIE_LTSSM_def
  CMP50_PCIE_PRIV_MISC_1_def CMP50_PCIE_LINK_CONFIG0_def CMP50_PCIE_PL_LINK_RATE_def CMP50_PCIE_CYA0_def
  CMP50_PCIE_XP3G_STATUS0_def CMP50_PCIE_XP3G_OVERRIDE0_def CMP50_PCIE_XP3G_VALUE0_def
  CMP50_PCIE_XP3G_STATUS3_def CMP50_PCIE_XP3G_OVERRIDE3_def CMP50_PCIE_XP3G_VALUE3_def CMP50_PCIE_XP3G_PLM0_def

lemmas policy_bits = CMP50_PCIE_PRIV_MISC_1_GEN2_EN_def CMP50_PCIE_PRIV_MISC_1_GEN2_VAL_def
  CMP50_PCIE_PL_LINK_RATE_SPEED_MASK_def CMP50_PCIE_PL_LINK_RATE_GEN2_def

section \<open>The function\<close>

text \<open>The original values that are changed later.\<close>

record originals =
  privMisc :: u32
  origOvr0 :: u32
  origVal0 :: u32
  origOvr3 :: u32
  origVal3 :: u32
  origHierarchy :: u32
  origCya0 :: u32
  origLinkConfig0 :: u32
  origPlLinkRate :: u32
  origLtssm :: u32

definition policy_writes :: "originals \<Rightarrow> (u32 \<times> nat) list" where
  "policy_writes r =
     [((privMisc r OR CMP50_PCIE_PRIV_MISC_1_GEN2_EN) AND NOT CMP50_PCIE_PRIV_MISC_1_GEN2_VAL, CMP50_PCIE_PRIV_MISC_1),
      (0, CMP50_PCIE_XP3G_VALUE0),
      (1, CMP50_PCIE_XP3G_OVERRIDE0),
      (0x00200000, CMP50_PCIE_XP3G_VALUE3),
      (4, CMP50_PCIE_XP3G_OVERRIDE3),
      ((origHierarchy r AND NOT (push_bit 12 1)) OR 1, CMP50_PCIE_VSEC_HIERARCHY),
      (origCya0 r AND NOT (push_bit 2 1), CMP50_PCIE_CYA0),
      ((origLinkConfig0 r AND NOT 0x000C0000) OR push_bit 18 2, CMP50_PCIE_LINK_CONFIG0),
      ((origPlLinkRate r AND NOT CMP50_PCIE_PL_LINK_RATE_SPEED_MASK) OR CMP50_PCIE_PL_LINK_RATE_GEN2,
       CMP50_PCIE_PL_LINK_RATE),
      (6, CMP50_PCIE_LTSSM)]"

definition rollback_writes :: "originals \<Rightarrow> (u32 \<times> nat) list" where
  "rollback_writes r =
     [(origOvr0 r, CMP50_PCIE_XP3G_OVERRIDE0), (origVal0 r, CMP50_PCIE_XP3G_VALUE0),
      (origOvr3 r, CMP50_PCIE_XP3G_OVERRIDE3), (origVal3 r, CMP50_PCIE_XP3G_VALUE3),
      (privMisc r, CMP50_PCIE_PRIV_MISC_1), (origHierarchy r, CMP50_PCIE_VSEC_HIERARCHY),
      (origCya0 r, CMP50_PCIE_CYA0), (origLinkConfig0 r, CMP50_PCIE_LINK_CONFIG0),
      (origPlLinkRate r, CMP50_PCIE_PL_LINK_RATE), (origLtssm r, CMP50_PCIE_LTSSM)]"

text \<open>The conjunction of \<open>policyOk\<close>: one read per conjunct, until one fails.\<close>

definition policy_checks :: "(nat \<times> (u32 \<Rightarrow> bool)) list" where
  "policy_checks =
     [(CMP50_PCIE_XP3G_VALUE0, \<lambda>v. v = 0),
      (CMP50_PCIE_XP3G_OVERRIDE0, \<lambda>v. v = 1),
      (CMP50_PCIE_XP3G_VALUE3, \<lambda>v. v = 0x00200000),
      (CMP50_PCIE_XP3G_OVERRIDE3, \<lambda>v. v = 4),
      (CMP50_PCIE_PRIV_MISC_1, \<lambda>v. v AND CMP50_PCIE_PRIV_MISC_1_GEN2_EN = CMP50_PCIE_PRIV_MISC_1_GEN2_EN),
      (CMP50_PCIE_PRIV_MISC_1, \<lambda>v. v AND CMP50_PCIE_PRIV_MISC_1_GEN2_VAL = 0),
      (CMP50_PCIE_VSEC_HIERARCHY, \<lambda>v. v AND (push_bit 12 1 OR 1) = 1),
      (CMP50_PCIE_CYA0, \<lambda>v. v AND push_bit 2 1 = 0),
      (CMP50_PCIE_LINK_CONFIG0, \<lambda>v. drop_bit 18 v AND 3 = 2),
      (CMP50_PCIE_PL_LINK_RATE, \<lambda>v. v AND CMP50_PCIE_PL_LINK_RATE_SPEED_MASK = CMP50_PCIE_PL_LINK_RATE_GEN2),
      (CMP50_PCIE_LTSSM, \<lambda>v. v = 6)]"

fun write_regs :: "'w linux \<Rightarrow> (u32 \<times> nat) list \<Rightarrow> ('w, unit) driver" where
  "write_regs L [] = ret ()"
| "write_regs L ((v, a) # ws) = do { writel L v a; write_regs L ws }"

fun read_regs :: "'w linux \<Rightarrow> nat list \<Rightarrow> ('w, u32 list) driver" where
  "read_regs L [] = ret []"
| "read_regs L (a # as) = do { v \<leftarrow> readl L a; vs \<leftarrow> read_regs L as; ret (v # vs) }"

fun read_checks :: "'w linux \<Rightarrow> (nat \<times> (u32 \<Rightarrow> bool)) list \<Rightarrow> ('w, bool) driver" where
  "read_checks L [] = ret True"
| "read_checks L ((a, ok) # cs) = do { v \<leftarrow> readl L a; if ok v then read_checks L cs else ret False }"

definition uints :: "u32 list \<Rightarrow> farg list" where
  "uints vs = map FUInt vs"

definition read_originals :: "'w linux \<Rightarrow> u32 \<Rightarrow> ('w, originals) driver" where
  "read_originals L misc = do {
     ovr0 \<leftarrow> readl L CMP50_PCIE_XP3G_OVERRIDE0;
     val0 \<leftarrow> readl L CMP50_PCIE_XP3G_VALUE0;
     ovr3 \<leftarrow> readl L CMP50_PCIE_XP3G_OVERRIDE3;
     val3 \<leftarrow> readl L CMP50_PCIE_XP3G_VALUE3;
     hierarchy \<leftarrow> readl L CMP50_PCIE_VSEC_HIERARCHY;
     cya0 \<leftarrow> readl L CMP50_PCIE_CYA0;
     config0 \<leftarrow> readl L CMP50_PCIE_LINK_CONFIG0;
     rate \<leftarrow> readl L CMP50_PCIE_PL_LINK_RATE;
     ltssm \<leftarrow> readl L CMP50_PCIE_LTSSM;
     ret \<lparr>privMisc = misc, origOvr0 = ovr0, origVal0 = val0, origOvr3 = ovr3, origVal3 = val3,
       origHierarchy = hierarchy, origCya0 = cya0, origLinkConfig0 = config0, origPlLinkRate = rate,
       origLtssm = ltssm\<rparr>
   }"

definition policy_rollback :: "'w linux \<Rightarrow> string \<Rightarrow> originals \<Rightarrow> ('w, unit) driver" where
  "policy_rollback L phase r = do {
     vs \<leftarrow> read_regs L [CMP50_PCIE_XP3G_OVERRIDE0, CMP50_PCIE_XP3G_OVERRIDE3, CMP50_PCIE_XP3G_VALUE0,
       CMP50_PCIE_XP3G_VALUE3, CMP50_PCIE_VSEC_HIERARCHY, CMP50_PCIE_PRIV_MISC_1, CMP50_PCIE_LINK_CTRL2,
       CMP50_PCIE_CYA0, CMP50_PCIE_LINK_CONFIG0, CMP50_PCIE_PL_LINK_RATE, CMP50_PCIE_LTSSM];
     dev_printf (printf ''CMP50_GEN2: POLICY_MISMATCH phase=%s OVR=%08x/%08x VAL=%08x/%08x HIER=%08x PRIV=%08x LC2=%08x CYA=%08x CFG=%08x PL=%08x LTSSM=%08x\<newline>''
       (FStr phase # uints vs));
     write_regs L (rollback_writes r);
     vs' \<leftarrow> read_regs L [CMP50_PCIE_XP3G_OVERRIDE0, CMP50_PCIE_XP3G_OVERRIDE3, CMP50_PCIE_XP3G_VALUE0,
       CMP50_PCIE_XP3G_VALUE3, CMP50_PCIE_LINK_CTRL2, CMP50_PCIE_LINK_CONFIG0, CMP50_PCIE_PL_LINK_RATE,
       CMP50_PCIE_LTSSM];
     dev_printf (printf ''CMP50_GEN2: POLICY_ROLLBACK phase=%s OVR=%08x/%08x VAL=%08x/%08x LC2=%08x CFG=%08x PL=%08x LTSSM=%08x\<newline>''
       (FStr phase # uints vs'))
   }"

definition policy_passed :: "'w linux \<Rightarrow> string \<Rightarrow> ('w, unit) driver" where
  "policy_passed L phase = do {
     vs \<leftarrow> read_regs L [CMP50_PCIE_LINK_CAP, CMP50_PCIE_LINK_CAP2, CMP50_PCIE_LINK_STATUS,
       CMP50_PCIE_XP3G_STATUS0, CMP50_PCIE_XP3G_OVERRIDE0, CMP50_PCIE_XP3G_STATUS3, CMP50_PCIE_XP3G_OVERRIDE3,
       CMP50_PCIE_VSEC_DEVICE, CMP50_PCIE_VSEC_HIERARCHY, CMP50_PCIE_PRIV_MISC_1, CMP50_PCIE_LINK_CTRL2,
       CMP50_PCIE_LINK_CONFIG0, CMP50_PCIE_PL_LINK_RATE];
     dev_printf (printf ''CMP50_GEN2: POLICY_PASS phase=%s CAP=%08x CAP2=%08x STAT=%08x XP3G=%08x/%08x/%08x/%08x VSEC=%08x/%08x PRIV=%08x LC2=%08x CFG=%08x PL=%08x\<newline>''
       (FStr phase # uints vs))
   }"

definition s_cmp50ApplyGen2Policy :: "'w linux \<Rightarrow> string \<Rightarrow> ('w, unit) driver" where
  "s_cmp50ApplyGen2Policy L phase = do {
     xp3gPlm \<leftarrow> readl L CMP50_PCIE_XP3G_PLM0;
     vsecDevice \<leftarrow> readl L CMP50_PCIE_VSEC_DEVICE;
     misc \<leftarrow> readl L CMP50_PCIE_PRIV_MISC_1;
     if xp3gPlm \<noteq> 0xFFFFFFFF then
       dev_printf (printf ''CMP50_GEN2: PROTECTED_GATE_FAIL phase=%s XP3G_PLM=%08x VSEC=%08x PRIV_MISC=%08x\<newline>''
         [FStr phase, FUInt xp3gPlm, FUInt vsecDevice, FUInt misc])
     else do {
       r \<leftarrow> read_originals L misc;
       write_regs L (policy_writes r);
       policyOk \<leftarrow> read_checks L policy_checks;
       if \<not> policyOk then policy_rollback L phase r else policy_passed L phase
     }
   }"

section \<open>For every hardware\<close>

fun written :: "pci_event list \<Rightarrow> (u32 \<times> nat) list" where
  "written [] = []"
| "written (PWritel v a # evs) = (v, a) # written evs"
| "written (_ # evs) = written evs"

lemma written_append [simp]: "written (xs @ ys) = written xs @ written ys"
  by (induction xs rule: written.induct) auto

text \<open>What was read first at each address.\<close>

fun first_read :: "nat \<Rightarrow> pci_event list \<Rightarrow> u32" where
  "first_read a [] = 0"
| "first_read a (PReadl b v # evs) = (if a = b then v else first_read a evs)"
| "first_read a (_ # evs) = first_read a evs"

definition first_originals :: "pci_event list \<Rightarrow> originals" where
  "first_originals evs = (let f = \<lambda>a. first_read a evs in
     \<lparr>privMisc = f CMP50_PCIE_PRIV_MISC_1, origOvr0 = f CMP50_PCIE_XP3G_OVERRIDE0, origVal0 = f CMP50_PCIE_XP3G_VALUE0,
       origOvr3 = f CMP50_PCIE_XP3G_OVERRIDE3, origVal3 = f CMP50_PCIE_XP3G_VALUE3,
       origHierarchy = f CMP50_PCIE_VSEC_HIERARCHY, origCya0 = f CMP50_PCIE_CYA0,
       origLinkConfig0 = f CMP50_PCIE_LINK_CONFIG0, origPlLinkRate = f CMP50_PCIE_PL_LINK_RATE,
       origLtssm = f CMP50_PCIE_LTSSM\<rparr>)"

text \<open>The read-back that follows the last policy write.\<close>

fun read_back :: "(nat \<times> (u32 \<Rightarrow> bool)) list \<Rightarrow> pci_event list \<Rightarrow> bool" where
  "read_back [] evs = True"
| "read_back ((a, ok) # cs) (PReadl b v # evs) = (a = b \<and> ok v \<and> read_back cs evs)"
| "read_back _ _ = False"

lemma emits_write_regs: "emits (write_regs L ws) (\<lambda>_ evs. evs = map (\<lambda>(v, a). PWritel v a) ws)"
  by (induction ws) (auto intro!: emits_return emits_bind emits_writel elim!: emits_mono)

lemma written_writes: "written (map (\<lambda>(v, a). PWritel v a) ws) = ws"
  by (induction ws) auto

lemma emits_read_regs:
  "emits (read_regs L as) (\<lambda>vs evs. length vs = length as \<and> written evs = [] \<and> PFault \<notin> set evs)"
proof (induction "as")
  case (Cons a "as")
  show ?case unfolding read_regs.simps
    by (rule emits_bind, rule emits_readl, rule emits_bindI [OF Cons.IH]) (auto intro: emits_return)
qed (simp add: emits_return)

lemma emits_read_checks:
  "emits (read_checks L cs)
     (\<lambda>ok evs. (\<forall>rest. read_back cs (evs @ rest) = ok) \<and> written evs = [] \<and> PFault \<notin> set evs)"
proof (induction cs)
  case (Cons c cs)
  obtain a ok where c: "c = (a, ok)" by (cases c)
  show ?case unfolding c read_checks.simps
    by (rule emits_bind, rule emits_readl, rule emits_if, rule emits_mono [OF Cons.IH])
      (auto intro: emits_return)
qed (simp add: emits_return)

lemma emits_read_originals:
  "emits (read_originals L misc) (\<lambda>r evs. length evs = 9 \<and> written evs = [] \<and> PFault \<notin> set evs \<and>
     (\<forall>rest vsec plm. r = first_originals ([PReadl CMP50_PCIE_XP3G_PLM0 plm, PReadl CMP50_PCIE_VSEC_DEVICE vsec,
        PReadl CMP50_PCIE_PRIV_MISC_1 misc] @ evs @ rest)))"
  unfolding read_originals_def
  by (intro emit) (simp_all add: first_originals_def policy_regs)

text \<open>A message of the policy, after its registers have been read, is well formed.\<close>

lemma emits_message:
  assumes "\<And>vs. length vs = length as \<Longrightarrow> printf fmt (FStr phase # uints vs) \<noteq> None"
  shows "emits (do { vs \<leftarrow> read_regs L as; dev_printf (printf fmt (FStr phase # uints vs)) })
    (\<lambda>_ evs. written evs = [] \<and> PFault \<notin> set evs)"
proof (rule emits_bindI [OF emits_read_regs])
  fix vs :: "u32 list" and e1
  assume "length vs = length as \<and> written e1 = [] \<and> PFault \<notin> set e1"
  with assms [of vs] show "emits (dev_printf (printf fmt (FStr phase # uints vs)))
      (\<lambda>y e2. written (e1 @ e2) = [] \<and> PFault \<notin> set (e1 @ e2))"
    by (intro emit) (auto split: option.splits)
qed

lemma emits_policy_passed: "emits (policy_passed L phase) (\<lambda>_ evs. written evs = [] \<and> PFault \<notin> set evs)"
  unfolding policy_passed_def
  by (rule emits_message) (auto simp: numeral_eq_Suc length_Suc_conv uints_def)

lemma emits_policy_rollback:
  "emits (policy_rollback L phase r) (\<lambda>_ evs. written evs = rollback_writes r \<and> PFault \<notin> set evs)"
proof -
  have flat: "policy_rollback L phase r = do {
      do { vs \<leftarrow> read_regs L [CMP50_PCIE_XP3G_OVERRIDE0, CMP50_PCIE_XP3G_OVERRIDE3, CMP50_PCIE_XP3G_VALUE0,
             CMP50_PCIE_XP3G_VALUE3, CMP50_PCIE_VSEC_HIERARCHY, CMP50_PCIE_PRIV_MISC_1, CMP50_PCIE_LINK_CTRL2,
             CMP50_PCIE_CYA0, CMP50_PCIE_LINK_CONFIG0, CMP50_PCIE_PL_LINK_RATE, CMP50_PCIE_LTSSM];
           dev_printf (printf ''CMP50_GEN2: POLICY_MISMATCH phase=%s OVR=%08x/%08x VAL=%08x/%08x HIER=%08x PRIV=%08x LC2=%08x CYA=%08x CFG=%08x PL=%08x LTSSM=%08x\<newline>''
             (FStr phase # uints vs)) };
      write_regs L (rollback_writes r);
      do { vs \<leftarrow> read_regs L [CMP50_PCIE_XP3G_OVERRIDE0, CMP50_PCIE_XP3G_OVERRIDE3, CMP50_PCIE_XP3G_VALUE0,
             CMP50_PCIE_XP3G_VALUE3, CMP50_PCIE_LINK_CTRL2, CMP50_PCIE_LINK_CONFIG0, CMP50_PCIE_PL_LINK_RATE,
             CMP50_PCIE_LTSSM];
           dev_printf (printf ''CMP50_GEN2: POLICY_ROLLBACK phase=%s OVR=%08x/%08x VAL=%08x/%08x LC2=%08x CFG=%08x PL=%08x LTSSM=%08x\<newline>''
             (FStr phase # uints vs)) } }"
    by (simp add: policy_rollback_def)
  show ?thesis
    unfolding flat
  proof (rule emits_bindI [OF emits_message], goal_cases)
    case (1 vs)
    then show ?case by (auto simp: numeral_eq_Suc length_Suc_conv uints_def)
  next
    case (2 x e1)
    show ?case
    proof (rule emits_bindI [OF emits_write_regs], rule emits_mono [OF emits_message], goal_cases)
      case (1 _ _ vs)
      then show ?case by (auto simp: numeral_eq_Suc length_Suc_conv uints_def)
    next
      case (2 _ e2 _ e3)
      have "PFault \<notin> set (map (\<lambda>(v, a). PWritel v a) (rollback_writes r))" by (auto simp: rollback_writes_def)
      with 2 \<open>written e1 = [] \<and> PFault \<notin> set e1\<close> show ?case by (simp add: written_writes)
    qed
  qed
qed

lemma length_policy_writes: "length (policy_writes r) = 10"
  by (simp add: policy_writes_def)

definition policy_kept :: "pci_event list \<Rightarrow> bool" where
  "policy_kept evs \<longleftrightarrow> PFault \<notin> set evs \<and> written evs =
     (if first_read CMP50_PCIE_XP3G_PLM0 evs \<noteq> 0xFFFFFFFF then []
      else policy_writes (first_originals evs) @
        (if read_back policy_checks (drop 22 evs) then [] else rollback_writes (first_originals evs)))"

lemma emits_policy: "emits (s_cmp50ApplyGen2Policy L phase) (\<lambda>_. policy_kept)"
  unfolding s_cmp50ApplyGen2Policy_def
proof (rule emits_bind, rule emits_readl, rule emits_bind, rule emits_readl, rule emits_bind, rule emits_readl,
    rule emits_if, goal_cases)
  case (1 plm vsec misc)
  then show ?case
    by (intro emit) (auto simp: policy_kept_def split: option.splits)
next
  case (2 plm vsec misc)
  let ?e0 = "[PReadl CMP50_PCIE_XP3G_PLM0 plm, PReadl CMP50_PCIE_VSEC_DEVICE vsec, PReadl CMP50_PCIE_PRIV_MISC_1 misc]"
  show ?case
  proof (rule emits_bindI [OF emits_read_originals], rule emits_bindI [OF emits_write_regs],
      rule emits_bindI [OF emits_read_checks], goal_cases)
    case (1 r e1 u e2 ok e3)
    have kept: "policy_kept (?e0 @ e1 @ e2 @ e3 @ e4)"
      if "written e4 = (if ok then [] else rollback_writes r)" and "PFault \<notin> set e4" for e4
    proof -
      have r: "first_originals (?e0 @ e1 @ e2 @ e3 @ e4) = r" using 1 by metis
      have "length (?e0 @ e1 @ e2) = 22" using 1 by (simp add: length_policy_writes)
      then have "drop 22 (?e0 @ e1 @ e2 @ e3 @ e4) = e3 @ e4" by (simp add: drop_append)
      moreover have "PFault \<notin> set e2" using 1 by (auto simp: policy_writes_def)
      ultimately show ?thesis
        using 1 2 that r by (simp add: policy_kept_def written_writes)
    qed
    show ?case
      by (rule emits_if; rule emits_mono [OF emits_policy_rollback] emits_mono [OF emits_policy_passed])
        (use kept in auto)
  qed
qed

text \<open>
  C15. On every hardware the Gen2 policy writes nothing unless the protection mask reads all ones; then
  it writes the ten policy values, each made from the original it read before the first write, and
  if the read-back that follows fails anywhere it writes all ten originals back, and nothing else;
  every message is well formed.
\<close>

theorem gen2_policy_contract: "policy_kept (trace_of (s_cmp50ApplyGen2Policy L phase) w)"
  by (rule emits_traceD [OF emits_policy])

end
