(* ===== verification/Gen2_Policy_Board.thy ===== *)
theory Gen2_Policy_Board
  imports Gen2_Policy
begin

text \<open>
  The Gen2 policy on a board whose registers hold what is written, except for those in \<open>stuck\<close>; and
  how it fits together with the driver's retrain and the Gen2 tool.
\<close>

section \<open>The board\<close>

type_synonym board = "nat \<Rightarrow> u32"

definition reg_linux :: "(nat \<Rightarrow> bool) \<Rightarrow> board linux \<Rightarrow> board linux" where
  "reg_linux stuck L = L\<lparr>l_readl := \<lambda>a w. (w a, w), l_writel := \<lambda>v a w. if stuck a then w else w(a := v)\<rparr>"

fun put :: "(nat \<Rightarrow> bool) \<Rightarrow> (u32 \<times> nat) list \<Rightarrow> board \<Rightarrow> board" where
  "put stuck [] w = w"
| "put stuck ((v, a) # ws) w = put stuck ws (if stuck a then w else w(a := v))"

lemma runs_readl: "runs (readl (reg_linux stuck L) a) w (w a) w"
  by (simp add: runs_def readl_def reg_linux_def)

lemma runs_writel: "runs (writel (reg_linux stuck L) v a) w () (if stuck a then w else w(a := v))"
  by (simp add: runs_def writel_def reg_linux_def)

lemma runs_log: "runs (dev_printf s) w () w"
  by (simp add: runs_def dev_printf_def tell_def)

lemma runs_write_regs: "runs (write_regs (reg_linux stuck L) ws) w () (put stuck ws w)"
proof (induction ws arbitrary: w)
  case (Cons p ws)
  obtain v a where "p = (v, a)" by (cases p)
  with Cons show ?case by (auto intro: runs_bind [OF runs_writel])
qed (simp add: runs_return)

lemma runs_read_regs: "runs (read_regs (reg_linux stuck L) as) w (map w as) w"
proof (induction "as")
  case (Cons a "as")
  show ?case unfolding read_regs.simps
    by (rule runs_bind [OF runs_readl], rule runs_bind [OF Cons.IH]) (simp add: runs_return)
qed (simp add: runs_return)

lemma runs_read_checks: "runs (read_checks (reg_linux stuck L) cs) w (list_all (\<lambda>(a, ok). ok (w a)) cs) w"
proof (induction cs)
  case (Cons c cs)
  obtain a ok where "c = (a, ok)" by (cases c)
  with Cons show ?case by (auto intro: runs_bind [OF runs_readl] simp: runs_return)
qed (simp add: runs_return)

text \<open>Writing back what was there undoes every write to the same registers.\<close>

lemma put_other: "x \<notin> snd ` set ws \<or> stuck x \<Longrightarrow> put stuck ws w x = w x"
  by (induction ws arbitrary: w) (auto split: if_splits)

lemma put_const:
  "\<forall>(v, a) \<in> set ws. v = f a \<Longrightarrow> x \<in> snd ` set ws \<Longrightarrow> \<not> stuck x \<Longrightarrow> put stuck ws w x = f x"
proof (induction ws arbitrary: w)
  case (Cons p ws)
  obtain v a where p: "p = (v, a)" by (cases p)
  show ?case
  proof (cases "x \<in> snd ` set ws")
    case True
    with Cons p show ?thesis by auto
  next
    case False
    with Cons.prems p show ?thesis by (auto simp: put_other)
  qed
qed simp

lemma put_back:
  assumes "\<forall>(v, a) \<in> set rb. v = w a" and "snd ` set ws \<subseteq> snd ` set rb"
  shows "put stuck rb (put stuck ws w) = w"
proof
  fix x
  show "put stuck rb (put stuck ws w) x = w x"
  proof (cases "x \<in> snd ` set rb \<and> \<not> stuck x")
    case True
    then show ?thesis using put_const [OF assms(1)] by blast
  next
    case False
    then have "x \<notin> snd ` set ws \<or> stuck x" using assms(2) by blast
    with False show ?thesis by (simp add: put_other)
  qed
qed

section \<open>The policy on it\<close>

definition originals_of :: "board \<Rightarrow> originals" where
  "originals_of w =
     \<lparr>privMisc = w CMP50_PCIE_PRIV_MISC_1, origOvr0 = w CMP50_PCIE_XP3G_OVERRIDE0, origVal0 = w CMP50_PCIE_XP3G_VALUE0,
       origOvr3 = w CMP50_PCIE_XP3G_OVERRIDE3, origVal3 = w CMP50_PCIE_XP3G_VALUE3,
       origHierarchy = w CMP50_PCIE_VSEC_HIERARCHY, origCya0 = w CMP50_PCIE_CYA0,
       origLinkConfig0 = w CMP50_PCIE_LINK_CONFIG0, origPlLinkRate = w CMP50_PCIE_PL_LINK_RATE,
       origLtssm = w CMP50_PCIE_LTSSM\<rparr>"

definition checks_pass :: "board \<Rightarrow> bool" where
  "checks_pass w = list_all (\<lambda>(a, ok). ok (w a)) policy_checks"

definition policy_result :: "(nat \<Rightarrow> bool) \<Rightarrow> board \<Rightarrow> board" where
  "policy_result stuck w =
     (let w1 = put stuck (policy_writes (originals_of w)) w in
      if w CMP50_PCIE_XP3G_PLM0 = 0xFFFFFFFF \<and> checks_pass w1 then w1 else w)"

lemma rolled_back: "put stuck (rollback_writes (originals_of w)) (put stuck (policy_writes (originals_of w)) w) = w"
  by (rule put_back) (auto simp: rollback_writes_def policy_writes_def originals_of_def)

lemma runs_policy:
  "runs (s_cmp50ApplyGen2Policy (reg_linux stuck L) phase) w () (policy_result stuck w)"
proof -
  let ?w1 = "put stuck (policy_writes (originals_of w)) w"
  have orig: "runs (read_originals (reg_linux stuck L) (w CMP50_PCIE_PRIV_MISC_1)) w (originals_of w) w"
    unfolding read_originals_def
    by (rule runs_bind [OF runs_readl])+ (simp add: originals_of_def runs_return)
  have undone: "runs (policy_rollback (reg_linux stuck L) phase (originals_of w)) ?w1 () w"
    unfolding policy_rollback_def
    by (rule runs_bind [OF runs_read_regs], rule runs_bind [OF runs_log], rule runs_bind [OF runs_write_regs],
        simp only: rolled_back, rule runs_bind [OF runs_read_regs], rule runs_log)
  have kept: "runs (policy_passed (reg_linux stuck L) phase) ?w1 () ?w1"
    unfolding policy_passed_def by (rule runs_bind [OF runs_read_regs], rule runs_log)
  show ?thesis
  proof (cases "w CMP50_PCIE_XP3G_PLM0 = 0xFFFFFFFF")
    case False
    then show ?thesis
      unfolding s_cmp50ApplyGen2Policy_def
      by (rule_tac runs_bind [OF runs_readl], rule_tac runs_bind [OF runs_readl], rule_tac runs_bind [OF runs_readl])
        (simp add: policy_result_def runs_log)
  next
    case True
    show ?thesis
      unfolding s_cmp50ApplyGen2Policy_def
    proof (rule runs_bind [OF runs_readl], rule runs_bind [OF runs_readl], rule runs_bind [OF runs_readl],
        simp only: True simp_thms if_False, rule runs_bind [OF orig], rule runs_bind [OF runs_write_regs],
        rule runs_bind [OF runs_read_checks], goal_cases)
      case 1
      show ?case
        using undone kept True by (auto simp: policy_result_def checks_pass_def Let_def)
    qed
  qed
qed

lemma checks_pass_gate:
  "checks_pass w \<Longrightarrow> \<not> policy_missing (w CMP50_PCIE_CYA0) (w CMP50_PCIE_LINK_CONFIG0) (w CMP50_PCIE_PL_LINK_RATE)"
  by (simp add: checks_pass_def policy_checks_def policy_missing_def CMP50_PCIE_PL_LINK_RATE_SPEED_MASK_def
      CMP50_PCIE_PL_LINK_RATE_GEN2_def)

text \<open>
  C16. On a board any of whose registers may ignore writes, the policy is all or nothing: either all
  ten values are in place and the gate of the driver's Gen2 retrain is open, or every register of the
  board is as it was before.
\<close>

theorem policy_all_or_nothing:
  "world_of (s_cmp50ApplyGen2Policy (reg_linux stuck L) phase) w =
     (let w1 = put stuck (policy_writes (originals_of w)) w in
      if w CMP50_PCIE_XP3G_PLM0 = 0xFFFFFFFF \<and> checks_pass w1 then w1 else w) \<and>
   (let w' = world_of (s_cmp50ApplyGen2Policy (reg_linux stuck L) phase) w in
    if w' = w then True
    else checks_pass w' \<and>
      \<not> policy_missing (w' CMP50_PCIE_CYA0) (w' CMP50_PCIE_LINK_CONFIG0) (w' CMP50_PCIE_PL_LINK_RATE))"
  using runsD [OF runs_policy [of stuck L phase w]] by (auto simp: policy_result_def Let_def checks_pass_gate)

section \<open>A working board\<close>

text \<open>Setting and clearing disjoint bits.\<close>

lemma set_clear:
  fixes x e v :: u32
  shows "e AND v = 0 \<Longrightarrow> ((x OR e) AND NOT v) AND e = e" and "((x OR e) AND NOT v) AND v = 0"
    and "e AND v = 0 \<Longrightarrow> ((x AND NOT v) OR e) AND (v OR e) = e" and "(x AND NOT v) AND v = 0"
  by (auto simp: bit_eq_iff bit_simps)

lemma field_shift:
  fixes x m t :: u32
  shows "drop_bit k ((x AND NOT m) OR t) AND drop_bit k m = drop_bit k t AND drop_bit k m"
  by (auto simp: bit_eq_iff bit_simps)

lemma config_field: "drop_bit 18 ((x AND NOT 0x000C0000) OR push_bit 18 2) AND 3 = (2 :: u32)"
  using field_shift [of 18 x "0x000C0000" "push_bit 18 2"] by simp

lemma working_checks: "checks_pass (put (\<lambda>_. False) (policy_writes (originals_of w)) w)"
proof -
  have e: "CMP50_PCIE_PRIV_MISC_1_GEN2_EN AND CMP50_PCIE_PRIV_MISC_1_GEN2_VAL = 0"
    "CMP50_PCIE_PL_LINK_RATE_GEN2 AND CMP50_PCIE_PL_LINK_RATE_SPEED_MASK = CMP50_PCIE_PL_LINK_RATE_GEN2"
    "1 AND push_bit 12 (1 :: u32) = 0"
    by (simp_all add: policy_bits)
  have rate: "((x AND NOT m) OR c) AND m = c AND m" for x m c :: u32 by (auto simp: bit_eq_iff bit_simps)
  show ?thesis
    using set_clear(1) [OF e(1)] set_clear(2) set_clear(3) [OF e(3)] set_clear(4) [of _ "push_bit 2 1"] config_field rate e(2)
    by (simp add: checks_pass_def policy_checks_def policy_writes_def originals_of_def policy_regs)
qed

text \<open>
  C26. On a working board, whatever its registers hold, with the protection mask open, the policy opens
  the gate of the driver's Gen2 retrain, leaves in the link-rate policy the word
  the Gen2 tool would write, except for bit 20, which only the tool clears, and changes only the policy bits of the shared registers; with the mask closed
  it leaves the board alone.
\<close>

theorem policy_opens_gate:
  "let w' = world_of (s_cmp50ApplyGen2Policy (reg_linux (\<lambda>_. False) L) phase) w in
   if w CMP50_PCIE_XP3G_PLM0 \<noteq> 0xFFFFFFFF then w' = w
   else \<not> policy_missing (w' CMP50_PCIE_CYA0) (w' CMP50_PCIE_LINK_CONFIG0) (w' CMP50_PCIE_PL_LINK_RATE) \<and>
     w' CMP50_PCIE_PL_LINK_RATE AND NOT (push_bit 20 1) = gen2_desired (w CMP50_PCIE_PL_LINK_RATE) \<and>
     w' CMP50_PCIE_LTSSM = 6 \<and>
     w' CMP50_PCIE_CYA0 = w CMP50_PCIE_CYA0 AND NOT (push_bit 2 1) \<and>
     w' CMP50_PCIE_LINK_CONFIG0 AND NOT 0x000C0000 = w CMP50_PCIE_LINK_CONFIG0 AND NOT 0x000C0000 \<and>
     w' CMP50_PCIE_PRIV_MISC_1 AND NOT 0x7800 = w CMP50_PCIE_PRIV_MISC_1 AND NOT 0x7800 \<and>
     w' CMP50_PCIE_VSEC_HIERARCHY AND NOT 0x1001 = w CMP50_PCIE_VSEC_HIERARCHY AND NOT 0x1001"
proof -
  let ?w1 = "put (\<lambda>_. False) (policy_writes (originals_of w)) w"
  have w': "world_of (s_cmp50ApplyGen2Policy (reg_linux (\<lambda>_. False) L) phase) w =
      (if w CMP50_PCIE_XP3G_PLM0 = 0xFFFFFFFF then ?w1 else w)"
    using runsD [OF runs_policy [of "\<lambda>_. False" L phase w]] by (simp add: policy_result_def Let_def working_checks)
  have keep: "((x AND NOT m) OR t) AND NOT m = x AND NOT m" if "t AND NOT m = 0" for x m t :: u32
    using that by (auto simp: bit_eq_iff bit_simps)
  have misc: "((x OR e) AND NOT v) AND NOT m = x AND NOT m" if "(e OR v) AND NOT m = 0" for x e v m :: u32
    using that by (auto simp: bit_eq_iff bit_simps)
  have hier: "((x AND NOT a) OR b) AND NOT m = x AND NOT m" if "(a OR b) AND NOT m = 0" for x a b m :: u32
    using that by (auto simp: bit_eq_iff bit_simps)
  have tool: "((x AND NOT m) OR t) AND NOT b = (x AND NOT (m OR b)) OR t" if "t AND b = 0" for x m t b :: u32
    using that by (auto simp: bit_eq_iff bit_simps)
  have rate: "?w1 CMP50_PCIE_PL_LINK_RATE AND NOT (push_bit 20 1) = gen2_desired (w CMP50_PCIE_PL_LINK_RATE)"
    using tool [of "CMP50_PCIE_PL_LINK_RATE_GEN2" "push_bit 20 1" "w CMP50_PCIE_PL_LINK_RATE"
        CMP50_PCIE_PL_LINK_RATE_SPEED_MASK]
    by (simp add: policy_writes_def originals_of_def policy_regs gen2_desired_def PL_LINK_RATE_POLICY_MASK_def
        PL_LINK_RATE_GEN2_def CMP50_PCIE_PL_LINK_RATE_SPEED_MASK_def CMP50_PCIE_PL_LINK_RATE_GEN2_def)
  have vals:
    "?w1 CMP50_PCIE_LTSSM = 6" "?w1 CMP50_PCIE_CYA0 = w CMP50_PCIE_CYA0 AND NOT (push_bit 2 1)"
    "?w1 CMP50_PCIE_LINK_CONFIG0 = (w CMP50_PCIE_LINK_CONFIG0 AND NOT 0x000C0000) OR push_bit 18 2"
    "?w1 CMP50_PCIE_PRIV_MISC_1 =
      (w CMP50_PCIE_PRIV_MISC_1 OR CMP50_PCIE_PRIV_MISC_1_GEN2_EN) AND NOT CMP50_PCIE_PRIV_MISC_1_GEN2_VAL"
    "?w1 CMP50_PCIE_VSEC_HIERARCHY = (w CMP50_PCIE_VSEC_HIERARCHY AND NOT (push_bit 12 1)) OR 1"
    by (simp_all add: policy_writes_def originals_of_def policy_regs)
  have "?w1 CMP50_PCIE_LINK_CONFIG0 AND NOT 0x000C0000 = w CMP50_PCIE_LINK_CONFIG0 AND NOT 0x000C0000"
    unfolding vals by (rule keep) simp
  moreover have "?w1 CMP50_PCIE_PRIV_MISC_1 AND NOT 0x7800 = w CMP50_PCIE_PRIV_MISC_1 AND NOT 0x7800"
    unfolding vals by (rule misc) (simp add: policy_bits)
  moreover have "?w1 CMP50_PCIE_VSEC_HIERARCHY AND NOT 0x1001 = w CMP50_PCIE_VSEC_HIERARCHY AND NOT 0x1001"
    unfolding vals by (rule hier) simp
  ultimately show ?thesis
    using checks_pass_gate [OF working_checks [of w]] by (simp only: Let_def w' vals rate if_True if_False simp_thms split: if_split) simp
qed

end
