(* ===== verification/Verify_Py.thy ===== *)
theory Verify_Py
  imports Rm_Main
begin

text \<open>
  \<open>verify/verify.py\<close>, the consumer of the probe's report, over JSON values: Python's subscripts,
  iteration and comparisons as far as the script uses them, its exceptions as values, and the
  theorem that it accepts the report of a probe run exactly if the driver reported a board at full
  speed.  \<open>json.load\<close> is the reader of \<open>Json\<close>, which covers the texts the probe prints.
\<close>

section \<open>Python values\<close>

datatype reason =
    Usage | V1_status json | V2_status json | V1_values | V2_values | Unexpected string "json option" int

datatype py_error = KeyError string | TypeError | FileError | JSONDecodeError | SystemExit reason

type_synonym 'a py = "py_error + 'a"

definition py_bind :: "'a py \<Rightarrow> ('a \<Rightarrow> 'b py) \<Rightarrow> 'b py" where
  "py_bind m f = (case m of Inl e \<Rightarrow> Inl e | Inr x \<Rightarrow> f x)"

lemma py_bind_simps [simp]: "py_bind (Inl e) f = Inl e" "py_bind (Inr x) f = f x"
  by (simp_all add: py_bind_def)

text \<open>\<open>v[k]\<close> with a string key; the last of equal keys counts.\<close>

fun getitem :: "json \<Rightarrow> string \<Rightarrow> json py" where
  "getitem (JObj kvs) k = (case map_of (rev kvs) k of None \<Rightarrow> Inl (KeyError k) | Some v \<Rightarrow> Inr v)"
| "getitem _ k = Inl TypeError"

fun py_iter :: "json \<Rightarrow> json list py" where
  "py_iter (JArr vs) = Inr vs"
| "py_iter (JObj kvs) = Inr (map JStr (rev (remdups (rev (map fst kvs)))))"
| "py_iter (JStr s) = Inr (map (\<lambda>c. JStr [c]) s)"
| "py_iter _ = Inl TypeError"

definition py_len :: "json \<Rightarrow> nat py" where
  "py_len v = py_bind (py_iter v) (\<lambda>vs. Inr (length vs))"

text \<open>\<open>v == n\<close> for an integer \<open>n\<close>: \<open>False\<close> and \<open>True\<close> are 0 and 1.\<close>

fun equals_int :: "json \<Rightarrow> int \<Rightarrow> bool" where
  "equals_int (JNum i) n = (i = n)"
| "equals_int (JBool b) n = ((if b then 1 else 0) = n)"
| "equals_int _ n = False"

fun hashable :: "json \<Rightarrow> bool" where
  "hashable (JArr vs) = False"
| "hashable (JObj kvs) = False"
| "hashable _ = True"

section \<open>The script\<close>

text \<open>The dictionary comprehension of \<open>values_by_name\<close>: the pairs, last first.\<close>

fun collect_values :: "json list \<Rightarrow> (json \<times> json) list \<Rightarrow> (json \<times> json) list py" where
  "collect_values [] acc = Inr acc"
| "collect_values (item # items) acc =
     py_bind (getitem item ''name'') (\<lambda>name.
     py_bind (getitem item ''raw'') (\<lambda>raw.
       if hashable name then collect_values items ((name, raw) # acc) else Inl TypeError))"

definition values_by_name :: "json \<Rightarrow> (json \<times> json) list py" where
  "values_by_name control =
     py_bind (getitem control ''values'') (\<lambda>vs. py_bind (py_iter vs) (\<lambda>items. collect_values items []))"

text \<open>\<open>any(item["raw"] != 0 for item in items)\<close>.\<close>

fun any_nonzero :: "json list \<Rightarrow> bool py" where
  "any_nonzero [] = Inr False"
| "any_nonzero (item # items) =
     py_bind (getitem item ''raw'') (\<lambda>raw. if equals_int raw 0 then any_nonzero items else Inr True)"

definition check_status :: "json \<Rightarrow> (json \<Rightarrow> reason) \<Rightarrow> unit py" where
  "check_status control failed =
     py_bind (getitem control ''rm_status'') (\<lambda>status.
       if status = JStr ''0x00000000'' then Inr () else Inl (SystemExit (failed status)))"

definition check_values :: "json \<Rightarrow> nat \<Rightarrow> reason \<Rightarrow> unit py" where
  "check_values control n failed =
     py_bind (getitem control ''values'') (\<lambda>vs.
     py_bind (py_len vs) (\<lambda>len.
       if len \<noteq> n then Inl (SystemExit failed)
       else py_bind (py_iter vs) (\<lambda>items.
         py_bind (any_nonzero items) (\<lambda>bad. if bad then Inl (SystemExit failed) else Inr ()))))"

fun check_expected :: "(json \<times> json) list \<Rightarrow> (string \<times> int) list \<Rightarrow> unit py" where
  "check_expected vs [] = Inr ()"
| "check_expected vs ((name, expected) # rest) =
     (case map_of vs (JStr name) of
        None \<Rightarrow> Inl (SystemExit (Unexpected name None expected))
      | Some v \<Rightarrow>
          if equals_int v expected then check_expected vs rest
          else Inl (SystemExit (Unexpected name (Some v) expected)))"

definition expected_gpu :: "(string \<times> int) list" where
  "expected_gpu = [(''CMP_SKU'', 1), (''DISPLAY_ENABLED'', 0)]"

definition expected_gr :: "(string \<times> int) list" where
  "expected_gr = [(''GPU_CORE_COUNT'', 3584), (''RT_CORE_COUNT'', 56), (''TENSOR_CORE_COUNT'', 448)]"

definition verify_report :: "json \<Rightarrow> string py" where
  "verify_report report =
     py_bind (getitem report ''controls'') (\<lambda>controls.
     py_bind (getitem controls ''v1'') (\<lambda>v1.
     py_bind (getitem controls ''v2'') (\<lambda>v2.
     py_bind (check_status v1 V1_status) (\<lambda>_.
     py_bind (check_status v2 V2_status) (\<lambda>_.
     py_bind (check_values v1 9 V1_values) (\<lambda>_.
     py_bind (check_values v2 8 V2_values) (\<lambda>_.
     py_bind (py_bind (getitem controls ''gpu_info'') values_by_name) (\<lambda>gpu.
     py_bind (py_bind (getitem controls ''gr_info'') values_by_name) (\<lambda>gr.
     py_bind (check_expected gpu expected_gpu) (\<lambda>_.
     py_bind (check_expected gr expected_gr) (\<lambda>_.
     Inr ''PASS_CMP50HX_ISSUE_RATE_AND_COUNTS\<newline>'')))))))))))"

text \<open>\<open>main\<close>: the result is what it prints; \<open>open_file\<close> gives the text of a file.\<close>

definition verify_main :: "(string \<Rightarrow> string option) \<Rightarrow> string list \<Rightarrow> string py" where
  "verify_main open_file argv =
     (if length argv \<noteq> 2 then Inl (SystemExit Usage)
      else (case open_file (argv ! 1) of
              None \<Rightarrow> Inl FileError
            | Some text \<Rightarrow>
                (case json_of text of None \<Rightarrow> Inl JSONDecodeError | Some report \<Rightarrow> verify_report report)))"

section \<open>On the probe's report\<close>

text \<open>The driver reported a board at full speed with all its units.\<close>

definition full_speed :: "probe_data \<Rightarrow> bool" where
  "full_speed d \<longleftrightarrow>
     list_all rm_ok [v1_result d, v2_result d, gpu_info_result d, gr_info_result d] \<and>
     (\<forall>i \<in> {..<9}. get8 (16 + i) (v1_buf d) = 0) \<and>
     get32 0 (v2_buf d) = 8 \<and> (\<forall>i \<in> {..<8}. item_data (drop 4 (v2_buf d)) i = 0) \<and>
     item_data (drop 4 (gpu_info_buf d)) 2 = 1 \<and> item_data (drop 4 (gpu_info_buf d)) 3 = 0 \<and>
     item_data (gr_info_items d) 0 = 3584 \<and> item_data (gr_info_items d) 1 = 56 \<and>
     item_data (gr_info_items d) 2 = 448"

lemma hex32_zero: "hex32 v = ''0x00000000'' \<longleftrightarrow> v = 0"
proof
  assume "hex32 v = ''0x00000000''"
  then have "num_of 16 (hex_field 8 v) = num_of 16 ''00000000''" by (simp add: hex32_def)
  moreover have "num_of 16 ''00000000'' = 0" by (simp add: num_of_def digit_of_def)
  ultimately have "unat v = 0" by (simp add: hex_field_def hex_field_value del: zero_pad_hex)
  then show "v = 0" by (simp add: unat_eq_0)
qed (simp add: hex32_def hex_field_def digs.simps zero_pad_def digit_char_def numeral_eq_Suc del: zero_pad_hex)

lemma any_nonzero_map:
  "(\<And>i. i \<in> set xs \<Longrightarrow> getitem (f i) ''raw'' = Inr (JNum (g i))) \<Longrightarrow>
     any_nonzero (map f xs) = Inr (\<exists>i \<in> set xs. g i \<noteq> 0)"
  by (induction xs) auto

text \<open>Each check on the section it is about.\<close>

lemma status_of:
  "check_status (JObj (header_json command r @ ms)) failed =
     (if rm_status r = 0 then Inr () else Inl (SystemExit (failed (JStr (hex32 (rm_status r))))))"
  if "''rm_status'' \<notin> set (map fst ms)"
proof -
  have "map_of (rev ms) ''rm_status'' = None" using that by (simp add: map_of_eq_None_iff)
  then show ?thesis
    by (simp add: check_status_def header_json_def map_add_def hex32_zero)
qed

lemma v1_values_check:
  "check_values (v1_json r b) 9 V1_values =
     (if rm_ok r \<and> (\<forall>i \<in> {..<9}. get8 (16 + i) b = 0) then Inr () else Inl (SystemExit V1_values))"
proof -
  have "any_nonzero (map (v1_item b) [0..<9]) = Inr (\<exists>i \<in> set [0..<9]. int (unat (get8 (16 + i) b)) \<noteq> 0)"
    by (rule any_nonzero_map) (simp add: v1_item_def)
  then show ?thesis
    by (auto simp: check_values_def v1_json_def header_json_def py_len_def uint_0_iff simp del: upt_rec_numeral)
qed

lemma v2_values_check:
  "check_values (info_list_json command r cnt items v2 speed) 8 V2_values =
     (if rm_ok r \<and> cnt = 8 \<and> (\<forall>i \<in> {..<8}. item_data items i = 0) then Inr ()
      else Inl (SystemExit V2_values))"
proof -
  have cnt: "min 255 (unat cnt) = 8 \<longleftrightarrow> cnt = 8" by (simp add: word_unat_eq_iff min_def)
  have "any_nonzero (map (info_item v2 speed items) [0..<8]) = Inr (\<exists>i \<in> set [0..<8]. int (unat (item_data items i)) \<noteq> 0)"
    by (rule any_nonzero_map) (simp add: info_item_def)
  then show ?thesis
    by (auto simp: check_values_def info_list_json_def header_json_def py_len_def uint_0_iff cnt simp del: upt_rec_numeral)
qed

lemma upt_4: "[0..<4] = [0, 1, 2, 3]"
  by (simp add: upt_conv_Cons)

lemma gpu_values:
  "values_by_name (gpu_info_json r items) = Inr (if rm_ok r then
     [(JStr ''DISPLAY_ENABLED'', jnum (item_data items 3)), (JStr ''CMP_SKU'', jnum (item_data items 2)),
      (JStr ''NETLIST_REV1'', jnum (item_data items 1)), (JStr ''NETLIST_REV0'', jnum (item_data items 0))] else [])"
  by (simp add: values_by_name_def gpu_info_json_def header_json_def length_names upt_4 gpu_info_item_def
      del: upt_rec_numeral) (simp add: gpu_info_names_def)

lemma gr_values:
  "values_by_name (gr_info_json r items) = Inr (if rm_ok r then
     [(JStr ''GFX_CAPABILITIES'', jnum (item_data items 3)), (JStr ''TENSOR_CORE_COUNT'', jnum (item_data items 2)),
      (JStr ''RT_CORE_COUNT'', jnum (item_data items 1)), (JStr ''GPU_CORE_COUNT'', jnum (item_data items 0))] else [])"
  by (simp add: values_by_name_def gr_info_json_def header_json_def upt_4 gr_info_item_def gr_info_names_def
      del: upt_rec_numeral)

text \<open>The sections of the report under their keys.\<close>

lemma report_sections:
  assumes "wf_probe d"
  shows "getitem (JObj (controls_json d)) ''v1'' = Inr (v1_json (v1_result d) (v1_buf d))"
    and "getitem (JObj (controls_json d)) ''v2'' =
      Inr (info_list_json NV2080_CTRL_CMD_GR_GET_SM_ISSUE_RATE_MODIFIER_V2 (v2_result d)
        (get32 0 (v2_buf d)) (drop 4 (v2_buf d)) True False)"
    and "getitem (JObj (controls_json d)) ''gpu_info'' = Inr (gpu_info_json (gpu_info_result d) (drop 4 (gpu_info_buf d)))"
    and "getitem (JObj (controls_json d)) ''gr_info'' = Inr (gr_info_json (gr_info_result d) (gr_info_items d))"
proof -
  let ?q = "map (\<lambda>q. (q_name q, classes_json q)) (engine_queries d)"
  have "map fst ?q = map q_name engine_queries_init"
    using assms by (simp add: wf_probe_def o_def)
  then have q: "fst ` set ?q = set (map q_name engine_queries_init)"
    by (metis set_map)
  have "map_of (rev ?q) k = None" if "k \<in> {''v1'', ''v2'', ''gpu_info'', ''gr_info''}" for k
    using that q by (auto simp: map_of_eq_None_iff engine_queries_init_def empty_query_def image_image)
  then show "getitem (JObj (controls_json d)) ''v1'' = Inr (v1_json (v1_result d) (v1_buf d))"
    "getitem (JObj (controls_json d)) ''v2'' =
      Inr (info_list_json NV2080_CTRL_CMD_GR_GET_SM_ISSUE_RATE_MODIFIER_V2 (v2_result d)
        (get32 0 (v2_buf d)) (drop 4 (v2_buf d)) True False)"
    "getitem (JObj (controls_json d)) ''gpu_info'' = Inr (gpu_info_json (gpu_info_result d) (drop 4 (gpu_info_buf d)))"
    "getitem (JObj (controls_json d)) ''gr_info'' = Inr (gr_info_json (gr_info_result d) (gr_info_items d))"
    by (simp_all add: controls_json_def rev_map map_add_def split: option.splits)
qed

definition verdict :: string where
  "verdict = ''PASS_CMP50HX_ISSUE_RATE_AND_COUNTS\<newline>''"

lemma expected_gpu_check:
  "check_expected (if rm_ok r then
       [(JStr ''DISPLAY_ENABLED'', jnum d), (JStr ''CMP_SKU'', jnum c), (JStr ''NETLIST_REV1'', jnum b),
        (JStr ''NETLIST_REV0'', jnum a)] else []) expected_gpu =
     (if rm_ok r \<and> c = 1 \<and> d = 0 then Inr ()
      else if rm_ok r \<and> c = 1 then Inl (SystemExit (Unexpected ''DISPLAY_ENABLED'' (Some (jnum d)) 0))
      else Inl (SystemExit (Unexpected ''CMP_SKU'' (if rm_ok r then Some (jnum c) else None) 1)))"
  by (simp add: expected_gpu_def word_uint_eq_iff)

lemma expected_gr_check:
  "check_expected (if rm_ok r then
       [(JStr ''GFX_CAPABILITIES'', jnum d), (JStr ''TENSOR_CORE_COUNT'', jnum c), (JStr ''RT_CORE_COUNT'', jnum b),
        (JStr ''GPU_CORE_COUNT'', jnum a)] else []) expected_gr =
     (if rm_ok r \<and> a = 3584 \<and> b = 56 \<and> c = 448 then Inr ()
      else if rm_ok r \<and> a = 3584 \<and> b = 56
        then Inl (SystemExit (Unexpected ''TENSOR_CORE_COUNT'' (Some (jnum c)) 448))
      else if rm_ok r \<and> a = 3584 then Inl (SystemExit (Unexpected ''RT_CORE_COUNT'' (Some (jnum b)) 56))
      else Inl (SystemExit (Unexpected ''GPU_CORE_COUNT'' (if rm_ok r then Some (jnum a) else None) 3584)))"
  by (simp add: expected_gr_def word_uint_eq_iff)

lemma verify_report_probe:
  assumes "wf_probe d"
  shows "(verify_report (report_json d i) = Inr verdict) = full_speed d"
    and "verify_report (report_json d i) = Inr verdict \<or> (\<exists>why. verify_report (report_json d i) = Inl (SystemExit why))"
proof -
  note s = report_sections [OF assms]
  have c: "getitem (report_json d i) ''controls'' = Inr (JObj (controls_json d))"
    by (simp add: report_json_def)
  have st: "check_status (v1_json (v1_result d) (v1_buf d)) V1_status =
      (if rm_status (v1_result d) = 0 then Inr () else Inl (SystemExit (V1_status (JStr (hex32 (rm_status (v1_result d)))))))"
    "check_status (info_list_json command (v2_result d) cnt items v2 speed) V2_status =
      (if rm_status (v2_result d) = 0 then Inr () else Inl (SystemExit (V2_status (JStr (hex32 (rm_status (v2_result d)))))))"
    for command cnt items v2 speed
    unfolding v1_json_def info_list_json_def by (rule status_of, simp)+
  note checks = verify_report_def c s st v1_values_check v2_values_check gpu_values gr_values
    expected_gpu_check expected_gr_check verdict_def full_speed_def
  show "(verify_report (report_json d i) = Inr verdict) = full_speed d"
    by (simp add: checks del: getitem.simps) (auto simp: rm_ok_def)
  show "verify_report (report_json d i) = Inr verdict \<or> (\<exists>why. verify_report (report_json d i) = Inl (SystemExit why))"
    by (simp add: checks del: getitem.simps)
qed

section \<open>Probe and consumer together\<close>

text \<open>
  C5. The consumer on what the probe prints, whatever the driver answers: it accepts exactly if all
  four controls succeeded, all nine v1 and exactly eight v2 issue rates are full speed, the SKU and
  display bits are the expected ones, and the core counts are 3584, 56 and 448; otherwise it ends
  with one of its own messages, never with a missing key, a type error or unreadable JSON.
\<close>

theorem verify_probe:
  "let text = stdout_of (trace_of (run_probe K ctl c s i) w);
       result = verify_main (\<lambda>path. Some text) [prog, file] in
   (result = Inr ''PASS_CMP50HX_ISSUE_RATE_AND_COUNTS\<newline>'') = full_speed (result_of (run_controls K ctl c s) w) \<and>
   (result = Inr ''PASS_CMP50HX_ISSUE_RATE_AND_COUNTS\<newline>'' \<or> (\<exists>why. result = Inl (SystemExit why)))"
proof -
  have "wf_probe (result_of (run_controls K ctl c s) w)"
    using emits_traceD [OF emits_run_controls [of K ctl c s], of w] by simp
  from verify_report_probe [OF this, of i] show ?thesis
    by (simp add: Let_def verify_main_def run_probe_json verdict_def)
qed

end
