(* ===== verification/Governor.thy ===== *)
theory Governor
  imports Process
begin

text \<open>
  The control loop of the idle governor, \<open>internal/governor/governor.go\<close>: the state of each card,
  polling, release, clean-up, and the reaction to control requests and errors.  The hardware and
  the control directory are a record of functions over an arbitrary world, with an event per call.
  A panic (a missing entry of the state map) is the event \<open>GPanic\<close>.  Log output is left out; an
  error is only \<open>ErrNotExist\<close> or another one, which is all the code tells apart.
\<close>

section \<open>Data\<close>

record gpu =
  g_index :: int
  g_bus_id :: string
  g_device :: u32
  g_subsystem :: u32
  g_memory :: u64

record card =
  idle_polls :: nat
  low_power :: bool
  manual_fan :: bool

record control =
  c_enabled :: bool
  c_profile :: string
  c_fan :: int

text \<open>The options the loop reads, and the parsed load clock and core offset.\<close>

record gconf =
  idle_after :: nat
  util_threshold :: u32
  fan_auto_temp :: u32
  load_clock :: "(u32 \<times> u32) option"
  core_offset :: "int option"

record gov =
  g_states :: "int \<Rightarrow> card option"
  g_control :: control
  g_active :: bool

datatype gerror = ErrNotExist | ErrOther

datatype gcmd =
    SetPState int int
  | ResetLockedClocks int
  | SetLockedClocks int u32 u32
  | SetCoreOffset int int
  | SetFan int u32
  | SetFanAuto int

text \<open>
  What the JSON decoder delivered for the control file: \<open>Inl\<close> for any error before that.
  \<open>e_order\<close> is the order in which a \<open>range\<close> over the state map happens to go.
\<close>

record 'w genv =
  e_gpus :: "gpu list"
  e_util :: "int \<Rightarrow> 'w \<Rightarrow> u32 option \<times> 'w"
  e_temp :: "int \<Rightarrow> 'w \<Rightarrow> u32 option \<times> 'w"
  e_cmd :: "gcmd \<Rightarrow> 'w \<Rightarrow> bool \<times> 'w"
  e_decode :: "'w \<Rightarrow> (gerror + control) \<times> 'w"
  e_status_active :: "control \<Rightarrow> 'w \<Rightarrow> gerror option \<times> 'w"
  e_status_inactive :: "'w \<Rightarrow> 'w"
  e_status_error :: "'w \<Rightarrow> 'w"
  e_order :: "'w \<Rightarrow> int list"

datatype gevent =
    GUtil int "u32 option"
  | GTemp int "u32 option"
  | GCmd gcmd bool
  | GControl "gerror + control"
  | GActive control "gerror option"
  | GInactive
  | GError
  | GPanic

type_synonym ('w, 'a) gproc = "('w, gevent, 'a) traced"

definition utilization :: "'w genv \<Rightarrow> int \<Rightarrow> ('w, u32 option) gproc" where
  "utilization E i = State (\<lambda>(w, tr). let (r, w') = e_util E i w in (r, (w', tr @ [GUtil i r])))"

definition temperature :: "'w genv \<Rightarrow> int \<Rightarrow> ('w, u32 option) gproc" where
  "temperature E i = State (\<lambda>(w, tr). let (r, w') = e_temp E i w in (r, (w', tr @ [GTemp i r])))"

definition command :: "'w genv \<Rightarrow> gcmd \<Rightarrow> ('w, bool) gproc" where
  "command E c = State (\<lambda>(w, tr). let (r, w') = e_cmd E c w in (r, (w', tr @ [GCmd c r])))"

definition decode_control :: "'w genv \<Rightarrow> ('w, gerror + control) gproc" where
  "decode_control E = State (\<lambda>(w, tr). let (r, w') = e_decode E w in (r, (w', tr @ [GControl r])))"

definition status_active :: "'w genv \<Rightarrow> control \<Rightarrow> ('w, gerror option) gproc" where
  "status_active E c = State (\<lambda>(w, tr). let (r, w') = e_status_active E c w in (r, (w', tr @ [GActive c r])))"

definition status_inactive :: "'w genv \<Rightarrow> ('w, unit) gproc" where
  "status_inactive E = State (\<lambda>(w, tr). ((), (e_status_inactive E w, tr @ [GInactive])))"

definition status_error :: "'w genv \<Rightarrow> ('w, unit) gproc" where
  "status_error E = State (\<lambda>(w, tr). ((), (e_status_error E w, tr @ [GError])))"

definition map_order :: "'w genv \<Rightarrow> int list \<Rightarrow> ('w, int list) gproc" where
  "map_order E keys = State (\<lambda>(w, tr). (remdups ([k \<leftarrow> e_order E w. k \<in> set keys] @ keys), (w, tr)))"

section \<open>The control request\<close>

definition Profiles :: "(string \<times> nat) list" where
  "Profiles = [(''cmp50-1x20gb'', 1), (''cmp50-2x20gb'', 2), (''cmp50-4x20gb'', 4),
     (''cmp50-6x20gb'', 6), (''cmp50-8x20gb'', 8)]"

definition profile_count :: "string \<Rightarrow> nat" where
  "profile_count p = (case map_of Profiles p of None \<Rightarrow> 0 | Some n \<Rightarrow> n)"

definition valid_control :: "control \<Rightarrow> bool" where
  "valid_control c \<longleftrightarrow> map_of Profiles (c_profile c) \<noteq> None \<and>
     \<not> (c_fan c \<noteq> 0 \<and> (c_fan c < 15 \<or> c_fan c > 100))"

definition LoadControl :: "'w genv \<Rightarrow> ('w, gerror + control) gproc" where
  "LoadControl E = do {
     r \<leftarrow> decode_control E;
     ret (case r of Inl e \<Rightarrow> Inl e | Inr c \<Rightarrow> if valid_control c then Inr c else Inl ErrOther)
   }"

section \<open>Boards\<close>

definition subsystem_ok :: "u32 \<Rightarrow> bool" where
  "subsystem_ok subsystem =
     (let vendor = subsystem AND 0xffff; device = drop_bit 16 subsystem in
      vendor = 0x10de \<and> device = 0x1554 \<or> vendor = 0x1462 \<and> device = 0x371f)"

definition gib20 :: u64 where "gib20 = 20 * 1024 * 1024 * 1024"

definition memory_ok :: "u64 \<Rightarrow> bool" where
  "memory_ok m \<longleftrightarrow> m \<ge> gib20 - 512 * 1024 * 1024 \<and> m \<le> gib20 + 512 * 1024 * 1024"

definition supported_gpu :: "gpu \<Rightarrow> bool" where
  "supported_gpu g \<longleftrightarrow> g_device g = 0x1e09 \<and> subsystem_ok (g_subsystem g) \<and> memory_ok (g_memory g)"

definition validate :: "gpu list \<Rightarrow> control \<Rightarrow> bool" where
  "validate gpus c =
     (let count = profile_count (c_profile c) in
      \<not> length gpus < count \<and>
      list_all (\<lambda>i. let g = gpus ! i in
        g_index g = int i \<and> g_device g = 0x1e09 \<and> subsystem_ok (g_subsystem g) \<and>
        \<not> (g_memory g < gib20 - 512 * 1024 * 1024 \<or> g_memory g > gib20 + 512 * 1024 * 1024)) [0..<count])"

section \<open>Releasing\<close>

definition autoPState :: int where "autoPState = 16"

definition restoreClocks :: "'w genv \<Rightarrow> gconf \<Rightarrow> int \<Rightarrow> ('w, bool) gproc" where
  "restoreClocks E cf i =
     (case load_clock cf of
        Some (lo, hi) \<Rightarrow> command E (SetLockedClocks i lo hi)
      | None \<Rightarrow> command E (ResetLockedClocks i))"

definition restoreCoreOffset :: "'w genv \<Rightarrow> gconf \<Rightarrow> int \<Rightarrow> ('w, bool) gproc" where
  "restoreCoreOffset E cf i =
     (case core_offset cf of None \<Rightarrow> ret True | Some off \<Rightarrow> command E (SetCoreOffset i off))"

definition fresh :: card where
  "fresh = \<lparr>idle_polls = 0, low_power = False, manual_fan = False\<rparr>"

definition release :: "'w genv \<Rightarrow> gconf \<Rightarrow> int \<Rightarrow> card \<Rightarrow> ('w, bool \<times> card) gproc" where
  "release E cf i c = do {
     r1 \<leftarrow> (if manual_fan c then command E (SetFanAuto i) else ret True);
     r2 \<leftarrow> command E (SetPState i autoPState);
     r3 \<leftarrow> restoreCoreOffset E cf i;
     r4 \<leftarrow> restoreClocks E cf i;
     ret (r1 \<and> r2 \<and> r3 \<and> r4, c\<lparr>low_power := False, manual_fan := False, idle_polls := 0\<rparr>)
   }"

fun release_each :: "'w genv \<Rightarrow> gconf \<Rightarrow> int list \<Rightarrow> gov \<Rightarrow> ('w, gov) gproc" where
  "release_each E cf [] g = ret g"
| "release_each E cf (i # is) g =
     (case g_states g i of
        None \<Rightarrow> release_each E cf is g
      | Some c \<Rightarrow>
          if low_power c \<or> manual_fan c then do {
            (ok, c') \<leftarrow> release E cf i c;
            release_each E cf is (g\<lparr>g_states := (g_states g)(i \<mapsto> c')\<rparr>)
          } else release_each E cf is g)"

definition releaseAll :: "'w genv \<Rightarrow> gconf \<Rightarrow> gov \<Rightarrow> ('w, gov) gproc" where
  "releaseAll E cf g = do {
     order \<leftarrow> map_order E (map g_index (e_gpus E));
     release_each E cf order g
   }"

fun cleanup_each :: "'w genv \<Rightarrow> gconf \<Rightarrow> gpu list \<Rightarrow> gov \<Rightarrow> ('w, bool \<times> gov) gproc" where
  "cleanup_each E cf [] g = ret (True, g)"
| "cleanup_each E cf (x # xs) g =
     (if \<not> supported_gpu x then cleanup_each E cf xs g
      else do {
        r1 \<leftarrow> command E (SetFanAuto (g_index x));
        r2 \<leftarrow> command E (SetPState (g_index x) autoPState);
        r3 \<leftarrow> restoreCoreOffset E cf (g_index x);
        r4 \<leftarrow> restoreClocks E cf (g_index x);
        (r, g') \<leftarrow> cleanup_each E cf xs
          (case g_states g (g_index x) of
             None \<Rightarrow> g
           | Some c \<Rightarrow> g\<lparr>g_states := (g_states g)(g_index x \<mapsto>
               c\<lparr>low_power := False, manual_fan := False, idle_polls := 0\<rparr>)\<rparr>);
        ret (r1 \<and> r2 \<and> r3 \<and> r4 \<and> r, g')
      })"

definition Cleanup :: "'w genv \<Rightarrow> gconf \<Rightarrow> gov \<Rightarrow> ('w, bool \<times> gov) gproc" where
  "Cleanup E cf g = cleanup_each E cf (e_gpus E) g"

section \<open>Polling\<close>

text \<open>The result is whether the step went without an error, and the state of the card after it.\<close>

definition enter_low :: "'w genv \<Rightarrow> gconf \<Rightarrow> int \<Rightarrow> card \<Rightarrow> ('w, bool \<times> card) gproc" where
  "enter_low E cf i c = do {
     r1 \<leftarrow> (if core_offset cf \<noteq> None then command E (SetCoreOffset i 0) else ret True);
     if \<not> r1 then ret (False, c)
     else do {
       r2 \<leftarrow> command E (ResetLockedClocks i);
       if \<not> r2 then do { restoreCoreOffset E cf i; ret (False, c) }
       else do {
         r3 \<leftarrow> command E (SetPState i 8);
         if \<not> r3 then do { restoreClocks E cf i; restoreCoreOffset E cf i; ret (False, c) }
         else ret (True, c\<lparr>low_power := True\<rparr>)
       }
     }
   }"

definition adjust_fan :: "'w genv \<Rightarrow> gconf \<Rightarrow> control \<Rightarrow> int \<Rightarrow> card \<Rightarrow> ('w, bool \<times> card) gproc" where
  "adjust_fan E cf ctrl i c = do {
     t \<leftarrow> temperature E i;
     (case t of
        None \<Rightarrow> ret (False, c)
      | Some t \<Rightarrow>
          if t \<ge> fan_auto_temp cf then
            (if manual_fan c then do {
               r \<leftarrow> command E (SetFanAuto i);
               ret (if r then (True, c\<lparr>manual_fan := False\<rparr>) else (False, c))
             } else ret (True, c))
          else if \<not> manual_fan c then do {
            r \<leftarrow> command E (SetFan i (word_of_int (c_fan ctrl)));
            ret (if r then (True, c\<lparr>manual_fan := True\<rparr>) else (False, c))
          } else ret (True, c))
   }"

definition poll_card :: "'w genv \<Rightarrow> gconf \<Rightarrow> control \<Rightarrow> int \<Rightarrow> card \<Rightarrow> ('w, bool \<times> card) gproc" where
  "poll_card E cf ctrl i c = do {
     u \<leftarrow> utilization E i;
     (case u of
        None \<Rightarrow> ret (False, c)
      | Some u \<Rightarrow>
          if u > util_threshold cf then do {
            let c1 = c\<lparr>idle_polls := 0\<rparr>;
            if low_power c1 \<or> manual_fan c1 then release E cf i c1 else ret (True, c1)
          } else do {
            let c1 = c\<lparr>idle_polls := idle_polls c + 1\<rparr>;
            (ok, c2) \<leftarrow> (if \<not> low_power c1 \<and> idle_polls c1 \<ge> idle_after cf then enter_low E cf i c1
                        else ret (True, c1));
            if \<not> ok then ret (False, c2)
            else if low_power c2 \<and> c_fan ctrl > 0 then adjust_fan E cf ctrl i c2
            else ret (True, c2)
          })
   }"

fun poll_cards :: "'w genv \<Rightarrow> gconf \<Rightarrow> int list \<Rightarrow> gov \<Rightarrow> ('w, bool \<times> gov) gproc" where
  "poll_cards E cf [] g = ret (True, g)"
| "poll_cards E cf (i # is) g =
     (case g_states g i of
        None \<Rightarrow> do {
          u \<leftarrow> utilization E i;
          (case u of None \<Rightarrow> skip | Some _ \<Rightarrow> tell GPanic);
          ret (False, g)
        }
      | Some c \<Rightarrow> do {
          (ok, c') \<leftarrow> poll_card E cf (g_control g) i c;
          let g' = g\<lparr>g_states := (g_states g)(i \<mapsto> c')\<rparr>;
          if ok then poll_cards E cf is g' else ret (False, g')
        })"

definition poll :: "'w genv \<Rightarrow> gconf \<Rightarrow> gov \<Rightarrow> ('w, bool \<times> gov) gproc" where
  "poll E cf g = poll_cards E cf (map int [0..<profile_count (c_profile (g_control g))]) g"

section \<open>Control and errors\<close>

definition disable :: "'w genv \<Rightarrow> gconf \<Rightarrow> gov \<Rightarrow> ('w, gov) gproc" where
  "disable E cf g = do {
     g1 \<leftarrow> releaseAll E cf g;
     status_inactive E;
     ret (g1\<lparr>g_active := False\<rparr>)
   }"

definition fail :: "'w genv \<Rightarrow> gconf \<Rightarrow> gov \<Rightarrow> ('w, gov) gproc" where
  "fail E cf g = do {
     (ok, g1) \<leftarrow> Cleanup E cf g;
     status_error E;
     ret (g1\<lparr>g_active := False\<rparr>)
   }"

definition syncControl :: "'w genv \<Rightarrow> gconf \<Rightarrow> gov \<Rightarrow> ('w, gerror option \<times> gov) gproc" where
  "syncControl E cf g = do {
     r \<leftarrow> LoadControl E;
     (case r of
        Inl e \<Rightarrow> ret (Some e, g)
      | Inr ctrl \<Rightarrow>
          if \<not> c_enabled ctrl then do { g1 \<leftarrow> disable E cf g; ret (None, g1) }
          else if g_active g \<and> ctrl = g_control g then ret (None, g)
          else if \<not> validate (e_gpus E) ctrl then ret (Some ErrOther, g)
          else do {
            g1 \<leftarrow> releaseAll E cf g;
            let g2 = g1\<lparr>g_control := ctrl, g_active := True\<rparr>;
            s \<leftarrow> status_active E ctrl;
            (case s of
               Some e \<Rightarrow> ret (Some e, g2\<lparr>g_active := False\<rparr>)
             | None \<Rightarrow> ret (None, g2))
          })
   }"

section \<open>The loop\<close>

text \<open>
  Which of the ready channels a \<open>select\<close> takes is not determined: a run is given by the ticks that
  are served before the context is done.
\<close>

datatype tick = ControlTick | GpuTick

definition serve :: "'w genv \<Rightarrow> gconf \<Rightarrow> tick \<Rightarrow> gov \<Rightarrow> ('w, gov) gproc" where
  "serve E cf t g =
     (case t of
        ControlTick \<Rightarrow> do {
          (e, g1) \<leftarrow> syncControl E cf g;
          (case e of
             None \<Rightarrow> ret g1
           | Some ErrNotExist \<Rightarrow> disable E cf g1
           | Some ErrOther \<Rightarrow> fail E cf g1)
        }
      | GpuTick \<Rightarrow>
          if g_active g then do {
            (ok, g1) \<leftarrow> poll E cf g;
            if ok then ret g1 else fail E cf g1
          } else ret g)"

fun serve_all :: "'w genv \<Rightarrow> gconf \<Rightarrow> tick list \<Rightarrow> gov \<Rightarrow> ('w, gov) gproc" where
  "serve_all E cf [] g = ret g"
| "serve_all E cf (t # ts) g = do { g1 \<leftarrow> serve E cf t g; serve_all E cf ts g1 }"

definition Run :: "'w genv \<Rightarrow> gconf \<Rightarrow> tick list \<Rightarrow> gov \<Rightarrow> ('w, gov) gproc" where
  "Run E cf ts g = do {
     (ok, g1) \<leftarrow> Cleanup E cf g;
     (e, g2) \<leftarrow> syncControl E cf g1;
     g3 \<leftarrow> (if e = Some ErrOther then fail E cf g2 else ret g2);
     g4 \<leftarrow> serve_all E cf ts g3;
     (ok', g5) \<leftarrow> Cleanup E cf g4;
     ret g5
   }"

text \<open>\<open>New\<close>: every GPU starts with a fresh card state.\<close>

definition initial :: "'w genv \<Rightarrow> gov" where
  "initial E =
     \<lparr>g_states = (\<lambda>i. if i \<in> set (map g_index (e_gpus E)) then Some fresh else None),
      g_control = \<lparr>c_enabled = False, c_profile = [], c_fan = 0\<rparr>, g_active = False\<rparr>"

end
