(* ===== verification/Governor_Contract.thy ===== *)
theory Governor_Contract
  imports Governor
begin

text \<open>
  What a run of the governor promises on every hardware, as an automaton over its events: a card is
  lowered only while a valid profile that includes it is published and after enough idle polls, its
  fan is taken over only when it is low and cool, and everything is given back before the status
  changes and before the run ends.
\<close>

section \<open>One card\<close>

text \<open>
  What was last asked of a card, whether or not the call succeeded: \<open>k_low\<close> is P8, \<open>k_fan\<close> a
  manual fan, \<open>k_zero\<close> a core offset other than the configured one, \<open>k_unlocked\<close> clocks other than
  the configured ones.  \<open>k_streak\<close> counts the idle polls since the last busy one, \<open>k_cool\<close> tells
  whether the last temperature was below the limit.
\<close>

record kcard =
  k_streak :: nat
  k_cool :: bool
  k_low :: bool
  k_fan :: bool
  k_zero :: bool
  k_unlocked :: bool

definition k_start :: kcard where
  "k_start = \<lparr>k_streak = 0, k_cool = False, k_low = False, k_fan = False, k_zero = False, k_unlocked = False\<rparr>"

definition k_clear :: "kcard \<Rightarrow> bool" where
  "k_clear k \<longleftrightarrow> \<not> k_low k \<and> \<not> k_fan k \<and> \<not> k_zero k \<and> \<not> k_unlocked k"

text \<open>
  A command on a card, with the published control if it includes the card: \<open>None\<close> if the command
  is not allowed.
\<close>

fun k_cmd :: "gconf \<Rightarrow> control option \<Rightarrow> kcard \<Rightarrow> gcmd \<Rightarrow> kcard option" where
  "k_cmd cf ctrl k (SetPState i p) =
     (if p = autoPState then Some (k\<lparr>k_low := False\<rparr>)
      else if p = 8 \<and> ctrl \<noteq> None \<and> k_streak k \<ge> idle_after cf \<and>
        (k_zero k \<or> core_offset cf = None \<or> core_offset cf = Some 0) \<and> (k_unlocked k \<or> load_clock cf = None)
      then Some (k\<lparr>k_low := True\<rparr>) else None)"
| "k_cmd cf ctrl k (ResetLockedClocks i) =
     (if load_clock cf = None then Some k
      else if ctrl \<noteq> None then Some (k\<lparr>k_unlocked := True\<rparr>) else None)"
| "k_cmd cf ctrl k (SetLockedClocks i lo hi) =
     (if load_clock cf = Some (lo, hi) then Some (k\<lparr>k_unlocked := False\<rparr>) else None)"
| "k_cmd cf ctrl k (SetCoreOffset i off) =
     (if core_offset cf = Some off then Some (k\<lparr>k_zero := False\<rparr>)
      else if core_offset cf \<noteq> None \<and> off = 0 \<and> ctrl \<noteq> None then Some (k\<lparr>k_zero := True\<rparr>) else None)"
| "k_cmd cf ctrl k (SetFan i p) =
     (case ctrl of
        None \<Rightarrow> None
      | Some c \<Rightarrow>
          if k_low k \<and> k_cool k \<and> 15 \<le> c_fan c \<and> c_fan c \<le> 100 \<and> p = word_of_int (c_fan c)
          then Some (k\<lparr>k_fan := True\<rparr>) else None)"
| "k_cmd cf ctrl k (SetFanAuto i) = Some (k\<lparr>k_fan := False\<rparr>)"

fun cmd_card :: "gcmd \<Rightarrow> int" where
  "cmd_card (SetPState i p) = i"
| "cmd_card (ResetLockedClocks i) = i"
| "cmd_card (SetLockedClocks i lo hi) = i"
| "cmd_card (SetCoreOffset i off) = i"
| "cmd_card (SetFan i p) = i"
| "cmd_card (SetFanAuto i) = i"

text \<open>The events of card \<open>i\<close>.\<close>

fun k_step :: "gconf \<Rightarrow> control option \<Rightarrow> int \<Rightarrow> kcard \<Rightarrow> gevent \<Rightarrow> kcard option" where
  "k_step cf ctrl i k (GUtil j u) =
     (if j \<noteq> i then None
      else Some (case u of None \<Rightarrow> k
        | Some u \<Rightarrow> k\<lparr>k_streak := if u > util_threshold cf then 0 else k_streak k + 1\<rparr>))"
| "k_step cf ctrl i k (GTemp j t) =
     (if j \<noteq> i then None
      else Some (k\<lparr>k_cool := (case t of None \<Rightarrow> False | Some t \<Rightarrow> t < fan_auto_temp cf)\<rparr>))"
| "k_step cf ctrl i k (GCmd c ok) = (if cmd_card c = i then k_cmd cf ctrl k c else None)"
| "k_step cf ctrl i k _ = None"

fun k_run :: "gconf \<Rightarrow> control option \<Rightarrow> int \<Rightarrow> kcard \<Rightarrow> gevent list \<Rightarrow> kcard option" where
  "k_run cf ctrl i k [] = Some k"
| "k_run cf ctrl i k (ev # evs) = Option.bind (k_step cf ctrl i k ev) (\<lambda>k'. k_run cf ctrl i k' evs)"

interpretation card: automaton "k_step cf ctrl i" "k_run cf ctrl i" for cf ctrl i
  by unfold_locales simp_all

section \<open>The whole run\<close>

record watch =
  w_cards :: "int \<Rightarrow> kcard"
  w_active :: "control option"

definition w_start :: watch where
  "w_start = \<lparr>w_cards = (\<lambda>_. k_start), w_active = None\<rparr>"

definition supported_indices :: "gpu list \<Rightarrow> int list" where
  "supported_indices gpus = map g_index (filter supported_gpu gpus)"

definition all_clear :: "gpu list \<Rightarrow> watch \<Rightarrow> bool" where
  "all_clear gpus a \<longleftrightarrow> list_all (\<lambda>i. k_clear (w_cards a i)) (supported_indices gpus)"

text \<open>The published control, if its profile includes card \<open>i\<close>.\<close>

definition covering :: "watch \<Rightarrow> int \<Rightarrow> control option" where
  "covering a i =
     (case w_active a of
        None \<Rightarrow> None
      | Some c \<Rightarrow> if 0 \<le> i \<and> i < int (profile_count (c_profile c)) then Some c else None)"

text \<open>
  Only supported cards are touched; the status is written only when every card has been given back;
  a control is published only if it is enabled and valid for the cards.
\<close>

fun w_step :: "gpu list \<Rightarrow> gconf \<Rightarrow> watch \<Rightarrow> gevent \<Rightarrow> watch option" where
  "w_step gpus cf a (GControl r) = Some a"
| "w_step gpus cf a (GActive c r) =
     (if all_clear gpus a \<and> c_enabled c \<and> valid_control c \<and> validate gpus c
      then Some (a\<lparr>w_active := (if r = None then Some c else None)\<rparr>) else None)"
| "w_step gpus cf a GInactive = (if all_clear gpus a then Some (a\<lparr>w_active := None\<rparr>) else None)"
| "w_step gpus cf a GError = (if all_clear gpus a then Some (a\<lparr>w_active := None\<rparr>) else None)"
| "w_step gpus cf a GPanic = None"
| "w_step gpus cf a ev =
     (let i = (case ev of GUtil j u \<Rightarrow> j | GTemp j t \<Rightarrow> j | GCmd c ok \<Rightarrow> cmd_card c | _ \<Rightarrow> 0) in
      if i \<in> set (supported_indices gpus)
      then map_option (\<lambda>k. a\<lparr>w_cards := (w_cards a)(i := k)\<rparr>) (k_step cf (covering a i) i (w_cards a i) ev)
      else None)"

fun w_run :: "gpu list \<Rightarrow> gconf \<Rightarrow> watch \<Rightarrow> gevent list \<Rightarrow> watch option" where
  "w_run gpus cf a [] = Some a"
| "w_run gpus cf a (ev # evs) = Option.bind (w_step gpus cf a ev) (\<lambda>a'. w_run gpus cf a' evs)"

interpretation watch: automaton "w_step gpus cf" "w_run gpus cf" for gpus cf
  by unfold_locales simp_all

text \<open>A run of one card's automaton is a run of the whole.\<close>

lemma w_run_card:
  assumes "k_run cf (covering a i) i (w_cards a i) evs = Some k" and "i \<in> set (supported_indices gpus)"
  shows "w_run gpus cf a evs = Some (a\<lparr>w_cards := (w_cards a)(i := k)\<rparr>)"
  using assms
proof (induction evs arbitrary: a)
  case (Cons ev evs)
  from Cons.prems(1) obtain k1 where k1: "k_step cf (covering a i) i (w_cards a i) ev = Some k1"
    and k: "k_run cf (covering a i) i k1 evs = Some k"
    by (auto split: Option.bind_splits)
  let ?a = "a\<lparr>w_cards := (w_cards a)(i := k1)\<rparr>"
  have "covering ?a i = covering a i" by (simp add: covering_def)
  with k have "w_run gpus cf ?a evs = Some (a\<lparr>w_cards := (w_cards a)(i := k)\<rparr>)"
    using Cons.IH [of ?a] Cons.prems(2) by (simp add: fun_upd_same del: fun_upd_apply)
  moreover have "w_step gpus cf a ev = Some ?a"
    using k1 Cons.prems(2) by (cases ev) (auto split: if_splits)
  ultimately show ?case by (simp del: fun_upd_apply)
qed (simp add: fun_upd_idem)

section \<open>Trace rules\<close>

lemma emits_utilization [emit]: "(\<And>u. Q u [GUtil i u]) \<Longrightarrow> emits (utilization E i) Q"
  by (auto simp: emits_def utilization_def Let_def split: prod.splits)

lemma emits_temperature [emit]: "(\<And>t. Q t [GTemp i t]) \<Longrightarrow> emits (temperature E i) Q"
  by (auto simp: emits_def temperature_def Let_def split: prod.splits)

lemma emits_command [emit]: "(\<And>ok. Q ok [GCmd c ok]) \<Longrightarrow> emits (command E c) Q"
  by (auto simp: emits_def command_def Let_def split: prod.splits)

lemma emits_decode_control [emit]: "(\<And>r. Q r [GControl r]) \<Longrightarrow> emits (decode_control E) Q"
  by (auto simp: emits_def decode_control_def Let_def split: prod.splits)

lemma emits_status_active [emit]: "(\<And>r. Q r [GActive c r]) \<Longrightarrow> emits (status_active E c) Q"
  by (auto simp: emits_def status_active_def Let_def split: prod.splits)

lemma emits_status_inactive [emit]: "Q () [GInactive] \<Longrightarrow> emits (status_inactive E) Q"
  by (auto simp: emits_def status_inactive_def)

lemma emits_status_error [emit]: "Q () [GError] \<Longrightarrow> emits (status_error E) Q"
  by (auto simp: emits_def status_error_def)

lemma emits_map_order [emit]:
  "(\<And>ks. set ks = set keys \<Longrightarrow> distinct ks \<Longrightarrow> Q ks []) \<Longrightarrow> emits (map_order E keys) Q"
proof -
  assume Q: "\<And>ks. set ks = set keys \<Longrightarrow> distinct ks \<Longrightarrow> Q ks []"
  have "Q (remdups ([k \<leftarrow> e_order E w. k \<in> set keys] @ keys)) []" for w
    by (rule Q) auto
  then show ?thesis by (simp add: emits_def map_order_def)
qed

section \<open>The operations on one card\<close>

text \<open>Flags exist only for what the configuration changes.\<close>

definition k_ok :: "gconf \<Rightarrow> kcard \<Rightarrow> bool" where
  "k_ok cf k \<longleftrightarrow> (core_offset cf = None \<longrightarrow> \<not> k_zero k) \<and> (load_clock cf = None \<longrightarrow> \<not> k_unlocked k)"

text \<open>The state the governor keeps of a card agrees with what was asked of it.\<close>

definition card_rel :: "gconf \<Rightarrow> kcard \<Rightarrow> card \<Rightarrow> bool" where
  "card_rel cf k c \<longleftrightarrow> k_ok cf k \<and> k_low k = low_power c \<and> (k_fan k \<longrightarrow> manual_fan c) \<and>
     (k_zero k \<longrightarrow> low_power c) \<and> (k_unlocked k \<longrightarrow> low_power c) \<and> (manual_fan c \<longrightarrow> low_power c) \<and>
     idle_polls c \<le> k_streak k"

text \<open>After an error only this is left; the clean-up that follows asks for everything again.\<close>

definition card_weak :: "gconf \<Rightarrow> kcard \<Rightarrow> card \<Rightarrow> bool" where
  "card_weak cf k c \<longleftrightarrow> k_ok cf k \<and> idle_polls c \<le> k_streak k"

lemma card_rel_weak: "card_rel cf k c \<Longrightarrow> card_weak cf k c"
  by (simp add: card_rel_def card_weak_def)

definition k_result :: "gconf \<Rightarrow> control option \<Rightarrow> int \<Rightarrow> kcard \<Rightarrow> bool \<times> card \<Rightarrow> gevent list \<Rightarrow> bool" where
  "k_result cf ctrl i k r evs \<longleftrightarrow>
     (\<exists>k'. k_run cf ctrl i k evs = Some k' \<and>
        (case r of (ok, c) \<Rightarrow> card_weak cf k' c \<and> (ok \<longrightarrow> card_rel cf k' c)))"

lemma emits_restoreCoreOffset:
  "k_ok cf k \<Longrightarrow> emits (restoreCoreOffset E cf i) (\<lambda>_ evs. k_run cf ctrl i k evs = Some (k\<lparr>k_zero := False\<rparr>))"
  unfolding restoreCoreOffset_def by (intro emit) (auto simp: k_ok_def)

lemma emits_restoreClocks:
  "k_ok cf k \<Longrightarrow> emits (restoreClocks E cf i) (\<lambda>_ evs. k_run cf ctrl i k evs = Some (k\<lparr>k_unlocked := False\<rparr>))"
  unfolding restoreClocks_def by (intro emit) (auto simp: k_ok_def)

lemma k_ok_updates [simp]:
  "k_ok cf k \<Longrightarrow> k_ok cf (k\<lparr>k_zero := False\<rparr>)" "k_ok cf k \<Longrightarrow> k_ok cf (k\<lparr>k_unlocked := False\<rparr>)"
  "k_ok cf (k\<lparr>k_low := b\<rparr>) = k_ok cf k" "k_ok cf (k\<lparr>k_fan := b\<rparr>) = k_ok cf k"
  "k_ok cf (k\<lparr>k_cool := b\<rparr>) = k_ok cf k" "k_ok cf (k\<lparr>k_streak := n\<rparr>) = k_ok cf k"
  by (simp_all add: k_ok_def)

lemma emits_release:
  assumes r: "card_rel cf k c"
  shows "emits (release E cf i c) (\<lambda>(ok, c') evs. \<exists>k'. k_run cf ctrl i k evs = Some k' \<and> k_clear k' \<and> k_ok cf k' \<and>
    k_streak k' = k_streak k \<and> c' = fresh)"
  unfolding release_def restoreCoreOffset_def restoreClocks_def
  by (intro emit) (use r in \<open>auto simp: card_rel_def k_ok_def k_clear_def fresh_def\<close>)

lemma fresh_rel: "k_clear k \<Longrightarrow> k_ok cf k \<Longrightarrow> card_rel cf k fresh"
  by (simp add: card_rel_def k_clear_def fresh_def)

text \<open>Lowering a card, when it has been idle long enough.\<close>

lemma emits_enter_low:
  assumes "card_rel cf k c" and "\<not> low_power c" and "idle_after cf \<le> idle_polls c"
  shows "emits (enter_low E cf i c) (k_result cf (Some ctrl) i k)"
  unfolding enter_low_def restoreCoreOffset_def restoreClocks_def
  by (intro emit) (use assms in \<open>auto simp: k_result_def card_rel_def card_weak_def k_ok_def k_clear_def autoPState_def\<close>)

lemma emits_adjust_fan:
  assumes "card_rel cf k c" and "low_power c" and "15 \<le> c_fan ctrl" and "c_fan ctrl \<le> 100"
  shows "emits (adjust_fan E cf ctrl i c) (k_result cf (Some ctrl) i k)"
  unfolding adjust_fan_def
  by (intro emit) (use assms in \<open>auto simp: k_result_def card_rel_def card_weak_def k_ok_def not_le\<close>)

lemma k_result_Cons:
  "k_result cf ctrl i k r (ev # evs) =
     (case k_step cf ctrl i k ev of None \<Rightarrow> False | Some k1 \<Rightarrow> k_result cf ctrl i k1 r evs)"
  by (simp add: k_result_def split: option.split)

lemma k_result_append:
  "k_run cf ctrl i k e1 = Some k1 \<Longrightarrow> k_result cf ctrl i k r (e1 @ e2) = k_result cf ctrl i k1 r e2"
  by (simp add: k_result_def card.run_append)

lemma emits_poll_card:
  assumes r: "card_rel cf k c" and fan: "c_fan ctrl = 0 \<or> 15 \<le> c_fan ctrl \<and> c_fan ctrl \<le> 100"
  shows "emits (poll_card E cf ctrl i c) (k_result cf (Some ctrl) i k)"
proof -
  have unread: "k_result cf (Some ctrl) i k (False, c) [GUtil i None]"
    using r by (simp add: k_result_def card_rel_weak)
  have r0: "card_rel cf (k\<lparr>k_streak := 0\<rparr>) (c\<lparr>idle_polls := 0\<rparr>)" using r by (simp add: card_rel_def)
  have busy: "emits (release E cf i (c\<lparr>idle_polls := 0\<rparr>)) (k_result cf (Some ctrl) i (k\<lparr>k_streak := 0\<rparr>))"
    by (rule emits_mono [OF emits_release [OF r0, where ctrl = "Some ctrl"]])
      (auto simp: k_result_def fresh_rel card_rel_weak [OF fresh_rel])
  have calm: "k_result cf (Some ctrl) i (k\<lparr>k_streak := 0\<rparr>) (True, c\<lparr>idle_polls := 0\<rparr>) []"
    using r by (simp add: k_result_def card_rel_def card_weak_def)
  let ?k = "k\<lparr>k_streak := k_streak k + 1\<rparr>" and ?c = "c\<lparr>idle_polls := idle_polls c + 1\<rparr>"
  have r1: "card_rel cf ?k ?c" using r by (simp add: card_rel_def)
  have fan1: "emits (if \<not> ok then ret (False, c2) else if low_power c2 \<and> c_fan ctrl > 0 then adjust_fan E cf ctrl i c2
      else ret (True, c2)) (k_result cf (Some ctrl) i k2)"
    if "card_weak cf k2 c2 \<and> (ok \<longrightarrow> card_rel cf k2 c2)" for ok k2 c2
    using that fan by (intro emits_if emits_return emits_adjust_fan) (auto simp: k_result_def)
  have idle: "emits (do {
      (ok, c2) \<leftarrow> (if \<not> low_power ?c \<and> idle_polls ?c \<ge> idle_after cf then enter_low E cf i ?c else ret (True, ?c));
      if \<not> ok then ret (False, c2) else if low_power c2 \<and> c_fan ctrl > 0 then adjust_fan E cf ctrl i c2
      else ret (True, c2) }) (k_result cf (Some ctrl) i ?k)"
  proof (rule emits_bindI [where P = "k_result cf (Some ctrl) i ?k"])
    show "emits (if \<not> low_power ?c \<and> idle_polls ?c \<ge> idle_after cf then enter_low E cf i ?c else ret (True, ?c))
        (k_result cf (Some ctrl) i ?k)"
      using r1 by (intro emits_if emits_return emits_enter_low [OF r1]) (auto simp: k_result_def card_rel_weak)
    fix x e1
    assume "k_result cf (Some ctrl) i ?k x e1"
    then obtain k2 ok c2 where "x = (ok, c2)" "k_run cf (Some ctrl) i ?k e1 = Some k2"
      "card_weak cf k2 c2 \<and> (ok \<longrightarrow> card_rel cf k2 c2)"
      by (cases x) (auto simp: k_result_def split: option.splits)
    then show "emits (case x of (ok, c2) \<Rightarrow> if \<not> ok then ret (False, c2)
        else if low_power c2 \<and> c_fan ctrl > 0 then adjust_fan E cf ctrl i c2 else ret (True, c2))
        (\<lambda>y e2. k_result cf (Some ctrl) i ?k y (e1 @ e2))"
      using fan1 [of k2 c2 ok] by (simp add: k_result_append)
  qed
  show ?thesis
    unfolding poll_card_def
  proof (rule emits_bind, rule emits_utilization, goal_cases)
    case (1 u)
    show ?case
    proof (cases u)
      case None
      show ?thesis unfolding None option.case by (rule emits_return) (simp only: append_Nil2, rule unread)
    next
      case (Some v)
      show ?thesis
      proof (cases "v > util_threshold cf")
        case True
        with Some busy calm show ?thesis
          by (simp add: k_result_Cons Let_def) (auto intro: emits_return)
      next
        case False
        with idle show ?thesis
          by (simp only: Some option.case Let_def append_Cons append_Nil k_result_Cons k_step.simps simp_thms if_False)
      qed
    qed
  qed
qed

section \<open>All cards\<close>

abbreviation indices :: "gpu list \<Rightarrow> int set" where
  "indices gpus \<equiv> set (map g_index gpus)"

abbreviation usable :: "gpu list \<Rightarrow> int set" where
  "usable gpus \<equiv> set (supported_indices gpus)"

lemma usable_indices: "usable gpus \<subseteq> indices gpus"
  by (auto simp: supported_indices_def)

definition states_ok :: "gpu list \<Rightarrow> gov \<Rightarrow> bool" where
  "states_ok gpus g \<longleftrightarrow> (\<forall>i. (g_states g i \<noteq> None) = (i \<in> indices gpus))"

text \<open>Between errors every card is as its state says, and only supported cards are low.\<close>

definition cards_rel :: "gpu list \<Rightarrow> gconf \<Rightarrow> gov \<Rightarrow> watch \<Rightarrow> bool" where
  "cards_rel gpus cf g a \<longleftrightarrow> states_ok gpus g \<and>
     (\<forall>i c. g_states g i = Some c \<longrightarrow> card_rel cf (w_cards a i) c \<and> (i \<notin> usable gpus \<longrightarrow> \<not> low_power c))"

definition cards_weak :: "gpu list \<Rightarrow> gconf \<Rightarrow> gov \<Rightarrow> watch \<Rightarrow> bool" where
  "cards_weak gpus cf g a \<longleftrightarrow> states_ok gpus g \<and>
     (\<forall>i c. g_states g i = Some c \<longrightarrow> card_weak cf (w_cards a i) c \<and>
        (i \<notin> usable gpus \<longrightarrow> card_rel cf (w_cards a i) c \<and> \<not> low_power c))"

lemma cards_rel_weak: "cards_rel gpus cf g a \<Longrightarrow> cards_weak gpus cf g a"
  by (auto simp: cards_rel_def cards_weak_def card_rel_weak)

definition set_state :: "gov \<Rightarrow> int \<Rightarrow> card \<Rightarrow> gov" where
  "set_state g i c = g\<lparr>g_states := (g_states g)(i \<mapsto> c)\<rparr>"

definition set_card :: "watch \<Rightarrow> int \<Rightarrow> kcard \<Rightarrow> watch" where
  "set_card a i k = a\<lparr>w_cards := (w_cards a)(i := k)\<rparr>"

lemma set_simps [simp]:
  "g_states (set_state g i c) = (g_states g)(i \<mapsto> c)" "g_control (set_state g i c) = g_control g"
  "g_active (set_state g i c) = g_active g"
  "w_cards (set_card a i k) = (w_cards a)(i := k)" "w_active (set_card a i k) = w_active a"
  "covering (set_card a i k) j = covering a j"
  by (simp_all add: set_state_def set_card_def covering_def)

lemmas run_card = w_run_card [folded set_card_def]

lemma cards_rel_set:
  "cards_rel gpus cf g a \<Longrightarrow> card_rel cf k c \<Longrightarrow> i \<in> usable gpus \<Longrightarrow> cards_rel gpus cf (set_state g i c) (set_card a i k)"
  using usable_indices [of gpus] by (auto simp: cards_rel_def states_ok_def)

lemma cards_weak_set:
  "cards_weak gpus cf g a \<Longrightarrow> card_weak cf k c \<Longrightarrow> i \<in> usable gpus \<Longrightarrow> cards_weak gpus cf (set_state g i c) (set_card a i k)"
  using usable_indices [of gpus] by (auto simp: cards_weak_def states_ok_def)

text \<open>A card that has been given back, in the governor's state and in fact.\<close>

definition given_back :: "gov \<Rightarrow> watch \<Rightarrow> int \<Rightarrow> bool" where
  "given_back g a i \<longleftrightarrow> k_clear (w_cards a i) \<and>
     (case g_states g i of None \<Rightarrow> True | Some c \<Rightarrow> \<not> low_power c \<and> \<not> manual_fan c)"

lemma given_back_set:
  "k_clear k \<Longrightarrow> \<not> low_power c \<Longrightarrow> \<not> manual_fan c \<Longrightarrow> given_back g a j \<or> j = i \<Longrightarrow>
     given_back (set_state g i c) (set_card a i k) j"
  by (auto simp: given_back_def)

lemma all_clearI: "\<forall>i \<in> usable gpus. given_back g a i \<Longrightarrow> all_clear gpus a"
  by (auto simp: all_clear_def given_back_def list_all_iff)

section \<open>Clean-up and release\<close>

text \<open>What one card's part of the clean-up does, whatever the card's state.\<close>

lemma emits_give_back:
  assumes "k_ok cf k" and "\<And>r1 r2 r3 r4 e1. k_run cf ctrl i k e1 =
      Some (k\<lparr>k_fan := False, k_low := False, k_zero := False, k_unlocked := False\<rparr>) \<Longrightarrow>
      emits (f r1 r2 r3 r4) (\<lambda>y e2. Q y (e1 @ e2))"
  shows "emits (do { r1 \<leftarrow> command E (SetFanAuto i); r2 \<leftarrow> command E (SetPState i autoPState);
      r3 \<leftarrow> restoreCoreOffset E cf i; r4 \<leftarrow> restoreClocks E cf i; f r1 r2 r3 r4 }) Q"
proof -
  let ?k = "k\<lparr>k_fan := False, k_low := False\<rparr>"
  have ok: "k_ok cf ?k" "k_ok cf (?k\<lparr>k_zero := False\<rparr>)" using assms(1) by simp_all
  show ?thesis
  proof (rule emits_bind, rule emits_command, rule emits_bind, rule emits_command,
      rule emits_bindI [OF emits_restoreCoreOffset [OF ok(1), of E i ctrl]],
      rule emits_bindI [OF emits_restoreClocks [OF ok(2), of E i ctrl]], goal_cases)
    case (1 r1 r2 r3 e1 r4 e2)
    then show ?case
      using assms(2) [of "[GCmd (SetFanAuto i) r1] @ [GCmd (SetPState i autoPState) r2] @ e1 @ e2" r1 r2 r3 r4]
      by (simp add: card.run_append)
  qed
qed

end
