(* ===== verification/Governor_Run.thy ===== *)
theory Governor_Run
  imports Governor_Contract
begin

text \<open>
  Every run of the governor is a run of the automaton of \<open>Governor_Contract\<close>.  \<open>keeps P m Q\<close> is a
  Hoare triple over the automaton's states: from a state with \<open>P\<close>, whatever the hardware answers,
  the events of \<open>m\<close> are accepted and lead to a state with \<open>Q\<close> of the result.
\<close>

section \<open>Triples\<close>

abbreviation keeps :: "gpu list \<Rightarrow> gconf \<Rightarrow> (watch \<Rightarrow> bool) \<Rightarrow> ('w, 'a) gproc \<Rightarrow> ('a \<Rightarrow> watch \<Rightarrow> bool) \<Rightarrow> bool" where
  "keeps gpus cf \<equiv> triple (w_run gpus cf)"

text \<open>One card's operation.\<close>

lemma keeps_card:
  assumes "i \<in> usable gpus"
    and "\<And>a. P a \<Longrightarrow> emits m (\<lambda>r evs. \<exists>k. k_run cf (covering a i) i (w_cards a i) evs = Some k \<and> Q r (set_card a i k))"
  shows "keeps gpus cf P m Q"
  unfolding triple_def
proof (intro allI impI)
  fix a
  assume "P a"
  from assms(2) [OF this] show "emits m (\<lambda>r evs. \<exists>a'. w_run gpus cf a evs = Some a' \<and> Q r a')"
    by (rule emits_mono) (auto dest: run_card [OF _ assms(1)])
qed

lemma keeps_give_back:
  assumes "i \<in> usable gpus" and "\<And>a. P a \<Longrightarrow> k_ok cf (w_cards a i)"
    and "\<And>r1 r2 r3 r4. keeps gpus cf (\<lambda>a'. \<exists>a. P a \<and> a' = set_card a i
        ((w_cards a i)\<lparr>k_fan := False, k_low := False, k_zero := False, k_unlocked := False\<rparr>)) (f r1 r2 r3 r4) Q"
  shows "keeps gpus cf P (do { r1 \<leftarrow> command E (SetFanAuto i); r2 \<leftarrow> command E (SetPState i autoPState);
      r3 \<leftarrow> restoreCoreOffset E cf i; r4 \<leftarrow> restoreClocks E cf i; f r1 r2 r3 r4 }) Q"
  unfolding triple_def
proof (intro allI impI)
  fix a
  assume P: "P a"
  show "emits (do { r1 \<leftarrow> command E (SetFanAuto i); r2 \<leftarrow> command E (SetPState i autoPState);
      r3 \<leftarrow> restoreCoreOffset E cf i; r4 \<leftarrow> restoreClocks E cf i; f r1 r2 r3 r4 })
    (\<lambda>x evs. \<exists>a'. w_run gpus cf a evs = Some a' \<and> Q x a')"
  proof (rule emits_give_back [OF assms(2) [OF P], where ctrl = "covering a i" and i = i], goal_cases)
    case (1 r1 r2 r3 r4 e1)
    from run_card [OF this assms(1)] P show ?case
      using assms(3) [of r1 r2 r3 r4] by (auto simp: triple_def watch.run_append)
  qed
qed

section \<open>Clean-up\<close>

definition given :: "gpu list \<Rightarrow> gconf \<Rightarrow> control option \<Rightarrow> int set \<Rightarrow> gov \<Rightarrow> watch \<Rightarrow> bool" where
  "given gpus cf act D g a \<longleftrightarrow> cards_weak gpus cf g a \<and> (\<forall>i \<in> D. given_back g a i) \<and> w_active a = act"

lemma usable_state:
  assumes "cards_weak gpus cf g a" and "i \<in> usable gpus"
  shows "\<exists>c. g_states g i = Some c \<and> card_weak cf (w_cards a i) c"
proof -
  have "i \<in> indices gpus" using assms(2) usable_indices [of gpus] by blast
  with assms(1) have "g_states g i \<noteq> None" unfolding cards_weak_def states_ok_def by blast
  with assms(1) show ?thesis by (auto simp: cards_weak_def)
qed

lemma given_fresh:
  assumes "given gpus cf act D g a" and "i \<in> usable gpus"
  shows "given gpus cf act (insert i D) (set_state g i fresh) (set_card a i
    ((w_cards a i)\<lparr>k_fan := False, k_low := False, k_zero := False, k_unlocked := False\<rparr>))"
proof -
  let ?k = "(w_cards a i)\<lparr>k_fan := False, k_low := False, k_zero := False, k_unlocked := False\<rparr>"
  obtain c where "g_states g i = Some c" "card_weak cf (w_cards a i) c"
    using assms usable_state unfolding given_def by blast
  then have "card_weak cf ?k fresh" by (simp add: card_weak_def fresh_def)
  with assms show ?thesis
    by (auto simp: given_def fresh_def k_clear_def intro!: cards_weak_set given_back_set)
qed

lemma keeps_cleanup_each:
  assumes "set (supported_indices xs) \<subseteq> usable gpus"
  shows "keeps gpus cf (given gpus cf act D g) (cleanup_each E cf xs g)
    (\<lambda>(_, g') a. given gpus cf act (D \<union> set (supported_indices xs)) g' a \<and>
       g_control g' = g_control g \<and> g_active g' = g_active g)"
  using assms
proof (induction xs arbitrary: g D)
  case Nil
  then show ?case by (auto simp: supported_indices_def intro: watch.triple_return)
next
  case (Cons x xs)
  show ?case
  proof (cases "supported_gpu x")
    case False
    with Cons show ?thesis by (simp add: supported_indices_def)
  next
    case True
    let ?i = "g_index x"
    from True Cons.prems have i: "?i \<in> usable gpus" and sub: "set (supported_indices xs) \<subseteq> usable gpus"
      by (auto simp: supported_indices_def)
    have D: "insert ?i D \<union> set (supported_indices xs) = D \<union> set (supported_indices (x # xs))"
      using True by (simp add: supported_indices_def)
    show ?thesis
    proof (cases "g_states g ?i")
      case None
      then have "\<not> given gpus cf act D g a" for a
        using usable_state [OF _ i] by (fastforce simp: given_def)
      then show ?thesis by (simp add: triple_def)
    next
      case (Some c)
      have c: "c\<lparr>low_power := False, manual_fan := False, idle_polls := 0\<rparr> = fresh" by (simp add: fresh_def)
      show ?thesis
        unfolding cleanup_each.simps Some option.case c set_state_def [symmetric]
      proof (subst if_not_P, use True in simp, rule keeps_give_back [OF i], goal_cases)
        case (1 a)
        with Some i show ?case by (auto simp: given_def cards_weak_def card_weak_def)
      next
        case (2 r1 r2 r3 r4)
        let ?P = "\<lambda>a'. \<exists>a. given gpus cf act D g a \<and> a' = set_card a ?i
            ((w_cards a ?i)\<lparr>k_fan := False, k_low := False, k_zero := False, k_unlocked := False\<rparr>)"
        let ?Q = "\<lambda>(_ :: bool, g') a. given gpus cf act (D \<union> set (supported_indices (x # xs))) g' a \<and>
            g_control g' = g_control g \<and> g_active g' = g_active g"
        have "keeps gpus cf ?P (cleanup_each E cf xs (set_state g ?i fresh)) ?Q"
          by (rule triple_conseq [OF Cons.IH [OF sub, of "insert ?i D" "set_state g ?i fresh"]])
            (use D in \<open>auto intro: given_fresh [OF _ i]\<close>)
        then show ?case by (rule watch.triple_bind) (auto intro: watch.triple_return)
      qed
    qed
  qed
qed

text \<open>After the clean-up every card is as its state says again, and has been given back.\<close>

definition settled :: "gpu list \<Rightarrow> gconf \<Rightarrow> gov \<Rightarrow> watch \<Rightarrow> bool" where
  "settled gpus cf g a \<longleftrightarrow> cards_rel gpus cf g a \<and> all_clear gpus a"

lemma given_settled: "given gpus cf act (usable gpus) g a \<Longrightarrow> settled gpus cf g a"
proof -
  assume g: "given gpus cf act (usable gpus) g a"
  have "card_rel cf (w_cards a i) c \<and> (i \<notin> usable gpus \<longrightarrow> \<not> low_power c)" if "g_states g i = Some c" for i c
  proof (cases "i \<in> usable gpus")
    case True
    with g that have "given_back g a i" "card_weak cf (w_cards a i) c" by (auto simp: given_def cards_weak_def)
    with that True show ?thesis by (auto simp: given_back_def k_clear_def card_weak_def card_rel_def)
  qed (use g that in \<open>auto simp: given_def cards_weak_def\<close>)
  with g show ?thesis by (auto simp: settled_def cards_rel_def given_def cards_weak_def intro: all_clearI)
qed

lemma keeps_Cleanup:
  "keeps (e_gpus E) cf (\<lambda>a. cards_weak (e_gpus E) cf g a \<and> w_active a = act) (Cleanup E cf g)
     (\<lambda>(_, g') a. settled (e_gpus E) cf g' a \<and> w_active a = act \<and> g_control g' = g_control g \<and> g_active g' = g_active g)"
  unfolding Cleanup_def
  by (rule triple_conseq [OF keeps_cleanup_each [where D = "{}" and act = act and gpus = "e_gpus E", OF order_refl]])
    (auto simp: given_settled, simp_all add: given_def)

section \<open>Release\<close>

definition released :: "gpu list \<Rightarrow> gconf \<Rightarrow> control option \<Rightarrow> int set \<Rightarrow> gov \<Rightarrow> watch \<Rightarrow> bool" where
  "released gpus cf act D g a \<longleftrightarrow> cards_rel gpus cf g a \<and> (\<forall>i \<in> D. given_back g a i) \<and> w_active a = act"

lemma keeps_release_each:
  assumes "set is \<subseteq> indices gpus"
  shows "keeps gpus cf (released gpus cf act D g) (release_each E cf is g)
    (\<lambda>g' a. released gpus cf act (D \<union> set is) g' a \<and> g_control g' = g_control g \<and> g_active g' = g_active g)"
  using assms
proof (induction "is" arbitrary: g D)
  case Nil
  then show ?case by (auto intro: watch.triple_return)
next
  case (Cons i "is")
  let ?Q = "\<lambda>g' a. released gpus cf act (D \<union> set (i # is)) g' a \<and> g_control g' = g_control g \<and> g_active g' = g_active g"
  have IH: "keeps gpus cf (released gpus cf act (insert i D) g1) (release_each E cf is g1) ?Q"
    if "g_control g1 = g_control g \<and> g_active g1 = g_active g" for g1
    using Cons.IH [of "insert i D" g1] Cons.prems that by simp
  show ?case
  proof (cases "g_states g i")
    case None
    with Cons.prems have "\<not> states_ok gpus g" unfolding states_ok_def by (metis list.set_intros(1) subsetD)
    then have "\<not> released gpus cf act D g a" for a by (simp add: released_def cards_rel_def)
    then show ?thesis by (simp add: triple_def)
  next
    case (Some c)
    show ?thesis
    proof (cases "low_power c \<or> manual_fan c")
      case False
      then have "released gpus cf act D g a \<Longrightarrow> released gpus cf act (insert i D) g a" for a
        using Some by (auto simp: released_def cards_rel_def card_rel_def given_back_def k_clear_def)
      with IH [of g] Some False show ?thesis by (auto intro: triple_conseq)
    next
      case True
      have i: "i \<in> usable gpus" and rel: "card_rel cf (w_cards a i) c" if "released gpus cf act D g a" for a
        using that Some True by (auto simp: released_def cards_rel_def card_rel_def)
      have "keeps gpus cf (released gpus cf act D g) (release E cf i c)
        (\<lambda>(_, c') a. released gpus cf act (insert i D) (set_state g i c') a)"
      proof (cases "\<exists>a. released gpus cf act D g a")
        case True
        with i have u: "i \<in> usable gpus" by blast
        show ?thesis
        proof (rule keeps_card [OF u], rule emits_mono [OF emits_release [OF rel]], assumption, clarify)
          fix a b evs k
          assume "released gpus cf act D g a" "k_run cf (covering a i) i (w_cards a i) evs = Some k" "k_clear k" "k_ok cf k"
          then show "\<exists>k. k_run cf (covering a i) i (w_cards a i) evs = Some k \<and>
              released gpus cf act (insert i D) (set_state g i fresh) (set_card a i k)"
            using cards_rel_set [OF _ fresh_rel u] by (auto simp: released_def fresh_def intro!: given_back_set)
        qed
      qed (simp add: triple_def)
      then show ?thesis
        unfolding release_each.simps Some option.case if_P [OF True] set_state_def [symmetric]
        by (rule watch.triple_bind) (use IH in \<open>auto intro: triple_pair\<close>)
    qed
  qed
qed

lemma keeps_releaseAll:
  "keeps (e_gpus E) cf (\<lambda>a. cards_rel (e_gpus E) cf g a \<and> w_active a = act) (releaseAll E cf g)
     (\<lambda>g' a. settled (e_gpus E) cf g' a \<and> w_active a = act \<and> g_control g' = g_control g \<and> g_active g' = g_active g)"
proof -
  have order: "keeps (e_gpus E) cf (released (e_gpus E) cf act {} g) (map_order E (map g_index (e_gpus E)))
      (\<lambda>ks a. set ks = indices (e_gpus E) \<and> released (e_gpus E) cf act {} g a)"
    by (auto simp: triple_def intro: emits_map_order)
  have "keeps (e_gpus E) cf (released (e_gpus E) cf act {} g) (releaseAll E cf g)
     (\<lambda>g' a. released (e_gpus E) cf act (indices (e_gpus E)) g' a \<and> g_control g' = g_control g \<and> g_active g' = g_active g)"
    unfolding releaseAll_def
    by (rule watch.triple_bind [OF order], rule triple_pure, rule triple_conseq [OF keeps_release_each [where D = "{}"]]) auto
  then show ?thesis
    by (rule triple_conseq)
      (use usable_indices [of "e_gpus E"] in \<open>auto simp: released_def settled_def intro!: all_clearI\<close>)
qed

section \<open>Polling\<close>

lemma valid_fan: "valid_control c \<Longrightarrow> c_fan c = 0 \<or> 15 \<le> c_fan c \<and> c_fan c \<le> 100"
  by (auto simp: valid_control_def)

text \<open>The cards of a validated profile are supported ones.\<close>

lemma validate_usable:
  assumes "validate gpus c" and "n < profile_count (c_profile c)"
  shows "int n \<in> usable gpus"
proof -
  from assms have n: "n < length gpus" and g: "g_index (gpus ! n) = int n" and s: "supported_gpu (gpus ! n)"
    by (auto simp: validate_def Let_def list_all_iff supported_gpu_def memory_ok_def not_less)
  from n s have "gpus ! n \<in> set (filter supported_gpu gpus)" by simp
  with g show ?thesis unfolding supported_indices_def by (metis image_eqI list.set_map)
qed

definition polled :: "gpu list \<Rightarrow> gconf \<Rightarrow> gov \<Rightarrow> bool \<times> gov \<Rightarrow> watch \<Rightarrow> bool" where
  "polled gpus cf g r a \<longleftrightarrow> (case r of (ok, g') \<Rightarrow>
     (if ok then cards_rel gpus cf g' a else cards_weak gpus cf g' a) \<and> w_active a = Some (g_control g) \<and>
     g_control g' = g_control g \<and> g_active g' = g_active g)"

lemma keeps_poll_cards:
  assumes "\<forall>i \<in> set is. i \<in> usable gpus \<and> 0 \<le> i \<and> i < int (profile_count (c_profile (g_control g)))"
    and "valid_control (g_control g)"
  shows "keeps gpus cf (\<lambda>a. cards_rel gpus cf g a \<and> w_active a = Some (g_control g)) (poll_cards E cf is g)
    (polled gpus cf g)"
  using assms
proof (induction "is" arbitrary: g)
  case Nil
  then show ?case by (auto simp: polled_def intro: watch.triple_return)
next
  case (Cons i "is")
  from Cons.prems have i: "i \<in> usable gpus" by simp
  have cov: "covering a i = Some (g_control g)" if "w_active a = Some (g_control g)" for a
    using Cons.prems that by (simp add: covering_def)
  show ?case
  proof (cases "g_states g i")
    case None
    then have "\<not> cards_rel gpus cf g a" for a using usable_state [OF cards_rel_weak i] by fastforce
    then show ?thesis by (simp add: triple_def)
  next
    case (Some c)
    have card: "keeps gpus cf (\<lambda>a. cards_rel gpus cf g a \<and> w_active a = Some (g_control g))
        (poll_card E cf (g_control g) i c) (\<lambda>(ok, c'). polled gpus cf g (ok, set_state g i c'))"
    proof (rule keeps_card [OF i], elim conjE, rule emits_mono [OF emits_poll_card [where k = "w_cards _ i"]])
      fix a r evs
      assume a: "cards_rel gpus cf g a" "w_active a = Some (g_control g)"
      show "c_fan (g_control g) = 0 \<or> 15 \<le> c_fan (g_control g) \<and> c_fan (g_control g) \<le> 100"
        using Cons.prems by (intro valid_fan)
      show "card_rel cf (w_cards a i) c" using a Some by (simp add: cards_rel_def)
      assume "k_result cf (Some (g_control g)) i (w_cards a i) r evs"
      then show "\<exists>k. k_run cf (covering a i) i (w_cards a i) evs = Some k \<and>
          (case r of (ok, c') \<Rightarrow> polled gpus cf g (ok, set_state g i c')) (set_card a i k)"
        using a cov [OF a(2)] cards_rel_set [OF a(1) _ i] cards_weak_set [OF cards_rel_weak [OF a(1)] _ i]
        by (auto simp: k_result_def polled_def)
    qed
    show ?thesis
      unfolding poll_cards.simps Some option.case Let_def set_state_def [symmetric]
    proof (rule watch.triple_bind [OF card], rule triple_pair, simp only: prod.case, rule triple_if)
      fix x ok c'
      assume ok
      with Cons.IH [of "set_state g i c'"] Cons.prems
      show "keeps gpus cf (polled gpus cf g (ok, set_state g i c')) (poll_cards E cf is (set_state g i c')) (polled gpus cf g)"
        by (auto simp: polled_def elim!: triple_conseq)
    next
      fix x ok c'
      assume "\<not> ok"
      then show "keeps gpus cf (polled gpus cf g (ok, set_state g i c')) (ret (False, set_state g i c')) (polled gpus cf g)"
        by (auto simp: polled_def intro: watch.triple_return)
    qed
  qed
qed

section \<open>The loop\<close>

text \<open>Between two steps of the loop: the published control is the one in use, and it is a valid one.\<close>

definition gov_inv :: "gpu list \<Rightarrow> gconf \<Rightarrow> gov \<Rightarrow> watch \<Rightarrow> bool" where
  "gov_inv gpus cf g a \<longleftrightarrow> cards_rel gpus cf g a \<and>
     (if g_active g
      then w_active a = Some (g_control g) \<and> valid_control (g_control g) \<and> validate gpus (g_control g)
      else w_active a = None)"

lemma keeps_poll:
  "g_active g \<Longrightarrow> keeps (e_gpus E) cf (gov_inv (e_gpus E) cf g) (poll E cf g)
     (\<lambda>(ok, g') a. if ok then gov_inv (e_gpus E) cf g' a else cards_weak (e_gpus E) cf g' a)"
proof -
  assume act: "g_active g"
  show ?thesis
  proof (cases "valid_control (g_control g) \<and> validate (e_gpus E) (g_control g)")
    case True
    then show ?thesis
      unfolding poll_def
      by (intro triple_conseq [OF keeps_poll_cards])
        (use act in \<open>auto simp: gov_inv_def polled_def validate_usable\<close>)
  qed (use act in \<open>auto simp: triple_def gov_inv_def\<close>)
qed

lemma keeps_fail:
  "keeps (e_gpus E) cf (cards_weak (e_gpus E) cf g) (fail E cf g) (gov_inv (e_gpus E) cf)"
proof -
  have status: "keeps (e_gpus E) cf (\<lambda>a. settled (e_gpus E) cf g1 a) (do { status_error E; ret (g1\<lparr>g_active := False\<rparr>) })
      (gov_inv (e_gpus E) cf)" for g1
    unfolding triple_def
    by (intro allI impI emit) (auto simp: settled_def gov_inv_def cards_rel_def states_ok_def)
  have "keeps (e_gpus E) cf (\<lambda>a. \<exists>act. cards_weak (e_gpus E) cf g a \<and> w_active a = act) (fail E cf g)
      (gov_inv (e_gpus E) cf)"
    unfolding fail_def
    by (rule triple_ex, rule watch.triple_bind [OF keeps_Cleanup], rule triple_pair, rule triple_conseq [OF status]) auto
  then show ?thesis by simp
qed

lemma gov_inv_cards: "gov_inv gpus cf g a \<Longrightarrow> cards_rel gpus cf g a"
  by (simp add: gov_inv_def)

lemma keeps_disable:
  "keeps (e_gpus E) cf (gov_inv (e_gpus E) cf g) (disable E cf g) (gov_inv (e_gpus E) cf)"
proof -
  have status: "keeps (e_gpus E) cf (\<lambda>a. settled (e_gpus E) cf g1 a) (do { status_inactive E; ret (g1\<lparr>g_active := False\<rparr>) })
      (gov_inv (e_gpus E) cf)" for g1
    unfolding triple_def
    by (intro allI impI emit) (auto simp: settled_def gov_inv_def cards_rel_def states_ok_def)
  have "keeps (e_gpus E) cf (\<lambda>a. \<exists>act. cards_rel (e_gpus E) cf g a \<and> w_active a = act) (disable E cf g)
      (gov_inv (e_gpus E) cf)"
    unfolding disable_def
    by (rule triple_ex, rule watch.triple_bind [OF keeps_releaseAll], rule triple_conseq [OF status]) auto
  then show ?thesis by (rule triple_conseq) (auto simp: gov_inv_def)
qed

lemma keeps_LoadControl:
  "keeps gpus cf P (LoadControl E) (\<lambda>r a. P a \<and> (case r of Inl _ \<Rightarrow> True | Inr c \<Rightarrow> valid_control c))"
  unfolding LoadControl_def triple_def by (intro allI impI emit) (auto split: sum.splits)

lemma keeps_syncControl:
  "keeps (e_gpus E) cf (gov_inv (e_gpus E) cf g) (syncControl E cf g) (\<lambda>(_, g') a. gov_inv (e_gpus E) cf g' a)"
proof -
  have activate: "keeps (e_gpus E) cf (gov_inv (e_gpus E) cf g) (do {
      g1 \<leftarrow> releaseAll E cf g;
      let g2 = g1\<lparr>g_control := ctrl, g_active := True\<rparr>;
      s \<leftarrow> status_active E ctrl;
      (case s of Some e \<Rightarrow> ret (Some e, g2\<lparr>g_active := False\<rparr>) | None \<Rightarrow> ret (None, g2)) })
      (\<lambda>(_, g') a. gov_inv (e_gpus E) cf g' a)"
    if ok: "valid_control ctrl" "validate (e_gpus E) ctrl" "c_enabled ctrl" for ctrl
  proof (rule watch.triple_bind, rule triple_conseq)
    let ?P = "\<lambda>a. \<exists>act. cards_rel (e_gpus E) cf g a \<and> w_active a = act"
    show "keeps (e_gpus E) cf ?P (releaseAll E cf g) (\<lambda>g' a. \<exists>act. settled (e_gpus E) cf g' a \<and> w_active a = act)"
      by (rule triple_ex, rule triple_conseq [OF keeps_releaseAll]) auto
    show "\<exists>act. cards_rel (e_gpus E) cf g a \<and> w_active a = act" if "gov_inv (e_gpus E) cf g a" for a
      using that by (simp add: gov_inv_def)
    show "settled (e_gpus E) cf x a" if "\<exists>act. settled (e_gpus E) cf x a \<and> w_active a = act" for x a
      using that by simp
    show "keeps (e_gpus E) cf (settled (e_gpus E) cf g1) (do {
        let g2 = g1\<lparr>g_control := ctrl, g_active := True\<rparr>;
        s \<leftarrow> status_active E ctrl;
        (case s of Some e \<Rightarrow> ret (Some e, g2\<lparr>g_active := False\<rparr>) | None \<Rightarrow> ret (None, g2)) })
        (\<lambda>(_, g') a. gov_inv (e_gpus E) cf g' a)" for g1
      unfolding triple_def Let_def
      by (intro allI impI emit) (use ok in \<open>auto simp: settled_def gov_inv_def cards_rel_def states_ok_def\<close>)
  qed
  have off: "keeps (e_gpus E) cf (gov_inv (e_gpus E) cf g) (do { g1 \<leftarrow> disable E cf g; ret (None, g1) })
      (\<lambda>(_, g') a. gov_inv (e_gpus E) cf g' a)"
    by (rule watch.triple_bind [OF keeps_disable]) (auto intro: watch.triple_return)
  show ?thesis
    unfolding syncControl_def
  proof (rule watch.triple_bind [OF keeps_LoadControl], goal_cases)
    case (1 r)
    show ?case
    proof (cases r)
      case (Inl e)
      then show ?thesis by (auto intro: watch.triple_return)
    next
      case (Inr ctrl)
      have "keeps (e_gpus E) cf (\<lambda>a. valid_control ctrl \<and> gov_inv (e_gpus E) cf g a)
          (if \<not> c_enabled ctrl then do { g1 \<leftarrow> disable E cf g; ret (None, g1) }
           else if g_active g \<and> ctrl = g_control g then ret (None, g)
           else if \<not> validate (e_gpus E) ctrl then ret (Some ErrOther, g)
           else do {
             g1 \<leftarrow> releaseAll E cf g;
             let g2 = g1\<lparr>g_control := ctrl, g_active := True\<rparr>;
             s \<leftarrow> status_active E ctrl;
             (case s of Some e \<Rightarrow> ret (Some e, g2\<lparr>g_active := False\<rparr>) | None \<Rightarrow> ret (None, g2)) })
          (\<lambda>(_, g') a. gov_inv (e_gpus E) cf g' a)"
        by (rule triple_pure, intro triple_if off watch.triple_return activate) auto
      with Inr show ?thesis by (simp add: conj_commute)
    qed
  qed
qed

lemma keeps_serve:
  "keeps (e_gpus E) cf (gov_inv (e_gpus E) cf g) (serve E cf t g) (gov_inv (e_gpus E) cf)"
proof (cases t)
  case ControlTick
  show ?thesis
    unfolding ControlTick serve_def tick.case
  proof (rule watch.triple_bind [OF keeps_syncControl], rule triple_pair, simp only: prod.case)
    fix x e and g1 :: gov
    show "keeps (e_gpus E) cf (gov_inv (e_gpus E) cf g1)
        (case e of None \<Rightarrow> ret g1 | Some ErrNotExist \<Rightarrow> disable E cf g1 | Some ErrOther \<Rightarrow> fail E cf g1)
        (gov_inv (e_gpus E) cf)"
      by (auto split: option.split gerror.split intro: watch.triple_return keeps_disable
          triple_conseq [OF keeps_fail] cards_rel_weak gov_inv_cards)
  qed
next
  case GpuTick
  show ?thesis
    unfolding GpuTick serve_def tick.case
  proof (rule triple_if)
    assume "g_active g"
    then show "keeps (e_gpus E) cf (gov_inv (e_gpus E) cf g)
        (do { (ok, g1) \<leftarrow> poll E cf g; if ok then ret g1 else fail E cf g1 }) (gov_inv (e_gpus E) cf)"
      by (intro watch.triple_bind [OF keeps_poll] triple_pair) (auto intro: watch.triple_return keeps_fail)
  qed (auto intro: watch.triple_return)
qed

lemma keeps_serve_all:
  "keeps (e_gpus E) cf (gov_inv (e_gpus E) cf g) (serve_all E cf ts g) (gov_inv (e_gpus E) cf)"
proof (induction ts arbitrary: g)
  case (Cons t ts)
  then show ?case by (simp add: watch.triple_bind [OF keeps_serve])
qed (auto intro: watch.triple_return)

lemma keeps_Run:
  assumes "cards_weak (e_gpus E) cf g w_start" and "\<not> g_active g"
  shows "keeps (e_gpus E) cf (\<lambda>a. a = w_start) (Run E cf ts g) (\<lambda>_. all_clear (e_gpus E))"
proof -
  have start: "keeps (e_gpus E) cf (\<lambda>a. a = w_start) (Cleanup E cf g) (\<lambda>(_, g1). gov_inv (e_gpus E) cf g1)"
    by (rule triple_conseq [OF keeps_Cleanup [where act = None]])
      (use assms in \<open>auto simp: w_start_def gov_inv_def settled_def\<close>)
  have first: "keeps (e_gpus E) cf (gov_inv (e_gpus E) cf g2)
      (if e = Some ErrOther then fail E cf g2 else ret g2) (gov_inv (e_gpus E) cf)" for e g2
    by (auto intro: watch.triple_return triple_conseq [OF keeps_fail] cards_rel_weak gov_inv_cards)
  have last: "keeps (e_gpus E) cf (gov_inv (e_gpus E) cf g4) (do { (ok', g5) \<leftarrow> Cleanup E cf g4; ret g5 })
      (\<lambda>_. all_clear (e_gpus E))" for g4
  proof (rule triple_conseq)
    show "keeps (e_gpus E) cf (\<lambda>a. \<exists>act. cards_weak (e_gpus E) cf g4 a \<and> w_active a = act)
        (do { (ok', g5) \<leftarrow> Cleanup E cf g4; ret g5 }) (\<lambda>_. all_clear (e_gpus E))"
      by (rule triple_ex, rule watch.triple_bind [OF keeps_Cleanup])
        (auto simp: settled_def intro!: triple_pair watch.triple_return)
  qed (auto dest: gov_inv_cards cards_rel_weak)
  show ?thesis
    unfolding Run_def
    by (rule watch.triple_bind [OF start], rule triple_pair, simp only: prod.case,
        rule watch.triple_bind [OF keeps_syncControl], rule triple_pair, simp only: prod.case,
        rule watch.triple_bind [OF first], rule watch.triple_bind [OF keeps_serve_all], rule last)
qed

lemma initial_weak: "cards_weak (e_gpus E) cf (initial E) w_start"
  by (auto simp: cards_weak_def states_ok_def initial_def w_start_def k_start_def card_weak_def card_rel_def
      k_ok_def fresh_def)

text \<open>
  C6. Whatever the cards and the control directory answer and however ticks and control requests
  interleave, a run of the governor touches supported cards only; forces P8 only on a card of the
  published profile after the configured number of idle polls, with the core offset and the clocks
  released first; takes a fan over only on a card in P8 below the temperature limit and only to the
  requested 15 to 100 percent; changes the published status only after every card has been given
  back; publishes only enabled, valid requests that fit the cards; never hits a missing state; and
  ends with every card given back.
\<close>

theorem governor_contract:
  "case w_run (e_gpus E) cf w_start (trace_of (Run E cf ts (initial E)) w) of
     None \<Rightarrow> False
   | Some a \<Rightarrow> all_clear (e_gpus E) a"
proof -
  have "\<not> g_active (initial E)" by (simp add: initial_def)
  from keeps_Run [OF initial_weak this, where ts = ts and cf = cf]
  have "emits (Run E cf ts (initial E)) (\<lambda>x evs. \<exists>a'. w_run (e_gpus E) cf w_start evs = Some a' \<and> all_clear (e_gpus E) a')"
    by (simp add: triple_def)
  from emits_traceD [OF this, of w] show ?thesis by auto
qed

end
