(* ===== verification/Governor_Cards.thy ===== *)
theory Governor_Cards
  imports Governor_Contract
begin

text \<open>
  The governor on simulated cards: what the clean-up leaves behind, on cards that may fail any
  command, and what one poll does with one card.
\<close>

section \<open>Simulated cards\<close>

text \<open>
  The state of the cards; a command fails exactly if \<open>broken\<close> says so, and then changes nothing.
\<close>

record cards =
  v_pstate :: "int \<Rightarrow> int"
  v_fan :: "int \<Rightarrow> u32 option"
  v_lock :: "int \<Rightarrow> (u32 \<times> u32) option"
  v_offset :: "int \<Rightarrow> int"

fun obey :: "gcmd \<Rightarrow> cards \<Rightarrow> cards" where
  "obey (SetPState i p) w = w\<lparr>v_pstate := (v_pstate w)(i := p)\<rparr>"
| "obey (ResetLockedClocks i) w = w\<lparr>v_lock := (v_lock w)(i := None)\<rparr>"
| "obey (SetLockedClocks i lo hi) w = w\<lparr>v_lock := (v_lock w)(i := Some (lo, hi))\<rparr>"
| "obey (SetCoreOffset i off) w = w\<lparr>v_offset := (v_offset w)(i := off)\<rparr>"
| "obey (SetFan i p) w = w\<lparr>v_fan := (v_fan w)(i := Some p)\<rparr>"
| "obey (SetFanAuto i) w = w\<lparr>v_fan := (v_fan w)(i := None)\<rparr>"

definition sim_cards :: "(gcmd \<Rightarrow> bool) \<Rightarrow> cards genv \<Rightarrow> cards genv" where
  "sim_cards broken E = E\<lparr>e_cmd := \<lambda>c w. if broken c then (False, w) else (True, obey c w)\<rparr>"

lemma runs_command:
  "runs (command (sim_cards broken E) c) w (\<not> broken c) (if broken c then w else obey c w)"
  by (simp add: runs_def command_def sim_cards_def)

section \<open>Clean-up\<close>

text \<open>The commands that give a card back, in the order of the code.\<close>

definition clean_cmds :: "gconf \<Rightarrow> int \<Rightarrow> gcmd list" where
  "clean_cmds cf i =
     [SetFanAuto i, SetPState i autoPState] @
     (case core_offset cf of None \<Rightarrow> [] | Some off \<Rightarrow> [SetCoreOffset i off]) @
     [case load_clock cf of None \<Rightarrow> ResetLockedClocks i | Some (lo, hi) \<Rightarrow> SetLockedClocks i lo hi]"

fun command_of :: "gevent \<Rightarrow> gcmd option" where
  "command_of (GCmd c ok) = Some c"
| "command_of _ = None"

fun went_well :: "gevent \<Rightarrow> bool" where
  "went_well (GCmd c ok) = ok"
| "went_well _ = False"

definition given_states :: "int set \<Rightarrow> gov \<Rightarrow> gov" where
  "given_states is g = g\<lparr>g_states := \<lambda>i. if i \<in> is then map_option (\<lambda>_. fresh) (g_states g i) else g_states g i\<rparr>"

lemma given_states_step:
  "given_states is (case g_states g i of None \<Rightarrow> g
     | Some c \<Rightarrow> g\<lparr>g_states := (g_states g)(i \<mapsto> c\<lparr>low_power := False, manual_fan := False, idle_polls := 0\<rparr>)\<rparr>) =
   given_states (insert i is) g"
  by (auto simp: given_states_def fresh_def fun_eq_iff split: option.split)

definition clean_clock :: "gconf \<Rightarrow> int \<Rightarrow> gcmd" where
  "clean_clock cf i = (case load_clock cf of None \<Rightarrow> ResetLockedClocks i | Some (lo, hi) \<Rightarrow> SetLockedClocks i lo hi)"

lemma restoreClocks_command: "restoreClocks E cf i = command E (clean_clock cf i)"
  by (simp add: restoreClocks_def clean_clock_def split: option.split)

lemma emits_clean_card:
  assumes "\<And>r1 r2 r3 r4 e1. map command_of e1 = map Some (clean_cmds cf i) \<Longrightarrow>
      list_all went_well e1 = (r1 \<and> r2 \<and> r3 \<and> r4) \<Longrightarrow> emits (f r1 r2 r3 r4) (\<lambda>y e2. Q y (e1 @ e2))"
  shows "emits (do { r1 \<leftarrow> command E (SetFanAuto i); r2 \<leftarrow> command E (SetPState i autoPState);
      r3 \<leftarrow> restoreCoreOffset E cf i; r4 \<leftarrow> restoreClocks E cf i; f r1 r2 r3 r4 }) Q"
proof -
  have off: "emits (restoreCoreOffset E cf i) (\<lambda>r evs. list_all went_well evs = r \<and>
      map command_of evs = map Some (case core_offset cf of None \<Rightarrow> [] | Some off \<Rightarrow> [SetCoreOffset i off]))"
    unfolding restoreCoreOffset_def by (intro emit) auto
  show ?thesis
    unfolding restoreClocks_command
  proof (rule emits_bind, rule emits_command, rule emits_bind, rule emits_command, rule emits_bindI [OF off],
      rule emits_bind, rule emits_command, goal_cases)
    case (1 r1 r2 r3 e1 r4)
    then show ?case
      using assms [of "[GCmd (SetFanAuto i) r1] @ [GCmd (SetPState i autoPState) r2] @ e1 @ [GCmd (clean_clock cf i) r4]" r1 r2 r3 r4]
      by (simp add: clean_cmds_def clean_clock_def split: option.splits)
  qed
qed

lemma emits_cleanup_each:
  "emits (cleanup_each E cf xs g) (\<lambda>(ok, g') evs.
     map command_of evs = map Some (concat (map (clean_cmds cf) (supported_indices xs))) \<and>
     list_all went_well evs = ok \<and> g' = given_states (set (supported_indices xs)) g)"
proof (induction xs arbitrary: g)
  case Nil
  show ?case by (simp add: emits_return supported_indices_def given_states_def)
next
  case (Cons x xs)
  show ?case
  proof (cases "supported_gpu x")
    case True
    then have c: "supported_indices (x # xs) = g_index x # supported_indices xs" by (simp add: supported_indices_def)
    show ?thesis
      unfolding cleanup_each.simps
    proof (subst if_not_P, use True in simp, rule emits_clean_card, rule emits_bindI [OF Cons.IH], goal_cases)
      case (1 r1 r2 r3 r4 e1 x e2)
      then show ?case by (cases x) (auto simp: c given_states_step intro!: emits_return)
    qed
  next
    case False
    with Cons show ?thesis by (simp add: supported_indices_def)
  qed
qed

text \<open>
  The clean-up trusts nothing it remembers: whatever the state of the governor, and whatever the
  cards answer, it issues the same commands, fan, P-state, core offset and clocks of every supported
  card in order; a failing command stops neither the card's other commands nor the other cards; it
  reports an error exactly if a command failed; and afterwards every supported card counts as fresh.
\<close>

lemma cleanup_attempts_all:
  "map command_of (trace_of (Cleanup E cf g) w) =
     map Some (concat (map (clean_cmds cf) (supported_indices (e_gpus E)))) \<and>
   result_of (Cleanup E cf g) w =
     (list_all went_well (trace_of (Cleanup E cf g) w), given_states (set (supported_indices (e_gpus E))) g)"
  using emits_traceD [OF emits_cleanup_each [of E cf "e_gpus E" g], of w]
  by (auto simp: Cleanup_def split: prod.splits)

text \<open>On simulated cards.\<close>

definition cleaned :: "(gcmd \<Rightarrow> bool) \<Rightarrow> gconf \<Rightarrow> int set \<Rightarrow> cards \<Rightarrow> cards" where
  "cleaned broken cf S w = \<lparr>
     v_pstate = (\<lambda>i. if i \<in> S \<and> \<not> broken (SetPState i autoPState) then autoPState else v_pstate w i),
     v_fan = (\<lambda>i. if i \<in> S \<and> \<not> broken (SetFanAuto i) then None else v_fan w i),
     v_lock = (\<lambda>i. if i \<in> S \<and> \<not> broken (clean_clock cf i) then load_clock cf else v_lock w i),
     v_offset = (\<lambda>i. case core_offset cf of None \<Rightarrow> v_offset w i
        | Some off \<Rightarrow> if i \<in> S \<and> \<not> broken (SetCoreOffset i off) then off else v_offset w i)\<rparr>"

lemma runs_offset:
  "runs (restoreCoreOffset (sim_cards broken E) cf i) w
     (case core_offset cf of None \<Rightarrow> True | Some off \<Rightarrow> \<not> broken (SetCoreOffset i off))
     (case core_offset cf of None \<Rightarrow> w | Some off \<Rightarrow> if broken (SetCoreOffset i off) then w else obey (SetCoreOffset i off) w)"
proof (cases "core_offset cf")
  case (Some off)
  then show ?thesis using runs_command [of broken E "SetCoreOffset i off" w] by (simp add: restoreCoreOffset_def)
qed (simp add: restoreCoreOffset_def runs_return)

definition clean_ok :: "(gcmd \<Rightarrow> bool) \<Rightarrow> gconf \<Rightarrow> int \<Rightarrow> bool" where
  "clean_ok broken cf i = list_all (\<lambda>c. \<not> broken c) (clean_cmds cf i)"

lemma runs_clean_card:
  assumes "\<And>r1 r2 r3 r4. (r1 \<and> r2 \<and> r3 \<and> r4) = clean_ok broken cf i \<Longrightarrow>
      runs (f r1 r2 r3 r4) (cleaned broken cf {i} w) y w'"
  shows "runs (do { r1 \<leftarrow> command (sim_cards broken E) (SetFanAuto i); r2 \<leftarrow> command (sim_cards broken E) (SetPState i autoPState);
      r3 \<leftarrow> restoreCoreOffset (sim_cards broken E) cf i; r4 \<leftarrow> restoreClocks (sim_cards broken E) cf i; f r1 r2 r3 r4 }) w y w'"
proof (rule runs_bind [OF runs_command], rule runs_bind [OF runs_command], rule runs_bind [OF runs_offset],
    unfold restoreClocks_command, rule runs_bind [OF runs_command], goal_cases)
  case 1
  let ?w1 = "if broken (SetFanAuto i) then w else obey (SetFanAuto i) w"
  let ?w2 = "if broken (SetPState i autoPState) then ?w1 else obey (SetPState i autoPState) ?w1"
  let ?w3 = "case core_offset cf of None \<Rightarrow> ?w2 | Some off \<Rightarrow> if broken (SetCoreOffset i off) then ?w2 else obey (SetCoreOffset i off) ?w2"
  have "(if broken (clean_clock cf i) then ?w3 else obey (clean_clock cf i) ?w3) = cleaned broken cf {i} w"
    by (rule cards.equality) (auto simp: cleaned_def clean_clock_def split: option.splits)
  then show ?case
    by (simp only:) (rule assms, auto simp: clean_ok_def clean_cmds_def clean_clock_def split: option.splits)
qed

lemma cleaned_insert: "cleaned broken cf S (cleaned broken cf {i} w) = cleaned broken cf (insert i S) w"
  by (rule cards.equality) (auto simp: cleaned_def split: option.splits)

lemma runs_cleanup_each:
  "runs (cleanup_each (sim_cards broken E) cf xs g) w
     (list_all (clean_ok broken cf) (supported_indices xs), given_states (set (supported_indices xs)) g)
     (cleaned broken cf (set (supported_indices xs)) w)"
proof (induction xs arbitrary: g w)
  case Nil
  have "cleaned broken cf {} w = w" by (rule cards.equality) (auto simp: cleaned_def split: option.splits)
  then show ?case by (simp add: runs_return supported_indices_def given_states_def)
next
  case (Cons x xs)
  show ?case
  proof (cases "supported_gpu x")
    case True
    then have c: "supported_indices (x # xs) = g_index x # supported_indices xs" by (simp add: supported_indices_def)
    show ?thesis
      unfolding cleanup_each.simps
    proof (subst if_not_P, use True in simp, rule runs_clean_card, rule runs_bind [OF Cons.IH], goal_cases)
      case (1 r1 r2 r3 r4)
      then have "(r1 \<and> r2 \<and> r3 \<and> r4 \<and> b) = (clean_ok broken cf (g_index x) \<and> b)" for b by blast
      then show ?case by (simp add: c given_states_step cleaned_insert runs_return)
    qed
  next
    case False
    with Cons show ?thesis by (simp add: supported_indices_def)
  qed
qed

text \<open>
  C21. On cards in any state, left behind by a killed process for instance, where any commands may be
  broken: the clean-up puts every supported card back into the automatic P-state, the automatic fan,
  the configured clocks and the configured core offset as far as that command works on it, whatever
  is broken elsewhere; it touches no other card; and it succeeds exactly if none of its commands is
  broken.
\<close>

theorem cleanup_on_cards:
  "let S = set (supported_indices (e_gpus E)); E' = sim_cards broken E in
   world_of (Cleanup E' cf g) w = cleaned broken cf S w \<and>
   fst (result_of (Cleanup E' cf g) w) = list_all (clean_ok broken cf) (supported_indices (e_gpus E))"
proof -
  have "e_gpus (sim_cards broken E) = e_gpus E" by (simp add: sim_cards_def)
  then show ?thesis
    using runsD [OF runs_cleanup_each [of broken E cf "e_gpus E" g w]] by (simp add: Cleanup_def Let_def)
qed

end
