(* ===== verification/Governor_Poll.thy ===== *)
theory Governor_Poll
  imports Governor_Cards
begin

text \<open>What one poll does with one card, case by case, and how a failed lowering is rolled back.\<close>

section \<open>Lowering\<close>

definition offset_cmds :: "gconf \<Rightarrow> int \<Rightarrow> gcmd list" where
  "offset_cmds cf i = (case core_offset cf of None \<Rightarrow> [] | Some off \<Rightarrow> [SetCoreOffset i off])"

definition lower_cmds :: "gconf \<Rightarrow> int \<Rightarrow> gcmd list" where
  "lower_cmds cf i = (if core_offset cf = None then [] else [SetCoreOffset i 0]) @ [ResetLockedClocks i, SetPState i 8]"

text \<open>What is undone when a command of \<open>lower_cmds\<close> fails: what came before it, last first.\<close>

fun undo_cmds :: "gconf \<Rightarrow> gcmd \<Rightarrow> gcmd list" where
  "undo_cmds cf (ResetLockedClocks i) = offset_cmds cf i"
| "undo_cmds cf (SetPState i p) = clean_clock cf i # offset_cmds cf i"
| "undo_cmds cf _ = []"

definition lowered :: "gconf \<Rightarrow> int \<Rightarrow> card \<Rightarrow> bool \<times> card \<Rightarrow> gevent list \<Rightarrow> bool" where
  "lowered cf i c r evs =
     (let n = length (takeWhile went_well evs); cs = lower_cmds cf i in
      if fst r then evs = map (\<lambda>c. GCmd c True) cs \<and> snd r = c\<lparr>low_power := True\<rparr>
      else n < length cs \<and> map command_of evs = map Some (take (n + 1) cs @ undo_cmds cf (cs ! n)) \<and> snd r = c)"

lemma emits_lowered: "emits (enter_low E cf i c) (lowered cf i c)"
  unfolding enter_low_def restoreCoreOffset_def restoreClocks_command
  by (intro emit) (auto simp: lowered_def lower_cmds_def offset_cmds_def)

text \<open>
  Lowering a card clears the core offset, releases the clocks and forces P8, in this order, and
  counts the card as low only if all of them worked; when one fails, the ones before it are undone,
  the clocks first, nothing else is tried and the card counts as it did before.
\<close>

lemma lowering_rolls_back:
  "lowered cf i c (result_of (enter_low E cf i c) w) (trace_of (enter_low E cf i c) w)"
  by (rule emits_traceD [OF emits_lowered])

section \<open>One poll\<close>

definition release_cmds :: "gconf \<Rightarrow> int \<Rightarrow> card \<Rightarrow> gcmd list" where
  "release_cmds cf i c =
     (if manual_fan c then [SetFanAuto i] else []) @ [SetPState i autoPState] @ offset_cmds cf i @ [clean_clock cf i]"

lemma emits_released:
  "emits (release E cf i c) (\<lambda>r evs. map command_of evs = map Some (release_cmds cf i c) \<and>
     r = (list_all went_well evs, fresh))"
  unfolding release_def restoreCoreOffset_def restoreClocks_command
  by (intro emit) (auto simp: release_cmds_def offset_cmds_def fresh_def)

definition fan_adjusted :: "gconf \<Rightarrow> control \<Rightarrow> int \<Rightarrow> card \<Rightarrow> bool \<times> card \<Rightarrow> gevent list \<Rightarrow> bool" where
  "fan_adjusted cf ctrl i c r evs =
     (case evs of
        GTemp j t # evs' \<Rightarrow> j = i \<and> (case t of
            None \<Rightarrow> evs' = [] \<and> r = (False, c)
          | Some t \<Rightarrow>
              let hot = t \<ge> fan_auto_temp cf in
              if hot = manual_fan c then
                (let cmd = (if hot then SetFanAuto i else SetFan i (word_of_int (c_fan ctrl))); ok = fst r in
                 evs' = [GCmd cmd ok] \<and> snd r = (if ok then c\<lparr>manual_fan := \<not> hot\<rparr> else c))
              else evs' = [] \<and> r = (True, c))
      | _ \<Rightarrow> False)"

lemma emits_fan_adjusted: "emits (adjust_fan E cf ctrl i c) (fan_adjusted cf ctrl i c)"
  unfolding adjust_fan_def by (intro emit) (auto simp: fan_adjusted_def Let_def)

text \<open>After the lowering, if there is one, the fan is looked at if the card is low and a fan speed is wanted.\<close>

definition fan_part :: "gconf \<Rightarrow> control \<Rightarrow> int \<Rightarrow> card \<Rightarrow> bool \<times> card \<Rightarrow> gevent list \<Rightarrow> bool" where
  "fan_part cf ctrl i c r evs =
     (if low_power c \<and> c_fan ctrl > 0 then fan_adjusted cf ctrl i c r evs else evs = [] \<and> r = (True, c))"

definition decided :: "gconf \<Rightarrow> control \<Rightarrow> int \<Rightarrow> card \<Rightarrow> bool \<times> card \<Rightarrow> gevent list \<Rightarrow> bool" where
  "decided cf ctrl i c r evs =
     (case evs of
        GUtil j u # evs' \<Rightarrow> j = i \<and> (case u of
            None \<Rightarrow> evs' = [] \<and> r = (False, c)
          | Some u \<Rightarrow>
              if u > util_threshold cf then
                (if low_power c \<or> manual_fan c
                 then map command_of evs' = map Some (release_cmds cf i c) \<and> r = (list_all went_well evs', fresh)
                 else evs' = [] \<and> r = (True, c\<lparr>idle_polls := 0\<rparr>))
              else let c1 = c\<lparr>idle_polls := idle_polls c + 1\<rparr> in
                if low_power c \<or> idle_polls c1 < idle_after cf then fan_part cf ctrl i c1 r evs'
                else \<exists>e1 e2 r1. evs' = e1 @ e2 \<and> lowered cf i c1 r1 e1 \<and>
                  (if fst r1 then fan_part cf ctrl i (snd r1) r e2 else e2 = [] \<and> r = (False, c1)))
      | _ \<Rightarrow> False)"

lemma emits_fan_part:
  "emits (if low_power c \<and> c_fan ctrl > 0 then adjust_fan E cf ctrl i c else ret (True, c)) (fan_part cf ctrl i c)"
  by (auto simp: fan_part_def intro: emits_return emits_mono [OF emits_fan_adjusted])

lemma emits_decided: "emits (poll_card E cf ctrl i c) (decided cf ctrl i c)"
  unfolding poll_card_def
proof (rule emits_bind, rule emits_utilization, goal_cases)
  case (1 u)
  let ?c = "c\<lparr>idle_polls := idle_polls c + 1\<rparr>"
  let ?rest = "\<lambda>c. if low_power c \<and> c_fan ctrl > 0 then adjust_fan E cf ctrl i c else ret (True, c)"
  show ?case
  proof (cases u)
    case (Some v)
    consider (busy) "v > util_threshold cf" | (low) "\<not> v > util_threshold cf" "low_power c \<or> idle_polls ?c < idle_after cf"
      | (lower) "\<not> v > util_threshold cf" "\<not> (low_power c \<or> idle_polls ?c < idle_after cf)" by blast
    then show ?thesis
    proof cases
      case busy
      show ?thesis
        unfolding Some option.case if_P [OF busy] Let_def
        by (rule emits_if, rule emits_mono [OF emits_released])
          (use busy in \<open>auto simp: decided_def release_cmds_def intro: emits_return\<close>)
    next
      case low
      have skip: "(if \<not> low_power ?c \<and> idle_after cf \<le> idle_polls ?c then enter_low E cf i ?c else ret (True, ?c)) = ret (True, ?c)"
        using low(2) by auto
      have "emits (?rest ?c) (\<lambda>r evs. decided cf ctrl i c r (GUtil i (Some v) # evs))"
        by (rule emits_mono [OF emits_fan_part]) (use low in \<open>simp add: decided_def Let_def\<close>)
      then show ?thesis
        unfolding Some option.case Let_def if_not_P [OF low(1)] skip by (auto split: if_splits)
    next
      case lower
      have "emits (do { (ok, c2) \<leftarrow> enter_low E cf i ?c; if \<not> ok then ret (False, c2) else ?rest c2 })
        (\<lambda>r evs. \<exists>e1 e2 r1. evs = e1 @ e2 \<and> lowered cf i ?c r1 e1 \<and>
           (if fst r1 then fan_part cf ctrl i (snd r1) r e2 else e2 = [] \<and> r = (False, ?c)))"
      proof (rule emits_bindI [OF emits_lowered], rule emits_prod, rule emits_if, goal_cases)
        case (1 x e1 ok c2)
        then have "c2 = ?c" by (simp add: lowered_def Let_def)
        with 1 show ?case by (intro emits_return exI [of _ e1] exI [of _ "[]"] exI [of _ x]) auto
      next
        case (2 x e1 ok c2)
        then show ?case
          by (intro emits_mono [OF emits_fan_part]) (rule_tac exI [of _ e1], auto)
      qed
      then have go: "emits (do { (ok, c2) \<leftarrow> enter_low E cf i ?c; if \<not> ok then ret (False, c2) else ?rest c2 })
          (\<lambda>r evs. decided cf ctrl i c r ([GUtil i (Some v)] @ evs))"
        by (rule emits_mono) (use lower in \<open>simp only: decided_def append_Cons append_Nil list.case gevent.case
          option.case Let_def if_False simp_thms\<close>)
      have enter: "(if \<not> low_power ?c \<and> idle_after cf \<le> idle_polls ?c then enter_low E cf i ?c else ret (True, ?c)) = enter_low E cf i ?c"
        using lower(2) by auto
      show ?thesis
        unfolding Some option.case Let_def if_not_P [OF lower(1)] enter by (rule go)
    qed
  qed (auto simp: decided_def intro: emits_return)
qed

text \<open>
  C22. One poll of one card, on every answer: an unreadable utilization changes nothing and is an
  error; a busy card is given back at once, with all its commands issued even if some fail, and its
  idle polls start again; an idle one is left alone until the configured number of idle polls, then
  lowered; and on a low card the fan follows the temperature, set to the requested speed below the
  limit and back to automatic at the limit, once each.
\<close>

theorem poll_card_decides:
  "decided cf ctrl i c (result_of (poll_card E cf ctrl i c) w) (trace_of (poll_card E cf ctrl i c) w)"
  by (rule emits_traceD [OF emits_decided])

end
