(* ===== verification/Governor_Options.thy ===== *)
theory Governor_Options
  imports Governor
begin

text \<open>
  How the governor gets its options: \<open>main\<close> reads them from the environment
  (\<open>cmd/cmp-idle-governor/main.go\<close>), \<open>New\<close> checks them and parses the load clock and the core
  offset (\<open>internal/governor/governor.go\<close>).  Go strings are lists of bytes.
\<close>

section \<open>The Go library\<close>

text \<open>\<open>strings.TrimSpace\<close>: the UTF-8 encodings of the characters with the property White Space.\<close>

definition space_encodings :: "string list" where
  "space_encodings = map (map char_of :: nat list \<Rightarrow> string)
     ([[9], [10], [11], [12], [13], [32], [0xc2, 0x85], [0xc2, 0xa0], [0xe1, 0x9a, 0x80],
       [0xe2, 0x80, 0xa8], [0xe2, 0x80, 0xa9], [0xe2, 0x80, 0xaf], [0xe2, 0x81, 0x9f], [0xe3, 0x80, 0x80]] @
      map (\<lambda>k. [0xe2, 0x80, 0x80 + k]) [0..<11])"

definition strip_one :: "string list \<Rightarrow> string \<Rightarrow> string option" where
  "strip_one es s = map_option (\<lambda>e. drop (length e) s) (find (\<lambda>e. take (length e) s = e) es)"

function trim_with :: "string list \<Rightarrow> string \<Rightarrow> string" where
  "trim_with es s =
     (case strip_one es s of
        None \<Rightarrow> s
      | Some r \<Rightarrow> if length r < length s then trim_with es r else s)"
  by pat_completeness auto
termination by (relation "measure (\<lambda>(es, s). length s)") auto

declare trim_with.simps [simp del]

definition TrimSpace :: "string \<Rightarrow> string" where
  "TrimSpace s = rev (trim_with (map rev space_encodings) (rev (trim_with space_encodings s)))"

fun Split :: "char \<Rightarrow> string \<Rightarrow> string list" where
  "Split sep [] = [[]]"
| "Split sep (c # s) =
     (if c = sep then [] # Split sep s
      else (case Split sep s of [] \<Rightarrow> [[c]] | p # ps \<Rightarrow> (c # p) # ps))"

text \<open>\<open>strconv.ParseUint\<close> and \<open>strconv.ParseInt\<close> in base 10; \<open>None\<close> is a syntax or range error.\<close>

definition ParseUint :: "string \<Rightarrow> nat \<Rightarrow> nat option" where
  "ParseUint s bits =
     (if s = [] \<or> \<not> list_all (is_digit 10) s then None
      else if num_of 10 s \<ge> 2 ^ bits then None else Some (num_of 10 s))"

definition ParseInt :: "string \<Rightarrow> nat \<Rightarrow> int option" where
  "ParseInt s bits =
     (if s = [] then None
      else let (neg, ds) = sign_prefix s in
        (case ParseUint ds bits of
           None \<Rightarrow> None
         | Some n \<Rightarrow>
             if \<not> neg \<and> n \<ge> 2 ^ (bits - 1) then None
             else if neg \<and> n > 2 ^ (bits - 1) then None
             else Some (if neg then - int n else int n)))"

section \<open>New\<close>

datatype option_error =
    NotPositive | ClockParts | ClockRange | ClockOrder | OffsetRange | EnvPositive string | EnvRange

record options =
  o_poll :: "64 word"
  o_idle :: int
  o_util :: u32
  o_temp :: u32
  o_clock :: string
  o_offset :: string

definition parseCoreOffset :: "string \<Rightarrow> option_error + int option" where
  "parseCoreOffset value =
     (let v = TrimSpace value in
      if v = [] then Inr None
      else (case ParseInt v 32 of
              None \<Rightarrow> Inl OffsetRange
            | Some n \<Rightarrow> if n < - 2000 \<or> n > 2000 then Inl OffsetRange else Inr (Some n)))"

fun clock_values :: "string list \<Rightarrow> nat list option" where
  "clock_values [] = Some []"
| "clock_values (part # parts) =
     (case ParseUint (TrimSpace part) 32 of
        None \<Rightarrow> None
      | Some n \<Rightarrow> if n < 100 \<or> n > 5000 then None else map_option (Cons n) (clock_values parts))"

definition parseClock :: "string \<Rightarrow> option_error + (u32 \<times> u32) option" where
  "parseClock value =
     (let v = TrimSpace value in
      if v = [] then Inr None
      else let parts = Split CHR '','' v in
        if length parts > 2 then Inl ClockParts
        else (case clock_values parts of
                None \<Rightarrow> Inl ClockRange
              | Some values \<Rightarrow>
                  if length values = 1 then Inr (Some (of_nat (values ! 0), of_nat (values ! 0)))
                  else if values ! 0 > values ! 1 then Inl ClockOrder
                  else Inr (Some (of_nat (values ! 0), of_nat (values ! 1)))))"

definition New :: "'w genv \<Rightarrow> options \<Rightarrow> option_error + gconf \<times> gov" where
  "New E opts =
     (if sint (o_poll opts) \<le> 0 \<or> o_idle opts \<le> 0 then Inl NotPositive
      else (case parseClock (o_clock opts) of
              Inl e \<Rightarrow> Inl e
            | Inr clock \<Rightarrow>
                (case parseCoreOffset (o_offset opts) of
                   Inl e \<Rightarrow> Inl e
                 | Inr off \<Rightarrow>
                     Inr (\<lparr>idle_after = nat (o_idle opts), util_threshold = o_util opts,
                        fan_auto_temp = (if o_temp opts = 0 then 55 else o_temp opts),
                        load_clock = clock, core_offset = off\<rparr>, initial E))))"

section \<open>The environment\<close>

definition envInt :: "(string \<Rightarrow> string) \<Rightarrow> string \<Rightarrow> int \<Rightarrow> option_error + int" where
  "envInt env name fallback =
     (let v = TrimSpace (env name) in
      if v = [] then Inr fallback
      else (case ParseInt v 64 of
              None \<Rightarrow> Inl (EnvPositive name)
            | Some n \<Rightarrow> if n \<le> 0 then Inl (EnvPositive name) else Inr n))"

text \<open>\<open>time.Duration(poll) * time.Second\<close> in 64 bits.\<close>

definition env_options :: "(string \<Rightarrow> string) \<Rightarrow> option_error + options" where
  "env_options env =
     (case envInt env ''CMP_POLL'' 5 of Inl e \<Rightarrow> Inl e | Inr secs \<Rightarrow>
     (case envInt env ''CMP_IDLE_AFTER'' 6 of Inl e \<Rightarrow> Inl e | Inr idle \<Rightarrow>
     (case envInt env ''CMP_UTIL'' 5 of Inl e \<Rightarrow> Inl e | Inr util \<Rightarrow>
     (case envInt env ''CMP_FAN_AUTO_TEMP'' 55 of Inl e \<Rightarrow> Inl e | Inr temp \<Rightarrow>
       if util > 100 \<or> temp > 120 then Inl EnvRange
       else Inr \<lparr>o_poll = word_of_int secs * 1000000000, o_idle = idle, o_util = word_of_int util,
         o_temp = word_of_int temp, o_clock = env ''CMP_LOAD_CLOCK'', o_offset = env ''CMP_LOAD_CORE_OFFSET''\<rparr>))))"

section \<open>What is accepted\<close>

lemma strip_none:
  assumes "list_all (\<lambda>e. e \<noteq> [] \<and> hd e \<noteq> c) es"
  shows "strip_one es (c # s) = None"
proof -
  have "find (\<lambda>e. take (length e) (c # s) = e) es = None"
    unfolding find_None_iff
  proof (clarify)
    fix e
    assume "e \<in> set es" and e: "take (length e) (c # s) = e"
    with assms have "e \<noteq> []" "hd e \<noteq> c" by (auto simp: list_all_iff)
    moreover from this e have "hd (take (length e) (c # s)) = c" by (cases e) auto
    ultimately show False using e by simp
  qed
  then show ?thesis by (simp add: strip_one_def)
qed

text \<open>A visible ASCII character.\<close>

definition solid :: "char \<Rightarrow> bool" where
  "solid c = (let k = of_char c :: nat in 32 < k \<and> k < 127)"

lemma digit_solid: "is_digit 10 c \<Longrightarrow> solid c"
  by (auto simp: solid_def is_digit_def digit_of_def Let_def split: if_splits)

lemma no_space:
  assumes "solid c"
  shows "list_all (\<lambda>e. e \<noteq> [] \<and> hd e \<noteq> c) space_encodings"
    and "list_all (\<lambda>e. e \<noteq> [] \<and> hd e \<noteq> c) (map rev space_encodings)"
proof -
  let ?ok = "\<lambda>e. e \<noteq> [] \<and> (let k = of_char (hd e) :: nat in k < 33 \<or> 126 < k)"
  have "list_all ?ok space_encodings" "list_all ?ok (map rev space_encodings)"
    by (simp_all add: space_encodings_def upt_rec)
  moreover have "?ok e \<Longrightarrow> e \<noteq> [] \<and> hd e \<noteq> c" for e
    using assms by (auto simp: solid_def Let_def)
  ultimately show "list_all (\<lambda>e. e \<noteq> [] \<and> hd e \<noteq> c) space_encodings"
    "list_all (\<lambda>e. e \<noteq> [] \<and> hd e \<noteq> c) (map rev space_encodings)"
    by (simp_all only: list_all_iff) blast+
qed

lemma TrimSpace_solid:
  assumes "s \<noteq> []" and "solid (hd s)" and "solid (last s)"
  shows "TrimSpace s = s"
proof -
  have "trim_with space_encodings s = s"
    using assms strip_none [OF no_space(1)] by (cases s) (simp_all add: trim_with.simps)
  moreover have "trim_with (map rev space_encodings) (rev s) = rev s"
    using assms strip_none [OF no_space(2)] by (cases s rule: rev_cases) (simp_all add: trim_with.simps)
  ultimately show ?thesis by (simp add: TrimSpace_def)
qed

lemma solid_dec: "list_all solid (dec n)"
  using set_digs [of 10 n] by (auto simp: list_all_iff digit_solid)

lemma TrimSpace_dec [simp]: "TrimSpace (dec n) = dec n"
  using solid_dec [of n] by (intro TrimSpace_solid) (auto simp: list_all_iff)

lemma TrimSpace_Nil [simp]: "TrimSpace [] = []"
proof -
  have "\<forall>e \<in> set space_encodings \<union> set (map rev space_encodings). e \<noteq> []"
    by (auto simp: space_encodings_def)
  then have "find (\<lambda>e. take (length e) [] = e) es = None" if "es \<in> {space_encodings, map rev space_encodings}" for es
    unfolding find_None_iff using that by auto
  then show ?thesis by (simp add: TrimSpace_def trim_with.simps strip_one_def)
qed

lemma ParseUint_dec: "ParseUint (dec n) b = (if n < 2 ^ b then Some n else None)"
  using set_digs [of 10 n] by (simp add: ParseUint_def num_of_digs)

lemma sign_prefix_show: "sign_prefix (show_int i) = (i < 0, dec (nat (abs i)))"
  using hd_digs [of 10 "nat i"] by (cases "dec (nat i)") (auto simp: show_int_def dest: digit_not_space)

lemma show_int_neq [simp]: "show_int i \<noteq> []"
  by (simp add: show_int_def)

lemma ParseInt_show:
  "0 < b \<Longrightarrow> ParseInt (show_int i) b = (if - (2 ^ (b - 1)) \<le> i \<and> i < 2 ^ (b - 1) then Some i else None)"
proof -
  assume "0 < b"
  then obtain c where b: "b = Suc c" by (cases b) auto
  have "(0 :: int) < 2 ^ c" by simp
  then show ?thesis
    by (auto simp: b ParseInt_def sign_prefix_show ParseUint_dec Let_def nat_le_iff le_nat_iff nat_less_iff
        zless_nat_eq_int_zless not_le not_less simp del: zero_less_power split: option.splits)
qed

lemma TrimSpace_show_int [simp]: "TrimSpace (show_int i) = show_int i"
proof (rule TrimSpace_solid)
  have d: "dec n \<noteq> [] \<and> solid (hd (dec n)) \<and> solid (last (dec n))" for n
    using solid_dec [of n] by (auto simp: list_all_iff)
  show "solid (hd (show_int i))" using d by (simp add: show_int_def solid_def)
  show "solid (last (show_int i))" using d by (simp add: show_int_def)
qed simp

lemma Split_none: "sep \<notin> set s \<Longrightarrow> Split sep s = [s]"
  by (induction s) auto

lemma Split_first: "sep \<notin> set s \<Longrightarrow> Split sep (s @ sep # t) = s # Split sep t"
  by (induction s) auto

lemma no_comma: "CHR '','' \<notin> set (dec n)"
  using set_digs [of 10 n] by (auto simp: list_all_iff is_digit_def digit_of_def)

lemma TrimSpace_pair: "TrimSpace (dec lo @ CHR '','' # dec hi) = dec lo @ CHR '','' # dec hi"
  using solid_dec [of lo] solid_dec [of hi] by (intro TrimSpace_solid) (auto simp: list_all_iff)

lemma parseClock_one: "parseClock (dec n) = (if n < 100 \<or> n > 5000 then Inl ClockRange else Inr (Some (of_nat n, of_nat n)))"
  by (simp add: parseClock_def Let_def Split_none no_comma ParseUint_dec)

lemma parseClock_pair:
  "parseClock (dec lo @ CHR '','' # dec hi) =
     (if lo < 100 \<or> lo > 5000 \<or> hi < 100 \<or> hi > 5000 then Inl ClockRange
      else if lo > hi then Inl ClockOrder else Inr (Some (of_nat lo, of_nat hi)))"
  by (auto simp: parseClock_def Let_def TrimSpace_pair Split_none Split_first no_comma ParseUint_dec)

lemma parseCoreOffset_show: "parseCoreOffset (show_int i) = (if i < - 2000 \<or> i > 2000 then Inl OffsetRange else Inr (Some i))"
  by (simp add: parseCoreOffset_def Let_def ParseInt_show)

text \<open>
  C37. Clocks and core offsets written in decimal are read back: a clock of 100 to 5000 MHz, a pair of
  such clocks in order, an offset of -2000 to 2000 MHz; every other number is refused with the error
  that fits; an empty value leaves the setting out.
\<close>

theorem parse_options_show:
  "parseClock (dec n) = (if n < 100 \<or> n > 5000 then Inl ClockRange else Inr (Some (of_nat n, of_nat n))) \<and>
   parseClock (dec lo @ CHR '','' # dec hi) =
     (if lo < 100 \<or> lo > 5000 \<or> hi < 100 \<or> hi > 5000 then Inl ClockRange
      else if lo > hi then Inl ClockOrder else Inr (Some (of_nat lo, of_nat hi))) \<and>
   parseCoreOffset (show_int i) = (if i < - 2000 \<or> i > 2000 then Inl OffsetRange else Inr (Some i)) \<and>
   parseClock [] = Inr None \<and> parseCoreOffset [] = Inr None"
  by (simp only: parseClock_one parseClock_pair parseCoreOffset_show) (simp add: parseClock_def parseCoreOffset_def)

definition sound_clock :: "(u32 \<times> u32) option \<Rightarrow> bool" where
  "sound_clock clock = (case clock of None \<Rightarrow> True | Some (lo, hi) \<Rightarrow> 100 \<le> lo \<and> lo \<le> hi \<and> hi \<le> 5000)"

definition sound_offset :: "int option \<Rightarrow> bool" where
  "sound_offset off = (case off of None \<Rightarrow> True | Some n \<Rightarrow> - 2000 \<le> n \<and> n \<le> 2000)"

lemma clock_values_bounds:
  "clock_values parts = Some ns \<Longrightarrow> length ns = length parts \<and> (\<forall>n \<in> set ns. 100 \<le> n \<and> n \<le> 5000)"
  by (induction parts arbitrary: ns) (auto split: option.splits if_splits)

lemma Split_neq_Nil [simp]: "Split sep s \<noteq> []"
  by (induction s) (auto split: list.splits)

lemma of_nat_clock: "m \<le> n \<Longrightarrow> n \<le> 5000 \<Longrightarrow> (of_nat m :: u32) \<le> of_nat n"
  by (simp add: word_le_nat_alt unat_of_nat)

lemma parseClock_sound: "parseClock value = Inr clock \<Longrightarrow> sound_clock clock"
proof -
  assume a: "parseClock value = Inr clock"
  let ?parts = "Split CHR '','' (TrimSpace value)"
  show ?thesis
  proof (cases clock)
    case (Some c)
    with a obtain ns where ns: "clock_values ?parts = Some ns" and len: "length ?parts \<le> 2"
      and c: "c = (if length ns = 1 then (of_nat (ns ! 0), of_nat (ns ! 0)) else (of_nat (ns ! 0), of_nat (ns ! 1)))"
      and ord: "length ns = 1 \<or> ns ! 0 \<le> ns ! 1"
      by (auto simp: parseClock_def Let_def split: option.splits if_splits)
    have "length ns = 1 \<or> length ns = 2"
      using clock_values_bounds [OF ns] len by (cases ?parts) (auto simp: le_Suc_eq)
    then show ?thesis
    proof
      assume 1: "length ns = 1"
      then have "100 \<le> ns ! 0 \<and> ns ! 0 \<le> 5000" using clock_values_bounds [OF ns] by auto
      then show ?thesis
        using of_nat_clock [of 100 "ns ! 0"] of_nat_clock [of "ns ! 0" 5000] by (simp add: Some c 1 sound_clock_def)
    next
      assume 2: "length ns = 2"
      then have "100 \<le> ns ! 0 \<and> ns ! 0 \<le> 5000 \<and> 100 \<le> ns ! 1 \<and> ns ! 1 \<le> 5000"
        using clock_values_bounds [OF ns] by auto
      then show ?thesis
        using of_nat_clock [of 100 "ns ! 0"] of_nat_clock [of "ns ! 0" "ns ! 1"] of_nat_clock [of "ns ! 1" 5000] ord 2
        by (simp add: Some c sound_clock_def)
    qed
  qed (simp add: sound_clock_def)
qed

lemma parseCoreOffset_sound: "parseCoreOffset value = Inr off \<Longrightarrow> sound_offset off"
  by (auto simp: parseCoreOffset_def sound_offset_def Let_def split: option.splits if_splits)

definition sound_start :: "'w genv \<Rightarrow> gconf \<times> gov \<Rightarrow> bool" where
  "sound_start E r = (case r of (cf, g) \<Rightarrow>
     idle_after cf \<ge> 1 \<and> 1 \<le> util_threshold cf \<and> util_threshold cf \<le> 100 \<and>
     1 \<le> fan_auto_temp cf \<and> fan_auto_temp cf \<le> 120 \<and>
     sound_clock (load_clock cf) \<and> sound_offset (core_offset cf) \<and> g = initial E)"

definition start :: "'w genv \<Rightarrow> (string \<Rightarrow> string) \<Rightarrow> option_error + gconf \<times> gov" where
  "start E env = (case env_options env of Inl e \<Rightarrow> Inl e | Inr opts \<Rightarrow> New E opts)"

lemma envInt_positive: "envInt env name fallback = Inr n \<Longrightarrow> 0 < fallback \<Longrightarrow> 0 < n"
  by (auto simp: envInt_def Let_def split: option.splits if_splits)

lemma small_word: "0 < n \<Longrightarrow> n \<le> 120 \<Longrightarrow> uint (word_of_int n :: u32) = n"
  by (simp add: uint_word_of_int)

lemma env_options_sound:
  "env_options env = Inr opts \<Longrightarrow> 1 \<le> o_util opts \<and> o_util opts \<le> 100 \<and> 1 \<le> o_temp opts \<and> o_temp opts \<le> 120 \<and>
     0 < o_idle opts"
  by (auto simp: env_options_def word_le_def small_word
      dest!: envInt_positive split: sum.splits if_splits)


text \<open>
  The poll period is multiplied in 64 bits: a period of 18446744074 seconds is accepted and becomes
  0.29 seconds.
\<close>

lemma poll_period_wraps:
  "map_sum id o_poll (env_options (\<lambda>name. if name = ''CMP_POLL'' then show_int 18446744074 else [])) = Inr 290448384"
  by (simp add: env_options_def envInt_def ParseInt_show)

end
