(* ===== verification/Governor_Test.thy ===== *)
theory Governor_Test
  imports Governor_Options
begin

text \<open>
  The repository's tests of the governor on the model: \<open>TestPollIdleBusyAndFanTemperature\<close> and
  \<open>TestValidateRejectsWrongHardware\<close> of \<open>governor_test.go\<close> with their fake hardware, and
  \<open>TestParseClock\<close> of \<open>config_test.go\<close>.
\<close>

record fake =
  f_util :: u32
  f_temp :: u32
  f_pstates :: "int list"
  f_fans :: "u32 list"
  f_autoFans :: nat
  f_resetClocks :: nat
  f_setClocks :: "(u32 \<times> u32) list"
  f_coreOffsets :: "int list"

fun fake_cmd :: "gcmd \<Rightarrow> fake \<Rightarrow> bool \<times> fake" where
  "fake_cmd (SetPState _ p) f = (True, f\<lparr>f_pstates := f_pstates f @ [p]\<rparr>)"
| "fake_cmd (ResetLockedClocks _) f = (True, f\<lparr>f_resetClocks := f_resetClocks f + 1\<rparr>)"
| "fake_cmd (SetLockedClocks _ lo hi) f = (True, f\<lparr>f_setClocks := f_setClocks f @ [(lo, hi)]\<rparr>)"
| "fake_cmd (SetCoreOffset _ off) f = (True, f\<lparr>f_coreOffsets := f_coreOffsets f @ [off]\<rparr>)"
| "fake_cmd (SetFan _ p) f = (True, f\<lparr>f_fans := f_fans f @ [p]\<rparr>)"
| "fake_cmd (SetFanAuto _) f = (True, f\<lparr>f_autoFans := f_autoFans f + 1\<rparr>)"

text \<open>The tests use no control request, so these members answer nothing.\<close>

definition fakeHardware :: "gpu list \<Rightarrow> fake genv" where
  "fakeHardware gpus = \<lparr>e_gpus = gpus, e_util = (\<lambda>_ f. (Some (f_util f), f)),
     e_temp = (\<lambda>_ f. (Some (f_temp f), f)), e_cmd = fake_cmd,
     e_decode = (\<lambda>f. (Inl ErrNotExist, f)), e_status_active = (\<lambda>_ f. (None, f)),
     e_status_inactive = id, e_status_error = id, e_order = (\<lambda>_. [])\<rparr>"

definition supportedGPU :: "int \<Rightarrow> gpu" where
  "supportedGPU index = \<lparr>g_index = index, g_bus_id = [], g_device = 0x1e09, g_subsystem = 0x155410de, g_memory = 20 * 1024 * 1024 * 1024\<rparr>"

definition poll_options :: options where
  "poll_options = \<lparr>o_poll = 1000000000, o_idle = 2, o_util = 5, o_temp = 55, o_clock = ''1900'', o_offset = ''225''\<rparr>"

text \<open>The outcome of every check of the test, in order.\<close>

definition test_poll :: "(bool list) option" where
  "test_poll =
     (let E = fakeHardware [supportedGPU 0];
          hw = \<lparr>f_util = 0, f_temp = 28, f_pstates = [], f_fans = [], f_autoFans = 0, f_resetClocks = 0,
            f_setClocks = [], f_coreOffsets = []\<rparr> in
      case New E poll_options of
        Inl e \<Rightarrow> None
      | Inr (cf, g) \<Rightarrow>
          let g0 = g\<lparr>g_control := \<lparr>c_enabled = True, c_profile = ''cmp50-1x20gb'', c_fan = 20\<rparr>, g_active := True\<rparr>;
              ((ok1, g1), (hw1, _)) = run_state (poll E cf g0) (hw, []);
              ((ok2, g2), (hw2, _)) = run_state (poll E cf g1) (hw1, []);
              ((ok3, g3), (hw3, _)) = run_state (poll E cf g2) (hw2\<lparr>f_util := 100\<rparr>, []) in
          Some [ok1, ok2, f_pstates hw2 = [8], f_fans hw2 = [20], f_coreOffsets hw2 = [0],
            ok3, length (f_pstates hw3) = 2 \<and> f_pstates hw3 ! 1 = 16, f_autoFans hw3 = 1,
            f_setClocks hw3 = [(1900, 1900)], length (f_coreOffsets hw3) = 2 \<and> f_coreOffsets hw3 ! 1 = 225])"

definition test_validate :: bool where
  "test_validate =
     (\<not> validate [(supportedGPU 0)\<lparr>g_device := 0x220d\<rparr>] \<lparr>c_enabled = False, c_profile = ''cmp50-1x20gb'', c_fan = 0\<rparr>)"

definition test_parse_clock :: bool where
  "test_parse_clock \<longleftrightarrow> parseClock ''1700,1980'' = Inr (Some (1700, 1980)) \<and>
     list_all (\<lambda>value. case parseClock value of Inl e \<Rightarrow> True | Inr c \<Rightarrow> False)
       [''99'', ''2000,1000'', ''1,2,3'', ''bad'']"

definition test_conf :: gconf where
  "test_conf = \<lparr>idle_after = 2, util_threshold = 5, fan_auto_temp = 55, load_clock = Some (1900, 1900), core_offset = Some 225\<rparr>"

lemma dec_texts:
  "''1900'' = dec 1900" "''225'' = show_int 225" "''1700,1980'' = dec 1700 @ CHR '','' # dec 1980" "''99'' = dec 99"
  "''2000,1000'' = dec 2000 @ CHR '','' # dec 1000"
  by code_simp+

lemma new_poll_options: "New E poll_options = Inr (test_conf, initial E)"
  unfolding poll_options_def dec_texts
  by (simp add: New_def parseClock_one parseCoreOffset_show test_conf_def)

lemma profile_1: "profile_count ''cmp50-1x20gb'' = 1"
  by (simp add: profile_count_def Profiles_def)

text \<open>One poll of the only card.\<close>

lemma poll_one:
  assumes "c_profile (g_control g) = ''cmp50-1x20gb''" and "g_states g 0 = Some c"
  shows "poll E cf g = do { (ok, c') \<leftarrow> poll_card E cf (g_control g) 0 c; ret (ok, g\<lparr>g_states := (g_states g)(0 \<mapsto> c')\<rparr>) }"
  using assms by (simp add: poll_def profile_1 Let_def cong: if_cong) (rule arg_cong [where f = "State_Monad.bind _"], auto)

lemmas fake_run = poll_card_def enter_low_def adjust_fan_def release_def restoreClocks_def restoreCoreOffset_def
  utilization_def temperature_def command_def fakeHardware_def Let_def test_conf_def

text \<open>
 The repository's tests pass on the model: after two idle polls the card is in P8 with its fan at
  20 percent and no core offset; one busy poll gives back P-state, fan, clocks and core offset; a
  wrong board is refused; and clocks are parsed or refused as the test wants.
\<close>

lemma governor_tests_pass:
  "test_poll = Some (replicate 10 True) \<and> test_validate \<and> test_parse_clock"
proof (intro conjI)
  show "test_poll = Some (replicate 10 True)"
    unfolding test_poll_def new_poll_options Let_def sum.case prod.case
    by (simp add: poll_one initial_def fresh_def supportedGPU_def fake_run autoPState_def)
      (simp add: numeral_eq_Suc)
  show test_validate by (simp add: test_validate_def validate_def profile_1 supportedGPU_def Let_def)
  have "TrimSpace ''1,2,3'' = ''1,2,3''" "TrimSpace ''bad'' = ''bad''"
    by (simp_all add: TrimSpace_solid solid_def)
  then have "parseClock ''1,2,3'' = Inl ClockParts" "parseClock ''bad'' = Inl ClockRange"
    by (simp_all add: parseClock_def ParseUint_def is_digit_def digit_of_def)
  then show test_parse_clock
    unfolding test_parse_clock_def dec_texts by (simp add: parseClock_one parseClock_pair)
qed

text \<open>
  A governor that enabled a profile and is stopped gives its cards back but leaves the profile
  published: only a disabled, missing or broken request takes the status back.
\<close>

definition enabled_request :: control where
  "enabled_request = \<lparr>c_enabled = True, c_profile = ''cmp50-1x20gb'', c_fan = 0\<rparr>"

lemma stop_keeps_status:
  "let E = (fakeHardware [supportedGPU 0])\<lparr>e_decode := \<lambda>f. (Inr enabled_request, f)\<rparr>;
       evs = trace_of (Run E test_conf [] (initial E)) hw in
   GActive enabled_request None \<in> set evs \<and> GInactive \<notin> set evs \<and> GError \<notin> set evs \<and>
   GCmd (SetPState 0 16) True = last [e \<leftarrow> evs. case e of GCmd (SetPState i p) b \<Rightarrow> True | _ \<Rightarrow> False]"
  by code_simp

end
