(* ===== verification/Identity.thy ===== *)
theory Identity
  imports Rebar Retrain Link_Rate Governor_Contract Verify_Py
begin

text \<open>
  Which boards the parts of the program take for a CMP 50HX, each in its own encoding of the PCI
  identity; the override of the RT core count in \<open>02-cmp50-rt-core-count.patch\<close>; and the profile
  \<open>scripts/governor-profile.sh\<close> chooses for the governor.
\<close>

section \<open>Checks in the resource manager\<close>

text \<open>
  The resource manager and NVML hold a device and its vendor, or a subsystem, in one word, the vendor
  in its low half.
\<close>

definition rm_id :: "u16 \<Rightarrow> u16 \<Rightarrow> u32" where
  "rm_id vendor device = push_bit 16 (ucast device) OR ucast vendor"

definition s_isCmp50Device :: "u32 \<Rightarrow> u32 \<Rightarrow> bool" where
  "s_isCmp50Device PCIDeviceID PCISubDeviceID \<longleftrightarrow>
     PCIDeviceID = 0x1E0910DE \<and> (PCISubDeviceID = 0x155410DE \<or> PCISubDeviceID = 0x371F1462)"

text \<open>The information words of a graphics engine by index, after the patch; \<open>None\<close> beyond the list.\<close>

definition load_gr_info :: "u32 \<Rightarrow> u32 \<Rightarrow> u32 list \<Rightarrow> u32 list" where
  "load_gr_info PCIDeviceID PCISubDeviceID infoList =
     (if PCIDeviceID = 0x1E0910DE \<and> (PCISubDeviceID = 0x155410DE \<or> PCISubDeviceID = 0x371F1462)
      then infoList[unat NV2080_CTRL_GR_INFO_INDEX_RT_CORE_COUNT := 56] else infoList)"

section \<open>The profile of the governor\<close>

record pci_line =
  l_bdf :: string
  l_class :: string
  l_device :: string

definition starts_with :: "string \<Rightarrow> string \<Rightarrow> bool" where
  "starts_with p s \<longleftrightarrow> take (length p) s = p"

text \<open>The loop: the number of boards, or \<open>None\<close> for an error; \<open>sysfs\<close> reads the two subsystem files.\<close>

fun count_boards :: "(string \<Rightarrow> (string \<times> string) option) \<Rightarrow> pci_line list \<Rightarrow> nat \<Rightarrow> nat option" where
  "count_boards sysfs [] n = Some n"
| "count_boards sysfs (l # ls) n =
     (if \<not> (starts_with ''03'' (l_class l) \<and> starts_with ''10de:'' (l_device l)) then count_boards sysfs ls n
      else if l_device l \<noteq> ''10de:1e09'' then None
      else (case sysfs (l_bdf l) of
              None \<Rightarrow> None
            | Some (vendor, subsystem) \<Rightarrow>
                if vendor @ '':'' @ subsystem \<in> {''0x10de:0x1554'', ''0x1462:0x371f''}
                then count_boards sysfs ls (n + 1) else None))"

definition profile_name :: "nat \<Rightarrow> string" where
  "profile_name n = ''cmp50-'' @ dec n @ ''x20gb''"

definition cmp50_governor_profile :: "(string \<Rightarrow> (string \<times> string) option) \<Rightarrow> pci_line list \<Rightarrow> string option" where
  "cmp50_governor_profile sysfs inventory =
     (case count_boards sysfs inventory 0 of
        None \<Rightarrow> None
      | Some n \<Rightarrow> if n \<in> {1, 2, 4, 6, 8} then Some (profile_name n) else None)"

section \<open>They agree\<close>

lemma rm_id_eq: "rm_id a b = rm_id c d \<longleftrightarrow> a = c \<and> b = d"
proof
  assume e: "rm_id a b = rm_id c d"
  have lo: "ucast (rm_id x y) = x" and hi: "ucast (drop_bit 16 (rm_id x y)) = y" for x y
    by (auto simp: rm_id_def bit_eq_iff bit_simps dest: bit_imp_le_length)
  show "a = c \<and> b = d" using e lo hi by metis
qed simp

lemma rm_id_parts: "rm_id a b AND 0xffff = ucast a" "drop_bit 16 (rm_id a b) = ucast b"
proof -
  have "(0xffff :: u32) = mask 16" by (simp add: mask_eq_exp_minus_1)
  then show "rm_id a b AND 0xffff = ucast a"
    by (auto simp: rm_id_def bit_eq_iff bit_simps dest: bit_imp_le_length)
  show "drop_bit 16 (rm_id a b) = ucast b"
    by (auto simp: rm_id_def bit_eq_iff bit_simps dest: bit_imp_le_length)
qed

text \<open>
  C33. Every part of the program takes the same boards for a CMP 50HX: the two BAR0 tools from sysfs, the
  resize and the retrain from the kernel's device, the resource manager's unlock, and, among NVIDIA
  boards with 20 GB, the governor from NVML.
\<close>

theorem identity_checks_agree:
  "let ok = nv_cmp50hx_is_supported (Some b);
       device = rm_id (p_vendor b) (p_device b); subsystem = rm_id (p_subsystem_vendor b) (p_subsystem_device b) in
   rebar_supported b = ok \<and>
   supported (ucast (p_vendor b)) (ucast (p_device b)) (ucast (p_subsystem_vendor b)) (ucast (p_subsystem_device b)) = ok \<and>
   link_supported (ucast (p_vendor b)) (ucast (p_device b)) (ucast (p_subsystem_vendor b)) (ucast (p_subsystem_device b)) = ok \<and>
   s_isCmp50Device device subsystem = ok \<and>
   (p_vendor b = PCI_VENDOR_ID_NVIDIA \<and>
    supported_gpu \<lparr>g_index = i, g_bus_id = bid, g_device = drop_bit 16 device, g_subsystem = subsystem, g_memory = m\<rparr>) =
     (ok \<and> memory_ok m)"
proof -
  have narrow: "(ucast (ucast x :: u64) :: u16) = x" "(ucast (ucast x :: u32) :: u16) = x" for x
    by (auto simp: bit_eq_iff bit_simps dest: bit_imp_le_length)
  have wide: "(ucast (x :: u16) = (ucast (c :: u16) :: u64)) = (x = c)" "(ucast x = (ucast c :: u32)) = (x = c)" for x c
    using narrow by metis+
  have n64: "(0x10de :: u64) = ucast (0x10de :: u16)" "(0x1e09 :: u64) = ucast (0x1e09 :: u16)"
    "(0x1554 :: u64) = ucast (0x1554 :: u16)" "(0x1462 :: u64) = ucast (0x1462 :: u16)" "(0x371f :: u64) = ucast (0x371f :: u16)"
    by simp_all
  have n32: "(0x10de :: u32) = ucast (0x10de :: u16)" "(0x1e09 :: u32) = ucast (0x1e09 :: u16)"
    "(0x1554 :: u32) = ucast (0x1554 :: u16)" "(0x1462 :: u32) = ucast (0x1462 :: u16)" "(0x371f :: u32) = ucast (0x371f :: u16)"
    by simp_all
  have ids: "0x1E0910DE = rm_id 0x10de 0x1e09" "0x155410DE = rm_id 0x10de 0x1554" "0x371F1462 = rm_id 0x1462 0x371f"
    by (simp_all add: rm_id_def)
  have "supported (ucast (p_vendor b)) (ucast (p_device b)) (ucast (p_subsystem_vendor b)) (ucast (p_subsystem_device b)) =
      nv_cmp50hx_is_supported (Some b)"
    unfolding supported_def n64 wide by (auto simp: nv_cmp50hx_is_supported_def PCI_VENDOR_ID_NVIDIA_def)
  moreover have "s_isCmp50Device (rm_id (p_vendor b) (p_device b)) (rm_id (p_subsystem_vendor b) (p_subsystem_device b)) =
      nv_cmp50hx_is_supported (Some b)"
    unfolding s_isCmp50Device_def ids rm_id_eq by (auto simp: nv_cmp50hx_is_supported_def PCI_VENDOR_ID_NVIDIA_def)
  moreover have "(p_vendor b = PCI_VENDOR_ID_NVIDIA \<and>
      supported_gpu \<lparr>g_index = i, g_bus_id = bid, g_device = drop_bit 16 (rm_id (p_vendor b) (p_device b)),
        g_subsystem = rm_id (p_subsystem_vendor b) (p_subsystem_device b), g_memory = m\<rparr>) =
      (nv_cmp50hx_is_supported (Some b) \<and> memory_ok m)"
    unfolding supported_gpu_def subsystem_ok_def Let_def gpu.simps rm_id_parts n32 wide
    by (auto simp: nv_cmp50hx_is_supported_def PCI_VENDOR_ID_NVIDIA_def)
  moreover have "rebar_supported b = nv_cmp50hx_is_supported (Some b)"
    by (auto simp: rebar_supported_def nv_cmp50hx_is_supported_def PCI_VENDOR_ID_NVIDIA_def)
  ultimately show ?thesis by (simp add: Let_def link_supported_eq)
qed

text \<open>
  The patched driver reports 56 RT cores, the number the consumer of the probe expects, for every
  CMP 50HX, changes no other information word, and reports other boards as they are.
\<close>

lemma rt_core_override:
  "tbl (load_gr_info device subsystem infoList) i =
     (if s_isCmp50Device device subsystem \<and> i = unat NV2080_CTRL_GR_INFO_INDEX_RT_CORE_COUNT \<and> i < length infoList
      then Some 56 else tbl infoList i) \<and>
   map_of expected_gr ''RT_CORE_COUNT'' = Some 56"
  by (auto simp: load_gr_info_def s_isCmp50Device_def tbl_def expected_gr_def nth_list_update)

definition nvidia_display :: "pci_line \<Rightarrow> bool" where
  "nvidia_display l \<longleftrightarrow> starts_with ''03'' (l_class l) \<and> starts_with ''10de:'' (l_device l)"

lemma count_boards_all:
  "count_boards sysfs ls n = Some m \<Longrightarrow> m = n + length (filter nvidia_display ls) \<and>
     list_all (\<lambda>l. l_device l = ''10de:1e09'') (filter nvidia_display ls)"
proof (induction ls arbitrary: n)
  case (Cons l ls)
  show ?case
  proof (cases "nvidia_display l")
    case True
    with Cons.prems have "count_boards sysfs ls (n + 1) = Some m" "l_device l = ''10de:1e09''"
      by (auto simp: nvidia_display_def split: if_splits option.splits prod.splits)
    with Cons.IH [of "n + 1"] True show ?thesis by simp
  next
    case False
    with Cons.prems have "count_boards sysfs ls n = Some m"
      by (simp add: nvidia_display_def split: if_splits)
    with Cons.IH [of n] False show ?thesis by simp
  qed
qed simp

lemma Profiles_names: "Profiles = map (\<lambda>n. (profile_name n, n)) [1, 2, 4, 6, 8]"
  by code_simp

lemma profile_name_eq: "profile_name m = profile_name n \<longleftrightarrow> m = n"
proof
  assume "profile_name m = profile_name n"
  then have "dec m = dec n" by (simp add: profile_name_def)
  then have "num_of 10 (dec m) = num_of 10 (dec n)" by (rule arg_cong)
  then show "m = n" by (simp add: num_of_digs)
qed simp

lemma map_of_Profiles: "map_of Profiles (profile_name n) = (if n \<in> {1, 2, 4, 6, 8} then Some n else None)"
  by (simp add: Profiles_names profile_name_eq)

text \<open>
  The governor knows exactly the profiles the installer's script prints, and each asks for the number
  of boards the script counted; that number is the number of NVIDIA display devices, all of them
  supported boards.
\<close>

lemma profile_counts:
  assumes "cmp50_governor_profile sysfs inventory = Some p"
  shows "profile_count p = length (filter nvidia_display inventory)" "filter nvidia_display inventory \<noteq> []"
    "list_all (\<lambda>l. l_device l = ''10de:1e09'') (filter nvidia_display inventory)"
proof -
  from assms obtain n where n: "count_boards sysfs inventory 0 = Some n" "n \<in> {1, 2, 4, 6, 8}" and p: "p = profile_name n"
    by (auto simp: cmp50_governor_profile_def split: option.splits if_splits)
  have "profile_count p = n" using n(2) map_of_Profiles [of n] by (auto simp: p profile_count_def)
  with n count_boards_all [OF n(1)]
  show "profile_count p = length (filter nvidia_display inventory)" "filter nvidia_display inventory \<noteq> []"
    "list_all (\<lambda>l. l_device l = ''10de:1e09'') (filter nvidia_display inventory)" by auto
qed

end
