(* ===== verification/Nvidia.thy ===== *)
theory Nvidia
  imports Governor
begin

text \<open>
  The binding of the governor to NVML and NVAPI, \<open>internal/nvidia/nvidia.go\<close>: opening the two
  libraries and resolving their functions, listing the GPUs, the operations of the interface
  \<open>Hardware\<close>, and closing.  The libraries are a record of functions over an arbitrary world; every
  call is an event with its arguments, its status and what it stored through its pointers.
\<close>

section \<open>The libraries\<close>

text \<open>\<open>pciInfo\<close> without the fields the code never reads (the legacy bus id, the reserved words).\<close>

record pci_info =
  i_domain :: u32
  i_bus :: u32
  i_device :: u32
  i_device_id :: u32
  i_subsystem :: u32
  i_bus_id :: string

text \<open>
  Handles, addresses and \<open>uintptr\<close> are 64-bit words, a status is the 32 bits of its \<open>int32\<close>.
  \<open>n_dlopen\<close> gives 0 for an error, as \<open>dlopen\<close> does; \<open>n_register\<close> tells whether the symbol was
  found, \<open>n_query\<close> gives the address of an NVAPI function or 0.  \<open>n_enum\<close> gives what NVAPI stored
  from the start of the array of handles.  The last two fields are the orders in which the two
  \<open>range\<close> loops over maps happen to go.
\<close>

record 'w nvlib =
  n_dlopen :: "string \<Rightarrow> 'w \<Rightarrow> u64 \<times> 'w"
  n_register :: "u64 \<Rightarrow> string \<Rightarrow> 'w \<Rightarrow> bool \<times> 'w"
  n_query :: "u32 \<Rightarrow> 'w \<Rightarrow> u64 \<times> 'w"
  n_dlclose :: "u64 \<Rightarrow> 'w \<Rightarrow> bool \<times> 'w"
  n_init :: "'w \<Rightarrow> u32 \<times> 'w"
  n_shutdown :: "'w \<Rightarrow> u32 \<times> 'w"
  n_count :: "'w \<Rightarrow> (u32 \<times> u32) \<times> 'w"
  n_handle :: "u32 \<Rightarrow> 'w \<Rightarrow> (u32 \<times> u64) \<times> 'w"
  n_pci :: "u64 \<Rightarrow> 'w \<Rightarrow> (u32 \<times> pci_info) \<times> 'w"
  n_memory :: "u64 \<Rightarrow> 'w \<Rightarrow> (u32 \<times> u64) \<times> 'w"
  n_util :: "u64 \<Rightarrow> 'w \<Rightarrow> (u32 \<times> u32) \<times> 'w"
  n_temperature :: "u64 \<Rightarrow> u32 \<Rightarrow> 'w \<Rightarrow> (u32 \<times> u32) \<times> 'w"
  n_fans :: "u64 \<Rightarrow> 'w \<Rightarrow> (u32 \<times> u32) \<times> 'w"
  n_set_fan :: "u64 \<Rightarrow> u32 \<Rightarrow> u32 \<Rightarrow> 'w \<Rightarrow> u32 \<times> 'w"
  n_fan_auto :: "u64 \<Rightarrow> u32 \<Rightarrow> 'w \<Rightarrow> u32 \<times> 'w"
  n_reset_clocks :: "u64 \<Rightarrow> 'w \<Rightarrow> u32 \<times> 'w"
  n_set_clocks :: "u64 \<Rightarrow> u32 \<Rightarrow> u32 \<Rightarrow> 'w \<Rightarrow> u32 \<times> 'w"
  n_set_offset :: "u64 \<Rightarrow> u32 \<Rightarrow> 'w \<Rightarrow> u32 \<times> 'w"
  n_nv_init :: "'w \<Rightarrow> u32 \<times> 'w"
  n_nv_unload :: "'w \<Rightarrow> u32 \<times> 'w"
  n_enum :: "'w \<Rightarrow> (u32 \<times> u64 list \<times> u32) \<times> 'w"
  n_bus :: "u64 \<Rightarrow> 'w \<Rightarrow> (u32 \<times> u32) \<times> 'w"
  n_pstate :: "u64 \<Rightarrow> u32 \<Rightarrow> u32 \<Rightarrow> 'w \<Rightarrow> u32 \<times> 'w"
  n_name_order :: "'w \<Rightarrow> string list"
  n_id_order :: "'w \<Rightarrow> u32 list"

text \<open>The events: arguments first, then the status, then what was stored.\<close>

datatype nvevent =
    NDlopen string u64
  | NRegister u64 string bool
  | NQuery u32 u64
  | NDlclose u64 bool
  | MlInit u32
  | MlShutdown u32
  | MlCount u32 u32
  | MlHandle u32 u32 u64
  | MlPci u64 u32 pci_info
  | MlMemory u64 u32 u64
  | MlUtil u64 u32 u32
  | MlTemperature u64 u32 u32 u32
  | MlFans u64 u32 u32
  | MlSetFan u64 u32 u32 u32
  | MlFanAuto u64 u32 u32
  | MlResetClocks u64 u32
  | MlSetClocks u64 u32 u32 u32
  | MlSetOffset u64 u32 u32
  | NvInit u32
  | NvUnload u32
  | NvEnum u32 "u64 list" u32
  | NvBus u64 u32 u32
  | NvPState u64 u32 u32 u32

type_synonym ('w, 'a) nvproc = "('w, nvevent, 'a) traced"

text \<open>Some order of the keys of a map.\<close>

definition ranged :: "('w \<Rightarrow> 'k list) \<Rightarrow> 'k list \<Rightarrow> ('w, 'e, 'k list) traced" where
  "ranged f keys = State (\<lambda>(w, tr). (remdups ([k \<leftarrow> f w. k \<in> set keys] @ keys), (w, tr)))"

section \<open>Data\<close>

datatype nverror =
    LoadError string
  | ResolveError string
  | Unavailable u32
  | StatusError string u32
  | NoHandle u32 u32
  | OutOfRange int
  | CloseError

text \<open>\<open>device\<close> and \<open>api\<close>; of the function pointers only the two that \<open>Close\<close> compares with \<open>nil\<close>.\<close>

record device =
  d_info :: gpu
  d_handle :: u64
  d_nv_handle :: u64
  d_fans :: u32

record api =
  a_ml :: u64
  a_nvapi :: u64
  a_mlShutdown :: bool
  a_nvUnload :: bool
  a_devices :: "device list"

definition nvmlTemperatureGPU :: u32 where "nvmlTemperatureGPU = 0"
definition maxPhysicalGPUs :: nat where "maxPhysicalGPUs = 64"

text \<open>\<open>cString\<close>: up to the first zero byte.\<close>

definition cString :: "string \<Rightarrow> string" where
  "cString value = takeWhile (\<lambda>c. c \<noteq> CHR 0x00) value"

section \<open>Listing the GPUs\<close>

text \<open>The array of handles, which starts zeroed, after NVAPI stored \<open>hs\<close> into it.\<close>

definition nv_array :: "u64 list \<Rightarrow> u64 list" where
  "nv_array hs = take maxPhysicalGPUs (hs @ replicate maxPhysicalGPUs 0)"

fun find_nv :: "'w nvlib \<Rightarrow> u32 \<Rightarrow> u64 list \<Rightarrow> ('w, u64) nvproc" where
  "find_nv L bus [] = ret 0"
| "find_nv L bus (h # hs) = do {
     (st, b) \<leftarrow> call (n_bus L h) (\<lambda>(st, b). NvBus h st b);
     if st = 0 \<and> b = bus then ret h else find_nv L bus hs
   }"

definition make_device :: "u32 \<Rightarrow> u64 \<Rightarrow> u64 \<Rightarrow> pci_info \<Rightarrow> u64 \<Rightarrow> u32 \<Rightarrow> device" where
  "make_device index handle nvHandle pci memory fans =
     \<lparr>d_info = \<lparr>g_index = uint index, g_bus_id = cString (i_bus_id pci), g_device = drop_bit 16 (i_device_id pci),
        g_subsystem = i_subsystem pci, g_memory = memory\<rparr>,
      d_handle = handle, d_nv_handle = nvHandle, d_fans = fans\<rparr>"

definition list_one :: "'w nvlib \<Rightarrow> u64 list \<Rightarrow> u32 \<Rightarrow> ('w, nverror + device) nvproc" where
  "list_one L nvs index = do {
     (st, handle) \<leftarrow> call (n_handle L index) (\<lambda>(st, h). MlHandle index st h);
     if st \<noteq> 0 then ret (Inl (StatusError ''nvmlDeviceGetHandleByIndex_v2'' st)) else do {
     (st, pci) \<leftarrow> call (n_pci L handle) (\<lambda>(st, p). MlPci handle st p);
     if st \<noteq> 0 then ret (Inl (StatusError ''nvmlDeviceGetPciInfo_v3'' st)) else do {
     (st, memory) \<leftarrow> call (n_memory L handle) (\<lambda>(st, m). MlMemory handle st m);
     if st \<noteq> 0 then ret (Inl (StatusError ''nvmlDeviceGetMemoryInfo'' st)) else do {
     (st, fans) \<leftarrow> call (n_fans L handle) (\<lambda>(st, f). MlFans handle st f);
     if st \<noteq> 0 then ret (Inl (StatusError ''nvmlDeviceGetNumFans'' st)) else do {
     nvHandle \<leftarrow> find_nv L (i_bus pci) nvs;
     ret (if nvHandle = 0 then Inl (NoHandle index (i_bus pci))
          else Inr (make_device index handle nvHandle pci memory fans))
     }}}}
   }"

fun list_gpus :: "'w nvlib \<Rightarrow> u64 list \<Rightarrow> u32 list \<Rightarrow> device list \<Rightarrow> ('w, nverror option \<times> device list) nvproc" where
  "list_gpus L nvs [] ds = ret (None, ds)"
| "list_gpus L nvs (index # is) ds = do {
     r \<leftarrow> list_one L nvs index;
     (case r of Inl e \<Rightarrow> ret (Some e, ds) | Inr d \<Rightarrow> list_gpus L nvs is (ds @ [d]))
   }"

definition enumerate_gpus :: "'w nvlib \<Rightarrow> api \<Rightarrow> ('w, nverror option \<times> api) nvproc" where
  "enumerate_gpus L a = do {
     (st, n) \<leftarrow> call (n_count L) (\<lambda>(st, n). MlCount st n);
     if st \<noteq> 0 then ret (Some (StatusError ''nvmlDeviceGetCount_v2'' st), a) else do {
     (st, hs, nvCount) \<leftarrow> call (n_enum L) (\<lambda>(st, hs, n). NvEnum st hs n);
     if st \<noteq> 0 then ret (Some (StatusError ''NvAPI_EnumPhysicalGPUs'' st), a) else do {
     (e, ds) \<leftarrow> list_gpus L (take (unat nvCount) (nv_array hs)) (map of_nat [0..<unat n]) (a_devices a);
     ret (e, a\<lparr>a_devices := ds\<rparr>)
     }}
   }"

section \<open>Closing\<close>

text \<open>The joined errors; none is \<open>nil\<close>.\<close>

definition nv_Close :: "'w nvlib \<Rightarrow> api \<Rightarrow> ('w, nverror list \<times> api) nvproc" where
  "nv_Close L a = do {
     (e1, a) \<leftarrow> (if a_nvUnload a then do {
         st \<leftarrow> call (n_nv_unload L) NvUnload;
         ret (if st \<noteq> 0 then [StatusError ''NvAPI_Unload'' st] else [], a\<lparr>a_nvUnload := False\<rparr>)
       } else ret ([], a));
     (e2, a) \<leftarrow> (if a_mlShutdown a then do {
         st \<leftarrow> call (n_shutdown L) MlShutdown;
         ret (if st \<noteq> 0 then [StatusError ''nvmlShutdown'' st] else [], a\<lparr>a_mlShutdown := False\<rparr>)
       } else ret ([], a));
     (e3, a) \<leftarrow> (if a_nvapi a \<noteq> 0 then do {
         ok \<leftarrow> call (n_dlclose L (a_nvapi a)) (NDlclose (a_nvapi a));
         ret (if ok then [] else [CloseError], a\<lparr>a_nvapi := 0\<rparr>)
       } else ret ([], a));
     (e4, a) \<leftarrow> (if a_ml a \<noteq> 0 then do {
         ok \<leftarrow> call (n_dlclose L (a_ml a)) (NDlclose (a_ml a));
         ret (if ok then [] else [CloseError], a\<lparr>a_ml := 0\<rparr>)
       } else ret ([], a));
     ret (e1 @ e2 @ e3 @ e4, a)
   }"

section \<open>Opening\<close>

definition ml_name :: string where "ml_name = ''libnvidia-ml.so.1''"
definition nv_name :: string where "nv_name = ''libnvidia-api.so.1''"
definition query_name :: string where "query_name = ''nvapi_QueryInterface''"

definition ml_symbols :: "string list" where
  "ml_symbols = [''nvmlInit_v2'', ''nvmlShutdown'', ''nvmlDeviceGetCount_v2'', ''nvmlDeviceGetHandleByIndex_v2'',
     ''nvmlDeviceGetPciInfo_v3'', ''nvmlDeviceGetMemoryInfo'', ''nvmlDeviceGetUtilizationRates'',
     ''nvmlDeviceGetTemperature'', ''nvmlDeviceGetNumFans'', ''nvmlDeviceSetFanSpeed_v2'',
     ''nvmlDeviceSetDefaultFanSpeed_v2'', ''nvmlDeviceResetGpuLockedClocks'',
     ''nvmlDeviceSetGpuLockedClocks'', ''nvmlDeviceSetGpcClkVfOffset'']"

definition id_init :: u32 where "id_init = 0x0150E828"
definition id_unload :: u32 where "id_unload = 0xD22BDD7E"
definition id_enum :: u32 where "id_enum = 0xE5AC921F"
definition id_bus :: u32 where "id_bus = 0x1BE0B8E5"
definition id_pstate :: u32 where "id_pstate = 0x025BFB10"

definition nv_ids :: "u32 list" where
  "nv_ids = [id_init, id_unload, id_enum, id_bus, id_pstate]"

fun register_all :: "'w nvlib \<Rightarrow> string list \<Rightarrow> api \<Rightarrow> ('w, nverror option \<times> api) nvproc" where
  "register_all L [] a = ret (None, a)"
| "register_all L (name # ns) a = do {
     ok \<leftarrow> call (n_register L (a_ml a) name) (NRegister (a_ml a) name);
     if \<not> ok then ret (Some (ResolveError name), a)
     else register_all L ns (if name = ''nvmlShutdown'' then a\<lparr>a_mlShutdown := True\<rparr> else a)
   }"

fun bind_all :: "'w nvlib \<Rightarrow> u32 list \<Rightarrow> api \<Rightarrow> ('w, nverror option \<times> api) nvproc" where
  "bind_all L [] a = ret (None, a)"
| "bind_all L (i # is) a = do {
     address \<leftarrow> call (n_query L i) (NQuery i);
     if address = 0 then ret (Some (Unavailable i), a)
     else bind_all L is (if i = id_unload then a\<lparr>a_nvUnload := True\<rparr> else a)
   }"

definition open_ml :: "'w nvlib \<Rightarrow> api \<Rightarrow> ('w, nverror option \<times> api) nvproc" where
  "open_ml L a = do {
     h \<leftarrow> call (n_dlopen L ml_name) (NDlopen ml_name);
     let a = a\<lparr>a_ml := h\<rparr>;
     if h = 0 then ret (Some (LoadError ''NVML''), a) else do {
     names \<leftarrow> ranged (n_name_order L) ml_symbols;
     (e, a) \<leftarrow> register_all L names a;
     if e \<noteq> None then ret (e, a) else do {
     st \<leftarrow> call (n_init L) MlInit;
     ret (if st \<noteq> 0 then Some (StatusError ''nvmlInit_v2'' st) else None, a)
     }}
   }"

definition open_nv :: "'w nvlib \<Rightarrow> api \<Rightarrow> ('w, nverror option \<times> api) nvproc" where
  "open_nv L a = do {
     h \<leftarrow> call (n_dlopen L nv_name) (NDlopen nv_name);
     let a = a\<lparr>a_nvapi := h\<rparr>;
     if h = 0 then ret (Some (LoadError ''NVAPI''), a) else do {
     ok \<leftarrow> call (n_register L h query_name) (NRegister h query_name);
     if \<not> ok then ret (Some (ResolveError query_name), a) else do {
     ids \<leftarrow> ranged (n_id_order L) nv_ids;
     (e, a) \<leftarrow> bind_all L ids a;
     if e \<noteq> None then ret (e, a) else do {
     st \<leftarrow> call (n_nv_init L) NvInit;
     ret (if st \<noteq> 0 then Some (StatusError ''NvAPI_Initialize'' st) else None, a)
     }}}
   }"

definition nv_Open :: "'w nvlib \<Rightarrow> ('w, nverror + api) nvproc" where
  "nv_Open L = do {
     (e, a) \<leftarrow> open_ml L \<lparr>a_ml = 0, a_nvapi = 0, a_mlShutdown = False, a_nvUnload = False, a_devices = []\<rparr>;
     (e, a) \<leftarrow> (if e = None then open_nv L a else ret (e, a));
     (e, a) \<leftarrow> (if e = None then enumerate_gpus L a else ret (e, a));
     (case e of
        None \<Rightarrow> ret (Inr a)
      | Some e \<Rightarrow> do { nv_Close L a; ret (Inl e) })
   }"

section \<open>The interface \<open>Hardware\<close>\<close>

definition GPUs :: "device list \<Rightarrow> gpu list" where
  "GPUs ds = map d_info ds"

definition nv_device :: "device list \<Rightarrow> int \<Rightarrow> nverror + device" where
  "nv_device ds index =
     (if index < 0 \<or> index \<ge> int (length ds) then Inl (OutOfRange index) else Inr (ds ! nat index))"

definition nv_Utilization :: "'w nvlib \<Rightarrow> device list \<Rightarrow> int \<Rightarrow> ('w, nverror + u32) nvproc" where
  "nv_Utilization L ds index =
     (case nv_device ds index of
        Inl e \<Rightarrow> ret (Inl e)
      | Inr d \<Rightarrow> do {
          (st, v) \<leftarrow> call (n_util L (d_handle d)) (\<lambda>(st, v). MlUtil (d_handle d) st v);
          ret (if st \<noteq> 0 then Inl (StatusError ''nvmlDeviceGetUtilizationRates'' st) else Inr v)
        })"

definition nv_Temperature :: "'w nvlib \<Rightarrow> device list \<Rightarrow> int \<Rightarrow> ('w, nverror + u32) nvproc" where
  "nv_Temperature L ds index =
     (case nv_device ds index of
        Inl e \<Rightarrow> ret (Inl e)
      | Inr d \<Rightarrow> do {
          (st, v) \<leftarrow> call (n_temperature L (d_handle d) nvmlTemperatureGPU)
            (\<lambda>(st, v). MlTemperature (d_handle d) nvmlTemperatureGPU st v);
          ret (if st \<noteq> 0 then Inl (StatusError ''nvmlDeviceGetTemperature'' st) else Inr v)
        })"

text \<open>The other operations return an error; here the joined errors, none for \<open>nil\<close>.\<close>

definition status_errors :: "string \<Rightarrow> u32 \<Rightarrow> nverror list" where
  "status_errors operation st = (if st \<noteq> 0 then [StatusError operation st] else [])"

definition nv_SetPState :: "'w nvlib \<Rightarrow> device list \<Rightarrow> int \<Rightarrow> int \<Rightarrow> ('w, nverror list) nvproc" where
  "nv_SetPState L ds index pstate =
     (case nv_device ds index of
        Inl e \<Rightarrow> ret [e]
      | Inr d \<Rightarrow> do {
          st \<leftarrow> call (n_pstate L (d_nv_handle d) (word_of_int pstate) 0) (NvPState (d_nv_handle d) (word_of_int pstate) 0);
          ret (status_errors ''NvAPI_GPU_SetForcePstate'' st)
        })"

definition nv_ResetLockedClocks :: "'w nvlib \<Rightarrow> device list \<Rightarrow> int \<Rightarrow> ('w, nverror list) nvproc" where
  "nv_ResetLockedClocks L ds index =
     (case nv_device ds index of
        Inl e \<Rightarrow> ret [e]
      | Inr d \<Rightarrow> do {
          st \<leftarrow> call (n_reset_clocks L (d_handle d)) (MlResetClocks (d_handle d));
          ret (status_errors ''nvmlDeviceResetGpuLockedClocks'' st)
        })"

definition nv_SetLockedClocks :: "'w nvlib \<Rightarrow> device list \<Rightarrow> int \<Rightarrow> u32 \<Rightarrow> u32 \<Rightarrow> ('w, nverror list) nvproc" where
  "nv_SetLockedClocks L ds index lo hi =
     (case nv_device ds index of
        Inl e \<Rightarrow> ret [e]
      | Inr d \<Rightarrow> do {
          st \<leftarrow> call (n_set_clocks L (d_handle d) lo hi) (MlSetClocks (d_handle d) lo hi);
          ret (status_errors ''nvmlDeviceSetGpuLockedClocks'' st)
        })"

definition nv_SetCoreOffset :: "'w nvlib \<Rightarrow> device list \<Rightarrow> int \<Rightarrow> u32 \<Rightarrow> ('w, nverror list) nvproc" where
  "nv_SetCoreOffset L ds index offset =
     (case nv_device ds index of
        Inl e \<Rightarrow> ret [e]
      | Inr d \<Rightarrow> do {
          st \<leftarrow> call (n_set_offset L (d_handle d) offset) (MlSetOffset (d_handle d) offset);
          ret (status_errors ''nvmlDeviceSetGpcClkVfOffset'' st)
        })"

text \<open>The fans \<open>0\<close> to \<open>n - 1\<close>.\<close>

definition fans_upto :: "nat \<Rightarrow> u32 list" where
  "fans_upto n = map of_nat [0..<n]"

fun roll_back :: "'w nvlib \<Rightarrow> u64 \<Rightarrow> u32 list \<Rightarrow> ('w, unit) nvproc" where
  "roll_back L h [] = skip"
| "roll_back L h (fan # fs) = do { call (n_fan_auto L h fan) (MlFanAuto h fan); roll_back L h fs }"

fun set_fans :: "'w nvlib \<Rightarrow> u64 \<Rightarrow> u32 \<Rightarrow> u32 list \<Rightarrow> ('w, nverror list) nvproc" where
  "set_fans L h percent [] = ret []"
| "set_fans L h percent (fan # fs) = do {
     st \<leftarrow> call (n_set_fan L h fan percent) (MlSetFan h fan percent);
     if st \<noteq> 0 then do {
       roll_back L h (fans_upto (unat fan));
       ret [StatusError ''nvmlDeviceSetFanSpeed_v2'' st]
     } else set_fans L h percent fs
   }"

definition nv_SetFan :: "'w nvlib \<Rightarrow> device list \<Rightarrow> int \<Rightarrow> u32 \<Rightarrow> ('w, nverror list) nvproc" where
  "nv_SetFan L ds index percent =
     (case nv_device ds index of
        Inl e \<Rightarrow> ret [e]
      | Inr d \<Rightarrow> set_fans L (d_handle d) percent (fans_upto (unat (d_fans d))))"

fun auto_fans :: "'w nvlib \<Rightarrow> u64 \<Rightarrow> u32 list \<Rightarrow> ('w, nverror list) nvproc" where
  "auto_fans L h [] = ret []"
| "auto_fans L h (fan # fs) = do {
     st \<leftarrow> call (n_fan_auto L h fan) (MlFanAuto h fan);
     es \<leftarrow> auto_fans L h fs;
     ret (status_errors ''nvmlDeviceSetDefaultFanSpeed_v2'' st @ es)
   }"

definition nv_SetFanAuto :: "'w nvlib \<Rightarrow> device list \<Rightarrow> int \<Rightarrow> ('w, nverror list) nvproc" where
  "nv_SetFanAuto L ds index =
     (case nv_device ds index of
        Inl e \<Rightarrow> ret [e]
      | Inr d \<Rightarrow> auto_fans L (d_handle d) (fans_upto (unat (d_fans d))))"

end
