(* ===== verification/Nvidia_Contract.thy ===== *)
theory Nvidia_Contract
  imports Nvidia "HOL-Library.Sublist"
begin

text \<open>
  What the binding of \<open>Nvidia\<close> promises whatever the libraries answer: which devices the listing
  gives, that a fan command that fails part-way is taken back, that closing twice is closing once,
  and, as an automaton over the calls, that no function is called before its library is open,
  resolved and initialised or after it is closed.
\<close>

lemma emits_ranged [emit]:
  "(\<And>ks. set ks = set keys \<Longrightarrow> distinct ks \<Longrightarrow> Q ks []) \<Longrightarrow> emits (ranged f keys) Q"
proof -
  assume Q: "\<And>ks. set ks = set keys \<Longrightarrow> distinct ks \<Longrightarrow> Q ks []"
  have "Q (remdups ([k \<leftarrow> f w. k \<in> set keys] @ keys)) []" for w
    by (rule Q) auto
  then show ?thesis by (simp add: emits_def ranged_def)
qed

section \<open>The listed devices\<close>

text \<open>
  \<open>seen evs d\<close>: every field of \<open>d\<close> is what a successful call of the trace said of its handle, and
  its NVAPI handle is one for which NVAPI reported the bus number NVML gave.
\<close>

fun pci_says :: "nvevent list \<Rightarrow> device \<Rightarrow> nvevent \<Rightarrow> bool" where
  "pci_says evs d (MlPci h st pci) = (h = d_handle d \<and> st = 0 \<and>
     g_bus_id (d_info d) = cString (i_bus_id pci) \<and> g_device (d_info d) = drop_bit 16 (i_device_id pci) \<and>
     g_subsystem (d_info d) = i_subsystem pci \<and> NvBus (d_nv_handle d) 0 (i_bus pci) \<in> set evs)"
| "pci_says evs d _ = False"

definition seen :: "nvevent list \<Rightarrow> device \<Rightarrow> bool" where
  "seen evs d \<longleftrightarrow> d_nv_handle d \<noteq> 0 \<and>
     MlHandle (word_of_int (g_index (d_info d))) 0 (d_handle d) \<in> set evs \<and>
     MlMemory (d_handle d) 0 (g_memory (d_info d)) \<in> set evs \<and>
     MlFans (d_handle d) 0 (d_fans d) \<in> set evs \<and> list_ex (pci_says evs d) evs"

lemma pci_says_mono: "pci_says xs d ev \<Longrightarrow> set xs \<subseteq> set ys \<Longrightarrow> pci_says ys d ev"
  by (cases ev) auto

lemma seen_mono: "seen xs d \<Longrightarrow> set xs \<subseteq> set ys \<Longrightarrow> seen ys d"
  unfolding seen_def list_ex_iff by (meson pci_says_mono subsetD)

text \<open>
  \<open>blamed e evs\<close>: the reported error is the last thing that happened: a call that gave the status,
  or the search for a bus number, which ended without a handle.
\<close>

fun status_of :: "nvevent \<Rightarrow> u32" where
  "status_of (MlCount st n) = st"
| "status_of (NvEnum st hs n) = st"
| "status_of (MlHandle i st h) = st"
| "status_of (MlPci h st p) = st"
| "status_of (MlMemory h st m) = st"
| "status_of (MlFans h st f) = st"
| "status_of _ = 0"

fun passed_over :: "u32 \<Rightarrow> nvevent \<Rightarrow> bool" where
  "passed_over bus (NvBus h st b) = (h = 0 \<or> st \<noteq> 0 \<or> b \<noteq> bus)"
| "passed_over bus (MlFans h st f) = (st = 0)"
| "passed_over bus _ = False"

fun blamed :: "nverror \<Rightarrow> nvevent list \<Rightarrow> bool" where
  "blamed (StatusError operation st) evs = (st \<noteq> 0 \<and> evs \<noteq> [] \<and> status_of (last evs) = st)"
| "blamed (NoHandle index bus) evs = (evs \<noteq> [] \<and> passed_over bus (last evs))"
| "blamed _ evs = False"

lemma blamed_append: "blamed e ys \<Longrightarrow> blamed e (xs @ ys)"
  by (cases e) auto

lemma emits_find_nv: "emits (find_nv L bus hs) (\<lambda>h evs.
    (h \<noteq> 0 \<and> NvBus h 0 bus \<in> set evs) \<or> (h = 0 \<and> list_all (passed_over bus) evs))"
proof (induction hs)
  case Nil
  show ?case by (simp add: emits_return)
next
  case (Cons k hs)
  show ?case
    unfolding find_nv.simps
  proof (intro emit, goal_cases)
    case (1 r st b)
    then show ?case by (cases "k = 0") auto
  next
    case (2 r st b)
    then show ?case by (intro emits_mono [OF Cons.IH]) auto
  qed
qed

definition listed :: "u32 \<Rightarrow> nverror + device \<Rightarrow> nvevent list \<Rightarrow> bool" where
  "listed i r evs \<longleftrightarrow> (case r of Inl e \<Rightarrow> blamed e evs | Inr d \<Rightarrow> g_index (d_info d) = uint i \<and> seen evs d)"

lemma emits_list_one: "emits (list_one L nvs i) (listed i)"
proof -
  have last: "blamed (NoHandle i bus) (MlHandle i 0 h # MlPci h 0 pci # MlMemory h 0 m # MlFans h 0 f # evs)"
    if "list_all (passed_over bus) evs" for bus h pci m f evs
    using that by (cases evs rule: rev_cases) auto
  have done_: "seen (MlHandle i 0 h # MlPci h 0 pci # MlMemory h 0 m # MlFans h 0 f # evs) (make_device i h nv pci m f)"
    if "nv \<noteq> 0" "NvBus nv 0 (i_bus pci) \<in> set evs" for h pci m f nv evs
    using that by (simp add: seen_def make_device_def)
  show ?thesis
    unfolding list_one_def
  proof (intro emit, goal_cases)
    case (5 r1 s1 h r2 s2 pci r3 s3 m r4 s4 f)
    then show ?case
      by (intro emits_mono [OF emits_find_nv] emits_return)
        (auto simp: listed_def make_device_def last simp del: blamed.simps intro: done_ [unfolded make_device_def])
  qed (auto simp: listed_def)
qed

definition listing :: "device list \<Rightarrow> u32 list \<Rightarrow> nverror option \<times> device list \<Rightarrow> nvevent list \<Rightarrow> bool" where
  "listing ds ixs r evs \<longleftrightarrow> (case r of (e, ds') \<Rightarrow>
     \<exists>new. ds' = ds @ new \<and> list_all (seen evs) new \<and> prefix (map (g_index \<circ> d_info) new) (map uint ixs) \<and>
       (case e of None \<Rightarrow> length new = length ixs | Some e \<Rightarrow> blamed e evs))"

lemma emits_list_gpus: "emits (list_gpus L nvs ixs ds) (listing ds ixs)"
proof (induction ixs arbitrary: ds)
  case Nil
  show ?case by (simp add: emits_return listing_def)
next
  case (Cons i ixs)
  show ?case
    unfolding list_gpus.simps
  proof (rule emits_bindI [OF emits_list_one], rule emits_sum, goal_cases)
    case (1 r e1 e)
    then show ?case by (intro emits_return) (auto simp: listing_def listed_def)
  next
    case (2 r e1 d)
    then have d: "g_index (d_info d) = uint i" "seen e1 d" by (simp_all add: listed_def)
    show ?case
    proof (rule emits_mono [OF Cons.IH])
      fix r' e2
      assume "listing (ds @ [d]) ixs r' e2"
      then obtain e ds' new where r': "r' = (e, ds')" and new: "ds' = ds @ d # new" "list_all (seen e2) new"
        "prefix (map (g_index \<circ> d_info) new) (map uint ixs)"
        "case e of None \<Rightarrow> length new = length ixs | Some e \<Rightarrow> blamed e e2"
        by (auto simp: listing_def)
      have "list_all (seen (e1 @ e2)) (d # new)"
        using d(2) new(2) by (auto simp: list_all_iff intro: seen_mono)
      moreover have "case e of None \<Rightarrow> length (d # new) = length (i # ixs) | Some e \<Rightarrow> blamed e (e1 @ e2)"
        using new(4) by (auto split: option.splits intro: blamed_append)
      ultimately show "listing ds (i # ixs) r' (e1 @ e2)"
        using new(1,3) d(1) unfolding listing_def r' prod.case by (intro exI [of _ "d # new"]) auto
    qed
  qed
qed

lemma uint_upto: "map uint (map of_nat [0..<unat (n :: u32)] :: u32 list) = map int [0..<unat n]"
  by (auto simp: uint_nat unat_of_nat unsigned_less take_bit_nat_eq_self less_trans)

lemma emits_enumerate:
  "emits (enumerate_gpus L (a\<lparr>a_devices := []\<rparr>)) (\<lambda>(e, a') evs. let ds = a_devices a' in
     a' = a\<lparr>a_devices := ds\<rparr> \<and> map (g_index \<circ> d_info) ds = map int [0..<length ds] \<and> list_all (seen evs) ds \<and>
     (case e of None \<Rightarrow> MlCount 0 (of_nat (length ds)) \<in> set evs | Some e \<Rightarrow> blamed e evs))"
proof -
  have idx: "map (g_index \<circ> d_info) ds = map int [0..<length ds]"
    if "prefix (map (g_index \<circ> d_info) ds) (map int [0..<k])" for ds k
  proof -
    from that have "length ds \<le> k" by (auto dest: prefix_length_le)
    from that have "map (g_index \<circ> d_info) ds = take (length ds) (map int [0..<k])"
      by (metis length_map append_eq_conv_conj prefix_def)
    also have "\<dots> = map int [0..<length ds]" using \<open>length ds \<le> k\<close> by (simp add: take_map)
    finally show ?thesis .
  qed
  show ?thesis
    unfolding enumerate_gpus_def
  proof (intro emit, goal_cases)
    case (3 r st n r' st' p hs nvc)
    show ?case
    proof (rule emits_mono [OF emits_list_gpus], goal_cases)
      case (1 x evs)
      then obtain e ds where x: "x = (e, ds)" and l: "listing [] (map of_nat [0..<unat n]) (e, ds) evs"
        by (cases x) auto
      then have ds: "list_all (seen evs) ds" "prefix (map (g_index \<circ> d_info) ds) (map int [0..<unat n])"
        "case e of None \<Rightarrow> length ds = unat n | Some e \<Rightarrow> blamed e evs"
        unfolding listing_def uint_upto by (simp_all split: option.splits)
      have "list_all (seen (y # z # evs)) ds" for y z
        using ds(1) by (auto simp: list_all_iff intro: seen_mono)
      moreover have "blamed b (y # z # evs)" if "blamed b evs" for b y z
        using blamed_append [OF that, of "[y, z]"] by simp
      ultimately show ?case
        using 3 ds(3) idx [OF ds(2)] by (auto simp: x Let_def simp del: o_apply intro!: emits_return split: option.splits)
    qed
  qed (auto simp: Let_def)
qed

text \<open>
  C25. Whatever NVML and NVAPI answer, the listing changes nothing but the devices; they are numbered
  from 0 in order, and every field of every device is what a successful call said of its own handle,
  with an NVAPI handle that is not null and has the bus number NVML gave; without an error there are
  as many as NVML counted, and an error is the failed call, or the failed search, with which the
  listing ended.
\<close>

theorem enumerate_lists:
  "(case result_of (enumerate_gpus L (a\<lparr>a_devices := []\<rparr>)) w of (e, a') \<Rightarrow>
     let evs = trace_of (enumerate_gpus L (a\<lparr>a_devices := []\<rparr>)) w; ds = a_devices a' in
     a' = a\<lparr>a_devices := ds\<rparr> \<and> map (g_index \<circ> d_info) ds = map int [0..<length ds] \<and> list_all (seen evs) ds \<and>
     (case e of None \<Rightarrow> MlCount 0 (of_nat (length ds)) \<in> set evs | Some e \<Rightarrow> blamed e evs))"
  using emits_traceD [OF emits_enumerate [of L a], of w] by (simp add: split_beta)

section \<open>Fans\<close>

text \<open>A command to one fan: the handle, the fan, and the percentage, \<open>None\<close> for automatic.\<close>

fun fan_command :: "nvevent \<Rightarrow> (u64 \<times> u32 \<times> u32 option) option" where
  "fan_command (MlSetFan h f p st) = Some (h, f, Some p)"
| "fan_command (MlFanAuto h f st) = Some (h, f, None)"
| "fan_command _ = None"

lemma emits_roll_back:
  "emits (roll_back L h fs) (\<lambda>_ evs. map fan_command evs = map (\<lambda>f. Some (h, f, None)) fs)"
  by (induction fs) (auto intro!: emit emits_bindI)

lemma emits_auto_fans:
  "emits (auto_fans L h fs) (\<lambda>_ evs. map fan_command evs = map (\<lambda>f. Some (h, f, None)) fs)"
proof (induction fs)
  case (Cons f fs)
  show ?case
    unfolding auto_fans.simps by (rule emits_bind, rule emits_call, rule emits_bindI [OF Cons.IH], rule emits_return) simp
qed (simp add: emits_return)

lemma emits_set_fans:
  "emits (set_fans L h p fs) (\<lambda>r evs.
    if r = [] then evs = map (\<lambda>f. MlSetFan h f p 0) fs
    else \<exists>pre f post st evs'. fs = pre @ f # post \<and> st \<noteq> 0 \<and> r = [StatusError ''nvmlDeviceSetFanSpeed_v2'' st] \<and>
      evs = map (\<lambda>f. MlSetFan h f p 0) pre @ MlSetFan h f p st # evs' \<and>
      map fan_command evs' = map (\<lambda>f. Some (h, f, None)) (fans_upto (unat f)))"
proof (induction fs)
  case Nil
  show ?case by (simp add: emits_return)
next
  case (Cons f fs)
  show ?case
    unfolding set_fans.simps
  proof (intro emit, goal_cases)
    case (1 st)
    show ?case
    proof (rule emits_mono [OF emits_roll_back], goal_cases)
      case (1 x evs)
      with \<open>st \<noteq> 0\<close> show ?case
        by (auto intro!: emits_return exI [of _ "[] :: u32 list"])
    qed
  next
    case (2 st)
    show ?case
    proof (rule emits_mono [OF Cons.IH], goal_cases)
      case (1 r evs)
      with 2 show ?case
      proof (cases "r = []")
        case False
        with 1 obtain pre g post st' evs' where "fs = pre @ g # post" "st' \<noteq> 0"
          "r = [StatusError ''nvmlDeviceSetFanSpeed_v2'' st']"
          "evs = map (\<lambda>f. MlSetFan h f p 0) pre @ MlSetFan h g p st' # evs'"
          "map fan_command evs' = map (\<lambda>f. Some (h, f, None)) (fans_upto (unat g))" by auto
        with 2 False show ?thesis by (auto intro!: exI [of _ "f # pre"])
      qed simp
    qed
  qed
qed

lemma fans_upto_split:
  assumes "fans_upto (unat (n :: u32)) = pre @ f # post"
  shows "pre = fans_upto (length pre) \<and> f = of_nat (length pre) \<and> unat f = length pre \<and> length pre < unat n"
proof -
  let ?k = "length pre"
  have len: "length (fans_upto (unat n)) = unat n" by (simp add: fans_upto_def)
  with assms have k: "?k < unat n" by (metis length_append length_Cons less_add_Suc1 add_Suc_right)
  have "pre = take ?k (fans_upto (unat n))" by (simp add: assms)
  also have "\<dots> = fans_upto ?k" using k by (simp add: fans_upto_def take_map)
  finally have pre: "pre = fans_upto ?k" .
  have "f = fans_upto (unat n) ! ?k" by (simp add: assms)
  also have "\<dots> = of_nat ?k" using k by (simp add: fans_upto_def)
  finally have f: "f = of_nat ?k" .
  moreover from k have "?k < 2 ^ 32" using unat_u32_less [of n] by (simp del: unat_u32_less)
  then have "unat (of_nat ?k :: u32) = ?k" by (simp add: unat_of_nat take_bit_nat_eq_self)
  ultimately show ?thesis using k pre by simp
qed

text \<open>
  C23. Setting the fans of a card is all or nothing: without an error every fan of the card, in order,
  has taken the percentage; else the fans up to some fan took it, that fan gave the status of the
  error, exactly the fans before it were asked to go back to automatic, and nothing else was asked.
  A card number out of range asks nothing.
\<close>

theorem set_fan_rolls_back:
  "(case nv_device ds i of
      Inl e \<Rightarrow> result_of (nv_SetFan L ds i p) w = [e] \<and> trace_of (nv_SetFan L ds i p) w = []
    | Inr d \<Rightarrow> let r = result_of (nv_SetFan L ds i p) w; evs = trace_of (nv_SetFan L ds i p) w;
          h = d_handle d; taken = \<lambda>n. map (\<lambda>f. MlSetFan h f p 0) (fans_upto n) in
        if r = [] then evs = taken (unat (d_fans d))
        else \<exists>k st evs'. k < unat (d_fans d) \<and> st \<noteq> 0 \<and> r = [StatusError ''nvmlDeviceSetFanSpeed_v2'' st] \<and>
          evs = taken k @ MlSetFan h (of_nat k) p st # evs' \<and>
          map fan_command evs' = map (\<lambda>f. Some (h, f, None)) (fans_upto k))"
proof (cases "nv_device ds i")
  case (Inl e)
  then show ?thesis by (simp add: nv_SetFan_def result_of_def trace_of_def)
next
  case (Inr d)
  let ?fs = "fans_upto (unat (d_fans d))"
  note spec = emits_traceD [OF emits_set_fans [of L "d_handle d" p ?fs], of w]
  show ?thesis
  proof (cases "result_of (set_fans L (d_handle d) p ?fs) w = []")
    case True
    with spec Inr show ?thesis by (simp add: nv_SetFan_def Let_def)
  next
    case False
    with spec obtain pre f post st evs' where "?fs = pre @ f # post" and r: "st \<noteq> 0"
      "result_of (set_fans L (d_handle d) p ?fs) w = [StatusError ''nvmlDeviceSetFanSpeed_v2'' st]"
      "trace_of (set_fans L (d_handle d) p ?fs) w =
         map (\<lambda>f. MlSetFan (d_handle d) f p 0) pre @ MlSetFan (d_handle d) f p st # evs'"
      "map fan_command evs' = map (\<lambda>g. Some (d_handle d, g, None)) (fans_upto (unat f))" by auto
    from fans_upto_split [OF this(1)] obtain k where "pre = fans_upto k" "f = of_nat k" "unat f = k" "k < unat (d_fans d)"
      by blast
    with r Inr False show ?thesis by (auto simp: nv_SetFan_def Let_def)
  qed
qed

section \<open>Opening and closing\<close>

text \<open>
  The libraries as the calls so far leave them: their handles, the symbols and the functions of
  each that were found, and whether each is initialised.
\<close>

record libs =
  b_ml :: u64
  b_nv :: u64
  b_names :: "string set"
  b_query :: bool
  b_ids :: "u32 set"
  b_ml_up :: bool
  b_nv_up :: bool

definition no_libs :: libs where
  "no_libs = \<lparr>b_ml = 0, b_nv = 0, b_names = {}, b_query = False, b_ids = {}, b_ml_up = False, b_nv_up = False\<rparr>"

fun ml_symbol :: "nvevent \<Rightarrow> string option" where
  "ml_symbol (MlCount st n) = Some ''nvmlDeviceGetCount_v2''"
| "ml_symbol (MlHandle i st h) = Some ''nvmlDeviceGetHandleByIndex_v2''"
| "ml_symbol (MlPci h st p) = Some ''nvmlDeviceGetPciInfo_v3''"
| "ml_symbol (MlMemory h st m) = Some ''nvmlDeviceGetMemoryInfo''"
| "ml_symbol (MlUtil h st u) = Some ''nvmlDeviceGetUtilizationRates''"
| "ml_symbol (MlTemperature h s st t) = Some ''nvmlDeviceGetTemperature''"
| "ml_symbol (MlFans h st f) = Some ''nvmlDeviceGetNumFans''"
| "ml_symbol (MlSetFan h f p st) = Some ''nvmlDeviceSetFanSpeed_v2''"
| "ml_symbol (MlFanAuto h f st) = Some ''nvmlDeviceSetDefaultFanSpeed_v2''"
| "ml_symbol (MlResetClocks h st) = Some ''nvmlDeviceResetGpuLockedClocks''"
| "ml_symbol (MlSetClocks h lo hi st) = Some ''nvmlDeviceSetGpuLockedClocks''"
| "ml_symbol (MlSetOffset h off st) = Some ''nvmlDeviceSetGpcClkVfOffset''"
| "ml_symbol _ = None"

fun nv_id :: "nvevent \<Rightarrow> u32 option" where
  "nv_id (NvEnum st hs n) = Some id_enum"
| "nv_id (NvBus h st b) = Some id_bus"
| "nv_id (NvPState h p z st) = Some id_pstate"
| "nv_id _ = None"

text \<open>
  A function is called only after it was found in its open library, those of the GPUs only while
  their library is initialised; a library is shut down once, and closed only when it is not
  initialised, after which nothing of it may be called.
\<close>

fun lib_step :: "libs \<Rightarrow> nvevent \<Rightarrow> libs option" where
  "lib_step b (NDlopen p h) =
     (if p = ml_name \<and> b_ml b = 0 then Some (b\<lparr>b_ml := h\<rparr>)
      else if p = nv_name \<and> b_nv b = 0 then Some (b\<lparr>b_nv := h\<rparr>) else None)"
| "lib_step b (NRegister h name ok) =
     (if h = 0 then None
      else if name = query_name then (if h = b_nv b then Some (b\<lparr>b_query := ok\<rparr>) else None)
      else if h = b_ml b then Some (if ok then b\<lparr>b_names := insert name (b_names b)\<rparr> else b) else None)"
| "lib_step b (NQuery i address) =
     (if b_query b then Some (if address \<noteq> 0 then b\<lparr>b_ids := insert i (b_ids b)\<rparr> else b) else None)"
| "lib_step b (NDlclose h ok) =
     (if h = 0 then None
      else if h = b_nv b \<and> \<not> b_nv_up b then Some (b\<lparr>b_nv := 0, b_query := False, b_ids := {}\<rparr>)
      else if h = b_ml b \<and> \<not> b_ml_up b then Some (b\<lparr>b_ml := 0, b_names := {}\<rparr>) else None)"
| "lib_step b (MlInit st) =
     (if ''nvmlInit_v2'' \<in> b_names b \<and> \<not> b_ml_up b then Some (b\<lparr>b_ml_up := st = 0\<rparr>) else None)"
| "lib_step b (MlShutdown st) =
     (if ''nvmlShutdown'' \<in> b_names b
      then Some (b\<lparr>b_ml_up := False, b_names := b_names b - {''nvmlShutdown''}\<rparr>) else None)"
| "lib_step b (NvInit st) =
     (if id_init \<in> b_ids b \<and> \<not> b_nv_up b then Some (b\<lparr>b_nv_up := st = 0\<rparr>) else None)"
| "lib_step b (NvUnload st) =
     (if id_unload \<in> b_ids b then Some (b\<lparr>b_nv_up := False, b_ids := b_ids b - {id_unload}\<rparr>) else None)"
| "lib_step b ev =
     (if (case ml_symbol ev of Some s \<Rightarrow> s \<in> b_names b \<and> b_ml_up b
          | None \<Rightarrow> (case nv_id ev of Some i \<Rightarrow> i \<in> b_ids b \<and> b_nv_up b | None \<Rightarrow> False))
      then Some b else None)"

fun lib_run :: "libs \<Rightarrow> nvevent list \<Rightarrow> libs option" where
  "lib_run b [] = Some b"
| "lib_run b (ev # evs) = Option.bind (lib_step b ev) (\<lambda>b'. lib_run b' evs)"

interpretation lib: automaton lib_step lib_run
  by unfold_locales simp_all

definition ml_ready :: "libs \<Rightarrow> bool" where
  "ml_ready b \<longleftrightarrow> b_ml b \<noteq> 0 \<and> b_ml_up b \<and> set ml_symbols \<subseteq> b_names b"

definition nv_ready :: "libs \<Rightarrow> bool" where
  "nv_ready b \<longleftrightarrow> b_nv b \<noteq> 0 \<and> b_nv_up b \<and> set nv_ids \<subseteq> b_ids b"

definition all_closed :: "libs \<Rightarrow> bool" where
  "all_closed b \<longleftrightarrow> b_ml b = 0 \<and> b_nv b = 0 \<and> \<not> b_ml_up b \<and> \<not> b_nv_up b"

text \<open>What the binding remembers agrees with that.\<close>

definition api_rel :: "api \<Rightarrow> libs \<Rightarrow> bool" where
  "api_rel a b \<longleftrightarrow> b_ml b = a_ml a \<and> b_nv b = a_nvapi a \<and>
     a_mlShutdown a = (''nvmlShutdown'' \<in> b_names b) \<and> a_nvUnload a = (id_unload \<in> b_ids b) \<and>
     (b_ml_up b \<longrightarrow> a_mlShutdown a) \<and> (b_nv_up b \<longrightarrow> a_nvUnload a)"

lemma triple_nv_Close:
  "triple lib_run (api_rel a) (nv_Close L a) (\<lambda>(_, a') b. all_closed b \<and> api_rel a' b \<and>
     a' = \<lparr>a_ml = 0, a_nvapi = 0, a_mlShutdown = False, a_nvUnload = False, a_devices = a_devices a\<rparr>)"
  unfolding nv_Close_def triple_def
  by (cases a) (auto intro!: emit simp: api_rel_def all_closed_def)

text \<open>While the libraries are being opened.\<close>

definition half_open :: "api \<Rightarrow> libs \<Rightarrow> bool" where
  "half_open a b \<longleftrightarrow> api_rel a b \<and> b_nv b = 0 \<and> \<not> b_query b \<and> b_ids b = {} \<and> \<not> b_nv_up b"

lemma triple_register_all:
  assumes "query_name \<notin> set names"
  shows "triple lib_run (\<lambda>b. half_open a b \<and> b_ml b \<noteq> 0 \<and> \<not> b_ml_up b \<and> N \<subseteq> b_names b) (register_all L names a)
    (\<lambda>(e, a') b. half_open a' b \<and> b_ml b \<noteq> 0 \<and> \<not> b_ml_up b \<and> (e = None \<longrightarrow> N \<union> set names \<subseteq> b_names b))"
  using assms
proof (induction names arbitrary: a N)
  case Nil
  show ?case by (auto intro: lib.triple_return)
next
  case (Cons name names)
  let ?a = "if name = ''nvmlShutdown'' then a\<lparr>a_mlShutdown := True\<rparr> else a"
  from Cons.prems have names: "query_name \<notin> set names" "name \<noteq> query_name" by auto
  show ?case
    unfolding register_all.simps
  proof (rule lib.triple_bind [where R = "\<lambda>ok b. half_open (if ok then ?a else a) b \<and> b_ml b \<noteq> 0 \<and> \<not> b_ml_up b \<and>
      (ok \<longrightarrow> insert name N \<subseteq> b_names b)"], rule lib.triple_call, goal_cases)
    case (1 b ok)
    with names show ?case by (auto simp: half_open_def api_rel_def)
  next
    case (2 ok)
    show ?case
      by (intro triple_if lib.triple_return triple_conseq [OF Cons.IH [OF names(1), of ?a "insert name N"]])
        (auto split: if_splits)
  qed
qed

lemma in_ml_symbols: "''nvmlInit_v2'' \<in> set ml_symbols" "''nvmlShutdown'' \<in> set ml_symbols"
  by (simp_all add: ml_symbols_def)

lemma in_nv_ids: "id_init \<in> set nv_ids" "id_unload \<in> set nv_ids"
  by (simp_all add: nv_ids_def)

lemma triple_open_ml:
  "triple lib_run (\<lambda>b. b = no_libs) (open_ml L \<lparr>a_ml = 0, a_nvapi = 0, a_mlShutdown = False, a_nvUnload = False, a_devices = []\<rparr>)
    (\<lambda>(e, a) b. half_open a b \<and> (e = None \<longrightarrow> ml_ready b))"
  unfolding open_ml_def Let_def
proof (rule lib.triple_bind [where R = "\<lambda>h b. half_open \<lparr>a_ml = h, a_nvapi = 0, a_mlShutdown = False, a_nvUnload = False, a_devices = []\<rparr> b \<and>
    b_ml b = h \<and> \<not> b_ml_up b"], rule lib.triple_call, goal_cases)
  case (1 b h)
  then show ?case by (auto simp: half_open_def api_rel_def no_libs_def ml_name_def)
next
  case (2 h)
  have q: "query_name \<notin> set ml_symbols" by (simp add: query_name_def ml_symbols_def)
  show ?case
  proof (intro triple_if lib.triple_return, goal_cases)
    case (1 b)
    then show ?case by (simp add: half_open_def)
  next
    case 2
    then show ?case
    proof (intro lib.triple_choice [where R = "\<lambda>ks. set ks = set ml_symbols"], goal_cases)
      case 1
      show ?case by (rule emits_ranged) simp
    next
      case (2 names)
      with q have "query_name \<notin> set names" by simp
      note reg = triple_register_all [OF this, where N = "{}"]
      show ?case
      proof (rule lib.triple_seq [OF reg], goal_cases)
        case (1 b)
        with \<open>h \<noteq> 0\<close> show ?case by simp
      next
        case (2 x)
        show ?case
        proof (rule triple_pair, intro triple_if lib.triple_return, goal_cases)
          case (1 e a b)
          then show ?case by auto
        next
          case (2 e a)
          show ?case
          proof (rule lib.triple_bind [where R = "\<lambda>st b. half_open a b \<and> (st = 0 \<longrightarrow> ml_ready b)"], rule lib.triple_call, goal_cases)
            case (1 b st)
            with 2 \<open>set names = set ml_symbols\<close> have n: "set ml_symbols \<subseteq> b_names b" by simp
            with in_ml_symbols have "''nvmlInit_v2'' \<in> b_names b" "''nvmlShutdown'' \<in> b_names b" by blast+
            with 1 2 n show ?case by (clarsimp simp: half_open_def api_rel_def ml_ready_def)
          next
            case (2 st)
            show ?case by (rule lib.triple_return) auto
          qed
        qed
      qed
    qed
  qed
qed

definition ready_a :: "api \<Rightarrow> libs \<Rightarrow> bool" where
  "ready_a a b \<longleftrightarrow> api_rel a b \<and> ml_ready b \<and> nv_ready b"

lemma ml_ready_shutdown: "ml_ready b \<Longrightarrow> ''nvmlShutdown'' \<in> b_names b"
  using in_ml_symbols unfolding ml_ready_def by blast

lemma triple_bind_all:
  "triple lib_run (\<lambda>b. api_rel a b \<and> ml_ready b \<and> b_query b \<and> b_nv b \<noteq> 0 \<and> \<not> b_nv_up b \<and> N \<subseteq> b_ids b) (bind_all L ixs a)
    (\<lambda>(e, a') b. api_rel a' b \<and> ml_ready b \<and> b_nv b \<noteq> 0 \<and> \<not> b_nv_up b \<and> (e = None \<longrightarrow> N \<union> set ixs \<subseteq> b_ids b))"
proof (induction ixs arbitrary: a N)
  case Nil
  show ?case by (auto intro: lib.triple_return)
next
  case (Cons i ixs)
  let ?a = "if i = id_unload then a\<lparr>a_nvUnload := True\<rparr> else a"
  show ?case
    unfolding bind_all.simps
  proof (rule lib.triple_bind [where R = "\<lambda>address b. api_rel (if address \<noteq> 0 then ?a else a) b \<and> ml_ready b \<and> b_query b \<and>
      b_nv b \<noteq> 0 \<and> \<not> b_nv_up b \<and> (address \<noteq> 0 \<longrightarrow> insert i N \<subseteq> b_ids b)"], rule lib.triple_call, goal_cases)
    case (1 b address)
    then show ?case by (auto simp: api_rel_def ml_ready_def)
  next
    case (2 address)
    show ?case
      by (intro triple_if lib.triple_return triple_conseq [OF Cons.IH [of ?a "insert i N"]]) (auto split: if_splits)
  qed
qed

lemma triple_open_nv:
  "triple lib_run (\<lambda>b. half_open a b \<and> ml_ready b) (open_nv L a)
    (\<lambda>(e, a') b. api_rel a' b \<and> (e = None \<longrightarrow> ready_a a' b))"
  unfolding open_nv_def Let_def
proof (rule lib.triple_bind [where R = "\<lambda>h b. api_rel (a\<lparr>a_nvapi := h\<rparr>) b \<and> ml_ready b \<and> b_nv b = h \<and> \<not> b_nv_up b"],
    rule lib.triple_call, goal_cases)
  case (1 b h)
  then show ?case by (auto simp: half_open_def api_rel_def ml_ready_def ml_name_def nv_name_def)
next
  case (2 h)
  show ?case
  proof (intro triple_if lib.triple_return, goal_cases)
    case 2
    show ?case
    proof (rule lib.triple_bind [where R = "\<lambda>ok b. api_rel (a\<lparr>a_nvapi := h\<rparr>) b \<and> ml_ready b \<and> b_nv b \<noteq> 0 \<and> \<not> b_nv_up b \<and> b_query b = ok"],
        rule lib.triple_call, goal_cases)
      case (1 b ok)
      with 2 show ?case by (auto simp: api_rel_def ml_ready_def)
    next
      case (2 ok)
      show ?case
      proof (intro triple_if lib.triple_return, goal_cases)
        case 2
        show ?case
        proof (intro lib.triple_choice [where R = "\<lambda>ks. set ks = set nv_ids"], goal_cases)
          case 1
          show ?case by (rule emits_ranged) simp
        next
          case (2 ids)
          show ?case
          proof (rule lib.triple_seq [OF triple_bind_all [where N = "{}"]], goal_cases)
            case (1 b)
            with \<open>\<not> \<not> ok\<close> show ?case by simp
          next
            case (2 x)
            show ?case
            proof (rule triple_pair, intro triple_if lib.triple_return, goal_cases)
              case (2 e a')
              show ?case
              proof (rule lib.triple_bind [where R = "\<lambda>st b. api_rel a' b \<and> (st = 0 \<longrightarrow> ready_a a' b)"], rule lib.triple_call, goal_cases)
                case (1 b st)
                with 2 \<open>set ids = set nv_ids\<close> have n: "set nv_ids \<subseteq> b_ids b" by simp
                with in_nv_ids have "id_init \<in> b_ids b" "id_unload \<in> b_ids b" by blast+
                with 1 2 n ml_ready_shutdown [of b] show ?case
                  by (clarsimp simp: ready_a_def api_rel_def ml_ready_def nv_ready_def)
              qed (auto intro!: lib.triple_return)
            qed auto
          qed
        qed
      qed simp
    qed
  qed simp
qed

text \<open>The calls about GPUs change none of that.\<close>

definition device_event :: "nvevent \<Rightarrow> bool" where
  "device_event ev \<longleftrightarrow> ml_symbol ev \<noteq> None \<or> nv_id ev \<noteq> None"

lemma device_event_simps [simp]:
  "device_event (MlCount st n)" "device_event (MlHandle ix st h)" "device_event (MlPci h st pc)"
  "device_event (MlMemory h st m)" "device_event (MlUtil h st u)" "device_event (MlTemperature h se st t)"
  "device_event (MlFans h st f)" "device_event (MlSetFan h f p st)" "device_event (MlFanAuto h f st)"
  "device_event (MlResetClocks h st)" "device_event (MlSetClocks h lo hi st)" "device_event (MlSetOffset h off st)"
  "device_event (NvEnum st hs n)" "device_event (NvBus h st b)" "device_event (NvPState h ps z st)"
  by (simp_all add: device_event_def)

lemma device_event_step:
  assumes "device_event ev" and "ml_ready b" and "nv_ready b"
  shows "lib_step b ev = Some b"
proof -
  have m: "s \<in> b_names b" if "ml_symbol ev = Some s" for s
  proof -
    from that have "s \<in> set ml_symbols" by (cases ev) (simp_all add: ml_symbols_def)
    with assms(2) show ?thesis by (auto simp: ml_ready_def)
  qed
  have n: "i \<in> b_ids b" if "nv_id ev = Some i" for i
  proof -
    from that have "i \<in> set nv_ids" by (cases ev) (simp_all add: nv_ids_def)
    with assms(3) show ?thesis by (auto simp: nv_ready_def)
  qed
  show ?thesis
    using assms m n by (cases ev) (simp_all add: device_event_def ml_ready_def nv_ready_def)
qed

lemma triple_device_events:
  assumes "emits m (\<lambda>x evs. list_all device_event evs \<and> R x)"
  shows "triple lib_run (ready_a a) m (\<lambda>x b. ready_a a b \<and> R x)"
  unfolding triple_def
proof (intro allI impI)
  fix b
  assume "ready_a a b"
  then show "emits m (\<lambda>x evs. \<exists>t. lib_run b evs = Some t \<and> ready_a a t \<and> R x)"
    by (intro emits_mono [OF assms] exI [of _ b])
      (auto simp: ready_a_def list_all_iff intro!: lib.run_neutral device_event_step)
qed

abbreviation only_devices :: "('w, 'a) nvproc \<Rightarrow> bool" where
  "only_devices \<equiv> only device_event"

text \<open>The calls of the listing.\<close>

fun listing_event :: "nvevent \<Rightarrow> bool" where
  "listing_event (MlCount st n) = True"
| "listing_event (MlHandle i st h) = True"
| "listing_event (MlPci h st p) = True"
| "listing_event (MlMemory h st m) = True"
| "listing_event (MlFans h st f) = True"
| "listing_event (NvEnum st hs n) = True"
| "listing_event (NvBus h st b) = True"
| "listing_event _ = False"

lemma listing_event_device: "listing_event ev \<Longrightarrow> device_event ev"
  by (cases ev) simp_all

lemma only_find_nv: "only listing_event (find_nv L bus hs)"
  by (induction hs) (auto intro!: only)

lemma only_list_one: "only listing_event (list_one L nvs i)"
  unfolding list_one_def by (intro only only_find_nv) auto

lemma only_list_gpus: "only listing_event (list_gpus L nvs ixs ds)"
  by (induction ixs arbitrary: ds) (auto intro!: only only_list_one)

lemma only_enumerate: "only listing_event (enumerate_gpus L a)"
  unfolding enumerate_gpus_def by (intro only only_list_gpus) auto

lemma only_roll_back: "only_devices (roll_back L h fs)"
  by (induction fs) (auto intro!: only emits_skip)

lemma only_set_fans: "only_devices (set_fans L h p fs)"
  by (induction fs) (auto intro!: only only_roll_back)

lemma only_auto_fans: "only_devices (auto_fans L h fs)"
  by (induction fs) (auto intro!: only)

lemma only_operations:
  "only_devices (nv_Utilization L ds i)" "only_devices (nv_Temperature L ds i)" "only_devices (nv_SetPState L ds i ps)"
  "only_devices (nv_ResetLockedClocks L ds i)" "only_devices (nv_SetLockedClocks L ds i lo hi)"
  "only_devices (nv_SetCoreOffset L ds i off)" "only_devices (nv_SetFan L ds i p)" "only_devices (nv_SetFanAuto L ds i)"
  unfolding nv_Utilization_def nv_Temperature_def nv_SetPState_def nv_ResetLockedClocks_def nv_SetLockedClocks_def
    nv_SetCoreOffset_def nv_SetFan_def nv_SetFanAuto_def
  by (intro only only_set_fans only_auto_fans; simp split: prod.split)+

text \<open>Listing changes only the devices, which the libraries' state does not depend on.\<close>

lemma enumerate_keeps_api:
  "emits (enumerate_gpus L a) (\<lambda>(e, a') evs. list_all device_event evs \<and> (\<exists>ds. a' = a\<lparr>a_devices := ds\<rparr>))"
proof -
  have "emits (enumerate_gpus L a) (\<lambda>(e, a') _. \<exists>ds. a' = a\<lparr>a_devices := ds\<rparr>)"
    unfolding enumerate_gpus_def
  proof (intro emit, goal_cases)
    case (3 r st n r' st' p hs nvc)
    show ?case by (rule emits_mono [OF only_list_gpus]) (auto intro!: emits_return)
  qed (auto intro!: exI [of _ "a_devices a"])
  from emits_conj [OF only_enumerate this] show ?thesis
    by (rule emits_mono) (auto simp: list_all_iff listing_event_device)
qed

lemma triple_enumerate:
  "triple lib_run (ready_a a) (enumerate_gpus L a) (\<lambda>(e, a') b. ready_a a' b)"
  by (rule triple_conseq [OF triple_device_events [where R = "\<lambda>(e, a'). \<exists>ds. a' = a\<lparr>a_devices := ds\<rparr>"]],
      rule emits_mono [OF enumerate_keeps_api]) (auto simp: ready_a_def api_rel_def)

lemma triple_nv_Open:
  "triple lib_run (\<lambda>b. b = no_libs) (nv_Open L)
    (\<lambda>r b. case r of Inl e \<Rightarrow> all_closed b | Inr a \<Rightarrow> ready_a a b)"
proof -
  let ?Q = "\<lambda>(e, a') b. api_rel a' b \<and> (e = None \<longrightarrow> ready_a a' b)"
  have listed: "triple lib_run (?Q (e, a)) (if e = None then enumerate_gpus L a else ret (e, a)) ?Q" for e a
    by (intro triple_if lib.triple_return triple_conseq [OF triple_enumerate]) (auto simp: ready_a_def)
  have opened: "triple lib_run (\<lambda>b. half_open a b \<and> (e = None \<longrightarrow> ml_ready b))
      (if e = None then open_nv L a else ret (e, a)) ?Q" for e a
    by (intro triple_if lib.triple_return triple_conseq [OF triple_open_nv]) (auto simp: half_open_def)
  have closed: "triple lib_run (api_rel a) (do { nv_Close L a; ret (Inl e) })
      (\<lambda>r b. case r of Inl (e :: nverror) \<Rightarrow> all_closed b | Inr a \<Rightarrow> ready_a a b)" for a e
    by (rule lib.triple_seq [OF triple_nv_Close]) (auto intro: lib.triple_return)
  show ?thesis
    unfolding nv_Open_def
  proof (rule lib.triple_seq [OF triple_open_ml], simp, rule triple_pair, goal_cases)
    case (1 x e a)
    show ?case
      unfolding 1
    proof (rule lib.triple_seq [OF opened], simp, rule triple_pair, goal_cases)
      case (1 x e a)
      show ?case
        unfolding 1
      proof (rule lib.triple_seq [OF listed], simp, rule triple_pair, goal_cases)
        case (1 x e a)
        show ?case
          unfolding 1
          by (cases e) (auto intro: lib.triple_return triple_conseq [OF closed])
      qed
    qed
  qed
qed

lemma close_again:
  defines "none ds \<equiv> \<lparr>a_ml = 0, a_nvapi = 0, a_mlShutdown = False, a_nvUnload = False, a_devices = ds\<rparr>"
  shows "result_of (nv_Close L (none ds)) w = ([], none ds)" "trace_of (nv_Close L (none ds)) w = []"
  by (simp_all add: nv_Close_def result_of_def trace_of_def none_def)


section \<open>Two PCI domains\<close>

text \<open>Two GPUs with bus number 1, one in domain 0 and one in domain 1, with a handle of NVAPI each.\<close>

definition two_domains :: "'w nvlib \<Rightarrow> 'w nvlib" where
  "two_domains L = L\<lparr>
     n_count := \<lambda>w. ((0, 2), w),
     n_enum := \<lambda>w. ((0, [0xa, 0xb], 2), w),
     n_handle := \<lambda>i w. ((0, if i = 0 then 0x100 else 0x200), w),
     n_pci := \<lambda>h w. ((0, \<lparr>i_domain = if h = 0x100 then 0 else 1, i_bus = 1, i_device = 0,
       i_device_id = 0x1e0910de, i_subsystem = 0x155410de, i_bus_id = []\<rparr>), w),
     n_memory := \<lambda>h w. ((0, 20 * 1024 * 1024 * 1024), w),
     n_fans := \<lambda>h w. ((0, 1), w),
     n_bus := \<lambda>h w. ((0, 1), w)\<rparr>"

text \<open>
  The NVAPI handle is chosen by the bus number alone: both devices get the first one, so a P-state
  for the second GPU goes to the first.
\<close>

lemma bus_number_not_enough:
  "map d_nv_handle (a_devices (snd (result_of (enumerate_gpus (two_domains L) (a\<lparr>a_devices := []\<rparr>)) w))) = [0xa, 0xa]"
proof -
  have two: "unat (2 :: u32) = Suc (Suc 0)" by simp
  have "take (unat (2 :: u32)) (nv_array [0xa, 0xb]) = [0xa, 0xb]"
    unfolding two by (simp add: nv_array_def maxPhysicalGPUs_def)
  moreover have "map of_nat [0..<unat (2 :: u32)] = [0, 1 :: u32]" unfolding two by simp
  ultimately show ?thesis
    by (simp add: enumerate_gpus_def two_domains_def result_of_def call_def list_one_def make_device_def del: unat_numeral)
qed

end
