(* ===== verification/Implements.thy ===== *)
theory Implements
  imports Governor
begin

text \<open>
  An implementation of what the governor calls, by calls of a lower layer which its world records:
  \<open>mirrors rel m\<close> says that every run of \<open>m\<close> makes, for each of its events in order, calls that \<open>rel\<close>
  relates to the event.  The locale \<open>implementation\<close> states it for each operation and concludes it for
  the whole loop; the binding to NVML and the control directory interpret it.
\<close>

section \<open>Programs over a lower layer\<close>

definition mirrors :: "(gevent \<Rightarrow> 'c list \<Rightarrow> bool) \<Rightarrow> ('w \<times> 'c list, gevent, 'a) traced \<Rightarrow> bool" where
  "mirrors rel m \<longleftrightarrow> (\<forall>v nt gt. \<exists>gs ns.
     snd (snd (run_state m ((v, nt), gt))) = gt @ gs \<and>
     snd (fst (snd (run_state m ((v, nt), gt)))) = nt @ concat ns \<and> list_all2 rel gs ns)"

named_theorems mirror

lemma mirrors_return [mirror]: "mirrors rel (ret x)"
  by (auto simp: mirrors_def intro!: exI [of _ "[]"])

lemma mirrors_skip [mirror]: "mirrors rel skip"
  by (simp add: skip_def mirrors_return)

lemma mirrors_bind [mirror]:
  assumes "mirrors rel m" and "\<And>x. mirrors rel (f x)"
  shows "mirrors rel (State_Monad.bind m f)"
  unfolding mirrors_def
proof (intro allI)
  fix v nt gt
  obtain x v1 nt1 gt1 where m: "run_state m ((v, nt), gt) = (x, ((v1, nt1), gt1))" by (metis prod.collapse)
  with assms(1) obtain gs1 ns1 where 1: "gt1 = gt @ gs1" "nt1 = nt @ concat ns1" "list_all2 rel gs1 ns1"
    unfolding mirrors_def by (metis fst_conv snd_conv)
  from assms(2) [of x] obtain gs2 ns2 where "snd (snd (run_state (f x) ((v1, nt1), gt1))) = gt1 @ gs2"
    "snd (fst (snd (run_state (f x) ((v1, nt1), gt1)))) = nt1 @ concat ns2" "list_all2 rel gs2 ns2"
    unfolding mirrors_def by blast
  with m 1 show "\<exists>gs ns. snd (snd (run_state (State_Monad.bind m f) ((v, nt), gt))) = gt @ gs \<and>
      snd (fst (snd (run_state (State_Monad.bind m f) ((v, nt), gt)))) = nt @ concat ns \<and> list_all2 rel gs ns"
    by (intro exI [of _ "gs1 @ gs2"] exI [of _ "ns1 @ ns2"]) (auto intro: list_all2_appendI)
qed

lemma mirrors_if [mirror]: "mirrors rel m \<Longrightarrow> mirrors rel n \<Longrightarrow> mirrors rel (if b then m else n)"
  by simp

lemma mirrors_prod [mirror]: "(\<And>a b. mirrors rel (f a b)) \<Longrightarrow> mirrors rel (case p of (a, b) \<Rightarrow> f a b)"
  by (cases p) simp

lemma mirrors_option [mirror]: "mirrors rel m \<Longrightarrow> (\<And>y. mirrors rel (f y)) \<Longrightarrow> mirrors rel (case x of None \<Rightarrow> m | Some y \<Rightarrow> f y)"
  by (cases x) auto

lemma mirrors_sum [mirror]:
  "(\<And>y. mirrors rel (f y)) \<Longrightarrow> (\<And>y. mirrors rel (g y)) \<Longrightarrow> mirrors rel (case x of Inl y \<Rightarrow> f y | Inr y \<Rightarrow> g y)"
  by (cases x) auto

lemma mirrors_tell [mirror]: "rel ev [] \<Longrightarrow> mirrors rel (tell ev)"
  by (auto simp: mirrors_def tell_def intro!: exI [of _ "[ev]"] exI [of _ "[[]]"])

lemma mirrors_emits:
  assumes "emits n (\<lambda>x evs. rel (ev x) evs)"
    and "\<And>v nt gt. run_state m ((v, nt), gt) = (let (r, s') = run_state n (v, nt) in (g r, (s', gt @ [ev r])))"
  shows "mirrors rel m"
  unfolding mirrors_def
proof (intro allI)
  fix v nt gt
  obtain x v1 nt1 where n: "run_state n (v, nt) = (x, (v1, nt1))" by (metis prod.collapse)
  with assms(1) obtain evs where "nt1 = nt @ evs" "rel (ev x) evs"
    unfolding emits_def by (metis fst_conv snd_conv)
  with n show "\<exists>gs ns. snd (snd (run_state m ((v, nt), gt))) = gt @ gs \<and>
      snd (fst (snd (run_state m ((v, nt), gt)))) = nt @ concat ns \<and> list_all2 rel gs ns"
    by (intro exI [of _ "[ev x]"] exI [of _ "[evs]"]) (simp add: assms(2))
qed

text \<open>An operation that makes no call.\<close>

lemma mirrors_silent:
  assumes "\<And>v nt gt. \<exists>x v' evs. run_state m ((v, nt), gt) = (x, ((v', nt), gt @ evs)) \<and> list_all (\<lambda>g. rel g []) evs"
  shows "mirrors rel m"
  unfolding mirrors_def
proof (intro allI)
  fix v nt gt
  from assms obtain x v' evs where m: "run_state m ((v, nt), gt) = (x, ((v', nt), gt @ evs))"
    and evs: "list_all (\<lambda>g. rel g []) evs" by blast
  have "concat (map (\<lambda>_. []) evs) = []" by simp
  moreover have "list_all2 rel evs (map (\<lambda>_. []) evs)"
    using evs by (simp add: list_all2_map2 list_all2_same list_all_iff)
  ultimately show "\<exists>gs ns. snd (snd (run_state m ((v, nt), gt))) = gt @ gs \<and>
      snd (fst (snd (run_state m ((v, nt), gt)))) = nt @ concat ns \<and> list_all2 rel gs ns"
    using m by (intro exI [of _ evs] exI [of _ "map (\<lambda>_. []) evs"]) simp
qed

section \<open>The loop\<close>

locale implementation =
  fixes E :: "('w \<times> 'c list) genv" and rel :: "gevent \<Rightarrow> 'c list \<Rightarrow> bool"
  assumes commands: "mirrors rel (command E c)"
    and readings: "mirrors rel (utilization E i)" "mirrors rel (temperature E i)"
    and directory: "mirrors rel (decode_control E)" "mirrors rel (status_active E ctrl)"
      "mirrors rel (status_inactive E)" "mirrors rel (status_error E)"
    and silent: "mirrors rel (map_order E keys)" "rel GPanic []"
begin

lemmas operations = commands readings directory silent

lemma restore_mirrors [mirror]:
  "mirrors rel (restoreClocks E cf i)" "mirrors rel (restoreCoreOffset E cf i)"
  unfolding restoreClocks_def restoreCoreOffset_def by (intro mirror operations)+

lemma release_mirrors [mirror]: "mirrors rel (release E cf i c)"
  unfolding release_def by (intro mirror operations)

lemma release_each_mirrors [mirror]: "mirrors rel (release_each E cf ixs g)"
  by (induction ixs arbitrary: g) (auto intro!: mirror operations split: option.split)

lemma cleanup_each_mirrors [mirror]: "mirrors rel (cleanup_each E cf xs g)"
  by (induction xs arbitrary: g) (auto intro!: mirror operations)

lemma Cleanup_mirrors [mirror]: "mirrors rel (Cleanup E cf g)"
  unfolding Cleanup_def by (intro mirror)

lemma releaseAll_mirrors [mirror]: "mirrors rel (releaseAll E cf g)"
  unfolding releaseAll_def by (intro mirror operations)

lemma enter_low_mirrors [mirror]: "mirrors rel (enter_low E cf i c)"
  unfolding enter_low_def by (intro mirror operations)

lemma adjust_fan_mirrors [mirror]: "mirrors rel (adjust_fan E cf ctrl i c)"
  unfolding adjust_fan_def by (intro mirror operations)

lemma poll_card_mirrors [mirror]: "mirrors rel (poll_card E cf ctrl i c)"
  unfolding poll_card_def Let_def by (intro mirror operations)

lemma poll_cards_mirrors [mirror]: "mirrors rel (poll_cards E cf ixs g)"
  by (induction ixs arbitrary: g) (auto intro!: mirror operations simp: Let_def split: option.split)

lemma poll_mirrors [mirror]: "mirrors rel (poll E cf g)"
  unfolding poll_def by (intro mirror)

lemma disable_mirrors [mirror]: "mirrors rel (disable E cf g)"
  unfolding disable_def by (intro mirror operations)

lemma fail_mirrors [mirror]: "mirrors rel (fail E cf g)"
  unfolding fail_def by (intro mirror operations)

lemma LoadControl_mirrors [mirror]: "mirrors rel (LoadControl E)"
  unfolding LoadControl_def by (intro mirror operations)

lemma syncControl_mirrors [mirror]: "mirrors rel (syncControl E cf g)"
  unfolding syncControl_def Let_def by (intro mirror operations)

lemma serve_mirrors [mirror]: "mirrors rel (serve E cf t g)"
  unfolding serve_def by (cases t) (auto intro!: mirror operations split: gerror.split)

lemma serve_all_mirrors [mirror]: "mirrors rel (serve_all E cf ts g)"
  by (induction ts arbitrary: g) (auto intro!: mirror operations)

lemma Run_mirrors [mirror]: "mirrors rel (Run E cf ts g)"
  unfolding Run_def by (intro mirror operations)

end

end
