(* ===== verification/Nvidia_Governor.thy ===== *)
theory Nvidia_Governor
  imports Nvidia_Contract Governor_Run Implements
begin

text \<open>
  The governor on the binding of \<open>Nvidia\<close>: the interface \<open>Hardware\<close> as its implementation, and the
  simulation that carries the contract of the loop down to the calls into NVML and NVAPI.
\<close>

section \<open>The implementation of the interface\<close>

fun nv_command :: "'w nvlib \<Rightarrow> device list \<Rightarrow> gcmd \<Rightarrow> ('w, nverror list) nvproc" where
  "nv_command L ds (SetPState i p) = nv_SetPState L ds i p"
| "nv_command L ds (ResetLockedClocks i) = nv_ResetLockedClocks L ds i"
| "nv_command L ds (SetLockedClocks i lo hi) = nv_SetLockedClocks L ds i lo hi"
| "nv_command L ds (SetCoreOffset i off) = nv_SetCoreOffset L ds i (word_of_int off)"
| "nv_command L ds (SetFan i p) = nv_SetFan L ds i p"
| "nv_command L ds (SetFanAuto i) = nv_SetFanAuto L ds i"

text \<open>
  The world of the governor: the world of the libraries and of everything else, and the calls made
  so far.  The control file and the status are those of \<open>E\<close>.
\<close>

definition beside :: "('w \<Rightarrow> 'r \<times> 'w) \<Rightarrow> 'w \<times> 'e list \<Rightarrow> 'r \<times> ('w \<times> 'e list)" where
  "beside f = (\<lambda>(v, tr). let (r, v') = f v in (r, (v', tr)))"

definition nv_env :: "'w nvlib \<Rightarrow> device list \<Rightarrow> 'w genv \<Rightarrow> ('w \<times> nvevent list) genv" where
  "nv_env L ds E = \<lparr>
     e_gpus = GPUs ds,
     e_util = \<lambda>i s. case run_state (nv_Utilization L ds i) s of (r, s') \<Rightarrow> (case r of Inl e \<Rightarrow> None | Inr u \<Rightarrow> Some u, s'),
     e_temp = \<lambda>i s. case run_state (nv_Temperature L ds i) s of (r, s') \<Rightarrow> (case r of Inl e \<Rightarrow> None | Inr t \<Rightarrow> Some t, s'),
     e_cmd = \<lambda>c s. case run_state (nv_command L ds c) s of (es, s') \<Rightarrow> (es = [], s'),
     e_decode = beside (e_decode E),
     e_status_active = \<lambda>c. beside (e_status_active E c),
     e_status_inactive = \<lambda>(v, tr). (e_status_inactive E v, tr),
     e_status_error = \<lambda>(v, tr). (e_status_error E v, tr),
     e_order = \<lambda>(v, tr). e_order E v\<rparr>"

section \<open>The simulation\<close>

text \<open>\<open>carries\<close>: the call belongs to the event of the governor, and goes to its card.\<close>

fun carries_command :: "device \<Rightarrow> gcmd \<Rightarrow> nvevent \<Rightarrow> bool" where
  "carries_command d (SetPState i p) ev =
     (case ev of NvPState h q z st \<Rightarrow> h = d_nv_handle d \<and> q = word_of_int p \<and> z = 0 | _ \<Rightarrow> False)"
| "carries_command d (ResetLockedClocks i) ev = (case ev of MlResetClocks h st \<Rightarrow> h = d_handle d | _ \<Rightarrow> False)"
| "carries_command d (SetLockedClocks i lo hi) ev =
     (case ev of MlSetClocks h lo' hi' st \<Rightarrow> h = d_handle d \<and> lo' = lo \<and> hi' = hi | _ \<Rightarrow> False)"
| "carries_command d (SetCoreOffset i off) ev =
     (case ev of MlSetOffset h off' st \<Rightarrow> h = d_handle d \<and> off' = word_of_int off | _ \<Rightarrow> False)"
| "carries_command d (SetFan i p) ev =
     (case ev of MlSetFan h f q st \<Rightarrow> h = d_handle d \<and> unat f < unat (d_fans d) \<and> q = p
      | MlFanAuto h f st \<Rightarrow> h = d_handle d \<and> unat f < unat (d_fans d) | _ \<Rightarrow> False)"
| "carries_command d (SetFanAuto i) ev =
     (case ev of MlFanAuto h f st \<Rightarrow> h = d_handle d \<and> unat f < unat (d_fans d) | _ \<Rightarrow> False)"

definition carries :: "device list \<Rightarrow> gevent \<Rightarrow> nvevent \<Rightarrow> bool" where
  "carries ds g ev \<longleftrightarrow>
     (case g of
        GUtil i u \<Rightarrow> (case nv_device ds i of Inl e \<Rightarrow> False
          | Inr d \<Rightarrow> (case ev of MlUtil h st v \<Rightarrow> h = d_handle d | _ \<Rightarrow> False))
      | GTemp i t \<Rightarrow> (case nv_device ds i of Inl e \<Rightarrow> False
          | Inr d \<Rightarrow> (case ev of MlTemperature h s st v \<Rightarrow> h = d_handle d | _ \<Rightarrow> False))
      | GCmd c ok \<Rightarrow> (case nv_device ds (cmd_card c) of Inl e \<Rightarrow> False | Inr d \<Rightarrow> carries_command d c ev)
      | _ \<Rightarrow> False)"

text \<open>
  A call sequence for an event: nothing else is called, and for a command to go back to automatic,
  every fan of the card is asked.
\<close>

definition realises :: "device list \<Rightarrow> gevent \<Rightarrow> nvevent list \<Rightarrow> bool" where
  "realises ds g evs \<longleftrightarrow> list_all (carries ds g) evs \<and>
     (case g of
        GCmd (SetFanAuto i) ok \<Rightarrow> (case nv_device ds i of Inl e \<Rightarrow> True | Inr d \<Rightarrow>
          map fan_command evs = map (\<lambda>f. Some (d_handle d, f, None)) (fans_upto (unat (d_fans d))))
      | _ \<Rightarrow> True)"

lemma unat_upto: "f \<in> set (fans_upto (unat (n :: u32))) \<Longrightarrow> unat f < unat n"
  using unat_u32_less [of n] by (auto simp: fans_upto_def unat_of_nat take_bit_nat_eq_self simp del: unat_u32_less)

lemma fan_command_auto: "fan_command ev = Some (h, f, None) \<Longrightarrow> \<exists>st. ev = MlFanAuto h f st"
  by (cases ev) simp_all

lemma fans_command:
  assumes "map fan_command evs = map (\<lambda>f. Some (h, f, None)) fs" and "ev \<in> set evs"
  shows "\<exists>f \<in> set fs. \<exists>st. ev = MlFanAuto h f st"
proof -
  from assms(2) have "fan_command ev \<in> set (map fan_command evs)" by simp
  then obtain f where "f \<in> set fs" "fan_command ev = Some (h, f, None)"
    unfolding assms(1) by auto
  with fan_command_auto show ?thesis by blast
qed

text \<open>Going back to automatic asks only fans of the card.\<close>

lemma auto_carried:
  assumes "map fan_command evs = map (\<lambda>f. Some (d_handle d, f, None)) (fans_upto (unat (n :: u32)))" and "unat n \<le> unat (d_fans d)"
  shows "list_all (carries_command d (SetFanAuto i)) evs \<and> list_all (carries_command d (SetFan i p)) evs"
proof -
  have "\<exists>f st. ev = MlFanAuto (d_handle d) f st \<and> unat f < unat (d_fans d)" if "ev \<in> set evs" for ev
  proof -
    from fans_command [OF assms(1) that] obtain f st where f: "f \<in> set (fans_upto (unat n))" "ev = MlFanAuto (d_handle d) f st"
      by blast
    from unat_upto [OF f(1)] assms(2) have "unat f < unat (d_fans d)" by (rule less_le_trans)
    with f(2) show ?thesis by blast
  qed
  then show ?thesis by (force simp: list_all_iff)
qed

lemma set_fans_carried:
  "emits (nv_SetFan L [d] 0 p) (\<lambda>es evs. list_all (carries_command d (SetFan i p)) evs)"
proof -
  have "list_all (carries_command d (SetFan i p)) evs"
    if "if r = [] then evs = map (\<lambda>f. MlSetFan (d_handle d) f p 0) (fans_upto (unat (d_fans d)))
      else \<exists>pre f post st evs'. fans_upto (unat (d_fans d)) = pre @ f # post \<and> st \<noteq> 0 \<and>
        r = [StatusError ''nvmlDeviceSetFanSpeed_v2'' st] \<and>
        evs = map (\<lambda>f. MlSetFan (d_handle d) f p 0) pre @ MlSetFan (d_handle d) f p st # evs' \<and>
        map fan_command evs' = map (\<lambda>f. Some (d_handle d, f, None)) (fans_upto (unat f))" for r evs
  proof (cases "r = []")
    case True
    with that show ?thesis by (auto simp: list_all_iff dest: unat_upto)
  next
    case False
    with that obtain pre f post st evs' where fs: "fans_upto (unat (d_fans d)) = pre @ f # post"
      and evs: "evs = map (\<lambda>f. MlSetFan (d_handle d) f p 0) pre @ MlSetFan (d_handle d) f p st # evs'"
      and auto: "map fan_command evs' = map (\<lambda>f. Some (d_handle d, f, None)) (fans_upto (unat f))" by auto
    from fs have low: "unat g < unat (d_fans d)" if "g \<in> insert f (set pre)" for g
      by (rule_tac unat_upto) (use that in auto)
    with auto_carried [OF auto, of i p] show ?thesis by (auto simp: evs list_all_iff less_imp_le)
  qed
  then show ?thesis
    unfolding nv_SetFan_def nv_device_def by (simp, intro emits_mono [OF emits_set_fans]) blast
qed

lemma carries_GCmd: "nv_device ds (cmd_card c) = Inr d \<Longrightarrow> carries ds (GCmd c ok) = carries_command d c"
  by (simp add: carries_def fun_eq_iff)

lemma realises_commands:
  "emits (nv_command L ds c) (\<lambda>es evs. realises ds (GCmd c (es = [])) evs)"
proof (cases "nv_device ds (cmd_card c)")
  case (Inl e)
  then show ?thesis
    by (cases c) (auto intro!: emits_return simp: nv_SetPState_def nv_ResetLockedClocks_def nv_SetLockedClocks_def
        nv_SetCoreOffset_def nv_SetFan_def nv_SetFanAuto_def realises_def)
next
  case (Inr d)
  show ?thesis
  proof (cases c)
    case (SetFan i p)
    have "nv_SetFan L ds i p = nv_SetFan L [d] 0 p"
      using Inr SetFan by (simp add: nv_SetFan_def) (simp add: nv_device_def)
    with Inr SetFan show ?thesis
      by (simp add: realises_def carries_GCmd set_fans_carried)
  next
    case (SetFanAuto i)
    have "emits (nv_SetFanAuto L ds i) (\<lambda>_ evs.
        map fan_command evs = map (\<lambda>f. Some (d_handle d, f, None)) (fans_upto (unat (d_fans d))))"
      using Inr SetFanAuto by (simp add: nv_SetFanAuto_def emits_auto_fans)
    with Inr SetFanAuto show ?thesis
      by (auto simp: realises_def carries_GCmd elim!: emits_mono dest: auto_carried)
  qed (use Inr in \<open>auto intro!: emit simp: nv_SetPState_def nv_ResetLockedClocks_def nv_SetLockedClocks_def
        nv_SetCoreOffset_def realises_def carries_def\<close>)
qed

lemma mirrors_command: "mirrors (realises ds) (command (nv_env L ds E) c)"
  by (rule mirrors_emits [OF realises_commands]) (simp add: command_def nv_env_def split_beta Let_def)

lemma mirrors_utilization: "mirrors (realises ds) (utilization (nv_env L ds E) i)"
proof (rule mirrors_emits)
  show "emits (nv_Utilization L ds i) (\<lambda>r evs. realises ds (GUtil i (case r of Inl e \<Rightarrow> None | Inr u \<Rightarrow> Some u)) evs)"
    unfolding nv_Utilization_def by (intro emit) (auto simp: realises_def carries_def)
qed (simp add: utilization_def nv_env_def split_beta Let_def)

lemma mirrors_temperature: "mirrors (realises ds) (temperature (nv_env L ds E) i)"
proof (rule mirrors_emits)
  show "emits (nv_Temperature L ds i) (\<lambda>r evs. realises ds (GTemp i (case r of Inl e \<Rightarrow> None | Inr u \<Rightarrow> Some u)) evs)"
    unfolding nv_Temperature_def by (intro emit) (auto simp: realises_def carries_def)
qed (simp add: temperature_def nv_env_def split_beta Let_def)

lemma mirrors_directory:
  "mirrors (realises ds) (decode_control (nv_env L ds E))" "mirrors (realises ds) (status_active (nv_env L ds E) c)"
  "mirrors (realises ds) (status_inactive (nv_env L ds E))" "mirrors (realises ds) (status_error (nv_env L ds E))"
  "mirrors (realises ds) (map_order (nv_env L ds E) keys)"
  by (rule mirrors_silent; simp add: decode_control_def status_active_def status_inactive_def status_error_def
      map_order_def nv_env_def beside_def realises_def split: prod.split)+

interpretation nvml: implementation "nv_env L ds E" "realises ds" for L ds E
  by unfold_locales (rule mirrors_command mirrors_utilization mirrors_temperature mirrors_directory | simp add: realises_def)+

section \<open>What reaches the libraries\<close>

text \<open>The devices of the cards the governor may touch.\<close>

definition own_devices :: "device list \<Rightarrow> device list" where
  "own_devices ds = filter (\<lambda>d. supported_gpu (d_info d)) ds"

text \<open>
  A lawful call: only a supported card, one of its own fans, a percentage from 15 to 100, the P-states
  8 and 16, the configured clocks, and the core offset 0 or the configured one.
\<close>

fun lawful :: "device list \<Rightarrow> gconf \<Rightarrow> nvevent \<Rightarrow> bool" where
  "lawful ds cf (MlUtil h st v) = list_ex (\<lambda>d. d_handle d = h) (own_devices ds)"
| "lawful ds cf (MlTemperature h s st v) = list_ex (\<lambda>d. d_handle d = h) (own_devices ds)"
| "lawful ds cf (MlSetFan h f p st) = (list_ex (\<lambda>d. d_handle d = h \<and> unat f < unat (d_fans d)) (own_devices ds) \<and>
     15 \<le> unat p \<and> unat p \<le> 100)"
| "lawful ds cf (MlFanAuto h f st) = list_ex (\<lambda>d. d_handle d = h \<and> unat f < unat (d_fans d)) (own_devices ds)"
| "lawful ds cf (MlResetClocks h st) = list_ex (\<lambda>d. d_handle d = h) (own_devices ds)"
| "lawful ds cf (MlSetClocks h lo hi st) = (list_ex (\<lambda>d. d_handle d = h) (own_devices ds) \<and> load_clock cf = Some (lo, hi))"
| "lawful ds cf (MlSetOffset h off st) = (list_ex (\<lambda>d. d_handle d = h) (own_devices ds) \<and>
     (case core_offset cf of None \<Rightarrow> False | Some off' \<Rightarrow> off = 0 \<or> off = word_of_int off'))"
| "lawful ds cf (NvPState h p z st) = (list_ex (\<lambda>d. d_nv_handle d = h) (own_devices ds) \<and> (p = 8 \<or> p = 16) \<and> z = 0)"
| "lawful ds cf _ = False"

text \<open>The fans asked to take a percentage and not yet asked to go back, whether or not the calls succeeded.\<close>

fun fan_step :: "(u64 \<times> u32) set \<Rightarrow> nvevent \<Rightarrow> (u64 \<times> u32) set" where
  "fan_step F (MlSetFan h f p st) = insert (h, f) F"
| "fan_step F (MlFanAuto h f st) = F - {(h, f)}"
| "fan_step F _ = F"

definition manual_fans :: "(u64 \<times> u32) set \<Rightarrow> nvevent list \<Rightarrow> (u64 \<times> u32) set" where
  "manual_fans = foldl fan_step"

lemma manual_fans_simps [simp]:
  "manual_fans F [] = F" "manual_fans F (ev # evs) = manual_fans (fan_step F ev) evs"
  "manual_fans F (xs @ ys) = manual_fans (manual_fans F xs) ys"
  by (simp_all add: manual_fans_def)

text \<open>The devices as \<open>enumerate_gpus\<close> lists them.\<close>

definition numbered :: "device list \<Rightarrow> bool" where
  "numbered ds \<longleftrightarrow> map (g_index \<circ> d_info) ds = map int [0..<length ds]"

lemma own_device:
  assumes "numbered ds" and "i \<in> usable (GPUs ds)" and "nv_device ds i = Inr d"
  shows "d \<in> set (own_devices ds)"
proof -
  from assms(3) have i: "0 \<le> i" "i < int (length ds)" and d: "d = ds ! nat i"
    by (auto simp: nv_device_def split: if_splits)
  from assms(2) obtain e where e: "e \<in> set ds" "supported_gpu (d_info e)" "i = g_index (d_info e)"
    by (auto simp: supported_indices_def GPUs_def)
  then obtain k where k: "k < length ds" "e = ds ! k" by (auto simp: in_set_conv_nth)
  with assms(1) have "g_index (d_info e) = int k"
    unfolding numbered_def by (metis add_0 comp_apply diff_zero length_map length_upt nth_map nth_upt)
  with e k d i show ?thesis by (simp add: own_devices_def)
qed

lemma w_step_command:
  assumes "w_step gpus cf a (GCmd c ok) = Some a'"
  obtains k where "cmd_card c \<in> usable gpus"
    "k_cmd cf (covering a (cmd_card c)) (w_cards a (cmd_card c)) c = Some k" "a' = set_card a (cmd_card c) k"
  using assms that by (auto simp: set_card_def Let_def split: if_splits)

lemma small_percent:
  assumes "15 \<le> p" and "p \<le> 100"
  shows "15 \<le> unat (word_of_int p :: u32) \<and> unat (word_of_int p :: u32) \<le> 100"
proof -
  from assms have "uint (word_of_int p :: u32) = p" by (simp add: uint_word_of_int)
  with assms show ?thesis by (auto simp: unat_eq_nat_uint)
qed

lemma lawful_command:
  assumes "k_cmd cf ctrl k c = Some k'" and "carries_command d c ev" and "d \<in> set (own_devices ds)"
  shows "lawful ds cf ev"
proof -
  from assms(3) have own: "list_ex (\<lambda>e. d_handle e = d_handle d) (own_devices ds)"
    "list_ex (\<lambda>e. d_nv_handle e = d_nv_handle d) (own_devices ds)"
    "unat f < unat (d_fans d) \<Longrightarrow> list_ex (\<lambda>e. d_handle e = d_handle d \<and> unat f < unat (d_fans e)) (own_devices ds)" for f
    by (auto simp: list_ex_iff)
  from assms(1,2) own show ?thesis
    by (cases c; cases ev) (auto simp: autoPState_def small_percent split: if_splits option.splits)
qed

lemma lawful_carried:
  assumes "numbered ds" and "w_step (GPUs ds) cf a g = Some a'" and "carries ds g ev"
  shows "lawful ds cf ev"
proof (cases g)
  case (GCmd c ok)
  with assms(2) have "w_step (GPUs ds) cf a (GCmd c ok) = Some a'" by simp
  then obtain k where k: "cmd_card c \<in> usable (GPUs ds)" "k_cmd cf (covering a (cmd_card c)) (w_cards a (cmd_card c)) c = Some k"
    by (rule w_step_command)
  from assms(3) GCmd obtain d where "nv_device ds (cmd_card c) = Inr d" "carries_command d c ev"
    by (auto simp: carries_def split: sum.splits)
  with own_device [OF assms(1) k(1)] lawful_command [OF k(2)] show ?thesis by blast
next
  case (GUtil i u)
  with assms(2) have i: "i \<in> usable (GPUs ds)" by (auto split: if_splits)
  from assms(3) GUtil obtain d st v where "nv_device ds i = Inr d" "ev = MlUtil (d_handle d) st v"
    by (auto simp: carries_def split: sum.splits nvevent.splits)
  with own_device [OF assms(1) i] show ?thesis by (auto simp: list_ex_iff)
next
  case (GTemp i u)
  with assms(2) have i: "i \<in> usable (GPUs ds)" by (auto split: if_splits)
  from assms(3) GTemp obtain d s st v where "nv_device ds i = Inr d" "ev = MlTemperature (d_handle d) s st v"
    by (auto simp: carries_def split: sum.splits nvevent.splits)
  with own_device [OF assms(1) i] show ?thesis by (auto simp: list_ex_iff)
qed (use assms(3) in \<open>auto simp: carries_def\<close>)

text \<open>Every fan taken over belongs to a card the contract knows to be taken over.\<close>

definition fans_known :: "device list \<Rightarrow> watch \<Rightarrow> (u64 \<times> u32) set \<Rightarrow> bool" where
  "fans_known ds a F \<longleftrightarrow> (\<forall>(h, f) \<in> F. \<exists>i d. i \<in> usable (GPUs ds) \<and> nv_device ds i = Inr d \<and>
     k_fan (w_cards a i) \<and> h = d_handle d \<and> unat f < unat (d_fans d))"

lemma manual_fans_auto:
  "map fan_command evs = map (\<lambda>f. Some (h, f, None)) fs \<Longrightarrow> manual_fans F evs = F - {h} \<times> set fs"
proof (induction fs arbitrary: F evs)
  case (Cons f fs)
  then obtain ev evs' where evs: "evs = ev # evs'" "fan_command ev = Some (h, f, None)"
    "map fan_command evs' = map (\<lambda>f. Some (h, f, None)) fs" by (auto simp: Cons_eq_map_conv)
  with fan_command_auto obtain st where "ev = MlFanAuto h f st" by blast
  with evs Cons.IH [of evs' "F - {(h, f)}"] show ?case by auto
qed simp

lemma manual_fans_set:
  "list_all (carries_command d (SetFan i p)) evs \<Longrightarrow> manual_fans F evs \<subseteq> F \<union> {(d_handle d, f) | f. unat f < unat (d_fans d)}"
proof (induction evs arbitrary: F)
  case (Cons ev evs)
  then have "manual_fans (fan_step F ev) evs \<subseteq> fan_step F ev \<union> {(d_handle d, f) | f. unat f < unat (d_fans d)}" by simp
  moreover have "fan_step F ev \<subseteq> F \<union> {(d_handle d, f) | f. unat f < unat (d_fans d)}"
    using Cons.prems by (cases ev) auto
  ultimately show ?case by auto
qed simp

lemma manual_fans_other:
  "list_all (\<lambda>ev. fan_command ev = None) evs \<Longrightarrow> manual_fans F evs = F"
proof (induction evs arbitrary: F)
  case (Cons ev evs)
  then show ?case by (cases ev) auto
qed simp

lemma in_fans_upto: "unat (f :: u32) < n \<Longrightarrow> f \<in> set (fans_upto n)"
  by (auto simp: fans_upto_def image_iff intro!: bexI [of _ "unat f"])

lemma fans_known_mono:
  assumes "fans_known ds a F" and "G \<subseteq> F" and "\<And>i. k_fan (w_cards a i) \<Longrightarrow> k_fan (w_cards a' i)"
  shows "fans_known ds a' G"
  using assms unfolding fans_known_def by fast

lemma no_fan_command: "carries_command d c ev \<Longrightarrow> (\<forall>i p. c \<noteq> SetFan i p) \<Longrightarrow> (\<forall>i. c \<noteq> SetFanAuto i) \<Longrightarrow> fan_command ev = None"
  by (cases c; cases ev) auto

lemma k_fan_kept:
  "k_cmd cf ctrl k c = Some k' \<Longrightarrow> (\<forall>i. c \<noteq> SetFanAuto i) \<Longrightarrow> k_fan k \<Longrightarrow> k_fan k'"
  by (cases c) (auto split: if_splits option.splits)

lemma fans_known_other:
  assumes "fans_known ds a F" and "k_cmd cf ctrl (w_cards a i) c = Some k" and "list_all (carries_command d c) evs"
    and "\<forall>i p. c \<noteq> SetFan i p" and "\<forall>i. c \<noteq> SetFanAuto i"
  shows "fans_known ds (set_card a i k) (manual_fans F evs)"
proof -
  have "manual_fans F evs = F"
    using assms(3) no_fan_command [OF _ assms(4,5)] by (intro manual_fans_other) (auto simp: list_all_iff)
  moreover have "fans_known ds (set_card a i k) F"
    using k_fan_kept [OF assms(2,5)] by (intro fans_known_mono [OF assms(1)]) auto
  ultimately show ?thesis by simp
qed

lemma fans_known_command:
  assumes "fans_known ds a F" and "i = cmd_card c" and "k_cmd cf ctrl (w_cards a i) c = Some k"
    and "i \<in> usable (GPUs ds)" and "nv_device ds i = Inr d" and "list_all (carries_command d c) evs"
    and "(case c of SetFanAuto i \<Rightarrow> map fan_command evs = map (\<lambda>f. Some (d_handle d, f, None)) (fans_upto (unat (d_fans d))) | _ \<Rightarrow> True)"
  shows "fans_known ds (set_card a i k) (manual_fans F evs)"
proof (cases c)
  case (SetFanAuto j)
  with assms(2,3,7) have k: "k = (w_cards a i)\<lparr>k_fan := False\<rparr>"
    and F: "manual_fans F evs = F - {d_handle d} \<times> set (fans_upto (unat (d_fans d)))"
    by (auto dest: manual_fans_auto)
  have "\<exists>j e. j \<in> usable (GPUs ds) \<and> nv_device ds j = Inr e \<and> k_fan (w_cards (set_card a i k) j) \<and>
      h = d_handle e \<and> unat f < unat (d_fans e)" if "(h, f) \<in> F" "h = d_handle d \<Longrightarrow> f \<notin> set (fans_upto (unat (d_fans d)))" for h f
  proof -
    from that(1) assms(1) obtain j e where j: "j \<in> usable (GPUs ds)" "nv_device ds j = Inr e" "k_fan (w_cards a j)"
      "h = d_handle e" "unat f < unat (d_fans e)" unfolding fans_known_def by blast
    with that(2) assms(5) in_fans_upto have "j \<noteq> i" by auto
    with j show ?thesis by (intro exI [of _ j] exI [of _ e]) simp
  qed
  then show ?thesis unfolding fans_known_def F by blast
next
  case (SetFan j p)
  with assms(3) have k: "k_fan k" by (auto split: if_splits option.splits)
  from SetFan assms(6) have F: "manual_fans F evs \<subseteq> F \<union> {(d_handle d, f) | f. unat f < unat (d_fans d)}"
    by (intro manual_fans_set) simp
  have "fans_known ds (set_card a i k) F" using assms(1) k by (elim fans_known_mono) auto
  moreover have "fans_known ds (set_card a i k) {(d_handle d, f) | f. unat f < unat (d_fans d)}"
    using k assms(4,5) by (auto simp: fans_known_def)
  ultimately have "fans_known ds (set_card a i k) (F \<union> {(d_handle d, f) | f. unat f < unat (d_fans d)})"
    unfolding fans_known_def by blast
  then show ?thesis using F by (rule fans_known_mono)
qed (use fans_known_other [OF assms(1,3,6)] in simp_all)

lemma fans_known_step:
  assumes "fans_known ds a F" and "w_step (GPUs ds) cf a g = Some a'" and "realises ds g evs"
  shows "fans_known ds a' (manual_fans F evs)"
proof (cases "\<exists>c ok. g = GCmd c ok")
  case True
  then obtain c ok where g: "g = GCmd c ok" by blast
  with assms(2) have "w_step (GPUs ds) cf a (GCmd c ok) = Some a'" by simp
  then obtain k where k: "cmd_card c \<in> usable (GPUs ds)" "k_cmd cf (covering a (cmd_card c)) (w_cards a (cmd_card c)) c = Some k"
    "a' = set_card a (cmd_card c) k" by (rule w_step_command)
  show ?thesis
  proof (cases "nv_device ds (cmd_card c)")
    case (Inl e)
    with assms(3) g have "evs = []" by (cases evs) (auto simp: realises_def carries_def)
    moreover have "k_fan (w_cards a i) \<Longrightarrow> k_fan (w_cards a' i) \<or> i = cmd_card c" for i
      using k(3) by auto
    ultimately show ?thesis using assms(1) Inl by (fastforce simp: fans_known_def)
  next
    case (Inr d)
    with assms(3) g have "list_all (carries_command d c) evs"
      "case c of SetFanAuto i \<Rightarrow> map fan_command evs = map (\<lambda>f. Some (d_handle d, f, None)) (fans_upto (unat (d_fans d))) | _ \<Rightarrow> True"
      by (auto simp: realises_def carries_GCmd split: gcmd.splits)
    with fans_known_command [OF assms(1) refl k(2,1) Inr] k(3) show ?thesis by simp
  qed
next
  case False
  have none: "fan_command ev = None" if "carries ds g ev" for ev
    using that False by (cases g; cases ev) (auto simp: carries_def split: sum.splits)
  have "manual_fans F evs = F"
    using assms(3) none by (intro manual_fans_other) (auto simp: realises_def list_all_iff)
  moreover have "k_fan (w_cards a' i) = k_fan (w_cards a i)" for i
    using assms(2) False by (cases g) (auto simp: Let_def split: if_splits option.splits)
  ultimately show ?thesis using fans_known_mono [OF assms(1)] by simp
qed

lemma nv_trace_lawful:
  assumes "numbered ds" and "w_run (GPUs ds) cf a gs = Some a'" and "list_all2 (realises ds) gs ns" and "fans_known ds a F"
  shows "list_all (lawful ds cf) (concat ns) \<and> fans_known ds a' (manual_fans F (concat ns))"
  using assms(3,2,4)
proof (induction arbitrary: a F rule: list_all2_induct)
  case (Cons g gs n ns)
  from Cons.prems(1) obtain a1 where a1: "w_step (GPUs ds) cf a g = Some a1" "w_run (GPUs ds) cf a1 gs = Some a'"
    by (auto split: Option.bind_splits)
  have "list_all (lawful ds cf) n"
    using Cons.hyps(1) lawful_carried [OF assms(1) a1(1)] by (auto simp: realises_def list_all_iff)
  with Cons.IH [OF a1(2) fans_known_step [OF Cons.prems(2) a1(1) Cons.hyps(1)]] show ?case by simp
qed simp

end
