(* ===== verification/Governor_Main.thy ===== *)
theory Governor_Main
  imports Nvidia_Governor Governor_Options
begin

text \<open>
  The governor's \<open>main\<close> (\<open>cmd/cmp-idle-governor/main.go\<close>): options, opening the libraries, the run or
  the release, closing; and what all its calls into NVML and NVAPI are together.
\<close>

section \<open>The program\<close>

text \<open>A part of the governor as a program over the libraries alone.\<close>

definition on_nvml :: "('w \<times> nvevent list, gevent, 'a) traced \<Rightarrow> ('w, 'a) nvproc" where
  "on_nvml m = State (\<lambda>s. case run_state m (s, []) of (x, (s', _)) \<Rightarrow> (x, s'))"

text \<open>
  The result is the exit status; \<open>log.Fatal\<close> exits with 1 and runs no deferred call.  The ticks are
  those served before a signal.  \<open>after_open\<close> is \<open>main\<close> from the result of \<open>Open\<close> on.
\<close>

definition after_open :: "'w nvlib \<Rightarrow> 'w genv \<Rightarrow> options \<Rightarrow> bool \<Rightarrow> tick list \<Rightarrow> nverror + api \<Rightarrow> ('w, int) nvproc" where
  "after_open L E opts release_only ts r =
     (case r of
        Inl e \<Rightarrow> ret 1
      | Inr a \<Rightarrow> let hardware = nv_env L (a_devices a) E in
          (case New hardware opts of
             Inl e \<Rightarrow> ret 1
           | Inr (cf, g) \<Rightarrow>
               if release_only then do {
                 (ok, g') \<leftarrow> on_nvml (Cleanup hardware cf g);
                 if ok then do { nv_Close L a; ret 0 } else ret 1
               } else do {
                 on_nvml (Run hardware cf ts g);
                 nv_Close L a;
                 ret 0
               }))"

definition governor_main :: "'w nvlib \<Rightarrow> 'w genv \<Rightarrow> (string \<Rightarrow> string) \<Rightarrow> bool \<Rightarrow> tick list \<Rightarrow> ('w, int) nvproc" where
  "governor_main L E env release_only ts =
     (case env_options env of
        Inl e \<Rightarrow> ret 1
      | Inr opts \<Rightarrow> do {
          r \<leftarrow> nv_Open L;
          after_open L E opts release_only ts r
        })"

section \<open>Opening\<close>

text \<open>Opening sets no fan and lists the devices in order from an empty list.\<close>

abbreviation fanless :: "nvevent list \<Rightarrow> bool" where
  "fanless \<equiv> list_all (\<lambda>ev. fan_command ev = None)"

abbreviation opens :: "device list \<Rightarrow> nverror option \<times> api \<Rightarrow> nvevent list \<Rightarrow> bool" where
  "opens ds \<equiv> \<lambda>(e, a) evs. a_devices a = ds \<and> fanless evs"

lemma opens_Cons: "opens ds r evs \<Longrightarrow> fan_command ev = None \<Longrightarrow> opens ds r (ev # evs)"
  by (cases r) simp

lemma emits_register_all: "a_devices a = ds \<Longrightarrow> emits (register_all L names a) (opens ds)"
proof (induction names arbitrary: a)
  case (Cons name names)
  show ?case
    unfolding register_all.simps
  proof (intro emits_bind emits_call emits_if, goal_cases)
    case (2 ok)
    show ?case by (rule emits_mono [OF Cons.IH]) (use Cons.prems in \<open>auto intro!: opens_Cons split: if_splits\<close>)
  qed (use Cons.prems in \<open>simp add: emits_return\<close>)
qed (simp add: emits_return)

lemma emits_bind_all: "a_devices a = ds \<Longrightarrow> emits (bind_all L ixs a) (opens ds)"
proof (induction ixs arbitrary: a)
  case (Cons i ixs)
  show ?case
    unfolding bind_all.simps
  proof (intro emits_bind emits_call emits_if, goal_cases)
    case (2 ok)
    show ?case by (rule emits_mono [OF Cons.IH]) (use Cons.prems in \<open>auto intro!: opens_Cons split: if_splits\<close>)
  qed (use Cons.prems in \<open>simp add: emits_return\<close>)
qed (simp add: emits_return)

lemma emits_open_ml: "a_devices a = ds \<Longrightarrow> emits (open_ml L a) (opens ds)"
  unfolding open_ml_def Let_def
  by (intro emits_bind emits_call emits_ranged emits_if emits_return emits_prod emits_mono [OF emits_register_all]) auto

lemma emits_open_nv: "a_devices a = ds \<Longrightarrow> emits (open_nv L a) (opens ds)"
  unfolding open_nv_def Let_def
  by (intro emits_bind emits_call emits_ranged emits_if emits_return emits_prod emits_mono [OF emits_bind_all]) auto

lemma listing_event_fan: "listing_event ev \<Longrightarrow> fan_command ev = None"
  by (cases ev) simp_all

lemma close_fanless: "emits (nv_Close L a) (\<lambda>_. fanless)"
  unfolding nv_Close_def by (intro only) auto

lemma emits_nv_Open:
  "emits (nv_Open L) (\<lambda>r evs. fanless evs \<and> (case r of Inl e \<Rightarrow> True | Inr a \<Rightarrow> numbered (a_devices a)))"
proof -
  have listed: "emits (if e = None then enumerate_gpus L a else ret (e, a))
      (\<lambda>(e', a') evs. fanless evs \<and> (e' = None \<longrightarrow> numbered (a_devices a')))" if "a_devices a = []" for e a
  proof -
    from that have a: "a\<lparr>a_devices := []\<rparr> = a" by simp
    from emits_conj [OF emits_enumerate [of L a, unfolded a] only_enumerate]
    have "emits (enumerate_gpus L a) (\<lambda>(e', a') evs. fanless evs \<and> numbered (a_devices a'))"
      by (rule emits_mono) (auto simp: Let_def numbered_def list_all_iff listing_event_fan)
    then show ?thesis by (auto intro: emits_return elim: emits_mono)
  qed
  have close: "emits (case e of None \<Rightarrow> ret (Inr a) | Some e \<Rightarrow> do { nv_Close L a; ret (Inl e) })
      (\<lambda>r evs. fanless evs \<and> (case r of Inl e \<Rightarrow> True | Inr a \<Rightarrow> numbered (a_devices a)))"
    if "e = None \<longrightarrow> numbered (a_devices a)" for e a
    using that by (auto intro!: emits_return emits_bindI [OF close_fanless] split: option.split)
  let ?a = "\<lparr>a_ml = 0, a_nvapi = 0, a_mlShutdown = False, a_nvUnload = False, a_devices = []\<rparr>"
  have opened: "emits (if e = None then open_nv L a else ret (e, a)) (opens [])" if "a_devices a = []" for e a
    using that by (auto intro: emits_open_nv emits_return)
  show ?thesis
    unfolding nv_Open_def
  proof (rule emits_bindI [OF emits_open_ml [of ?a "[]"]], simp, rule emits_prod, goal_cases)
    case (1 x e1 e a)
    note first = 1
    then have a: "a_devices a = []" by simp
    show ?case
    proof (rule emits_bindI [OF opened [OF a]], rule emits_prod, goal_cases)
      case (1 x e2 e' a')
      note second = 1
      then have a': "a_devices a' = []" by simp
      show ?case
      proof (rule emits_bindI [OF listed [OF a']], rule emits_prod, goal_cases)
        case (1 x e3 e'' a'')
        then have "e'' = None \<longrightarrow> numbered (a_devices a'')" by simp
        from close [OF this] show ?case
          by (rule emits_mono) (use 1 first second in auto)
      qed
    qed
  qed
qed

section \<open>Running\<close>

text \<open>A part that the contract of the loop accepts makes only lawful calls, and knows the fans it holds.\<close>

lemma emits_on_nvml:
  assumes "mirrors (realises ds) m" and "numbered ds"
    and "emits m (\<lambda>x gs. \<exists>a'. w_run (GPUs ds) cf w_start gs = Some a' \<and> all_clear (GPUs ds) a')"
  shows "emits (on_nvml m) (\<lambda>_ evs. list_all (lawful ds cf) evs \<and> manual_fans {} evs = {})"
  unfolding emits_def
proof (intro allI)
  fix w tr
  obtain x v1 nt1 gs where m: "run_state m ((w, tr), []) = (x, ((v1, nt1), gs))" by (metis prod.collapse)
  with assms(1) obtain gs' ns where 1: "gs = gs'" "nt1 = tr @ concat ns" "list_all2 (realises ds) gs' ns"
    unfolding mirrors_def by (metis append_Nil fst_conv snd_conv)
  from assms(3) m obtain a' where "w_run (GPUs ds) cf w_start gs = Some a'" and clear: "all_clear (GPUs ds) a'"
    unfolding emits_def by (metis append_Nil fst_conv snd_conv)
  with 1 nv_trace_lawful [OF assms(2), of cf w_start gs a' ns "{}"]
  have "list_all (lawful ds cf) (concat ns)" and known: "fans_known ds a' (manual_fans {} (concat ns))"
    by (simp_all add: fans_known_def)
  moreover have "manual_fans {} (concat ns) = {}"
    using known clear by (auto simp: fans_known_def all_clear_def list_all_iff k_clear_def)
  ultimately show "\<exists>evs. snd (snd (run_state (on_nvml m) (w, tr))) = tr @ evs \<and>
      list_all (lawful ds cf) evs \<and> manual_fans {} evs = {}"
    using m 1(2) by (auto simp: on_nvml_def)
qed

lemma GPUs_nv_env [simp]: "e_gpus (nv_env L ds E) = GPUs ds"
  by (simp add: nv_env_def)

lemma emits_main_Run:
  assumes "numbered ds"
  shows "emits (on_nvml (Run (nv_env L ds E) cf ts (initial (nv_env L ds E))))
    (\<lambda>_ evs. list_all (lawful ds cf) evs \<and> manual_fans {} evs = {})"
proof (rule emits_on_nvml [OF nvml.Run_mirrors assms])
  have "\<not> g_active (initial (nv_env L ds E))" by (simp add: initial_def)
  from keeps_Run [OF initial_weak this, where ts = ts and cf = cf]
  show "emits (Run (nv_env L ds E) cf ts (initial (nv_env L ds E)))
      (\<lambda>x gs. \<exists>a'. w_run (GPUs ds) cf w_start gs = Some a' \<and> all_clear (GPUs ds) a')"
    by (simp add: triple_def)
qed

lemma emits_main_Cleanup:
  assumes "numbered ds"
  shows "emits (on_nvml (Cleanup (nv_env L ds E) cf (initial (nv_env L ds E))))
    (\<lambda>_ evs. list_all (lawful ds cf) evs \<and> manual_fans {} evs = {})"
proof (rule emits_on_nvml [OF nvml.Cleanup_mirrors assms])
  have "emits (Cleanup (nv_env L ds E) cf (initial (nv_env L ds E)))
      (\<lambda>(_, g') gs. \<exists>a'. w_run (GPUs ds) cf w_start gs = Some a' \<and> settled (GPUs ds) cf g' a')"
    using keeps_Cleanup [of "nv_env L ds E" cf "initial (nv_env L ds E)" None] initial_weak [of "nv_env L ds E" cf]
    by (auto simp: triple_def w_start_def elim!: allE [of _ w_start] emits_mono)
  then show "emits (Cleanup (nv_env L ds E) cf (initial (nv_env L ds E)))
      (\<lambda>x gs. \<exists>a'. w_run (GPUs ds) cf w_start gs = Some a' \<and> all_clear (GPUs ds) a')"
    by (rule emits_mono) (auto simp: settled_def)
qed

lemma lawful_device: "lawful ds cf ev \<Longrightarrow> device_event ev"
  by (cases ev) simp_all

lemma New_initial: "New E opts = Inr (cf, g) \<Longrightarrow> g = initial E"
  by (auto simp: New_def split: if_splits sum.splits)

fun closing_event :: "nvevent \<Rightarrow> bool" where
  "closing_event (NvUnload st) = True"
| "closing_event (MlShutdown st) = True"
| "closing_event (NDlclose h ok) = True"
| "closing_event _ = False"

lemma only_Close: "only closing_event (nv_Close L a)"
  unfolding nv_Close_def by (intro only) auto

text \<open>Lawful calls, then those of closing.\<close>

definition proper :: "device list \<Rightarrow> gconf \<Rightarrow> nvevent list \<Rightarrow> bool" where
  "proper ds cf evs \<longleftrightarrow> list_all (\<lambda>ev. lawful ds cf ev \<or> closing_event ev) evs \<and> manual_fans {} evs = {}"

lemma proper_closed:
  assumes "list_all (lawful ds cf) e1" and "manual_fans {} e1 = {}" and "list_all closing_event e2"
  shows "proper ds cf (e1 @ e2)"
proof -
  have "fan_command ev = None" if "closing_event ev" for ev using that by (cases ev) simp_all
  with assms(3) have "manual_fans {} e2 = {}" by (intro manual_fans_other) (auto simp: list_all_iff)
  with assms show ?thesis by (auto simp: proper_def list_all_iff)
qed

lemma emits_after_open:
  assumes "numbered (a_devices a)" and "New (nv_env L (a_devices a) E) opts = Inr (cf, g)"
  shows "emits (after_open L E opts release_only ts (Inr a)) (\<lambda>_. proper (a_devices a) cf)"
proof -
  have close: "emits (do { nv_Close L a; ret c }) (\<lambda>_ evs. proper (a_devices a) cf (e1 @ evs))"
    if "list_all (lawful (a_devices a) cf) e1" "manual_fans {} e1 = {}" for c :: int and e1
    by (intro emits_bindI [OF only_Close] emits_return) (simp add: proper_closed [OF that])
  have only: "proper (a_devices a) cf e1" if "list_all (lawful (a_devices a) cf) e1" "manual_fans {} e1 = {}" for e1
    using proper_closed [OF that, of "[]"] by simp
  note g = New_initial [OF assms(2)]
  show ?thesis
    by (simp add: after_open_def Let_def assms(2) g,
        intro conjI impI emits_bindI [OF emits_main_Cleanup [OF assms(1)]] emits_bindI [OF emits_main_Run [OF assms(1)]]
          emits_prod emits_if)
      (auto intro!: emits_return intro: close only)
qed

lemma triple_after_open:
  "triple lib_run (\<lambda>b. (case r of Inl e \<Rightarrow> all_closed b | Inr a \<Rightarrow> ready_a a b) \<and>
      (case r of Inl e \<Rightarrow> True | Inr a \<Rightarrow> numbered (a_devices a)))
    (after_open L E opts release_only ts r) (\<lambda>code b. code = 1 \<or> all_closed b)"
proof (cases r)
  case (Inl e)
  then show ?thesis by (auto simp: after_open_def intro: lib.triple_return)
next
  case (Inr a)
  have close: "triple lib_run (ready_a a) (do { nv_Close L a; ret c }) (\<lambda>code b. code = 1 \<or> all_closed b)" for c :: int
    by (rule lib.triple_seq [OF triple_nv_Close]) (auto simp: ready_a_def intro: lib.triple_return)
  have keep: "triple lib_run (ready_a a) m (\<lambda>_. ready_a a)"
    if "emits m (\<lambda>_ evs. list_all (lawful (a_devices a) cf) evs \<and> manual_fans {} evs = {})" for m cf
    by (rule triple_conseq [OF triple_device_events [where R = "\<lambda>_. True"]], rule emits_mono [OF that])
      (auto simp: list_all_iff lawful_device)
  have "triple lib_run (ready_a a) (after_open L E opts release_only ts (Inr a)) (\<lambda>code b. code = 1 \<or> all_closed b)"
    if n: "numbered (a_devices a)"
  proof (cases "New (nv_env L (a_devices a) E) opts")
    case (Inr p)
    then obtain cf g where p: "New (nv_env L (a_devices a) E) opts = Inr (cf, g)" by (cases p) auto
    show ?thesis
      by (simp add: after_open_def Let_def p New_initial [OF p],
          intro conjI impI lib.triple_bind [OF keep [OF emits_main_Cleanup [OF n]]]
            lib.triple_bind [OF keep [OF emits_main_Run [OF n]]] triple_pair triple_if close lib.triple_return)
        simp_all
  qed (auto simp: after_open_def intro: lib.triple_return)
  then show ?thesis by (auto simp: Inr triple_def)
qed


end
