(* ===== verification/Go_Json.thy ===== *)
theory Go_Json
  imports Governor_Options Json
begin

text \<open>
  The decoding of a control request by Go's \<open>encoding/json\<close>, as \<open>LoadControl\<close> uses it: a \<open>Decoder\<close>
  that disallows unknown fields, into a \<open>Control\<close>.  The grammar is the one of the package's scanner:
  all of JSON, escapes and numbers with fraction and exponent included.  A text is the list of its
  bytes.
\<close>

section \<open>UTF-8\<close>

definition byte :: "char \<Rightarrow> nat" where
  "byte c = of_char c"

definition between :: "nat \<Rightarrow> nat \<Rightarrow> char \<Rightarrow> bool" where
  "between a b c \<longleftrightarrow> a \<le> byte c \<and> byte c \<le> b"

text \<open>The length of the encoded character a text starts with; 0 if there is none.\<close>

fun rune_length :: "string \<Rightarrow> nat" where
  "rune_length (a # b # c # d # s) =
     (if byte a < 0x80 then 1
      else if between 0xC2 0xDF a then (if between 0x80 0xBF b then 2 else 0)
      else if between 0xE0 0xEF a then
        (if between (if byte a = 0xE0 then 0xA0 else 0x80) (if byte a = 0xED then 0x9F else 0xBF) b \<and> between 0x80 0xBF c
         then 3 else 0)
      else if between 0xF0 0xF4 a then
        (if between (if byte a = 0xF0 then 0x90 else 0x80) (if byte a = 0xF4 then 0x8F else 0xBF) b \<and>
            between 0x80 0xBF c \<and> between 0x80 0xBF d then 4 else 0)
      else 0)"
| "rune_length [a, b, c] =
     (if byte a < 0x80 then 1
      else if between 0xC2 0xDF a then (if between 0x80 0xBF b then 2 else 0)
      else if between 0xE0 0xEF a then
        (if between (if byte a = 0xE0 then 0xA0 else 0x80) (if byte a = 0xED then 0x9F else 0xBF) b \<and> between 0x80 0xBF c
         then 3 else 0)
      else 0)"
| "rune_length [a, b] =
     (if byte a < 0x80 then 1
      else if between 0xC2 0xDF a then (if between 0x80 0xBF b then 2 else 0)
      else 0)"
| "rune_length [a] = (if byte a < 0x80 then 1 else 0)"
| "rune_length [] = 0"

text \<open>\<open>utf8.EncodeRune\<close> of a code point that is not a surrogate.\<close>

definition encode_rune :: "nat \<Rightarrow> string" where
  "encode_rune r =
     map char_of
      (if r < 0x80 then [r]
       else if r < 0x800 then [0xC0 + r div 64, 0x80 + r mod 64]
       else if r < 0x10000 then [0xE0 + r div 4096, 0x80 + r div 64 mod 64, 0x80 + r mod 64]
       else [0xF0 + r div 262144, 0x80 + r div 4096 mod 64, 0x80 + r div 64 mod 64, 0x80 + r mod 64])"

definition replacement :: nat where "replacement = 0xFFFD"

section \<open>Strings\<close>

text \<open>The scanner: what stands between the quotes, and the rest.\<close>

fun raw_string :: "string \<Rightarrow> (string \<times> string) option" where
  "raw_string [] = None"
| "raw_string (c # s) =
     (if c = CHR 0x22 then Some ([], s)
      else if c = CHR 0x5C then
        (case s of
           [] \<Rightarrow> None
         | e # s1 \<Rightarrow>
             if e \<in> set [CHR ''b'', CHR ''f'', CHR ''n'', CHR ''r'', CHR ''t'', CHR 0x5C, CHR ''/'', CHR 0x22]
             then map_option (\<lambda>(x, r). (c # e # x, r)) (raw_string s1)
             else if e = CHR ''u'' then
               (case s1 of
                  h1 # h2 # h3 # h4 # s2 \<Rightarrow>
                    if list_all (is_digit 16) [h1, h2, h3, h4]
                    then map_option (\<lambda>(x, r). ([c, e, h1, h2, h3, h4] @ x, r)) (raw_string s2) else None
                | _ \<Rightarrow> None)
             else None)
      else if byte c < 0x20 then None
      else map_option (\<lambda>(x, r). (c # x, r)) (raw_string s))"

text \<open>\<open>getu4\<close>: the value of \<open>\uXXXX\<close> at the start of a text.\<close>

definition getu4 :: "string \<Rightarrow> nat option" where
  "getu4 s =
     (if take 2 s = [CHR 0x5C, CHR ''u''] \<and> length s \<ge> 6 \<and> list_all (is_digit 16) (take 4 (drop 2 s))
      then Some (num_of 16 (take 4 (drop 2 s))) else None)"

definition surrogate :: "nat \<Rightarrow> bool" where
  "surrogate r \<longleftrightarrow> 0xD800 \<le> r \<and> r < 0xE000"

definition decode_pair :: "nat \<Rightarrow> nat option \<Rightarrow> nat" where
  "decode_pair r1 r2 =
     (case r2 of
        Some r2 \<Rightarrow> if 0xD800 \<le> r1 \<and> r1 < 0xDC00 \<and> 0xDC00 \<le> r2 \<and> r2 < 0xE000
          then (r1 - 0xD800) * 1024 + (r2 - 0xDC00) + 0x10000 else replacement
      | None \<Rightarrow> replacement)"

definition escaped :: "char \<Rightarrow> char" where
  "escaped e =
     (if e = CHR ''b'' then CHR 0x08 else if e = CHR ''f'' then CHR 0x0C else if e = CHR ''n'' then CHR 0x0A
      else if e = CHR ''r'' then CHR 0x0D else if e = CHR ''t'' then CHR 0x09 else e)"

text \<open>\<open>unquote\<close> of a string the scanner has accepted.\<close>

function (sequential) unquote :: "string \<Rightarrow> string" where
  "unquote [] = []"
| "unquote (c # s) =
     (if c = CHR 0x5C then
        (case s of
           [] \<Rightarrow> []
         | e # s1 \<Rightarrow>
             if e = CHR ''u'' then
               (case getu4 (c # s) of
                  None \<Rightarrow> []
                | Some rr \<Rightarrow>
                    if surrogate rr then
                      (let dec = decode_pair rr (getu4 (drop 4 s1)) in
                       if dec \<noteq> replacement then encode_rune dec @ unquote (drop 10 s1)
                       else encode_rune replacement @ unquote (drop 4 s1))
                    else encode_rune rr @ unquote (drop 4 s1))
             else escaped e # unquote s1)
      else if rune_length (c # s) = 0 then encode_rune replacement @ unquote s
      else take (rune_length (c # s)) (c # s) @ unquote (drop (rune_length (c # s) - 1) s))"
  by pat_completeness auto
termination by (relation "measure length") auto

section \<open>Values\<close>

text \<open>A number is kept as its text, the elements of an array are never looked at.\<close>

datatype gojson =
    GoNull
  | GoBool bool
  | GoNum string
  | GoStr string
  | GoArr "gojson list"
  | GoObj "(string \<times> gojson) list"

definition digits :: "string \<Rightarrow> string \<times> string" where
  "digits s = (takeWhile (is_digit 10) s, dropWhile (is_digit 10) s)"

text \<open>The text of a number and the rest: integer part, fraction, exponent.\<close>

definition int_part :: "string \<Rightarrow> (string \<times> string) option" where
  "int_part s =
     (case s of
        [] \<Rightarrow> None
      | c # r \<Rightarrow> if c = CHR ''0'' then Some ([c], r)
          else let (ds, r) = digits s in if ds = [] then None else Some (ds, r))"

definition frac_part :: "string \<Rightarrow> (string \<times> string) option" where
  "frac_part s =
     (if take 1 s = ''.'' then (let (ds, r) = digits (drop 1 s) in if ds = [] then None else Some (CHR ''.'' # ds, r))
      else Some ([], s))"

definition exp_part :: "string \<Rightarrow> (string \<times> string) option" where
  "exp_part s =
     (case s of
        [] \<Rightarrow> Some ([], s)
      | e # r \<Rightarrow>
          if e = CHR ''e'' \<or> e = CHR ''E'' then
            (let sign = takeWhile (\<lambda>c. c = CHR ''+'' \<or> c = CHR ''-'') (take 1 r);
                 (ds, r') = digits (drop (length sign) r) in
             if ds = [] then None else Some (e # sign @ ds, r'))
          else Some ([], s))"

definition number :: "string \<Rightarrow> (string \<times> string) option" where
  "number s =
     (let sign = takeWhile (\<lambda>c. c = CHR ''-'') (take 1 s) in
      case int_part (drop (length sign) s) of None \<Rightarrow> None | Some (i, r1) \<Rightarrow>
     (case frac_part r1 of None \<Rightarrow> None | Some (f, r2) \<Rightarrow>
     (case exp_part r2 of None \<Rightarrow> None | Some (e, r3) \<Rightarrow> Some (sign @ i @ f @ e, r3))))"

definition skip_space :: "string \<Rightarrow> string" where
  "skip_space s = dropWhile json_space s"

text \<open>\<open>literal w v s\<close>: the value \<open>v\<close> if \<open>s\<close> starts with \<open>w\<close>.\<close>

definition literal :: "string \<Rightarrow> gojson \<Rightarrow> string \<Rightarrow> (gojson \<times> string) option" where
  "literal w v s = (if take (length w) s = w then Some (v, drop (length w) s) else None)"

definition scalar :: "string \<Rightarrow> (gojson \<times> string) option" where
  "scalar s =
     (case s of
        [] \<Rightarrow> None
      | c # r \<Rightarrow>
          if c = CHR 0x22 then map_option (\<lambda>(x, r'). (GoStr (unquote x), r')) (raw_string r)
          else if c = CHR ''t'' then literal ''true'' (GoBool True) s
          else if c = CHR ''f'' then literal ''false'' (GoBool False) s
          else if c = CHR ''n'' then literal ''null'' GoNull s
          else map_option (\<lambda>(x, r'). (GoNum x, r')) (number s))"

definition key_colon :: "string \<Rightarrow> (string \<times> string) option" where
  "key_colon s =
     (case skip_space s of
        [] \<Rightarrow> None
      | c # r \<Rightarrow>
          if c \<noteq> CHR 0x22 then None
          else (case raw_string r of
             None \<Rightarrow> None
           | Some (k, r1) \<Rightarrow> (case skip_space r1 of
               [] \<Rightarrow> None
             | d # r2 \<Rightarrow> if d = CHR '':'' then Some (unquote k, r2) else None)))"

text \<open>
  A value, the elements of an array up to its end, the members of an object up to its end.  The
  conditions on the lengths always hold (\<open>value_shorter\<close>); they make the recursion evident.
\<close>

function (sequential) gvalue :: "string \<Rightarrow> (gojson \<times> string) option"
  and gelements :: "string \<Rightarrow> (gojson list \<times> string) option"
  and gmembers :: "string \<Rightarrow> ((string \<times> gojson) list \<times> string) option" where
  "gvalue s =
     (case skip_space s of
        [] \<Rightarrow> None
      | c # r \<Rightarrow>
          if length r \<ge> length s then None
          else if c = CHR ''['' then
            (if take 1 (skip_space r) = '']'' then Some (GoArr [], drop 1 (skip_space r))
             else map_option (\<lambda>(vs, r'). (GoArr vs, r')) (gelements r))
          else if c = CHR ''{'' then
            (if take 1 (skip_space r) = ''}'' then Some (GoObj [], drop 1 (skip_space r))
             else map_option (\<lambda>(ms, r'). (GoObj ms, r')) (gmembers r))
          else scalar (c # r))"
| "gelements s =
     (case gvalue s of
        None \<Rightarrow> None
      | Some (v, r) \<Rightarrow> (case skip_space r of
          [] \<Rightarrow> None
        | c # r1 \<Rightarrow>
            if length r1 \<ge> length s then None
            else if c = CHR '','' then map_option (\<lambda>(vs, r'). (v # vs, r')) (gelements r1)
            else if c = CHR '']'' then Some ([v], r1)
            else None))"
| "gmembers s =
     (case key_colon s of
        None \<Rightarrow> None
      | Some (k, r0) \<Rightarrow>
          if length r0 \<ge> length s then None
          else (case gvalue r0 of
            None \<Rightarrow> None
          | Some (v, r) \<Rightarrow> (case skip_space r of
              [] \<Rightarrow> None
            | c # r1 \<Rightarrow>
                if length r1 \<ge> length s then None
                else if c = CHR '','' then map_option (\<lambda>(ms, r'). ((k, v) # ms, r')) (gmembers r1)
                else if c = CHR ''}'' then Some ([(k, v)], r1)
                else None)))"
  by pat_completeness auto
termination
  by (relation "measure (\<lambda>x. case x of Inl s \<Rightarrow> 2 * length s | Inr y \<Rightarrow>
       (case y of Inl s \<Rightarrow> 2 * length s + 1 | Inr s \<Rightarrow> 2 * length s + 1))") auto

declare gvalue.simps [simp del] gelements.simps [simp del] gmembers.simps [simp del]

section \<open>Storing into a \<open>Control\<close>\<close>

datatype control_field = FEnabled | FProfile | FFan

text \<open>
  The field of a member: names are compared without regard to case.  Case folding maps no character
  outside ASCII to a letter of these names.
\<close>

definition upper :: "char \<Rightarrow> char" where
  "upper c = (if between 97 122 c then char_of (byte c - 32) else c)"

definition field_of :: "string \<Rightarrow> control_field option" where
  "field_of k =
     map_of [(''ENABLED'', FEnabled), (''PROFILE'', FProfile), (''IDLE_FAN_PERCENT'', FFan)] (map upper k)"

text \<open>A member into the value so far; \<open>None\<close> is an error that \<open>Decode\<close> keeps and returns at the end.\<close>

definition store_member :: "string \<times> gojson \<Rightarrow> control \<Rightarrow> control option" where
  "store_member m c =
     (case field_of (fst m) of
        None \<Rightarrow> None
      | Some f \<Rightarrow> (case snd m of
          GoNull \<Rightarrow> Some c
        | GoBool b \<Rightarrow> if f = FEnabled then Some (c\<lparr>c_enabled := b\<rparr>) else None
        | GoStr s \<Rightarrow> if f = FProfile then Some (c\<lparr>c_profile := s\<rparr>) else None
        | GoNum x \<Rightarrow> if f = FFan then map_option (\<lambda>n. c\<lparr>c_fan := n\<rparr>) (ParseInt x 64) else None
        | _ \<Rightarrow> None))"

fun store_all :: "(string \<times> gojson) list \<Rightarrow> control \<Rightarrow> control option" where
  "store_all [] c = Some c"
| "store_all (m # ms) c = Option.bind (store_member m c) (store_all ms)"

definition zero_control :: control where
  "zero_control = \<lparr>c_enabled = False, c_profile = [], c_fan = 0\<rparr>"

text \<open>The first \<open>Decode\<close>: the value, and what is left of the text.\<close>

definition decode_request :: "string \<Rightarrow> (control \<times> string) option" where
  "decode_request s =
     (case gvalue s of
        None \<Rightarrow> None
      | Some (v, r) \<Rightarrow> (case v of
          GoNull \<Rightarrow> Some (zero_control, r)
        | GoObj ms \<Rightarrow> map_option (\<lambda>c. (c, r)) (store_all ms zero_control)
        | _ \<Rightarrow> None))"

end
