(* ===== verification/Control_Files.thy ===== *)
theory Control_Files
  imports Go_Json
begin

text \<open>
  The control directory of the governor: reading the control request
  (\<open>internal/governor/config.go\<close>) and writing the status files (\<open>internal/governor/status.go\<close>).  The
  operating system is a record of functions over an arbitrary world, with an event per call.
\<close>

section \<open>The operating system\<close>

text \<open>
  Errors are those the governor tells apart.  \<open>f_stat\<close> tells whether the file is regular and its
  size; \<open>f_read\<close> is \<open>io.ReadAll\<close> of a \<open>LimitReader\<close>, which stops at the limit; \<open>f_write\<close> is
  \<open>WriteString\<close>, which writes everything or stops with an error after so many bytes.
\<close>

record 'w files =
  f_opendir :: "string \<Rightarrow> 'w \<Rightarrow> (gerror + int) \<times> 'w"
  f_openread :: "int \<Rightarrow> string \<Rightarrow> 'w \<Rightarrow> (gerror + int) \<times> 'w"
  f_create :: "int \<Rightarrow> string \<Rightarrow> 'w \<Rightarrow> (gerror + int) \<times> 'w"
  f_stat :: "int \<Rightarrow> 'w \<Rightarrow> (bool \<times> int) option \<times> 'w"
  f_read :: "int \<Rightarrow> nat \<Rightarrow> 'w \<Rightarrow> string option \<times> 'w"
  f_random :: "nat \<Rightarrow> 'w \<Rightarrow> bytes option \<times> 'w"
  f_write :: "int \<Rightarrow> string \<Rightarrow> 'w \<Rightarrow> nat option \<times> 'w"
  f_sync :: "int \<Rightarrow> 'w \<Rightarrow> bool \<times> 'w"
  f_close :: "int \<Rightarrow> 'w \<Rightarrow> bool \<times> 'w"
  f_rename :: "int \<Rightarrow> string \<Rightarrow> string \<Rightarrow> 'w \<Rightarrow> gerror option \<times> 'w"
  f_unlink :: "int \<Rightarrow> string \<Rightarrow> 'w \<Rightarrow> gerror option \<times> 'w"

datatype fevent =
    FOpenDir string "gerror + int"
  | FOpenRead int string "gerror + int"
  | FCreate int string "gerror + int"
  | FStat int "(bool \<times> int) option"
  | FRead int nat "string option"
  | FRandom nat "bytes option"
  | FWrite int string "nat option"
  | FSync int bool
  | FClose int bool
  | FRename int string string "gerror option"
  | FUnlink int string "gerror option"

type_synonym ('w, 'a) fproc = "('w, fevent, 'a) traced"

section \<open>Paths\<close>

text \<open>\<open>filepath.Clean\<close>: the elements, in reverse, and whether the path starts at the root.\<close>

fun clean_elements :: "bool \<Rightarrow> string list \<Rightarrow> string list \<Rightarrow> string list" where
  "clean_elements rooted acc [] = acc"
| "clean_elements rooted acc (e # es) =
     (if e = [] \<or> e = ''.'' then clean_elements rooted acc es
      else if e = ''..'' then
        (case acc of
           a # as \<Rightarrow> if a \<noteq> ''..'' then clean_elements rooted as es
             else if rooted then clean_elements rooted acc es else clean_elements rooted (e # acc) es
         | [] \<Rightarrow> if rooted then clean_elements rooted acc es else clean_elements rooted (e # acc) es)
      else clean_elements rooted (e # acc) es)"

fun join_slash :: "string list \<Rightarrow> string" where
  "join_slash [] = []"
| "join_slash [e] = e"
| "join_slash (e # es) = e @ ''/'' @ join_slash es"

definition Clean :: "string \<Rightarrow> string" where
  "Clean path =
     (let rooted = take 1 path = ''/'';
          s = (if rooted then ''/'' else []) @ join_slash (rev (clean_elements rooted [] (Split CHR ''/'' path))) in
      if s = [] then ''.'' else s)"

text \<open>\<open>filepath.Dir\<close> and \<open>filepath.Base\<close>, which cut at the last slash.\<close>

definition not_slash :: "char \<Rightarrow> bool" where
  "not_slash c \<longleftrightarrow> c \<noteq> CHR ''/''"

definition Dir :: "string \<Rightarrow> string" where
  "Dir path = Clean (rev (dropWhile not_slash (rev path)))"

definition Base :: "string \<Rightarrow> string" where
  "Base path =
     (if path = [] then ''.''
      else let stripped = dropWhile (\<lambda>c. \<not> not_slash c) (rev path); last = rev (takeWhile not_slash stripped) in
        if last = [] then ''/'' else last)"

section \<open>Reading the control request\<close>

definition maxControlSize :: nat where "maxControlSize = 4096"

definition openDirectory :: "'w files \<Rightarrow> string \<Rightarrow> ('w, gerror + int) fproc" where
  "openDirectory K path = call (f_opendir K path) (FOpenDir path)"

text \<open>The checks of the open file; \<open>Inl\<close> is the error \<open>LoadControl\<close> returns.\<close>

definition read_request :: "'w files \<Rightarrow> int \<Rightarrow> ('w, gerror + control) fproc" where
  "read_request K fd = do {
     info \<leftarrow> call (f_stat K fd) (FStat fd);
     (case info of
        None \<Rightarrow> ret (Inl ErrOther)
      | Some (regular, sz) \<Rightarrow>
          if \<not> regular then ret (Inl ErrOther)
          else if sz > int maxControlSize then ret (Inl ErrOther)
          else do {
            data \<leftarrow> call (\<lambda>w. let (r, w') = f_read K fd (maxControlSize + 1) w in (map_option (take (maxControlSize + 1)) r, w'))
              (FRead fd (maxControlSize + 1));
            (case data of
               None \<Rightarrow> ret (Inl ErrOther)
             | Some data \<Rightarrow>
                 if length data > maxControlSize then ret (Inl ErrOther)
                 else (case decode_request data of
                   None \<Rightarrow> ret (Inl ErrOther)
                 | Some (control, rest) \<Rightarrow>
                     if \<not> list_all json_space rest then ret (Inl ErrOther) else ret (Inr control)))
          })
   }"

definition open_request :: "'w files \<Rightarrow> string \<Rightarrow> ('w, gerror + control) fproc" where
  "open_request K path = do {
     directory \<leftarrow> openDirectory K (Dir path);
     (case directory of
        Inl e \<Rightarrow> ret (Inl e)
      | Inr d \<Rightarrow> do {
          file \<leftarrow> call (f_openread K d (Base path)) (FOpenRead d (Base path));
          r \<leftarrow> (case file of
             Inl e \<Rightarrow> ret (Inl e)
           | Inr fd \<Rightarrow> do {
               r \<leftarrow> read_request K fd;
               call (f_close K fd) (FClose fd);
               ret r
             });
          call (f_close K d) (FClose d);
          ret r
        })
   }"

text \<open>The whole of \<open>LoadControl\<close>, with the checks of the decoded value.\<close>

definition load_control :: "'w files \<Rightarrow> string \<Rightarrow> ('w, gerror + control) fproc" where
  "load_control K path = do {
     r \<leftarrow> open_request K path;
     ret (case r of Inl e \<Rightarrow> Inl e | Inr c \<Rightarrow> if valid_control c then Inr c else Inl ErrOther)
   }"

section \<open>Writing the status files\<close>

definition temp_name :: "string \<Rightarrow> bytes \<Rightarrow> string" where
  "temp_name name random =
     ''.'' @ name @ ''-'' @ concat (map (\<lambda>b. [digit_char (unat b div 16), digit_char (unat b mod 16)]) random) @ ''.tmp''"

definition write_temp :: "'w files \<Rightarrow> int \<Rightarrow> int \<Rightarrow> string \<Rightarrow> string \<Rightarrow> string \<Rightarrow> ('w, gerror option) fproc" where
  "write_temp K d fd tmp name content = do {
     written \<leftarrow> call (f_write K fd content) (FWrite fd content);
     if written \<noteq> None then do { call (f_close K fd) (FClose fd); ret (Some ErrOther) } else do {
     ok \<leftarrow> call (f_sync K fd) (FSync fd);
     if \<not> ok then do { call (f_close K fd) (FClose fd); ret (Some ErrOther) } else do {
     ok \<leftarrow> call (f_close K fd) (FClose fd);
     if \<not> ok then ret (Some ErrOther)
     else call (f_rename K d tmp name) (FRename d tmp name)
     }}
   }"

definition write_in :: "'w files \<Rightarrow> int \<Rightarrow> string \<Rightarrow> string \<Rightarrow> ('w, gerror option) fproc" where
  "write_in K d name content = do {
     random \<leftarrow> call (f_random K 8) (FRandom 8);
     (case random of
        None \<Rightarrow> ret (Some ErrOther)
      | Some random \<Rightarrow> do {
          file \<leftarrow> call (f_create K d (temp_name name random)) (FCreate d (temp_name name random));
          (case file of
             Inl e \<Rightarrow> ret (Some e)
           | Inr fd \<Rightarrow> do {
               e \<leftarrow> write_temp K d fd (temp_name name random) name content;
               call (f_unlink K d (temp_name name random)) (FUnlink d (temp_name name random));
               ret e
             })
        })
   }"

definition writeAtomic :: "'w files \<Rightarrow> string \<Rightarrow> string \<Rightarrow> string \<Rightarrow> ('w, gerror option) fproc" where
  "writeAtomic K dir name content = do {
     directory \<leftarrow> openDirectory K dir;
     (case directory of
        Inl e \<Rightarrow> ret (Some e)
      | Inr d \<Rightarrow> do {
          e \<leftarrow> write_in K d name content;
          call (f_close K d) (FClose d);
          ret e
        })
   }"

definition remove_status :: "'w files \<Rightarrow> string \<Rightarrow> string \<Rightarrow> ('w, gerror option) fproc" where
  "remove_status K dir name = do {
     directory \<leftarrow> openDirectory K (Clean dir);
     (case directory of
        Inl e \<Rightarrow> ret (if e = ErrNotExist then None else Some e)
      | Inr d \<Rightarrow> do {
          e \<leftarrow> call (f_unlink K d name) (FUnlink d name);
          call (f_close K d) (FClose d);
          ret (if e = Some ErrNotExist then None else e)
        })
   }"

definition status_Active :: "'w files \<Rightarrow> string \<Rightarrow> control \<Rightarrow> ('w, gerror option) fproc" where
  "status_Active K dir control = do {
     e \<leftarrow> writeAtomic K dir ''active-profile'' (c_profile control @ ''\<newline>'');
     if e \<noteq> None then ret e else do {
     e \<leftarrow> writeAtomic K dir ''active-fan-percent'' (show_int (c_fan control) @ ''\<newline>'');
     if e \<noteq> None then ret e
     else remove_status K dir ''last-error''
     }
   }"

definition status_Inactive :: "'w files \<Rightarrow> string \<Rightarrow> ('w, gerror option) fproc" where
  "status_Inactive K dir = do {
     e \<leftarrow> remove_status K dir ''active-profile'';
     if e \<noteq> None then ret e
     else remove_status K dir ''active-fan-percent''
   }"

definition error_text :: "string \<Rightarrow> string" where
  "error_text message = take 1000 (TrimSpace message) @ ''\<newline>''"

definition status_Error :: "'w files \<Rightarrow> string \<Rightarrow> string \<Rightarrow> ('w, unit) fproc" where
  "status_Error K dir message = do {
     status_Inactive K dir;
     writeAtomic K dir ''last-error'' (error_text message);
     ret ()
   }"

end
