(* ===== verification/Control_Dir.thy ===== *)
theory Control_Dir
  imports Control_Files Governor_Run Implements "HOL-Library.Sublist"
begin

text \<open>
  What the control directory looks like at every moment, as an automaton over the calls of
  \<open>Control_Files\<close>: descriptors, the files with their contents and whether these are on the disk, the
  temporary file being written, and the temporary files not yet taken away.  A file that a reader may
  open is replaced only by renaming a complete, synchronised and closed one, and only by a content
  that makes sense under its name.
\<close>

section \<open>The directory\<close>

record cdir =
  d_open :: "int multiset"
  d_files :: "string \<Rightarrow> (string \<times> bool) option"
  d_file :: "(int \<times> string) option"
  d_left :: "string set"

definition hidden :: "string \<Rightarrow> bool" where
  "hidden name \<longleftrightarrow> take 1 name = ''.''"

text \<open>What a reader sees: the files whose names do not start with a dot.\<close>

definition pub :: "(string \<Rightarrow> (string \<times> bool) option) \<Rightarrow> string \<Rightarrow> (string \<times> bool) option" where
  "pub f = (\<lambda>n. if hidden n then None else f n)"

abbreviation public :: "cdir \<Rightarrow> string \<Rightarrow> (string \<times> bool) option" where
  "public y \<equiv> pub (d_files y)"

lemma pub_simps [simp]:
  "pub (f(n := x)) = (if hidden n then pub f else (pub f)(n := x))" "pub Map.empty = Map.empty"
  by (auto simp: pub_def fun_eq_iff)

definition percents :: "int list" where
  "percents = 0 # map int [15..<101]"

definition well_formed :: "string \<Rightarrow> string \<Rightarrow> bool" where
  "well_formed name content \<longleftrightarrow>
     (if name = ''active-profile'' then content \<in> set (map (\<lambda>(p, n). p @ ''\<newline>'') Profiles)
      else if name = ''active-fan-percent'' then list_ex (\<lambda>i. content = show_int i @ ''\<newline>'') percents
      else if name = ''last-error'' then content \<noteq> [] \<and> last content = CHR 0x0A \<and> length content \<le> 1001
      else False)"

text \<open>
  A directory that does not exist has no files, a name that does not exist is absent, and a file that
  could be created exclusively was absent.  The new content is on the disk once \<open>fsync\<close> succeeded.
\<close>

fun d_step :: "cdir \<Rightarrow> fevent \<Rightarrow> cdir option" where
  "d_step y (FOpenDir p r) =
     Some (case r of
       Inr fd \<Rightarrow> y\<lparr>d_open := add_mset fd (d_open y)\<rparr>
     | Inl e \<Rightarrow> if e = ErrNotExist then y\<lparr>d_files := Map.empty\<rparr> else y)"
| "d_step y (FOpenRead d n r) =
     (if d \<in># d_open y then Some (case r of Inr fd \<Rightarrow> y\<lparr>d_open := add_mset fd (d_open y)\<rparr> | Inl e \<Rightarrow> y) else None)"
| "d_step y (FCreate d n r) =
     (if d \<in># d_open y \<and> hidden n \<and> d_file y = None
      then Some (case r of
          Inr fd \<Rightarrow> y\<lparr>d_open := add_mset fd (d_open y), d_files := (d_files y)(n \<mapsto> ([], False)),
            d_file := Some (fd, n), d_left := insert n (d_left y)\<rparr>
        | Inl e \<Rightarrow> y)
      else None)"
| "d_step y (FStat fd r) = (if fd \<in># d_open y then Some y else None)"
| "d_step y (FRead fd n r) = (if fd \<in># d_open y then Some y else None)"
| "d_step y (FRandom n r) = Some y"
| "d_step y (FWrite fd s r) =
     (case d_file y of
        None \<Rightarrow> None
      | Some (fd', n) \<Rightarrow>
          if fd = fd' \<and> fd \<in># d_open y
          then Some (y\<lparr>d_files := (d_files y)(n := map_option
            (\<lambda>(c, b). (c @ (case r of None \<Rightarrow> s | Some k \<Rightarrow> take k s), False)) (d_files y n))\<rparr>)
          else None)"
| "d_step y (FSync fd ok) =
     (case d_file y of
        None \<Rightarrow> None
      | Some (fd', n) \<Rightarrow>
          if fd = fd' \<and> fd \<in># d_open y
          then Some (if ok then y\<lparr>d_files := (d_files y)(n := map_option (\<lambda>(c, b). (c, True)) (d_files y n))\<rparr> else y)
          else None)"
| "d_step y (FClose fd ok) =
     (if fd \<in># d_open y
      then Some (y\<lparr>d_open := d_open y - {#fd#}, d_file := (case d_file y of
          None \<Rightarrow> None | Some (fd', n) \<Rightarrow> if fd = fd' then None else Some (fd', n))\<rparr>)
      else None)"
| "d_step y (FRename d a b r) =
     (if d \<in># d_open y \<and> hidden a \<and> \<not> hidden b \<and> d_file y = None \<and>
         (case d_files y a of Some (c, True) \<Rightarrow> well_formed b c | _ \<Rightarrow> False)
      then Some (if r = None
        then y\<lparr>d_files := (d_files y)(b := d_files y a, a := None), d_left := d_left y - {a}\<rparr> else y)
      else None)"
| "d_step y (FUnlink d n r) =
     (if d \<in># d_open y \<and> d_file y = None
      then Some (y\<lparr>d_files := (if r = None \<or> r = Some ErrNotExist then (d_files y)(n := None) else d_files y),
        d_left := d_left y - {n}\<rparr>)
      else None)"

fun d_run :: "cdir \<Rightarrow> fevent list \<Rightarrow> cdir option" where
  "d_run y [] = Some y"
| "d_run y (ev # evs) = Option.bind (d_step y ev) (\<lambda>y'. d_run y' evs)"

interpretation dir: automaton d_step d_run
  by unfold_locales simp_all

text \<open>Between the operations nothing is being written and no temporary file is left.\<close>

definition at_rest :: "cdir \<Rightarrow> bool" where
  "at_rest y \<longleftrightarrow> d_file y = None \<and> d_left y = {}"

text \<open>Everything a reader can open is complete, on the disk and well formed.\<close>

definition complete :: "(string \<Rightarrow> (string \<times> bool) option) \<Rightarrow> bool" where
  "complete P \<longleftrightarrow> list_all (\<lambda>n. case P n of None \<Rightarrow> True | Some (c, b) \<Rightarrow> b \<and> well_formed n c)
     [''active-profile'', ''active-fan-percent'', ''last-error'']"

lemma complete_simps [simp]:
  "complete P \<Longrightarrow> complete (P(n := None))" "complete Map.empty"
  "complete P \<Longrightarrow> well_formed n c \<Longrightarrow> complete (P(n \<mapsto> (c, True)))"
  by (auto simp: complete_def)

definition status_ok :: "cdir \<Rightarrow> bool" where
  "status_ok y \<longleftrightarrow> complete (public y) \<and> (case d_file y of None \<Rightarrow> True | Some (fd, n) \<Rightarrow> hidden n)"

lemma d_step_status_ok:
  assumes "status_ok y" and "d_step y ev = Some y'"
  shows "status_ok y'"
  using assms
  by (cases ev) (auto simp: status_ok_def simp del: fun_upd_apply split: sum.splits option.splits if_splits bool.splits)

section \<open>Each operation\<close>

lemma hidden_temp [simp]: "hidden (temp_name name random)"
  by (simp add: hidden_def temp_name_def)

lemma emits_write_temp:
  assumes "hidden tmp" and "\<not> hidden name" and "well_formed name content"
    and "d_open y = add_mset fd m" and "d \<in># m"
    and "d_file y = Some (fd, tmp)" and "d_files y tmp = Some ([], False)"
  shows "emits (write_temp K d fd tmp name content) (\<lambda>r evs. \<exists>y'. d_run y evs = Some y' \<and> d_open y' = m \<and> d_file y' = None \<and>
    d_left y' - {tmp} = d_left y - {tmp} \<and> public y' = (if r = None then (public y)(name \<mapsto> (content, True)) else public y))"
  unfolding write_temp_def
  by (intro emit) (use assms in \<open>auto simp del: fun_upd_apply simp: fun_upd_same\<close>)

lemma emits_write_in:
  assumes "\<not> hidden name" and "well_formed name content" and "d \<in># d_open y" and "at_rest y"
  shows "emits (write_in K d name content) (\<lambda>r evs. \<exists>y'. d_run y evs = Some y' \<and> d_open y' = d_open y \<and> at_rest y' \<and>
    public y' = (if r = None then (public y)(name \<mapsto> (content, True)) else public y))"
  unfolding write_in_def
proof (intro emit, goal_cases)
  case (1 r)
  with assms show ?case by auto
next
  case (2 r bs r' e)
  with assms show ?case by (auto simp: at_rest_def)
next
  case (3 r bs r' fd)
  let ?tmp = "temp_name name bs"
  let ?y = "y\<lparr>d_open := add_mset fd (d_open y), d_files := (d_files y)(?tmp \<mapsto> ([], False)),
      d_file := Some (fd, ?tmp), d_left := insert ?tmp (d_left y)\<rparr>"
  have step: "d_step y (FCreate d ?tmp (Inr fd)) = Some ?y" using assms by (simp add: at_rest_def)
  have "emits (write_temp K d fd ?tmp name content) (\<lambda>r evs. \<exists>y'. d_run ?y evs = Some y' \<and> d_open y' = d_open y \<and> d_file y' = None \<and>
    d_left y' - {?tmp} = {} \<and> public y' = (if r = None then (public y)(name \<mapsto> (content, True)) else public y))"
    by (rule emits_mono [OF emits_write_temp [where y = ?y and m = "d_open y"]]) (use assms in \<open>auto simp: at_rest_def\<close>)
  then show ?case
  proof (rule emits_mono, intro emit, elim exE conjE, goal_cases)
    case (1 r'' evs r3 y')
    with step 3 assms(3) show ?case
      by (auto simp: dir.run_append at_rest_def simp del: fun_upd_apply d_step.simps(3))
  qed
qed

text \<open>Between operations, with \<open>m\<close> open and \<open>P\<close> to be read.\<close>

abbreviation dir_is :: "int multiset \<Rightarrow> (string \<Rightarrow> (string \<times> bool) option) \<Rightarrow> cdir \<Rightarrow> bool" where
  "dir_is m P \<equiv> \<lambda>y. at_rest y \<and> d_open y = m \<and> public y = P"

lemma triple_writeAtomic:
  assumes "\<not> hidden name" and "well_formed name content"
  shows "triple d_run (dir_is m P) (writeAtomic K dir name content)
    (\<lambda>r y. if r = None then dir_is m (P(name \<mapsto> (content, True))) y else dir_is m P y \<or> dir_is m Map.empty y)"
  unfolding writeAtomic_def openDirectory_def triple_def
proof (intro allI impI emit, goal_cases)
  case (1 y r e)
  then show ?case by (auto simp: at_rest_def)
next
  case (2 y r d)
  let ?y = "y\<lparr>d_open := add_mset d (d_open y)\<rparr>"
  have step: "d_step y (FOpenDir dir r) = Some ?y" using 2 by simp
  have "emits (write_in K d name content) (\<lambda>r evs. \<exists>y'. d_run ?y evs = Some y' \<and> d_open y' = add_mset d m \<and> at_rest y' \<and>
      public y' = (if r = None then P(name \<mapsto> (content, True)) else P))"
    by (rule emits_mono [OF emits_write_in [OF assms, of d ?y]]) (use 2 in \<open>auto simp: at_rest_def\<close>)
  then show ?case
  proof (rule emits_mono, intro emit, elim exE conjE, goal_cases)
    case (1 e evs ok y')
    with step show ?case by (auto simp: dir.run_append at_rest_def simp del: d_step.simps(1) fun_upd_apply)
  qed
qed

lemma triple_remove_status:
  assumes "\<not> hidden name"
  shows "triple d_run (dir_is m P) (remove_status K dir name)
    (\<lambda>r y. if r = None then dir_is m (P(name := None)) y \<or> dir_is m Map.empty y else dir_is m P y)"
  unfolding remove_status_def openDirectory_def triple_def
  by (intro allI impI emit) (use assms in \<open>auto simp: at_rest_def simp del: fun_upd_apply\<close>)

definition quiet :: "int multiset \<Rightarrow> cdir \<Rightarrow> bool" where
  "quiet m y \<longleftrightarrow> at_rest y \<and> d_open y = m"

definition published :: "control \<Rightarrow> (string \<Rightarrow> (string \<times> bool) option) \<Rightarrow> string \<Rightarrow> (string \<times> bool) option" where
  "published c P = P(''active-profile'' \<mapsto> (c_profile c @ ''\<newline>'', True),
     ''active-fan-percent'' \<mapsto> (show_int (c_fan c) @ ''\<newline>'', True), ''last-error'' := None)"

lemma not_hidden [simp]: "\<not> hidden ''active-profile''" "\<not> hidden ''active-fan-percent''" "\<not> hidden ''last-error''"
  by (simp_all add: hidden_def)

lemma well_formed_control:
  assumes "valid_control c"
  shows "well_formed ''active-profile'' (c_profile c @ ''\<newline>'')"
    and "well_formed ''active-fan-percent'' (show_int (c_fan c) @ ''\<newline>'')"
proof -
  from assms have "c_profile c \<in> fst ` set Profiles" by (auto simp: valid_control_def dest!: map_of_SomeD intro: rev_image_eqI)
  then show "well_formed ''active-profile'' (c_profile c @ ''\<newline>'')" by (auto simp: well_formed_def)
  from assms have "c_fan c = 0 \<or> 15 \<le> c_fan c \<and> c_fan c \<le> 100" by (auto simp: valid_control_def)
  then have "c_fan c \<in> set percents"
    unfolding percents_def list.set list.set_map set_upt by (auto intro!: image_eqI [of _ _ "nat (c_fan c)"])
  then show "well_formed ''active-fan-percent'' (show_int (c_fan c) @ ''\<newline>'')"
    by (auto simp: well_formed_def list_ex_iff)
qed

lemma well_formed_error: "well_formed ''last-error'' (error_text message)"
  by (simp add: well_formed_def error_text_def)

lemma triple_status_Active:
  assumes "valid_control c"
  shows "triple d_run (dir_is m P) (status_Active K dir c)
    (\<lambda>r y. quiet m y \<and> (if r = None then public y = published c P \<or> public y = Map.empty else True))"
  unfolding status_Active_def
proof (rule dir.triple_seq [OF triple_writeAtomic [OF not_hidden(1) well_formed_control(1) [OF assms], of m P]], simp, goal_cases)
  case (1 e)
  let ?P1 = "P(''active-profile'' \<mapsto> (c_profile c @ ''\<newline>'', True))"
  show ?case
  proof (intro triple_if dir.triple_return, goal_cases)
    case (1 y)
    then show ?case by (auto simp: quiet_def)
  next
    case 2
    show ?case
    proof (rule dir.triple_seq [OF triple_writeAtomic [OF not_hidden(2) well_formed_control(2) [OF assms], of m ?P1]], goal_cases)
      case (1 y)
      with 2 show ?case by simp
    next
      case (2 e)
      show ?case
      proof (intro triple_if dir.triple_return, goal_cases)
        case (1 y)
        then show ?case by (auto simp: quiet_def)
      next
        case 2
        show ?case
          by (rule triple_conseq [OF triple_remove_status [OF not_hidden(3),
                where P = "?P1(''active-fan-percent'' \<mapsto> (show_int (c_fan c) @ ''\<newline>'', True))" and m = m]])
            (use 2 in \<open>auto simp: quiet_def published_def\<close>)
      qed
    qed
  qed
qed

lemma triple_quiet:
  assumes "\<And>P. triple d_run (dir_is m P) x (\<lambda>r. quiet m)"
  shows "triple d_run (quiet m) x (\<lambda>r. quiet m)"
  using assms by (auto simp: triple_def quiet_def)

lemma quiet_ops:
  "triple d_run (quiet m) (remove_status K dir ''active-profile'') (\<lambda>r. quiet m)"
  "triple d_run (quiet m) (remove_status K dir ''active-fan-percent'') (\<lambda>r. quiet m)"
  "triple d_run (quiet m) (writeAtomic K dir ''last-error'' (error_text message)) (\<lambda>r. quiet m)"
  by (rule triple_quiet, rule triple_conseq [OF triple_remove_status]; auto simp: quiet_def split: if_splits)+
    (rule triple_quiet, rule triple_conseq [OF triple_writeAtomic [OF not_hidden(3) well_formed_error]]; auto simp: quiet_def split: if_splits)

lemma triple_status_Inactive: "triple d_run (quiet m) (status_Inactive K dir) (\<lambda>r. quiet m)"
  unfolding status_Inactive_def
  by (rule dir.triple_bind [OF quiet_ops(1)], intro triple_if dir.triple_return quiet_ops(2))

lemma triple_status_Error: "triple d_run (quiet m) (status_Error K dir message) (\<lambda>r. quiet m)"
  unfolding status_Error_def
  by (rule dir.triple_bind [OF triple_status_Inactive], rule dir.triple_bind [OF quiet_ops(3)], rule dir.triple_return)

text \<open>Reading changes nothing.\<close>

lemma triple_open_request:
  "triple d_run (dir_is m P) (open_request K path) (\<lambda>r y. dir_is m P y \<or> dir_is m Map.empty y)"
  unfolding open_request_def openDirectory_def read_request_def triple_def
  by (intro allI impI emit) (auto simp: at_rest_def simp del: fun_upd_apply)

section \<open>The governor on its control directory\<close>

text \<open>
  The world: everything else, and the calls so far.  \<open>message\<close> is the text of the error that \<open>fail\<close>
  reports, which the loop does not look at.
\<close>

definition beneath :: "('w \<Rightarrow> 'r \<times> 'w) \<Rightarrow> 'w \<times> 'e list \<Rightarrow> 'r \<times> ('w \<times> 'e list)" where
  "beneath f = (\<lambda>(v, tr). let (r, v') = f v in (r, (v', tr)))"

definition dir_env :: "'w files \<Rightarrow> string \<Rightarrow> ('w \<Rightarrow> string) \<Rightarrow> 'w genv \<Rightarrow> ('w \<times> fevent list) genv" where
  "dir_env K dir message E = \<lparr>
     e_gpus = e_gpus E,
     e_util = \<lambda>i. beneath (e_util E i),
     e_temp = \<lambda>i. beneath (e_temp E i),
     e_cmd = \<lambda>c. beneath (e_cmd E c),
     e_decode = run_state (open_request K (dir @ ''/control.json'')),
     e_status_active = \<lambda>c. run_state (status_Active K dir c),
     e_status_inactive = \<lambda>s. snd (run_state (status_Inactive K dir) s),
     e_status_error = \<lambda>s. snd (run_state (status_Error K dir (message (fst s))) s),
     e_order = \<lambda>(v, tr). e_order E v\<rparr>"

text \<open>With it, the \<open>LoadControl\<close> of the loop is the one of the directory.\<close>

lemma load_control_refines:
  "run_state (LoadControl (dir_env K dir message E)) (s, tr) =
     (let (r, s') = run_state (load_control K (dir @ ''/control.json'')) s;
          ev = GControl (fst (run_state (open_request K (dir @ ''/control.json'')) s))
      in (r, (s', tr @ [ev])))"
  by (simp add: LoadControl_def load_control_def decode_control_def dir_env_def split: prod.split)

text \<open>
  The calls for an event leave the directory at rest with the same descriptors open; a control
  published without an error is in the files, if the directory is still there, and reading takes
  nothing from them.
\<close>

definition tells :: "gevent \<Rightarrow> cdir \<Rightarrow> cdir \<Rightarrow> bool" where
  "tells g y y' \<longleftrightarrow>
     (case g of
        GActive c r \<Rightarrow> r = None \<longrightarrow> (\<exists>P. public y' = published c P) \<or> public y' = Map.empty
      | GInactive \<Rightarrow> True
      | GError \<Rightarrow> True
      | _ \<Rightarrow> public y' = public y \<or> public y' = Map.empty)"

definition serves :: "gevent \<Rightarrow> fevent list \<Rightarrow> bool" where
  "serves g evs \<longleftrightarrow>
     (\<forall>m y. quiet m y \<longrightarrow> (case g of GActive c r \<Rightarrow> valid_control c | _ \<Rightarrow> True) \<longrightarrow>
        (\<exists>y'. d_run y evs = Some y' \<and> quiet m y' \<and> tells g y y'))"

lemma serves_Nil: "(\<forall>c r. g \<noteq> GActive c r) \<Longrightarrow> serves g []"
  by (cases g) (auto simp: serves_def tells_def)

lemma emits_serves:
  assumes "\<And>m P. triple d_run (\<lambda>y. dir_is m P y \<and> b) n (\<lambda>x y. quiet m y \<and> (\<forall>z. public z = P \<longrightarrow> tells (ev x) z y))"
    and "\<And>x. (case ev x of GActive c r \<Rightarrow> valid_control c | _ \<Rightarrow> True) = b" and "emits n (\<lambda>_ _. True)"
  shows "emits n (\<lambda>x evs. serves (ev x) evs)"
  unfolding serves_def assms(2)
proof (intro emits_all, goal_cases)
  case (1 m y)
  show ?case
  proof (cases "quiet m y \<and> b")
    case True
    with assms(1) [of m "public y"]
    have "emits n (\<lambda>x evs. \<exists>y'. d_run y evs = Some y' \<and> quiet m y' \<and> (\<forall>z. public z = public y \<longrightarrow> tells (ev x) z y'))"
      by (auto simp: triple_def quiet_def)
    then show ?thesis by (rule emits_mono) blast
  next
    case False
    then show ?thesis by (intro emits_mono [OF assms(3)]) auto
  qed
qed

lemma appends_bind: "emits m (\<lambda>_ _. True) \<Longrightarrow> (\<And>x. emits (f x) (\<lambda>_ _. True)) \<Longrightarrow> emits (State_Monad.bind m f) (\<lambda>_ _. True)"
  by (rule emits_bindI)

lemma appends_call: "emits (call f ev) (\<lambda>_ _. True)"
  by (simp add: emits_call)

lemma appends_return: "emits (ret x) (\<lambda>_ _. True)"
  by (simp add: emits_return)

lemmas appends = appends_bind appends_call appends_return emits_prod emits_option emits_sum emits_if

lemma appends_writeAtomic: "emits (writeAtomic K dir name content) (\<lambda>_ _. True)"
  unfolding writeAtomic_def write_in_def write_temp_def openDirectory_def by (intro appends)

lemma appends_remove: "emits (remove_status K dir name) (\<lambda>_ _. True)"
  unfolding remove_status_def openDirectory_def by (intro appends)

lemma appends_ops:
  "emits (open_request K path) (\<lambda>_ _. True)" "emits (status_Active K dir c) (\<lambda>_ _. True)"
  "emits (status_Inactive K dir) (\<lambda>_ _. True)" "emits (status_Error K dir text) (\<lambda>_ _. True)"
  unfolding open_request_def openDirectory_def read_request_def status_Active_def status_Inactive_def status_Error_def
  by (intro appends appends_writeAtomic appends_remove)+

lemma serves_open_request: "emits (open_request K path) (\<lambda>r evs. serves (GControl r) evs)"
  by (rule emits_serves [where b = True, OF _ _ appends_ops(1)], rule triple_conseq [OF triple_open_request])
    (auto simp: tells_def quiet_def)

lemma serves_status_Active: "emits (status_Active K dir c) (\<lambda>r evs. serves (GActive c r) evs)"
proof (rule emits_serves [where b = "valid_control c", OF _ _ appends_ops(2)], goal_cases)
  case (1 m P)
  show ?case
  proof (cases "valid_control c")
    case True
    show ?thesis by (rule triple_conseq [OF triple_status_Active [OF True, of m P]]) (auto simp: tells_def split: if_splits)
  next
    case False
    then show ?thesis by (simp add: triple_def)
  qed
qed simp

lemma serves_status_Inactive: "emits (status_Inactive K dir) (\<lambda>r evs. serves GInactive evs)"
  by (rule emits_serves [where b = True, OF _ _ appends_ops(3)], rule triple_conseq [OF triple_status_Inactive])
    (auto simp: tells_def quiet_def)

lemma serves_status_Error: "emits (status_Error K dir text) (\<lambda>r evs. serves GError evs)"
  by (rule emits_serves [where b = True, OF _ _ appends_ops(4)], rule triple_conseq [OF triple_status_Error])
    (auto simp: tells_def quiet_def)

lemma mirrors_directory_calls:
  "mirrors serves (decode_control (dir_env K dir message E))"
  "mirrors serves (status_active (dir_env K dir message E) c)"
  "mirrors serves (status_inactive (dir_env K dir message E))"
  "mirrors serves (status_error (dir_env K dir message E))"
proof -
  show "mirrors serves (decode_control (dir_env K dir message E))"
    by (rule mirrors_emits [OF serves_open_request]) (simp add: decode_control_def dir_env_def)
  show "mirrors serves (status_active (dir_env K dir message E) c)"
    by (rule mirrors_emits [OF serves_status_Active]) (simp add: status_active_def dir_env_def)
  show "mirrors serves (status_inactive (dir_env K dir message E))"
    by (rule mirrors_emits [where rel = serves and ev = "\<lambda>_. GInactive", OF serves_status_Inactive])
      (simp add: status_inactive_def dir_env_def split_beta)
  let ?n = "State (\<lambda>s. run_state (status_Error K dir (message (fst s))) s)"
  have "emits ?n (\<lambda>r. serves GError)"
    using serves_status_Error [of K dir] by (simp add: emits_def)
  then show "mirrors serves (status_error (dir_env K dir message E))"
    by (rule mirrors_emits [where rel = serves and ev = "\<lambda>_. GError"]) (simp add: status_error_def dir_env_def split_beta)
qed

lemma mirrors_others:
  "mirrors serves (command (dir_env K dir message E) cmd)" "mirrors serves (utilization (dir_env K dir message E) i)"
  "mirrors serves (temperature (dir_env K dir message E) i)" "mirrors serves (map_order (dir_env K dir message E) keys)"
  by (rule mirrors_silent; simp add: command_def utilization_def temperature_def map_order_def dir_env_def beneath_def
      serves_Nil split: prod.split)+

interpretation directory: implementation "dir_env K dir message E" serves for K dir message E
  by unfold_locales (rule mirrors_others mirrors_directory_calls | simp add: serves_Nil)+

section \<open>A whole run\<close>

text \<open>The files agree with the control the governor has published, unless the directory is gone.\<close>

definition agrees :: "watch \<Rightarrow> cdir \<Rightarrow> bool" where
  "agrees a y \<longleftrightarrow> (case w_active a of None \<Rightarrow> True | Some c \<Rightarrow>
     public y = Map.empty \<or> public y = published c (public y))"

lemma published_published [simp]: "published c (published c P) = published c P"
  by (auto simp: published_def fun_eq_iff)

lemma agrees_step:
  assumes "agrees a y" and "w_step gpus cf a g = Some a'" and "tells g y y'"
  shows "agrees a' y'"
  using assms by (cases g) (auto simp: agrees_def tells_def Let_def split: if_splits option.splits)

lemma run_on_directory:
  assumes "w_run gpus cf a gs = Some a'" and "list_all2 serves gs ns" and "quiet m y" and "agrees a y"
  shows "\<exists>y'. d_run y (concat ns) = Some y' \<and> quiet m y' \<and> agrees a' y'"
  using assms(2,1,3,4)
proof (induction arbitrary: a y rule: list_all2_induct)
  case (Cons g gs n ns)
  from Cons.prems(1) obtain a1 where a1: "w_step gpus cf a g = Some a1" "w_run gpus cf a1 gs = Some a'"
    by (auto split: Option.bind_splits)
  have "case g of GActive c r \<Rightarrow> valid_control c | _ \<Rightarrow> True"
    using a1(1) by (cases g) (auto split: if_splits)
  with Cons.hyps(1) Cons.prems(2) obtain y1 where y1: "d_run y n = Some y1" "quiet m y1" "tells g y y1"
    unfolding serves_def by blast
  from Cons.IH [OF a1(2) y1(2) agrees_step [OF Cons.prems(3) a1(1) y1(3)]] y1(1) show ?case
    by (auto simp: dir.run_append)
qed simp

lemma complete_throughout:
  assumes "at_rest y" and "complete (public y)" and "d_run y evs = Some y'" and "prefix p evs"
  shows "case d_run y p of None \<Rightarrow> False | Some z \<Rightarrow> complete (public z)"
proof -
  from assms(4) obtain q where "evs = p @ q" by (auto simp: prefix_def)
  with assms(3) obtain z where z: "d_run y p = Some z" using dir.run_split by blast
  have "status_ok y" using assms(1,2) by (simp add: status_ok_def at_rest_def)
  from dir.run_invariant [where I = status_ok, OF z this d_step_status_ok] z show ?thesis by (simp add: status_ok_def)
qed

text \<open>
  C8. The governor on its control directory, from any directory at rest whose status files are complete:
  whatever the operating system, the cards and the control requests do, every descriptor is used only
  while it is open and all are closed at the end; no temporary file is left that was not asked to be
  removed; at every moment of the run, and so after a crash at any point, each status file that exists
  is complete, on the disk and well formed under its name (one of the five profiles, 0 or 15 to 100,
  an error text of at most 1001 bytes); and at the end the files say which profile the governor last
  published, if it is still published, unless the directory is gone.
\<close>

theorem status_files_contract:
  "let G = dir_env K dir message E; gs = trace_of (Run G cf ts (initial G)) (w, []);
       fs = snd (world_of (Run G cf ts (initial G)) (w, [])) in
   if at_rest y \<and> complete (public y)
   then (case (d_run y fs, w_run (e_gpus E) cf w_start gs) of
       (Some y', Some a) \<Rightarrow> at_rest y' \<and> d_open y' = d_open y \<and> agrees a y'
     | _ \<Rightarrow> False) \<and>
     list_all (\<lambda>p. case d_run y p of None \<Rightarrow> False | Some z \<Rightarrow> complete (public z)) (prefixes fs)
   else True"
proof -
  define G where "G = dir_env K dir message E"
  let ?m = "Run G cf ts (initial G)"
  have gpus: "e_gpus G = e_gpus E" by (simp add: G_def dir_env_def)
  have "\<not> g_active (initial G)" by (simp add: initial_def)
  from keeps_Run [OF initial_weak this, where ts = ts and cf = cf] obtain a where
    a: "w_run (e_gpus E) cf w_start (trace_of ?m (w, [])) = Some a" unfolding gpus by (blast dest: tripleD)
  have "mirrors serves ?m" unfolding G_def by (rule directory.Run_mirrors)
  then obtain gs ns where "trace_of ?m (w, []) = gs" and ns: "snd (world_of ?m (w, [])) = concat ns"
    and rel: "list_all2 serves gs ns" unfolding mirrors_def trace_of_def world_of_def by (metis append_Nil)
  with a have gs: "w_run (e_gpus E) cf w_start gs = Some a" by simp
  have "\<exists>y'. d_run y (concat ns) = Some y' \<and> quiet (d_open y) y' \<and> agrees a y'" if "at_rest y"
    using that by (intro run_on_directory [OF gs rel]) (auto simp: quiet_def agrees_def w_start_def)
  then show ?thesis
    using a complete_throughout [of y "concat ns"]
    by (fold G_def) (auto simp: Let_def ns quiet_def list_all_iff)
qed

end
