(* ===== verification/Go_Json_Read.thy ===== *)
theory Go_Json_Read
  imports Go_Json
begin

text \<open>
  The decoder of \<open>Go_Json\<close> consumes its text, so the conditions in its equations always hold; and what
  it makes of a request that is an object of scalars with printable ASCII strings, with any white
  space between the tokens: which requests it accepts and the value it gives.
\<close>

section \<open>Consumption\<close>

lemma skip_space_le: "length (skip_space s) \<le> length s"
  by (simp add: skip_space_def length_dropWhile_le)

lemma skip_space_cons: "skip_space s = c # r \<Longrightarrow> length r < length s"
  using skip_space_le [of s] by simp

lemma raw_string_shorter: "raw_string s = Some (x, r) \<Longrightarrow> length r < length s"
proof (induction s arbitrary: x rule: raw_string.induct)
  case (2 c s)
  then show ?case by (force split: if_splits list.splits)
qed simp

lemma digits_le: "digits s = (ds, r) \<Longrightarrow> length r + length ds = length s"
  unfolding digits_def by (metis add.commute length_append prod.inject takeWhile_dropWhile_id)

lemma int_part_shorter: "int_part s = Some (x, r) \<Longrightarrow> length r < length s"
  by (auto simp: int_part_def Let_def dest!: digits_le split: list.splits if_splits prod.splits;
      cases x; auto)

lemma number_shorter: "number s = Some (x, r) \<Longrightarrow> length r < length s"
proof -
  assume "number s = Some (x, r)"
  then obtain i r1 f r2 e where
    i: "int_part (drop (length (takeWhile (\<lambda>c. c = CHR ''-'') (take 1 s))) s) = Some (i, r1)"
    and f: "frac_part r1 = Some (f, r2)" and e: "exp_part r2 = Some (e, r)"
    by (auto simp: number_def Let_def split: option.splits)
  from int_part_shorter [OF i] have "length r1 < length s" by simp
  moreover from f have "length r2 \<le> length r1"
    by (auto simp: frac_part_def Let_def dest!: digits_le split: if_splits prod.splits)
  moreover from e have "length r \<le> length r2"
    by (auto simp: exp_part_def Let_def dest!: digits_le split: list.splits if_splits prod.splits)
  ultimately show ?thesis by simp
qed

lemma literal_shorter: "literal w v s = Some (u, r) \<Longrightarrow> w \<noteq> [] \<Longrightarrow> length r < length s"
  by (cases s) (auto simp: literal_def split: if_splits)

lemma scalar_shorter: "scalar s = Some (v, r) \<Longrightarrow> length r < length s"
  by (auto simp: scalar_def split: list.splits if_splits
      dest!: raw_string_shorter number_shorter literal_shorter)

lemma key_colon_shorter: "key_colon s = Some (k, r) \<Longrightarrow> length r < length s"
  by (auto simp: key_colon_def split: list.splits if_splits option.splits
      dest!: raw_string_shorter skip_space_cons)

lemma value_shorter:
  "gvalue s = Some (v, r) \<Longrightarrow> length r < length s"
  "gelements s = Some (vs, r) \<Longrightarrow> length r < length s"
  "gmembers s = Some (ms, r) \<Longrightarrow> length r < length s"
proof (induction s and s and s arbitrary: v r and vs r and ms r rule: gvalue_gelements_gmembers.induct)
  case (1 s)
  show ?case
  proof (cases "skip_space s")
    case (Cons c r')
    then have less: "length r' < length s" by (rule skip_space_cons)
    have drop: "length (drop 1 (skip_space r')) \<le> length r'"
      using skip_space_le [of r'] by simp
    show ?thesis
      using "1.prems" "1.IH"(1) [OF Cons] "1.IH"(2) [OF Cons] Cons less drop scalar_shorter [of "c # r'"]
        skip_space_le [of s]
      by (subst (asm) gvalue.simps) (fastforce split: if_splits)
  qed (use "1.prems" in \<open>simp add: gvalue.simps\<close>)
next
  case (2 s)
  from "2.prems" obtain v r0 c r1 where v: "gvalue s = Some (v, r0)" and c: "skip_space r0 = c # r1"
    by (subst (asm) gelements.simps) (auto split: option.splits list.splits)
  with "2.IH"(1) have "length r0 < length s" by simp
  with skip_space_cons [OF c] have "length r1 < length s" by simp
  with "2.prems" "2.IH"(2) v c show ?case
    by (subst (asm) gelements.simps) (fastforce split: if_splits)
next
  case (3 s)
  from "3.prems" obtain k r' v r0 c r1 where k: "key_colon s = Some (k, r')"
    and v: "gvalue r' = Some (v, r0)" and c: "skip_space r0 = c # r1"
    by (subst (asm) gmembers.simps) (auto split: option.splits list.splits if_splits)
  from k have "length r' < length s" by (rule key_colon_shorter)
  moreover from "3.IH"(1) [OF k refl] v this have "length r0 < length r'" by simp
  moreover note skip_space_cons [OF c]
  ultimately have "length r1 < length s" by simp
  with \<open>length r' < length s\<close> "3.prems" "3.IH"(2) k v c show ?case
    by (subst (asm) gmembers.simps) (fastforce split: if_splits)
qed

text \<open>The equations without the conditions.\<close>

lemma gvalue_eq:
  "gvalue s =
     (case skip_space s of
        [] \<Rightarrow> None
      | c # r \<Rightarrow>
          if c = CHR ''['' then
            (if take 1 (skip_space r) = '']'' then Some (GoArr [], drop 1 (skip_space r))
             else map_option (\<lambda>(vs, r'). (GoArr vs, r')) (gelements r))
          else if c = CHR ''{'' then
            (if take 1 (skip_space r) = ''}'' then Some (GoObj [], drop 1 (skip_space r))
             else map_option (\<lambda>(ms, r'). (GoObj ms, r')) (gmembers r))
          else scalar (c # r))"
  by (subst gvalue.simps) (auto split: list.split dest!: skip_space_cons)

lemma gmembers_eq:
  "gmembers s =
     (case key_colon s of
        None \<Rightarrow> None
      | Some (k, r0) \<Rightarrow> (case gvalue r0 of
            None \<Rightarrow> None
          | Some (v, r) \<Rightarrow> (case skip_space r of
              [] \<Rightarrow> None
            | c # r1 \<Rightarrow>
                if c = CHR '','' then map_option (\<lambda>(ms, r'). ((k, v) # ms, r')) (gmembers r1)
                else if c = CHR ''}'' then Some ([(k, v)], r1)
                else None)))"
proof (cases "key_colon s")
  case (Some p)
  then obtain k r0 where k: "key_colon s = Some (k, r0)" by (cases p) auto
  note less = key_colon_shorter [OF k]
  show ?thesis
  proof (cases "gvalue r0")
    case (Some q)
    then obtain v r where v: "gvalue r0 = Some (v, r)" by (cases q) auto
    note this_less = value_shorter(1) [OF v]
    show ?thesis
      using less this_less skip_space_cons [of r]
      by (subst gmembers.simps) (auto simp: k v split: list.split)
  qed (use k less in \<open>simp add: gmembers.simps [of s]\<close>)
qed (simp add: gmembers.simps [of s])

section \<open>The requests the panel can write\<close>

text \<open>Scalars, and members with the white space before the key, after it, before the value, after it.\<close>

datatype panel_value = PNull | PBool bool | PStr string | PInt int

fun value_text :: "panel_value \<Rightarrow> string" where
  "value_text PNull = ''null''"
| "value_text (PBool b) = (if b then ''true'' else ''false'')"
| "value_text (PStr s) = CHR 0x22 # s @ [CHR 0x22]"
| "value_text (PInt i) = show_int i"

fun go_value :: "panel_value \<Rightarrow> gojson" where
  "go_value PNull = GoNull"
| "go_value (PBool b) = GoBool b"
| "go_value (PStr s) = GoStr s"
| "go_value (PInt i) = GoNum (show_int i)"

record panel_member =
  pm_before :: string
  pm_key :: string
  pm_after :: string
  pm_gap :: string
  pm_value :: panel_value
  pm_end :: string

definition member_text :: "panel_member \<Rightarrow> string" where
  "member_text m = pm_before m @ CHR 0x22 # pm_key m @ CHR 0x22 # pm_after m @ CHR '':'' # pm_gap m @
     value_text (pm_value m) @ pm_end m"

fun members_text :: "panel_member list \<Rightarrow> string" where
  "members_text [] = []"
| "members_text [m] = member_text m"
| "members_text (m # ms) = member_text m @ CHR '','' # members_text ms"

text \<open>Printable ASCII without quotes and backslashes.\<close>

definition simple_string :: "string \<Rightarrow> bool" where
  "simple_string s \<longleftrightarrow> list_all (\<lambda>c. between 0x20 0x7F c \<and> c \<noteq> CHR 0x22 \<and> c \<noteq> CHR 0x5C) s"

definition blank :: "string \<Rightarrow> bool" where
  "blank s \<longleftrightarrow> list_all json_space s"

definition simple_member :: "panel_member \<Rightarrow> bool" where
  "simple_member m \<longleftrightarrow> blank (pm_before m) \<and> blank (pm_after m) \<and> blank (pm_gap m) \<and> blank (pm_end m) \<and>
     simple_string (pm_key m) \<and> (case pm_value m of PStr s \<Rightarrow> simple_string s | _ \<Rightarrow> True)"

definition go_member :: "panel_member \<Rightarrow> string \<times> gojson" where
  "go_member m = (pm_key m, go_value (pm_value m))"

section \<open>Reading them\<close>

lemma skip_blank: "blank w \<Longrightarrow> skip_space (w @ s) = skip_space s"
  by (induction w) (auto simp: blank_def skip_space_def)

lemma skip_solid [simp]: "\<not> json_space c \<Longrightarrow> skip_space (c # s) = c # s"
  by (simp add: skip_space_def)

lemma raw_simple: "simple_string s \<Longrightarrow> raw_string (s @ CHR 0x22 # r) = Some (s, r)"
  by (induction s) (auto simp: simple_string_def between_def)

lemma rune_ascii: "byte c < 0x80 \<Longrightarrow> rune_length (c # s) = 1"
  by (cases s rule: list.exhaust; cases "tl s" rule: list.exhaust; cases "tl (tl s)" rule: list.exhaust) auto

lemma unquote_simple: "simple_string s \<Longrightarrow> unquote s = s"
  by (induction s) (auto simp: simple_string_def between_def rune_ascii)

lemma key_simple:
  "blank w \<Longrightarrow> simple_string k \<Longrightarrow> blank w' \<Longrightarrow>
     key_colon (w @ CHR 0x22 # k @ CHR 0x22 # w' @ CHR '':'' # r) = Some (k, r)"
  by (simp add: key_colon_def skip_blank raw_simple unquote_simple json_space_def)

text \<open>What ends a number.\<close>

definition stops :: "string \<Rightarrow> bool" where
  "stops r \<longleftrightarrow> r = [] \<or> \<not> is_digit 10 (hd r) \<and> hd r \<noteq> CHR ''.'' \<and> hd r \<noteq> CHR ''e'' \<and> hd r \<noteq> CHR ''E''"

lemma digits_dec: "stops r \<Longrightarrow> digits (dec n @ r) = (dec n, r)"
  using set_digs [of 10 n]
  by (cases r) (auto simp: digits_def stops_def list_all_iff takeWhile_append2 dropWhile_append2)

lemma int_part_dec: "stops r \<Longrightarrow> int_part (dec n @ r) = Some (dec n, r)"
proof (cases "n = 0")
  case True
  then show ?thesis by (simp add: int_part_def digs.simps digit_char_def)
next
  case False
  assume "stops r"
  then have "digits (dec n @ r) = (dec n, r)" by (rule digits_dec)
  moreover from False have "hd (dec n) \<noteq> CHR ''0''" by (simp add: dec_no_leading_zero)
  ultimately show ?thesis by (cases "dec n") (auto simp: int_part_def)
qed

lemma minus_not_digit: "is_digit 10 c \<Longrightarrow> c \<noteq> CHR ''-''"
  by (auto simp: is_digit_def digit_of_def)

lemma number_show: "stops r \<Longrightarrow> number (show_int i @ r) = Some (show_int i, r)"
proof -
  assume r: "stops r"
  then have rest: "frac_part r = Some ([], r)" "exp_part r = Some ([], r)"
    by (cases r; simp add: frac_part_def exp_part_def stops_def)+
  have plus: "number (dec n @ r) = Some (dec n, r)" for n
  proof -
    from hd_digs [of 10 n] have "hd (dec n) \<noteq> CHR ''-''" using minus_not_digit by auto
    then have "takeWhile (\<lambda>c. c = CHR ''-'') (take 1 (dec n @ r)) = []" by (cases "dec n") auto
    then show ?thesis by (simp add: number_def int_part_dec r rest)
  qed
  show ?thesis
  proof (cases "i < 0")
    case True
    then show ?thesis by (simp add: show_int_def number_def int_part_dec r rest)
  qed (simp add: show_int_def plus)
qed

lemma number_not_keyword:
  "\<exists>c s. show_int i = c # s \<and> c \<notin> set [CHR 0x22, CHR ''t'', CHR ''f'', CHR ''n'', CHR ''['', CHR ''{''] \<and> \<not> json_space c"
proof -
  have digit: "is_digit 10 c \<Longrightarrow> c \<notin> set [CHR 0x22, CHR ''t'', CHR ''f'', CHR ''n'', CHR ''['', CHR ''{''] \<and> \<not> json_space c" for c
    by (auto simp: is_digit_def digit_of_def json_space_def)
  have "\<exists>c s. dec n = c # s \<and> c \<notin> set [CHR 0x22, CHR ''t'', CHR ''f'', CHR ''n'', CHR ''['', CHR ''{''] \<and> \<not> json_space c" for n
    using digit [OF hd_digs [of 10 n]] by (cases "dec n") auto
  then show ?thesis by (simp add: show_int_def json_space_def)
qed

lemma scalar_simple:
  "(case v of PStr s \<Rightarrow> simple_string s | PInt i \<Rightarrow> stops r | _ \<Rightarrow> True) \<Longrightarrow>
     gvalue (value_text v @ r) = Some (go_value v, r)"
proof (cases v)
  case (PInt i)
  assume "case v of PStr s \<Rightarrow> simple_string s | PInt i \<Rightarrow> stops r | _ \<Rightarrow> True"
  with PInt have "number (show_int i @ r) = Some (show_int i, r)" by (simp add: number_show)
  then show ?thesis
    using number_not_keyword [of i] PInt by (auto simp: gvalue_eq scalar_def)
qed (simp_all add: gvalue_eq scalar_def literal_def json_space_def raw_simple unquote_simple)

lemma gvalue_blank: "blank w \<Longrightarrow> gvalue (w @ s) = gvalue s"
  by (simp add: gvalue_eq [of "w @ s"] gvalue_eq [of s] skip_blank)

lemma blank_stops: "blank w \<Longrightarrow> c = CHR '','' \<or> c = CHR ''}'' \<Longrightarrow> stops (w @ c # r)"
  by (cases w) (auto simp: stops_def blank_def json_space_def is_digit_def digit_of_def)

lemma member_simple:
  assumes "simple_member m" and "c = CHR '','' \<or> c = CHR ''}''"
  shows "gmembers (member_text m @ c # r) =
    (if c = CHR '','' then map_option (\<lambda>(ms, r'). (go_member m # ms, r')) (gmembers r) else Some ([go_member m], r))"
proof -
  have k: "key_colon (member_text m @ c # r) = Some (pm_key m, pm_gap m @ value_text (pm_value m) @ pm_end m @ c # r)"
    using assms(1) by (simp add: member_text_def simple_member_def key_simple)
  have "case pm_value m of PStr s \<Rightarrow> simple_string s | PInt i \<Rightarrow> stops (pm_end m @ c # r) | _ \<Rightarrow> True"
    using assms by (auto simp: simple_member_def blank_stops split: panel_value.splits)
  with assms(1) have "gvalue (pm_gap m @ value_text (pm_value m) @ pm_end m @ c # r) =
      Some (go_value (pm_value m), pm_end m @ c # r)"
    by (simp add: gvalue_blank scalar_simple simple_member_def)
  moreover have "skip_space (pm_end m @ c # r) = c # r"
    using assms by (auto simp: simple_member_def skip_blank json_space_def)
  ultimately show ?thesis
    using assms(2) by (subst gmembers_eq) (auto simp: k go_member_def)
qed

lemma members_simple:
  "ms \<noteq> [] \<Longrightarrow> list_all simple_member ms \<Longrightarrow> gmembers (members_text ms @ CHR ''}'' # r) = Some (map go_member ms, r)"
  by (induction ms rule: members_text.induct) (simp_all add: member_simple)

section \<open>What is good_member, and the value\<close>

definition good_member :: "panel_member \<Rightarrow> bool" where
  "good_member m \<longleftrightarrow>
     (case field_of (pm_key m) of
        None \<Rightarrow> False
      | Some f \<Rightarrow> (case pm_value m of
          PNull \<Rightarrow> True
        | PBool b \<Rightarrow> f = FEnabled
        | PStr s \<Rightarrow> f = FProfile
        | PInt i \<Rightarrow> f = FFan \<and> - (2 ^ 63) \<le> i \<and> i < 2 ^ 63))"

text \<open>The value of the last member for a field that is not null.\<close>

definition pick :: "(panel_value \<Rightarrow> 'a option) \<Rightarrow> control_field \<Rightarrow> 'a \<Rightarrow> panel_member \<Rightarrow> 'a" where
  "pick as f d m =
     (case (if field_of (pm_key m) = Some f then as (pm_value m) else None) of None \<Rightarrow> d | Some x \<Rightarrow> x)"

definition latest :: "(panel_value \<Rightarrow> 'a option) \<Rightarrow> control_field \<Rightarrow> 'a \<Rightarrow> panel_member list \<Rightarrow> 'a" where
  "latest as f d ms = foldl (pick as f) d ms"

fun as_bool :: "panel_value \<Rightarrow> bool option" where
  "as_bool (PBool b) = Some b"
| "as_bool _ = None"

fun as_string :: "panel_value \<Rightarrow> string option" where
  "as_string (PStr s) = Some s"
| "as_string _ = None"

fun as_int :: "panel_value \<Rightarrow> int option" where
  "as_int (PInt i) = Some i"
| "as_int _ = None"

definition object_text :: "string \<Rightarrow> panel_member list \<Rightarrow> string" where
  "object_text w ms = CHR ''{'' # (if ms = [] then w else members_text ms) @ ''}''"

lemma store_member_good:
  "store_member (go_member m) c =
     (if good_member m
      then Some \<lparr>c_enabled = pick as_bool FEnabled (c_enabled c) m,
        c_profile = pick as_string FProfile (c_profile c) m, c_fan = pick as_int FFan (c_fan c) m\<rparr>
      else None)"
  by (cases "field_of (pm_key m)"; cases "pm_value m")
    (auto simp: store_member_def go_member_def good_member_def pick_def ParseInt_show)

lemma store_all_good:
  "store_all (map go_member ms) c =
     (if list_all good_member ms
      then Some \<lparr>c_enabled = latest as_bool FEnabled (c_enabled c) ms,
        c_profile = latest as_string FProfile (c_profile c) ms, c_fan = latest as_int FFan (c_fan c) ms\<rparr>
      else None)"
  by (induction ms arbitrary: c) (simp_all add: latest_def store_member_good)

lemma decode_request_object:
  assumes ok: "list_all simple_member ms" "blank before" "blank inside"
  shows "decode_request (before @ object_text inside ms @ rest) =
    (if list_all good_member ms
     then Some (\<lparr>c_enabled = latest as_bool FEnabled False ms, c_profile = latest as_string FProfile [] ms,
       c_fan = latest as_int FFan 0 ms\<rparr>, rest)
     else None)"
proof -
  have "gvalue (before @ object_text inside ms @ rest) = Some (GoObj (map go_member ms), rest)"
  proof (cases "ms = []")
    case True
    with ok(3) show ?thesis
      by (simp add: gvalue_blank ok(2)) (simp add: gvalue_eq object_text_def json_space_def skip_blank)
  next
    case False
    then obtain m ms' where ms: "ms = m # ms'" by (cases ms) auto
    then obtain t where t: "members_text ms = pm_before m @ CHR 0x22 # t"
      by (cases ms') (auto simp: member_text_def)
    from ok(1) ms have "blank (pm_before m)" by (simp add: simple_member_def)
    then have "take 1 (skip_space (members_text ms @ CHR ''}'' # rest)) \<noteq> ''}''"
      by (simp add: t skip_blank json_space_def)
    with False show ?thesis
      by (simp add: gvalue_blank ok(2))
        (simp add: gvalue_eq [of "CHR ''{'' # _"] object_text_def json_space_def members_simple ok(1))
  qed
  then show ?thesis
    by (simp add: decode_request_def store_all_good zero_control_def)
qed


end
