(* ===== verification/Control_Install.thy ===== *)
theory Control_Install
  imports Control_Files Go_Json_Read Identity
begin

text \<open>
  From the installer to the governor: the control request that \<open>install-governor.sh\<close> writes for the
  profile of \<open>governor-profile.sh\<close>, read by the governor's \<open>LoadControl\<close> and checked against its cards.
\<close>

section \<open>Requests without white space\<close>

definition request_member :: "string \<Rightarrow> panel_value \<Rightarrow> panel_member" where
  "request_member k v = \<lparr>pm_before = [], pm_key = k, pm_after = [], pm_gap = [], pm_value = v, pm_end = []\<rparr>"

lemma field_names:
  "field_of ''enabled'' = Some FEnabled" "field_of ''profile'' = Some FProfile"
  "field_of ''idle_fan_percent'' = Some FFan" "field_of ''command'' = None"
  by code_simp+

lemma simple_fields:
  "simple_string ''enabled''" "simple_string ''profile''" "simple_string ''idle_fan_percent''"
  by code_simp+

definition quoted :: "string \<Rightarrow> string" where
  "quoted s = CHR 0x22 # s @ [CHR 0x22]"

text \<open>Any of the requests with the three fields of \<open>Control\<close> in order is read back.\<close>

definition plain_request :: "string \<Rightarrow> string \<Rightarrow> string \<Rightarrow> string" where
  "plain_request enabled profile fan =
     ''{'' @ quoted ''enabled'' @ '':'' @ enabled @ '','' @ quoted ''profile'' @ '':'' @ quoted profile @ '','' @
     quoted ''idle_fan_percent'' @ '':'' @ fan @ ''}''"

lemma decode_plain_request:
  assumes "simple_string p" and "- (2 ^ 63) \<le> i" and "i < 2 ^ 63"
  shows "decode_request (plain_request (if b then ''true'' else ''false'') p (show_int i) @ rest) =
    Some (\<lparr>c_enabled = b, c_profile = p, c_fan = i\<rparr>, rest)"
proof -
  let ?m = request_member
  have written: "plain_request (if b then ''true'' else ''false'') p (show_int i) @ rest =
      [] @ object_text [] [?m ''enabled'' (PBool b), ?m ''profile'' (PStr p), ?m ''idle_fan_percent'' (PInt i)] @ rest"
    by (simp add: plain_request_def quoted_def object_text_def member_text_def request_member_def)
  show ?thesis
    unfolding written using assms
    by (subst decode_request_object;
      simp add: blank_def simple_member_def good_member_def latest_def pick_def request_member_def field_names simple_fields)
qed

section \<open>The request of the installer\<close>

definition installer_request :: "string \<Rightarrow> string" where
  "installer_request profile = plain_request ''true'' profile ''0'' @ ''\<newline>''"

text \<open>A system whose control file is a regular file with the text \<open>t\<close>.\<close>

definition holding :: "string \<Rightarrow> 'w files \<Rightarrow> 'w files" where
  "holding t K = K\<lparr>f_opendir := \<lambda>path w. (Inr 3, w), f_openread := \<lambda>d name w. (Inr 4, w),
     f_stat := \<lambda>fd w. (Some (True, int (length t)), w), f_read := \<lambda>fd n w. (Some (take n t), w)\<rparr>"

lemma load_holding:
  assumes "length t \<le> maxControlSize" and "decode_request t = Some (c, rest)" and "blank rest" and "valid_control c"
  shows "result_of (load_control (holding t K) path) w = Inr c"
proof -
  have "take (maxControlSize + 1) t = t" using assms(1) by simp
  with assms show ?thesis
    by (simp add: load_control_def open_request_def openDirectory_def read_request_def holding_def call_def
        result_of_def blank_def split: prod.split)
qed

lemma profile_cases:
  assumes "cmp50_governor_profile sysfs inventory = Some p"
  shows "p \<in> {''cmp50-1x20gb'', ''cmp50-2x20gb'', ''cmp50-4x20gb'', ''cmp50-6x20gb'', ''cmp50-8x20gb''}"
proof -
  from assms obtain n where "n \<in> {1, 2, 4, 6, 8}" and p: "p = profile_name n"
    by (auto simp: cmp50_governor_profile_def split: option.splits if_splits)
  moreover have "profile_name 1 = ''cmp50-1x20gb''" "profile_name 2 = ''cmp50-2x20gb''" "profile_name 4 = ''cmp50-4x20gb''"
    "profile_name 6 = ''cmp50-6x20gb''" "profile_name 8 = ''cmp50-8x20gb''" by code_simp+
  ultimately show ?thesis by auto
qed

lemma profile_simple:
  assumes "cmp50_governor_profile sysfs inventory = Some p"
  shows "simple_string p" "length p = 12" "map_of Profiles p \<noteq> None"
proof -
  note p = profile_cases [OF assms]
  have "simple_string ''cmp50-1x20gb''" "simple_string ''cmp50-2x20gb''" "simple_string ''cmp50-4x20gb''"
    "simple_string ''cmp50-6x20gb''" "simple_string ''cmp50-8x20gb''" by code_simp+
  with p show "simple_string p" by auto
  from p show "length p = 12" by auto
  from p show "map_of Profiles p \<noteq> None" by (auto simp: Profiles_def)
qed

text \<open>
  C34.
  From the installer to the cards: whenever the profile script prints a profile, the request the
  installer writes for it is read by the governor, on any system that holds it in the control file, as
  exactly that profile, enabled and with automatic fans; the script counted the NVIDIA display devices,
  all of them CMP 50HX; and the governor takes the request up exactly if its first cards, as many as
  the script counted, are supported and numbered in order.
\<close>

theorem installer_request_accepted:
  "case cmp50_governor_profile sysfs inventory of
     None \<Rightarrow> True
   | Some p \<Rightarrow>
       let c = \<lparr>c_enabled = True, c_profile = p, c_fan = 0\<rparr>; n = length (filter nvidia_display inventory) in
       result_of (load_control (holding (installer_request p) K) path) w = Inr c \<and> 0 < n \<and>
       list_all (\<lambda>l. l_device l = ''10de:1e09'') (filter nvidia_display inventory) \<and>
       validate gpus c = (n \<le> length gpus \<and> list_all (\<lambda>i. g_index (gpus ! i) = int i \<and> supported_gpu (gpus ! i)) [0..<n])"
proof (cases "cmp50_governor_profile sysfs inventory")
  case (Some p)
  let ?c = "\<lparr>c_enabled = True, c_profile = p, c_fan = 0\<rparr>"
  note p = profile_simple [OF Some]
  have "length (installer_request p) \<le> maxControlSize"
    by (simp add: installer_request_def plain_request_def quoted_def maxControlSize_def p(2))
  moreover have "show_int 0 = ''0''" by code_simp
  with decode_plain_request [OF p(1), where i = 0 and b = True and rest = "''\<newline>''"]
  have "decode_request (installer_request p) = Some (?c, ''\<newline>'')" by (simp add: installer_request_def)
  moreover have "blank ''\<newline>''" "valid_control ?c" using p(3) by (simp_all add: blank_def json_space_def valid_control_def)
  ultimately have "result_of (load_control (holding (installer_request p) K) path) w = Inr ?c" by (rule load_holding)
  moreover note profile_counts [OF Some]
  ultimately show ?thesis
    using Some by (simp add: Let_def validate_def supported_gpu_def memory_ok_def linorder_not_less list_all_iff)
qed simp

end
