(* ===== verification/Control_Test.thy ===== *)
theory Control_Test
  imports Control_Install Governor_Test
begin

text \<open>
  The tests of the control request in \<open>config_test.go\<close> on the model, on a directory of files and
  symbolic links; and all of the repository's governor tests together.
\<close>

section \<open>A directory\<close>

datatype entry = RegularFile string | SymbolicLink string

text \<open>The world: the entries of the only directory, and the name of the file last opened.\<close>

type_synonym test_dir = "(string \<times> entry) list \<times> string"

definition test_directory :: string where
  "test_directory = ''/tmp/TestLoadControl1/001''"

definition content_of :: "test_dir \<Rightarrow> string option" where
  "content_of w = (case map_of (fst w) (snd w) of Some (RegularFile c) \<Rightarrow> Some c | _ \<Rightarrow> None)"

text \<open>\<open>openat\<close> with \<open>O_NOFOLLOW\<close> refuses a symbolic link; the tests only read.\<close>

definition test_files :: "test_dir files" where
  "test_files = \<lparr>
     f_opendir = \<lambda>path w. (if path = test_directory then Inr 3 else Inl ErrNotExist, w),
     f_openread = \<lambda>d name w. (case map_of (fst w) name of
         None \<Rightarrow> (Inl ErrNotExist, w)
       | Some (SymbolicLink t) \<Rightarrow> (Inl ErrOther, w)
       | Some (RegularFile c) \<Rightarrow> (Inr 4, (fst w, name))),
     f_create = \<lambda>d name w. (Inl ErrOther, w),
     f_stat = \<lambda>fd w. (map_option (\<lambda>c. (True, int (length c))) (content_of w), w),
     f_read = \<lambda>fd n w. (map_option (take n) (content_of w), w),
     f_random = \<lambda>n w. (None, w),
     f_write = \<lambda>fd c w. (Some 0, w),
     f_sync = \<lambda>fd w. (False, w),
     f_close = \<lambda>fd w. (True, w),
     f_rename = \<lambda>d a b w. (Some ErrOther, w),
     f_unlink = \<lambda>d name w. (Some ErrOther, w)\<rparr>"

definition load_in :: "(string \<times> entry) list \<Rightarrow> gerror + control" where
  "load_in entries = result_of (load_control test_files (test_directory @ ''/control.json'')) (entries, [])"

section \<open>The tests\<close>

definition request_text :: string where
  "request_text = plain_request ''true'' ''cmp50-4x20gb'' ''20''"

definition test_load_control :: bool where
  "test_load_control \<longleftrightarrow>
     (case load_in [(''control.json'', RegularFile request_text)] of
        Inl e \<Rightarrow> False
      | Inr c \<Rightarrow> c_enabled c \<and> c_profile c = ''cmp50-4x20gb'' \<and> c_fan c = 20)"

definition unknown_text :: string where
  "unknown_text = ''{'' @ quoted ''enabled'' @ '':false,'' @ quoted ''profile'' @ '':'' @ quoted ''cmp50-1x20gb'' @ '','' @
     quoted ''idle_fan_percent'' @ '':0,'' @ quoted ''command'' @ '':'' @ quoted ''oops'' @ ''}''"

definition refused :: "gerror + control \<Rightarrow> bool" where
  "refused r \<longleftrightarrow> (case r of Inl e \<Rightarrow> True | Inr c \<Rightarrow> False)"

definition test_load_control_rejects :: bool where
  "test_load_control_rejects \<longleftrightarrow>
     refused (load_in [(''control.json'', SymbolicLink (test_directory @ ''/target'')), (''target'', RegularFile unknown_text)]) \<and>
     refused (load_in [(''control.json'', RegularFile unknown_text)])"

lemma simple_names:
  "simple_string ''command''" "simple_string ''cmp50-4x20gb''" "simple_string ''cmp50-1x20gb''" "simple_string ''oops''"
  by code_simp+

lemma numbers: "show_int 20 = ''20''" "show_int 0 = ''0''"
  by code_simp+

lemma decode_texts:
  "decode_request request_text = Some (\<lparr>c_enabled = True, c_profile = ''cmp50-4x20gb'', c_fan = 20\<rparr>, [])"
  "decode_request unknown_text = None"
proof -
  let ?m = request_member
  show "decode_request request_text = Some (\<lparr>c_enabled = True, c_profile = ''cmp50-4x20gb'', c_fan = 20\<rparr>, [])"
    using decode_plain_request [OF simple_names(2), where i = 20 and b = True and rest = "[]"]
    by (simp add: request_text_def numbers)
  have unknown: "unknown_text = [] @ object_text [] [?m ''enabled'' (PBool False), ?m ''profile'' (PStr ''cmp50-1x20gb''),
      ?m ''idle_fan_percent'' (PInt 0), ?m ''command'' (PStr ''oops'')] @ []"
    by (simp add: unknown_text_def quoted_def object_text_def member_text_def request_member_def numbers)
  show "decode_request unknown_text = None"
    unfolding unknown by (subst decode_request_object;
      simp add: blank_def simple_member_def good_member_def request_member_def field_names simple_fields simple_names)
qed

lemma paths: "Dir (test_directory @ ''/control.json'') = test_directory" "Base (test_directory @ ''/control.json'') = ''control.json''"
  by code_simp+

lemma sizes:
  "(4096 < length request_text) = False" "take 4097 request_text = request_text"
  "(4096 < length unknown_text) = False" "take 4097 unknown_text = unknown_text"
  by (simp_all add: request_text_def unknown_text_def plain_request_def quoted_def)

lemmas load_run = load_in_def load_control_def open_request_def read_request_def openDirectory_def paths
  test_files_def content_of_def result_of_def call_def maxControlSize_def decode_texts sizes

lemma control_tests: "test_load_control" "test_load_control_rejects"
proof -
  have "valid_control \<lparr>c_enabled = True, c_profile = ''cmp50-4x20gb'', c_fan = 20\<rparr>"
    by (simp add: valid_control_def Profiles_def)
  then show test_load_control
    using sizes by (simp add: test_load_control_def load_run)
  show test_load_control_rejects
    using sizes by (simp add: test_load_control_rejects_def refused_def load_run)
qed

text \<open>
  After two idle polls the card is in P8 with its fan at 20 percent and no core offset; one busy poll gives
  back P-state, fan, clocks and core offset; a wrong board is refused; clocks are parsed or refused as the
  test wants; a control request is read with its three fields; and a symbolic link and an unknown field are
  refused.
\<close>

lemma go_tests_hold:
  "test_poll = Some (replicate 10 True) \<and> test_validate \<and> test_parse_clock \<and> test_load_control \<and>
   test_load_control_rejects"
  using governor_tests_pass control_tests by simp

end
