(* ===== verification/Script.thy ===== *)
theory Script
  imports Process
begin

text \<open>
  Shell scripts under \<open>set -e\<close>: programs that may exit with a status at any point, and triples for
  them over the state of an automaton.
\<close>

section \<open>Scripts\<close>

text \<open>A script: the status it exits with (\<open>Inl\<close>), or its value and it goes on.\<close>

type_synonym ('w, 'e, 'a) script = "('w, 'e, nat + 'a) traced"

definition go :: "'a \<Rightarrow> ('w, 'e, 'a) script" where
  "go x = ret (Inr x)"

definition exit_with :: "nat \<Rightarrow> ('w, 'e, 'a) script" where
  "exit_with code = ret (Inl code)"

definition andthen :: "('w, 'e, 'a) script \<Rightarrow> ('a \<Rightarrow> ('w, 'e, 'b) script) \<Rightarrow> ('w, 'e, 'b) script" where
  "andthen m f = do { r \<leftarrow> m; (case r of Inl code \<Rightarrow> ret (Inl code) | Inr x \<Rightarrow> f x) }"

text \<open>A command with its event, and an event alone.\<close>

definition cmd :: "('w \<Rightarrow> 'r \<times> 'w) \<Rightarrow> ('r \<Rightarrow> 'e) \<Rightarrow> ('w, 'e, 'r) script" where
  "cmd f ev = do { r \<leftarrow> call f ev; go r }"

definition note_event :: "'e \<Rightarrow> ('w, 'e, unit) script" where
  "note_event ev = do { tell ev; go () }"

text \<open>A command whose failure ends the script because of \<open>set -e\<close>.\<close>

definition must :: "nat \<Rightarrow> ('w, 'e, unit) script" where
  "must status = (if status = 0 then go () else exit_with status)"

definition need :: "bool \<Rightarrow> ('w, 'e, unit) script" where
  "need ok = (if ok then go () else exit_with 1)"

fun each :: "('a \<Rightarrow> ('w, 'e, unit) script) \<Rightarrow> 'a list \<Rightarrow> ('w, 'e, unit) script" where
  "each f [] = go ()"
| "each f (x # xs) = andthen (f x) (\<lambda>_. each f xs)"

text \<open>The status of a script that was run to its end.\<close>

definition status_of :: "nat + 'a \<Rightarrow> nat" where
  "status_of r = (case r of Inl code \<Rightarrow> code | Inr _ \<Rightarrow> 0)"

section \<open>Their events\<close>

lemma only_script:
  "only P (go x)" "only P (exit_with code)" "only P (must st)" "only P (need ok)"
  "only P m \<Longrightarrow> (\<And>x. only P (f x)) \<Longrightarrow> only P (andthen m f)"
  "(\<And>r. P (ev r)) \<Longrightarrow> only P (cmd g ev)"
  "P e \<Longrightarrow> only P (note_event e)"
  by (auto simp: go_def exit_with_def must_def need_def andthen_def cmd_def note_event_def intro!: only split: sum.split)

lemma only_each: "(\<And>x. only P (f x)) \<Longrightarrow> only P (each f xs)"
  by (induction xs) (auto intro: only_script)

section \<open>Triples\<close>

text \<open>
  The automaton accepts what the script does, \<open>Q\<close> holds if it goes on, and it exits with 0 only in a
  \<open>good\<close> state.
\<close>

definition ends ::
  "('s \<Rightarrow> 'e list \<Rightarrow> 's option) \<Rightarrow> ('s \<Rightarrow> bool) \<Rightarrow> ('s \<Rightarrow> bool) \<Rightarrow> ('w, 'e, 'a) script \<Rightarrow> ('a \<Rightarrow> 's \<Rightarrow> bool) \<Rightarrow> bool" where
  "ends run good P m Q \<longleftrightarrow> triple run P m (\<lambda>r s. case r of Inl code \<Rightarrow> code = 0 \<longrightarrow> good s | Inr x \<Rightarrow> Q x s)"

lemma ends_conseq:
  "ends run good P m Q \<Longrightarrow> (\<And>s. P' s \<Longrightarrow> P s) \<Longrightarrow> (\<And>x s. Q x s \<Longrightarrow> Q' x s) \<Longrightarrow> ends run good P' m Q'"
  unfolding ends_def by (erule triple_conseq) (auto split: sum.splits)

lemma ends_if:
  "(b \<Longrightarrow> ends run good P m Q) \<Longrightarrow> (\<not> b \<Longrightarrow> ends run good P n Q) \<Longrightarrow> ends run good P (if b then m else n) Q"
  by simp

lemma ends_option:
  "(x = None \<Longrightarrow> ends run good P m Q) \<Longrightarrow> (\<And>y. x = Some y \<Longrightarrow> ends run good P (f y) Q) \<Longrightarrow>
     ends run good P (case x of None \<Rightarrow> m | Some y \<Rightarrow> f y) Q"
  by (cases x) auto

text \<open>A script that ends with status 0, or goes on at its end, has the state it promises.\<close>

lemma endsD:
  assumes "ends run good P m (\<lambda>_. good)" and "P s"
  shows "\<exists>t. run s (trace_of m w) = Some t \<and> (status_of (result_of m w) = 0 \<longrightarrow> good t)"
  using tripleD [OF assms(1) [unfolded ends_def] assms(2), of w] by (fastforce simp: status_of_def split: sum.splits)

context automaton
begin

lemma ends_andthen: "ends run good P m R \<Longrightarrow> (\<And>x. ends run good (R x) (f x) Q) \<Longrightarrow> ends run good P (andthen m f) Q"
  unfolding ends_def andthen_def
  by (rule triple_bind, assumption, rule triple_sum) (auto intro: triple_return)

lemma ends_seq:
  "ends run good P' m R \<Longrightarrow> (\<And>s. P s \<Longrightarrow> P' s) \<Longrightarrow> (\<And>x. ends run good (R x) (f x) Q) \<Longrightarrow>
     ends run good P (andthen m f) Q"
  by (rule ends_andthen [OF ends_conseq])

lemma ends_go: "(\<And>s. P s \<Longrightarrow> Q x s) \<Longrightarrow> ends run good P (go x) Q"
  unfolding ends_def go_def by (rule triple_return) simp

lemma ends_exit: "(\<And>s. P s \<Longrightarrow> code = 0 \<Longrightarrow> good s) \<Longrightarrow> ends run good P (exit_with code) Q"
  unfolding ends_def exit_with_def by (rule triple_return) simp

lemma ends_cmd: "(\<And>s r. P s \<Longrightarrow> \<exists>t. step s (ev r) = Some t \<and> Q r t) \<Longrightarrow> ends run good P (cmd f ev) Q"
  unfolding ends_def cmd_def go_def
  by (rule triple_bind, rule triple_call, assumption, rule triple_return) simp

lemma ends_note: "(\<And>s. P s \<Longrightarrow> \<exists>t. step s ev = Some t \<and> Q () t) \<Longrightarrow> ends run good P (note_event ev) Q"
  unfolding ends_def note_event_def go_def triple_def
  by (intro allI impI emit) (fastforce simp: run_Cons run_Nil)

lemma ends_must: "(\<And>s. P s \<Longrightarrow> st = 0 \<Longrightarrow> Q () s) \<Longrightarrow> ends run good P (must st) Q"
  unfolding must_def by (intro ends_if ends_go ends_exit) simp_all

lemma ends_need: "(\<And>s. P s \<Longrightarrow> ok \<Longrightarrow> Q () s) \<Longrightarrow> ends run good P (need ok) Q"
  unfolding need_def by (intro ends_if ends_go ends_exit) simp_all

text \<open>A loop over a list: \<open>I\<close> of the items done so far.\<close>

lemma ends_each:
  assumes "\<And>seen x. x \<in> set xs \<Longrightarrow> ends run good (I seen) (f x) (\<lambda>_. I (insert x seen))"
  shows "ends run good (I {}) (each f xs) (\<lambda>_. I (set xs))"
proof -
  have "ends run good (I D) (each f ys) (\<lambda>_. I (D \<union> set ys))" if "set ys \<subseteq> set xs" for D ys
    using that
  proof (induction ys arbitrary: D)
    case Nil
    show ?case by (simp add: ends_go)
  next
    case (Cons y ys)
    have eq: "D \<union> set (y # ys) = insert y D \<union> set ys" by auto
    from Cons.prems have "ends run good (I D) (f y) (\<lambda>_. I (insert y D))" by (intro assms) simp
    moreover from Cons.prems have "ends run good (I (insert y D)) (each f ys) (\<lambda>_. I (insert y D \<union> set ys))"
      by (intro Cons.IH) simp
    ultimately show ?case unfolding each.simps eq by (rule ends_andthen)
  qed
  from this [of xs "{}"] show ?thesis by simp
qed

end

end
