(* ===== verification/Second_Pass.thy ===== *)
theory Second_Pass
  imports Script
begin

text \<open>
  The second pass of the PCIe Gen2 initialisation, \<open>scripts/cmp50-gen2-second-pass.sh\<close>: its checks, the
  window in which udev is stopped and the driver is unloaded, the GPUs reset and the driver loaded
  again, and the EXIT trap that starts udev again.  The commands the script runs are a record of
  functions over an arbitrary world, with an event per command.
\<close>

section \<open>The commands\<close>

text \<open>Files of sysfs the script reads; a bdf is a PCI address, a name a link in the driver's directory.\<close>

datatype sysfile =
    SubVendor string
  | SubDevice string
  | LinkSpeed string
  | DrvVendor string
  | DrvDevice string

definition pci_path :: "string \<Rightarrow> string" where
  "pci_path bdf = ''/sys/bus/pci/devices/'' @ bdf"

fun path_of :: "sysfile \<Rightarrow> string" where
  "path_of (SubVendor bdf) = pci_path bdf @ ''/subsystem_vendor''"
| "path_of (SubDevice bdf) = pci_path bdf @ ''/subsystem_device''"
| "path_of (LinkSpeed bdf) = pci_path bdf @ ''/current_link_speed''"
| "path_of (DrvVendor name) = name @ ''/vendor''"
| "path_of (DrvDevice name) = name @ ''/device''"

text \<open>
  Exit statuses are natural numbers.  \<open>s_lspci\<close> are the first three words of the lines of
  \<open>lspci -Dn\<close>; \<open>s_read\<close> is the line \<open>read\<close> takes from a file, \<open>None\<close> if that fails; \<open>s_count\<close> the number
  of lines of \<open>nvidia-smi\<close>; \<open>s_bar1\<close> the BAR1 totals it prints, \<open>None\<close> for a word that is not a number;
  \<open>s_glob\<close> what \<open>/sys/bus/pci/drivers/nvidia/????:??:??.?\<close> expands to; \<open>s_fuser\<close> whether a device node
  is in use; \<open>s_loaded\<close> whether \<open>grep\<close> finds the module in \<open>/proc/modules\<close>.
\<close>

record 'w shell =
  s_euid :: "'w \<Rightarrow> nat \<times> 'w"
  s_uname :: "'w \<Rightarrow> string \<times> 'w"
  s_have :: "string \<Rightarrow> 'w \<Rightarrow> bool \<times> 'w"
  s_lockfile :: "'w \<Rightarrow> bool \<times> 'w"
  s_flock :: "'w \<Rightarrow> bool \<times> 'w"
  s_lspci :: "'w \<Rightarrow> (string \<times> string \<times> string) list \<times> 'w"
  s_writable :: "string \<Rightarrow> 'w \<Rightarrow> bool \<times> 'w"
  s_read :: "string \<Rightarrow> 'w \<Rightarrow> string option \<times> 'w"
  s_modprobe :: "'w \<Rightarrow> nat \<times> 'w"
  s_nvmodprobe :: "'w \<Rightarrow> nat \<times> 'w"
  s_count :: "'w \<Rightarrow> nat \<times> 'w"
  s_sleep :: "'w \<Rightarrow> unit \<times> 'w"
  s_bar1 :: "'w \<Rightarrow> int option list \<times> 'w"
  s_glob :: "'w \<Rightarrow> string list \<times> 'w"
  s_link :: "string \<Rightarrow> 'w \<Rightarrow> bool \<times> 'w"
  s_fuser :: "'w \<Rightarrow> bool \<times> 'w"
  s_enabled :: "string \<Rightarrow> 'w \<Rightarrow> string \<times> 'w"
  s_mask :: "'w \<Rightarrow> nat \<times> 'w"
  s_stop :: "'w \<Rightarrow> nat \<times> 'w"
  s_unbind :: "string \<Rightarrow> 'w \<Rightarrow> bool \<times> 'w"
  s_remove :: "'w \<Rightarrow> unit \<times> 'w"
  s_loaded :: "'w \<Rightarrow> bool \<times> 'w"
  s_reset :: "string \<Rightarrow> 'w \<Rightarrow> bool \<times> 'w"
  s_setpci :: "string \<Rightarrow> 'w \<Rightarrow> string option \<times> 'w"
  s_unmask :: "'w \<Rightarrow> unit \<times> 'w"
  s_daemon_reload :: "'w \<Rightarrow> unit \<times> 'w"
  s_start :: "'w \<Rightarrow> unit \<times> 'w"

text \<open>\<open>SFlag\<close> is the assignment \<open>udev_stopped=1\<close>; \<open>SRemove\<close> is \<open>modprobe -r\<close>.\<close>

datatype sevent =
    SEuid nat
  | SUname string
  | SHave string bool
  | SLockFile bool
  | SFlock bool
  | SLspci "(string \<times> string \<times> string) list"
  | SWritable string bool
  | SRead sysfile "string option"
  | SModprobe nat
  | SNvModprobe nat
  | SCount nat
  | SSleep
  | SBar1 "int option list"
  | SGlob "string list"
  | SLink string bool
  | SFuser bool
  | SEnabled string string
  | SFlag
  | SMask nat
  | SStop nat
  | SUnbind string bool
  | SRemove
  | SLoaded bool
  | SReset string bool
  | SSetpci string "string option"
  | SLog string
  | SUnmask
  | SDaemonReload
  | SStart

type_synonym ('w, 'a) pass_script = "('w, sevent, 'a) script"

definition log_text :: "string \<Rightarrow> ('w, unit) pass_script" where
  "log_text text = note_event (SLog text)"

definition die :: "string \<Rightarrow> ('w, 'a) pass_script" where
  "die text = andthen (log_text (''ERROR: '' @ text)) (\<lambda>_. exit_with 1)"

text \<open>\<open>[[ ... ]] || die\<close>.\<close>

definition require :: "bool \<Rightarrow> string \<Rightarrow> ('w, unit) pass_script" where
  "require b text = (if b then go () else die text)"

definition read_line :: "'w shell \<Rightarrow> sysfile \<Rightarrow> ('w, string) pass_script" where
  "read_line K file = andthen (cmd (s_read K (path_of file)) (SRead file))
     (\<lambda>r. case r of None \<Rightarrow> exit_with 1 | Some s \<Rightarrow> go s)"

section \<open>Before anything is touched\<close>

definition kernels :: "string list" where
  "kernels = [''6.8.0-137-generic'', ''6.8.0-147-generic'']"

text \<open>\<open>awk '$3 == "10de:1e09" {print $1}'\<close>.\<close>

definition cmp_devices :: "(string \<times> string \<times> string) list \<Rightarrow> string list" where
  "cmp_devices ls = map fst (filter (\<lambda>(bdf, cls, ident). ident = ''10de:1e09'') ls)"

definition find_devices :: "'w shell \<Rightarrow> ('w, string list) pass_script" where
  "find_devices K =
     andthen (cmd (s_euid K) SEuid) (\<lambda>uid.
     andthen (require (uid = 0) ''must run as root'') (\<lambda>_.
     andthen (cmd (s_uname K) SUname) (\<lambda>release.
     andthen (require (release \<in> set kernels) ''this second-pass procedure is restricted to kernels 137 and 147'') (\<lambda>_.
     andthen (each (\<lambda>(tool, text). andthen (cmd (s_have K tool) (SHave tool)) (\<lambda>ok. require ok text))
       [(''lspci'', ''lspci is required''), (''setpci'', ''setpci is required''),
        (''nvidia-modprobe'', ''nvidia-modprobe is required''), (''fuser'', ''fuser (psmisc) is required''),
        (''flock'', ''flock is required'')]) (\<lambda>_.
     andthen (cmd (s_lockfile K) SLockFile) (\<lambda>ok.
     andthen (need ok) (\<lambda>_.
     andthen (cmd (s_flock K) SFlock) (\<lambda>ok.
     andthen (require ok ''another Gen2 initialization is running'') (\<lambda>_.
     andthen (cmd (s_lspci K) SLspci) (\<lambda>ls.
     andthen (require (0 < length (cmp_devices ls)) ''no CMP 50HX devices found'') (\<lambda>_.
     go (cmp_devices ls))))))))))))"

text \<open>\<open>${value#0x}\<close>.\<close>

definition strip_0x :: "string \<Rightarrow> string" where
  "strip_0x s = (if take 2 s = ''0x'' then drop 2 s else s)"

definition board_ok :: "string \<Rightarrow> string \<Rightarrow> bool" where
  "board_ok subvendor subdevice \<longleftrightarrow>
     strip_0x subvendor @ '':'' @ strip_0x subdevice \<in> {''10de:1554'', ''1462:371f''}"

definition check_device :: "'w shell \<Rightarrow> string \<Rightarrow> ('w, unit) pass_script" where
  "check_device K bdf =
     andthen (cmd (s_writable K (pci_path bdf @ ''/reset'')) (SWritable bdf)) (\<lambda>ok.
     andthen (require ok (''FLR is unavailable for '' @ bdf)) (\<lambda>_.
     andthen (read_line K (SubVendor bdf)) (\<lambda>subvendor.
     andthen (read_line K (SubDevice bdf)) (\<lambda>subdevice.
     require (board_ok subvendor subdevice) (''unsupported subsystem at '' @ bdf)))))"

section \<open>Loading the driver\<close>

fun wait_gpus :: "'w shell \<Rightarrow> nat \<Rightarrow> nat \<Rightarrow> ('w, unit) pass_script" where
  "wait_gpus K expected 0 = go ()"
| "wait_gpus K expected (Suc n) =
     andthen (cmd (s_count K) SCount) (\<lambda>k.
       if k = expected then go ()
       else andthen (cmd (s_sleep K) (\<lambda>_. SSleep)) (\<lambda>_. wait_gpus K expected n))"

definition load_driver :: "'w shell \<Rightarrow> nat \<Rightarrow> string \<Rightarrow> ('w, unit) pass_script" where
  "load_driver K expected text =
     andthen (cmd (s_modprobe K) SModprobe) (\<lambda>st.
     andthen (must st) (\<lambda>_.
     andthen (cmd (s_nvmodprobe K) SNvModprobe) (\<lambda>st.
     andthen (must st) (\<lambda>_.
     andthen (wait_gpus K expected 60) (\<lambda>_.
     andthen (cmd (s_count K) SCount) (\<lambda>k.
     require (k = expected) text))))))"

definition gen2_speed :: string where "gen2_speed = ''5.0 GT/s PCIe''"

fun all_gen2 :: "'w shell \<Rightarrow> string list \<Rightarrow> ('w, bool) pass_script" where
  "all_gen2 K [] = go True"
| "all_gen2 K (bdf # ds) =
     andthen (read_line K (LinkSpeed bdf)) (\<lambda>speed.
     andthen (all_gen2 K ds) (\<lambda>rest. go (speed = gen2_speed \<and> rest)))"

definition first_pass_done :: "'w shell \<Rightarrow> nat \<Rightarrow> ('w, 'a) pass_script" where
  "first_pass_done K expected =
     andthen (cmd (s_bar1 K) SBar1) (\<lambda>totals.
     andthen (require (length totals = expected) ''could not read BAR1 totals for every GPU'') (\<lambda>_.
     andthen (each (\<lambda>total. case total of None \<Rightarrow> exit_with 1
         | Some t \<Rightarrow> require (t \<ge> 16000) (''unexpected BAR1 total: '' @ show_int t @ '' MiB'')) totals) (\<lambda>_.
     andthen (log_text (''PASS: '' @ show_int (int expected) @ '' GPUs reached PCIe Gen2 on the first pass'')) (\<lambda>_.
     exit_with 0))))"

section \<open>Whether the second pass may disturb anything\<close>

definition cmp50 :: "string \<Rightarrow> string \<Rightarrow> bool" where
  "cmp50 vendor device \<longleftrightarrow> vendor @ '':'' @ device = ''0x10de:0x1e09''"

definition check_driver_device :: "'w shell \<Rightarrow> string \<Rightarrow> ('w, unit) pass_script" where
  "check_driver_device K name =
     andthen (cmd (s_link K name) (SLink name)) (\<lambda>link.
     if \<not> link then go ()
     else andthen (read_line K (DrvVendor name)) (\<lambda>vendor.
       andthen (read_line K (DrvDevice name)) (\<lambda>device.
       require (cmp50 vendor device)
         ''a non-CMP50 GPU uses nvidia; refusing the module-wide second pass'')))"

definition udev_units :: "string list" where
  "udev_units = [''systemd-udevd.service'', ''systemd-udevd-control.socket'', ''systemd-udevd-kernel.socket'']"

definition masked_state :: "string \<Rightarrow> bool" where
  "masked_state s \<longleftrightarrow> s = ''masked'' \<or> s = ''masked-runtime''"

definition check_undisturbed :: "'w shell \<Rightarrow> ('w, unit) pass_script" where
  "check_undisturbed K =
     andthen (cmd (s_glob K) SGlob) (\<lambda>names.
     andthen (each (check_driver_device K) names) (\<lambda>_.
     andthen (cmd (s_fuser K) SFuser) (\<lambda>used.
     andthen (if used then die ''NVIDIA device files are in use; stop GPU applications before the second pass'' else go ()) (\<lambda>_.
     each (\<lambda>unit_name. andthen (cmd (s_enabled K unit_name) (SEnabled unit_name)) (\<lambda>st.
       require (\<not> masked_state st) (unit_name @ '' was already masked; refusing to alter its policy''))) udev_units))))"

section \<open>The second pass\<close>

definition stop_udev :: "'w shell \<Rightarrow> ('w, unit) pass_script" where
  "stop_udev K =
     andthen (note_event SFlag) (\<lambda>_.
     andthen (cmd (s_mask K) SMask) (\<lambda>st.
     andthen (must st) (\<lambda>_.
     andthen (cmd (s_stop K) SStop) must)))"

definition unbind :: "'w shell \<Rightarrow> string \<Rightarrow> ('w, unit) pass_script" where
  "unbind K bdf =
     andthen (cmd (s_link K (pci_path bdf @ ''/driver'')) (SLink (pci_path bdf @ ''/driver''))) (\<lambda>link.
     if link then andthen (cmd (s_unbind K bdf) (SUnbind bdf)) (\<lambda>ok. need ok) else go ())"

definition unload_driver :: "'w shell \<Rightarrow> ('w, unit) pass_script" where
  "unload_driver K =
     andthen (cmd (s_remove K) (\<lambda>_. SRemove)) (\<lambda>_.
     andthen (cmd (s_loaded K) SLoaded) (\<lambda>loaded.
     if loaded then die ''nvidia core module is still in use'' else go ()))"

definition reset_device :: "'w shell \<Rightarrow> string \<Rightarrow> ('w, unit) pass_script" where
  "reset_device K bdf = andthen (cmd (s_reset K bdf) (SReset bdf)) (\<lambda>ok. need ok)"

text \<open>\<open>$(( (0x${rebar_ctrl} >> 8) & 0x1f ))\<close>; a text that is not a number ends the script.\<close>

definition rebar_size :: "string \<Rightarrow> nat option" where
  "rebar_size s = (if s \<noteq> [] \<and> list_all (is_digit 16) s then Some (num_of 16 s div 256 mod 32) else None)"

definition check_result :: "'w shell \<Rightarrow> string \<Rightarrow> ('w, unit) pass_script" where
  "check_result K bdf =
     andthen (read_line K (LinkSpeed bdf)) (\<lambda>speed.
     andthen (require (speed = gen2_speed) (bdf @ '' stayed at '' @ speed)) (\<lambda>_.
     andthen (cmd (s_setpci K bdf) (SSetpci bdf)) (\<lambda>ctrl.
     (case ctrl of
        None \<Rightarrow> exit_with 1
      | Some ctrl \<Rightarrow> (case rebar_size ctrl of
          None \<Rightarrow> exit_with 1
        | Some sz \<Rightarrow> require (sz = 14) (bdf @ '' BAR1 ReBAR control stayed at encoding '' @ show_int (int sz)))))))"

definition second_pass :: "'w shell \<Rightarrow> string list \<Rightarrow> ('w, unit) pass_script" where
  "second_pass K ds =
     andthen (check_undisturbed K) (\<lambda>_.
     andthen (stop_udev K) (\<lambda>_.
     andthen (each (unbind K) ds) (\<lambda>_.
     andthen (unload_driver K) (\<lambda>_.
     andthen (each (reset_device K) ds) (\<lambda>_.
     andthen (load_driver K (length ds) ''second pass did not initialize all GPUs'') (\<lambda>_.
     andthen (each (check_result K) ds) (\<lambda>_.
     log_text (''PASS: '' @ show_int (int (length ds)) @ '' GPUs are at PCIe Gen2 with 16 GiB BAR1''))))))))"

text \<open>The script up to its end; the status is the one the EXIT trap starts with.\<close>

definition script_body :: "'w shell \<Rightarrow> ('w, unit) pass_script" where
  "script_body K =
     andthen (find_devices K) (\<lambda>ds.
     andthen (each (check_device K) ds) (\<lambda>_.
     andthen (load_driver K (length ds) ''first pass did not initialize all GPUs'') (\<lambda>_.
     andthen (all_gen2 K ds) (\<lambda>finished.
     if finished then first_pass_done K (length ds) else second_pass K ds))))"

section \<open>The trap\<close>

text \<open>\<open>restore_udev\<close>: the three commands run whatever the one before said.\<close>

definition restore_udev :: "'w shell \<Rightarrow> bool \<Rightarrow> ('w, sevent, unit) traced" where
  "restore_udev K udev_stopped =
     (if udev_stopped then do {
        call (s_unmask K) (\<lambda>_. SUnmask);
        call (s_daemon_reload K) (\<lambda>_. SDaemonReload);
        call (s_start K) (\<lambda>_. SStart);
        skip
      } else skip)"

text \<open>
  What the script can do: run to its end and then the trap, or be stopped by SIGINT or SIGTERM, which
  bash handles between two commands, and then the trap.  The flag is set if its assignment was run.
\<close>

inductive behaves :: "'w shell \<Rightarrow> 'w \<Rightarrow> nat \<Rightarrow> sevent list \<Rightarrow> bool" for K w where
  finishes: "body = trace_of (script_body K) w \<Longrightarrow>
    status = status_of (result_of (script_body K) w) \<Longrightarrow>
    behaves K w status (body @ trace_of (restore_udev K (SFlag \<in> set body)) (world_of (script_body K) w))"
| stopped: "trace_of (script_body K) w = body @ rest \<Longrightarrow> status \<in> {130, 143} \<Longrightarrow>
    behaves K w status (body @ trace_of (restore_udev K (SFlag \<in> set body)) w')"

end
