(* ===== verification/Second_Pass_Contract.thy ===== *)
theory Second_Pass_Contract
  imports Second_Pass
begin

text \<open>
  What the second-pass script may do and when, as an automaton over its commands, and that every way
  the script can end keeps to it and leaves udev as it found it.
\<close>

section \<open>The automaton\<close>

text \<open>
  What the checks so far have shown; \<open>q_sub\<close> and \<open>q_drv\<close> are the last vendor lines read, \<open>q_gone\<close>
  tells that the driver was seen to be unloaded, \<open>q_udev\<close> that udev was touched and not yet restored,
  \<open>q_masked\<close> that its units were masked, \<open>q_still\<close> that it was then stopped,
  \<open>q_reset\<close> that a GPU was reset, \<open>q_fast\<close> the GPUs whose link ran at 5 GT/s when last read after the
  last reset, \<open>q_sized\<close> those whose BAR1 size code was 14.
\<close>

record pass =
  q_root :: bool
  q_kernel :: bool
  q_lock :: bool
  q_devs :: "string list"
  q_resettable :: "string set"
  q_sub :: "string option"
  q_boards :: "string set"
  q_drv :: "string option"
  q_foreign :: bool
  q_free :: bool
  q_units :: "string set"
  q_flag :: bool
  q_udev :: bool
  q_masked :: bool
  q_still :: bool
  q_gone :: bool
  q_reset :: bool
  q_fast :: "string set"
  q_sized :: "string set"

definition q_start :: pass where
  "q_start = \<lparr>q_root = False, q_kernel = False, q_lock = False, q_devs = [], q_resettable = {}, q_sub = None,
     q_boards = {}, q_drv = None, q_foreign = False, q_free = False, q_units = {}, q_flag = False, q_udev = False,
     q_masked = False, q_still = False,
     q_gone = False, q_reset = False, q_fast = {}, q_sized = {}\<rparr>"

text \<open>The driver may be loaded for GPUs that are all of the supported boards and can be reset.\<close>

definition q_known :: "pass \<Rightarrow> bool" where
  "q_known q \<longleftrightarrow> q_root q \<and> q_kernel q \<and> q_lock q \<and> q_devs q \<noteq> [] \<and> set (q_devs q) \<subseteq> q_resettable q \<inter> q_boards q"

text \<open>The second pass may start: no other GPU uses the driver, nobody uses the GPUs, udev is not masked.\<close>

definition q_safe :: "pass \<Rightarrow> bool" where
  "q_safe q \<longleftrightarrow> q_known q \<and> \<not> q_foreign q \<and> q_free q \<and> set udev_units \<subseteq> q_units q"

text \<open>The GPUs are where the script wants them: the speed, and the size if it had to reset them.\<close>

definition q_passed :: "pass \<Rightarrow> bool" where
  "q_passed q \<longleftrightarrow> set (q_devs q) \<subseteq> q_fast q \<and> (q_reset q \<longrightarrow> set (q_devs q) \<subseteq> q_sized q)"

definition sub_ok :: "string option \<Rightarrow> string option \<Rightarrow> bool" where
  "sub_ok v d = (case (v, d) of (Some v, Some d) \<Rightarrow> board_ok v d | _ \<Rightarrow> False)"

definition drv_ok :: "string option \<Rightarrow> string option \<Rightarrow> bool" where
  "drv_ok v d = (case (v, d) of (Some v, Some d) \<Rightarrow> cmp50 v d | _ \<Rightarrow> False)"

fun p_step :: "pass \<Rightarrow> sevent \<Rightarrow> pass option" where
  "p_step q (SEuid uid) = Some (q\<lparr>q_root := uid = 0\<rparr>)"
| "p_step q (SUname release) = Some (q\<lparr>q_kernel := release \<in> set kernels\<rparr>)"
| "p_step q (SFlock ok) = Some (q\<lparr>q_lock := ok\<rparr>)"
| "p_step q (SLspci ls) = Some (q\<lparr>q_devs := cmp_devices ls\<rparr>)"
| "p_step q (SWritable bdf ok) = Some (if ok then q\<lparr>q_resettable := insert bdf (q_resettable q)\<rparr> else q)"
| "p_step q (SRead file r) =
     Some (case file of
       SubVendor bdf \<Rightarrow> q\<lparr>q_sub := r\<rparr>
     | SubDevice bdf \<Rightarrow> if sub_ok (q_sub q) r then q\<lparr>q_boards := insert bdf (q_boards q)\<rparr> else q
     | LinkSpeed bdf \<Rightarrow> if r = Some gen2_speed then q\<lparr>q_fast := insert bdf (q_fast q)\<rparr>
         else q\<lparr>q_fast := q_fast q - {bdf}\<rparr>
     | DrvVendor name \<Rightarrow> q\<lparr>q_drv := r\<rparr>
     | DrvDevice name \<Rightarrow> if drv_ok (q_drv q) r then q else q\<lparr>q_foreign := True\<rparr>)"
| "p_step q (SModprobe st) = (if q_known q then Some (q\<lparr>q_gone := False\<rparr>) else None)"
| "p_step q (SNvModprobe st) = (if q_known q then Some q else None)"
| "p_step q (SFuser used) = Some (q\<lparr>q_free := \<not> used\<rparr>)"
| "p_step q (SEnabled unit_name st) =
     Some (if masked_state st then q else q\<lparr>q_units := insert unit_name (q_units q)\<rparr>)"
| "p_step q SFlag = (if q_safe q then Some (q\<lparr>q_flag := True\<rparr>) else None)"
| "p_step q (SMask st) = (if q_safe q \<and> q_flag q then Some (q\<lparr>q_udev := True, q_masked := st = 0\<rparr>) else None)"
| "p_step q (SStop st) =
     (if q_safe q \<and> q_flag q \<and> q_udev q then Some (q\<lparr>q_still := q_masked q \<and> st = 0\<rparr>) else None)"
| "p_step q (SUnbind bdf ok) = (if q_safe q \<and> q_udev q \<and> q_still q \<and> bdf \<in> set (q_devs q) then Some q else None)"
| "p_step q SRemove = (if q_safe q \<and> q_udev q \<and> q_still q then Some q else None)"
| "p_step q (SLoaded loaded) = Some (q\<lparr>q_gone := \<not> loaded\<rparr>)"
| "p_step q (SReset bdf ok) =
     (if q_safe q \<and> q_udev q \<and> q_still q \<and> q_gone q \<and> bdf \<in> set (q_devs q)
      then Some (q\<lparr>q_reset := True, q_fast := {}, q_sized := {}\<rparr>) else None)"
| "p_step q (SSetpci bdf r) =
     Some (if (case r of None \<Rightarrow> None | Some s \<Rightarrow> rebar_size s) = Some 14
       then q\<lparr>q_sized := insert bdf (q_sized q)\<rparr> else q\<lparr>q_sized := q_sized q - {bdf}\<rparr>)"
| "p_step q SUnmask = (if q_flag q then Some q else None)"
| "p_step q SDaemonReload = (if q_flag q then Some q else None)"
| "p_step q SStart = (if q_flag q then Some (q\<lparr>q_udev := False\<rparr>) else None)"
| "p_step q _ = Some q"

fun p_run :: "pass \<Rightarrow> sevent list \<Rightarrow> pass option" where
  "p_run q [] = Some q"
| "p_run q (ev # evs) = Option.bind (p_step q ev) (\<lambda>q'. p_run q' evs)"

interpretation pass: automaton p_step p_run
  by unfold_locales simp_all

text \<open>Udev is touched only after the flag is set.\<close>

lemma p_run_flag: "p_run q_start evs = Some q \<Longrightarrow> q_udev q \<longrightarrow> q_flag q"
proof (rule pass.run_invariant [where I = "\<lambda>q. q_udev q \<longrightarrow> q_flag q"], assumption)
  fix t e u
  assume "q_udev t \<longrightarrow> q_flag t" and "p_step t e = Some u"
  then show "q_udev u \<longrightarrow> q_flag u" by (cases e) (auto split: if_splits sysfile.splits)
qed (simp add: q_start_def)

lemma p_run_flag_event: "p_run q evs = Some q' \<Longrightarrow> q_flag q' \<longleftrightarrow> q_flag q \<or> SFlag \<in> set evs"
proof (induction evs arbitrary: q)
  case (Cons ev evs)
  then obtain q1 where "p_step q ev = Some q1" "p_run q1 evs = Some q'" by (auto split: Option.bind_splits)
  moreover from this(1) have "q_flag q1 \<longleftrightarrow> q_flag q \<or> ev = SFlag"
    by (cases ev) (auto split: if_splits sysfile.splits)
  ultimately show ?case using Cons.IH by auto
qed simp

section \<open>The logic of the script\<close>

abbreviation does :: "(pass \<Rightarrow> bool) \<Rightarrow> ('w, 'a) pass_script \<Rightarrow> ('a \<Rightarrow> pass \<Rightarrow> bool) \<Rightarrow> bool" where
  "does \<equiv> ends p_run q_passed"

lemmas does_andthen = pass.ends_andthen [where good = q_passed]
lemmas does_seq = pass.ends_seq [where good = q_passed]
lemmas does_go = pass.ends_go [where good = q_passed]
lemmas does_exit = pass.ends_exit [where good = q_passed]
lemmas does_run = pass.ends_cmd [where good = q_passed]
lemmas does_note = pass.ends_note [where good = q_passed]
lemmas does_must = pass.ends_must [where good = q_passed]
lemmas does_need = pass.ends_need [where good = q_passed]
lemmas does_each = pass.ends_each [where good = q_passed]
lemmas does_conseq = ends_conseq [where run = p_run and good = q_passed]
lemmas does_if = ends_if [where run = p_run and good = q_passed]
lemmas does_option = ends_option [where run = p_run and good = q_passed]

lemma does_die: "does P (die text) Q"
  unfolding die_def log_text_def
  by (rule does_andthen [where R = "\<lambda>_. P"], rule does_note, simp, rule does_exit, simp)

lemma does_require: "(\<And>q. P q \<Longrightarrow> b \<Longrightarrow> Q () q) \<Longrightarrow> does P (require b text) Q"
  unfolding require_def by (intro does_if does_go does_die)

lemma does_read_line:
  "(\<And>q r. P q \<Longrightarrow> \<exists>q'. p_step q (SRead file r) = Some q' \<and> (case r of None \<Rightarrow> True | Some s \<Rightarrow> Q s q')) \<Longrightarrow>
     does P (read_line K file) Q"
  unfolding read_line_def
  by (rule does_andthen [where R = "\<lambda>r q. case r of None \<Rightarrow> True | Some s \<Rightarrow> Q s q"], rule does_run, assumption)
    (auto intro!: does_option does_exit does_go)

section \<open>Before anything is touched\<close>

text \<open>The script holds its lock and has found \<open>ds\<close>; nothing has been touched.\<close>

definition looking :: "string list \<Rightarrow> pass \<Rightarrow> bool" where
  "looking ds q \<longleftrightarrow> q_root q \<and> q_kernel q \<and> q_lock q \<and> q_devs q = ds \<and> ds \<noteq> [] \<and>
     \<not> q_flag q \<and> \<not> q_udev q \<and> \<not> q_reset q"

lemma does_find_devices:
  "does (\<lambda>q. q = q_start) (find_devices K) (\<lambda>ds q. looking ds q \<and> \<not> q_foreign q)"
proof -
  let ?I = "\<lambda>q. q_root q \<and> q_kernel q \<and> \<not> q_foreign q \<and> \<not> q_flag q \<and> \<not> q_udev q \<and> \<not> q_reset q"
  let ?J = "\<lambda>q. ?I q \<and> q_lock q"
  have tools: "does ?I (each (\<lambda>(tool, text). andthen (cmd (s_have K tool) (SHave tool)) (\<lambda>ok. require ok text)) xs) (\<lambda>_. ?I)"
    for xs :: "(string \<times> string) list"
    by (rule does_each [where I = "\<lambda>_. ?I"]) (auto intro!: does_andthen [where R = "\<lambda>_. ?I"] does_run does_require)
  show ?thesis
    unfolding find_devices_def
    apply (rule does_andthen [where R = "\<lambda>uid q. q = q_start\<lparr>q_root := uid = 0\<rparr>"], rule does_run, simp)
    apply (rule does_andthen [where R = "\<lambda>_ q. q = q_start\<lparr>q_root := True\<rparr>"], rule does_require, simp)
    apply (rule does_andthen [where R = "\<lambda>release q. q = q_start\<lparr>q_root := True, q_kernel := release \<in> set kernels\<rparr>"],
        rule does_run, simp)
    apply (rule does_andthen [where R = "\<lambda>_. ?I"], rule does_require, simp add: q_start_def)
    apply (rule does_andthen [OF tools])
    apply (rule does_andthen [where R = "\<lambda>_. ?I"], rule does_run, simp)
    apply (rule does_andthen [where R = "\<lambda>_. ?I"], rule does_need, assumption)
    apply (rule does_andthen [where R = "\<lambda>ok q. ?I q \<and> q_lock q = ok"], rule does_run, simp)
    apply (rule does_andthen [where R = "\<lambda>_. ?J"], rule does_require, simp)
    apply (rule does_andthen [where R = "\<lambda>ls q. ?J q \<and> q_devs q = cmp_devices ls"], rule does_run, simp)
    apply (rule does_andthen [where R = "\<lambda>_ q. ?J q \<and> q_devs q = cmp_devices x \<and> cmp_devices x \<noteq> []" for x], rule does_require, simp)
    apply (rule does_go)
    apply (simp add: looking_def)
    done
qed

lemma does_check_device:
  "does (\<lambda>q. looking ds q \<and> \<not> q_foreign q \<and> D \<subseteq> q_resettable q \<inter> q_boards q) (check_device K bdf)
    (\<lambda>_ q. looking ds q \<and> \<not> q_foreign q \<and> insert bdf D \<subseteq> q_resettable q \<inter> q_boards q)"
proof -
  let ?I = "\<lambda>q. looking ds q \<and> \<not> q_foreign q \<and> D \<subseteq> q_resettable q \<inter> q_boards q"
  let ?J = "\<lambda>q. ?I q \<and> bdf \<in> q_resettable q"
  show ?thesis
    unfolding check_device_def
    apply (rule does_andthen [where R = "\<lambda>ok q. ?I q \<and> (ok \<longrightarrow> bdf \<in> q_resettable q)"], rule does_run)
     apply (auto simp: looking_def)[1]
    apply (rule does_andthen [where R = "\<lambda>_. ?J"], rule does_require, simp)
    apply (rule does_andthen [where R = "\<lambda>v q. ?J q \<and> q_sub q = Some v"], rule does_read_line)
     apply (auto simp: looking_def split: option.split)[1]
    apply (rule does_andthen [where R = "\<lambda>d q. ?J q \<and> (board_ok v d \<longrightarrow> bdf \<in> q_boards q)" for v], rule does_read_line)
     apply (auto simp: looking_def sub_ok_def split: option.split)[1]
    apply (rule does_require)
    apply auto
    done
qed

text \<open>And the GPUs it has found are known to be of the right boards.\<close>

definition known :: "string list \<Rightarrow> pass \<Rightarrow> bool" where
  "known ds q \<longleftrightarrow> looking ds q \<and> \<not> q_foreign q \<and> q_known q"

lemma does_check_devices: "does (\<lambda>q. looking ds q \<and> \<not> q_foreign q) (each (check_device K) ds) (\<lambda>_. known ds)"
  by (rule does_conseq [OF does_each [where I = "\<lambda>D q. looking ds q \<and> \<not> q_foreign q \<and> D \<subseteq> q_resettable q \<inter> q_boards q",
        OF does_check_device]])
    (auto simp: known_def q_known_def looking_def)

text \<open>Loading the driver keeps what implies that it may be loaded and does not say it is gone.\<close>

lemma does_wait_gpus: "does I (wait_gpus K n k) (\<lambda>_. I)"
proof (induction k)
  case (Suc k)
  show ?case
    unfolding wait_gpus.simps
    by (intro does_andthen [where R = "\<lambda>_. I"] does_if does_go does_run Suc.IH) simp_all
qed (simp add: does_go)

lemma does_load_driver:
  assumes "\<And>q. I q \<Longrightarrow> q_known q" and "\<And>q. I q \<Longrightarrow> I (q\<lparr>q_gone := False\<rparr>)"
  shows "does I (load_driver K n text) (\<lambda>_. I)"
  unfolding load_driver_def
  by (intro does_andthen [where R = "\<lambda>_. I"] does_run does_must does_wait_gpus does_require) (simp_all add: assms)

lemma does_all_gen2:
  "does (\<lambda>q. known ds q \<and> F \<subseteq> q_fast q) (all_gen2 K ys) (\<lambda>b q. known ds q \<and> (b \<longrightarrow> F \<union> set ys \<subseteq> q_fast q))"
proof (induction ys arbitrary: F)
  case Nil
  show ?case by (simp add: does_go)
next
  case (Cons y ys)
  show ?case
    unfolding all_gen2.simps
  proof (rule does_andthen [where R = "\<lambda>v q. known ds q \<and> (v = gen2_speed \<longrightarrow> insert y F \<subseteq> q_fast q)"], rule does_read_line, goal_cases)
    case (1 q r)
    then show ?case by (auto simp: known_def looking_def q_known_def split: option.split)
  next
    case (2 v)
    show ?case
    proof (cases "v = gen2_speed")
      case True
      show ?thesis
        by (rule does_seq [OF Cons.IH [of "insert y F"]]) (auto simp: True intro: does_go)
    next
      case False
      show ?thesis
        by (rule does_seq [OF Cons.IH [of "{}"]]) (auto simp: False intro: does_go)
    qed
  qed
qed

lemma does_first_pass_done:
  "does (\<lambda>q. known ds q \<and> set ds \<subseteq> q_fast q) (first_pass_done K n) Q"
proof -
  let ?I = "\<lambda>q. known ds q \<and> set ds \<subseteq> q_fast q"
  have "does ?I (each (\<lambda>total. case total of None \<Rightarrow> exit_with 1
      | Some t \<Rightarrow> require (t \<ge> 16000) (''unexpected BAR1 total: '' @ show_int t @ '' MiB'')) ts) (\<lambda>_. ?I)" for ts
    by (rule does_each [where I = "\<lambda>_. ?I"]) (auto intro!: does_option does_exit does_require)
  then show ?thesis
    unfolding first_pass_done_def log_text_def
    by (intro does_andthen [where R = "\<lambda>_. ?I"] does_run does_require does_note does_exit)
      (auto simp: known_def looking_def q_passed_def)
qed

section \<open>The second pass\<close>

lemma does_check_driver_device: "does (known ds) (check_driver_device K name) (\<lambda>_. known ds)"
proof -
  let ?R = "\<lambda>q. looking ds q \<and> q_known q"
  show ?thesis
    unfolding check_driver_device_def
    apply (rule does_andthen [where R = "\<lambda>_. known ds"], rule does_run, simp)
    apply (intro does_if does_go, simp)
    apply (rule does_andthen [where R = "\<lambda>v q. known ds q \<and> q_drv q = Some v"], rule does_read_line)
     apply (auto simp: known_def looking_def q_known_def split: option.split)[1]
    apply (rule does_andthen [where R = "\<lambda>d q. ?R q \<and> (cmp50 v d \<longrightarrow> \<not> q_foreign q)" for v], rule does_read_line)
     apply (auto simp: known_def looking_def q_known_def drv_ok_def split: option.split)[1]
    apply (rule does_require)
    apply (simp add: known_def)
    done
qed

lemma does_check_undisturbed: "does (known ds) (check_undisturbed K) (\<lambda>_ q. known ds q \<and> q_safe q)"
proof -
  let ?F = "\<lambda>q. known ds q \<and> q_free q"
  let ?I = "\<lambda>D q. ?F q \<and> D \<subseteq> q_units q"
  have units: "does ?F (each (\<lambda>unit_name. andthen (cmd (s_enabled K unit_name) (SEnabled unit_name)) (\<lambda>st.
       require (\<not> masked_state st) (unit_name @ '' was already masked; refusing to alter its policy''))) udev_units)
     (\<lambda>_ q. known ds q \<and> q_safe q)"
  proof (rule does_conseq [OF does_each [where I = ?I]], goal_cases)
    case (1 D u)
    show ?case
      by (rule does_andthen [where R = "\<lambda>st q. ?I D q \<and> (\<not> masked_state st \<longrightarrow> u \<in> q_units q)"], rule does_run)
        (auto simp: known_def looking_def q_known_def intro!: does_require)
  qed (auto simp: q_safe_def known_def)
  show ?thesis
    unfolding check_undisturbed_def
    apply (rule does_andthen [where R = "\<lambda>_. known ds"], rule does_run, simp)
    apply (rule does_andthen [OF does_each [where I = "\<lambda>_. known ds", OF does_check_driver_device]])
    apply (rule does_andthen [where R = "\<lambda>used q. known ds q \<and> q_free q = (\<not> used)"], rule does_run)
     apply (auto simp: known_def looking_def q_known_def)[1]
    apply (rule does_andthen [where R = "\<lambda>_. ?F"])
     apply (intro does_if does_die does_go, simp)
    apply (rule units)
    done
qed

text \<open>Udev is stopped.\<close>

definition still :: "string list \<Rightarrow> pass \<Rightarrow> bool" where
  "still ds q \<longleftrightarrow> q_safe q \<and> q_flag q \<and> q_udev q \<and> q_still q \<and> q_devs q = ds \<and> ds \<noteq> []"

lemma does_stop_udev: "does (\<lambda>q. known ds q \<and> q_safe q) (stop_udev K) (\<lambda>_. still ds)"
proof -
  let ?R = "\<lambda>q. q_safe q \<and> q_flag q \<and> q_devs q = ds \<and> ds \<noteq> []"
  let ?M = "\<lambda>q. ?R q \<and> q_udev q \<and> q_masked q"
  show ?thesis
    unfolding stop_udev_def
    apply (rule does_andthen [where R = "\<lambda>_. ?R"], rule does_note)
     apply (auto simp: q_safe_def q_known_def known_def looking_def)[1]
    apply (rule does_andthen [where R = "\<lambda>st q. ?R q \<and> q_udev q \<and> q_masked q = (st = 0)"], rule does_run)
     apply (auto simp: q_safe_def q_known_def)[1]
    apply (rule does_andthen [where R = "\<lambda>_. ?M"], rule does_must, simp)
    apply (rule does_andthen [where R = "\<lambda>st q. st = 0 \<longrightarrow> still ds q"], rule does_run)
     apply (auto simp: q_safe_def q_known_def still_def)[1]
    apply (rule does_must, simp)
    done
qed

lemma does_unbind: "bdf \<in> set ds \<Longrightarrow> does (still ds) (unbind K bdf) (\<lambda>_. still ds)"
  unfolding unbind_def
  by (intro does_andthen [where R = "\<lambda>_. still ds"] does_run does_if does_go does_need) (auto simp: still_def)

lemma does_unload_driver: "does (still ds) (unload_driver K) (\<lambda>_ q. still ds q \<and> q_gone q)"
  unfolding unload_driver_def
  by (intro does_andthen [where R = "\<lambda>_. still ds"] does_andthen [where R = "\<lambda>loaded q. still ds q \<and> q_gone q = (\<not> loaded)"]
      does_run does_if does_go does_die) (auto simp: still_def q_safe_def q_known_def)

lemma does_reset_device:
  "bdf \<in> set ds \<Longrightarrow> does (\<lambda>q. still ds q \<and> q_gone q \<and> (D \<noteq> {} \<longrightarrow> q_reset q)) (reset_device K bdf)
     (\<lambda>_ q. still ds q \<and> q_gone q \<and> (insert bdf D \<noteq> {} \<longrightarrow> q_reset q))"
  unfolding reset_device_def
  by (rule does_andthen [where R = "\<lambda>_ q. still ds q \<and> q_gone q \<and> q_reset q"], rule does_run)
    (auto simp: still_def q_safe_def q_known_def intro!: does_need)

lemma does_check_result:
  "does (\<lambda>q. still ds q \<and> q_reset q \<and> D \<subseteq> q_fast q \<inter> q_sized q) (check_result K bdf)
    (\<lambda>_ q. still ds q \<and> q_reset q \<and> insert bdf D \<subseteq> q_fast q \<inter> q_sized q)"
proof -
  let ?S = "\<lambda>q. still ds q \<and> q_reset q"
  let ?F = "\<lambda>q. ?S q \<and> insert bdf D \<subseteq> q_fast q \<and> D \<subseteq> q_sized q"
  show ?thesis
    unfolding check_result_def
    apply (rule does_andthen [where R = "\<lambda>v q. v = gen2_speed \<longrightarrow> ?F q"], rule does_read_line)
     apply (auto simp: still_def q_safe_def q_known_def split: option.split)[1]
    apply (rule does_andthen [where R = "\<lambda>_. ?F"], rule does_require, simp)
    apply (rule does_andthen [where R = "\<lambda>r q. (case r of None \<Rightarrow> None | Some s \<Rightarrow> rebar_size s) = Some 14 \<longrightarrow>
        ?F q \<and> bdf \<in> q_sized q"], rule does_run)
     apply (auto simp: still_def q_safe_def q_known_def)[1]
    apply (intro does_option does_exit does_require)
      apply auto
    done
qed

lemma does_second_pass: "does (known ds) (second_pass K ds) (\<lambda>_. q_passed)"
proof -
  let ?L = "\<lambda>q. still ds q \<and> q_reset q"
  have load: "does ?L (load_driver K n msg) (\<lambda>_. ?L)" for n msg
    by (rule does_load_driver) (auto simp: still_def q_safe_def q_known_def)
  have check: "does ?L (each (check_result K) ds) (\<lambda>_ q. still ds q \<and> q_passed q)"
    by (rule does_conseq [OF does_each [where I = "\<lambda>D q. still ds q \<and> q_reset q \<and> D \<subseteq> q_fast q \<inter> q_sized q", OF does_check_result]])
      (auto simp: q_passed_def still_def)
  have reset: "does (\<lambda>q. still ds q \<and> q_gone q) (each (reset_device K) ds) (\<lambda>_. ?L)"
    by (rule does_conseq [OF does_each [where I = "\<lambda>D q. still ds q \<and> q_gone q \<and> (D \<noteq> {} \<longrightarrow> q_reset q)", OF does_reset_device]])
      (auto simp: still_def)
  show ?thesis
    unfolding second_pass_def log_text_def
    apply (rule does_andthen [OF does_check_undisturbed])
    apply (rule does_andthen [OF does_stop_udev])
    apply (rule does_andthen [OF does_each [where I = "\<lambda>_. still ds", OF does_unbind]], assumption)
    apply (rule does_andthen [OF does_unload_driver])
    apply (rule does_andthen [OF reset])
    apply (rule does_andthen [OF load])
    apply (rule does_andthen [OF check])
    apply (rule does_note, simp)
    done
qed

lemma does_script_body: "does (\<lambda>q. q = q_start) (script_body K) (\<lambda>_. q_passed)"
proof -
  have load: "does (known ds) (load_driver K n msg) (\<lambda>_. known ds)" for ds n msg
    by (rule does_load_driver) (auto simp: known_def looking_def q_known_def)
  show ?thesis
    unfolding script_body_def
    apply (rule does_andthen [OF does_find_devices])
    apply (rule does_andthen [OF does_check_devices])
    apply (rule does_andthen [OF load])
    apply (rule does_seq [OF does_all_gen2 [where F = "{}"]], simp)
    apply (intro does_if)
     apply (rule does_conseq [OF does_first_pass_done])
      apply auto[2]
    apply (rule does_conseq [OF does_second_pass])
     apply auto
    done
qed

section \<open>Every way the script can end\<close>

lemma restore_udev_restores:
  "triple p_run (\<lambda>q. q = q0 \<and> q_flag q = flag \<and> (q_udev q \<longrightarrow> flag)) (restore_udev K flag)
     (\<lambda>_ q. q = q0\<lparr>q_udev := False\<rparr>)"
proof (cases flag)
  case True
  have "triple p_run (\<lambda>q. q = q0 \<and> q_flag q) (restore_udev K True) (\<lambda>_ q. q = q0\<lparr>q_udev := False\<rparr>)"
    unfolding restore_udev_def skip_def if_True
    by (rule pass.triple_bind [where R = "\<lambda>_ q. q = q0 \<and> q_flag q"], rule pass.triple_call, simp,
        rule pass.triple_bind [where R = "\<lambda>_ q. q = q0 \<and> q_flag q"], rule pass.triple_call, simp,
        rule pass.triple_bind [where R = "\<lambda>_ q. q = q0\<lparr>q_udev := False\<rparr>"], rule pass.triple_call, simp,
        rule pass.triple_return, simp)
  then show ?thesis by (simp add: True)
next
  case False
  then have flag: "flag = False" by simp
  have quiet: "triple p_run (\<lambda>q. q = q0 \<and> \<not> q_udev q) (restore_udev K False) (\<lambda>_ q. q = q0\<lparr>q_udev := False\<rparr>)"
    unfolding restore_udev_def skip_def if_False by (rule pass.triple_return) (cases q0, simp)
  show ?thesis unfolding flag by (rule triple_conseq [OF quiet]) simp_all
qed

lemma trap_runs:
  assumes "p_run q_start body = Some q"
  shows "p_run q_start (body @ trace_of (restore_udev K (SFlag \<in> set body)) w) = Some (q\<lparr>q_udev := False\<rparr>)"
proof -
  have "q_flag q = (SFlag \<in> set body)" "q_udev q \<longrightarrow> SFlag \<in> set body"
    using p_run_flag_event [OF assms] p_run_flag [OF assms] by (simp_all add: q_start_def)
  then show ?thesis
    using tripleD [OF restore_udev_restores [of q "SFlag \<in> set body" K], of q w]
    by (auto simp: pass.run_append assms)
qed

lemma q_passed_udev [simp]: "q_passed (q\<lparr>q_udev := b\<rparr>) = q_passed q"
  by (simp add: q_passed_def)


text \<open>One GPU whose link is slow until it is reset; the world tells whether it was.\<close>

definition one_gpu :: "bool shell" where
  "one_gpu = (let gpu = ''0000:01:00.0''; link = ''/sys/bus/pci/drivers/nvidia/0000:01:00.0'' in
    \<lparr>s_euid = \<lambda>w. (0, w), s_uname = \<lambda>w. (''6.8.0-147-generic'', w), s_have = \<lambda>_ w. (True, w),
     s_lockfile = \<lambda>w. (True, w), s_flock = \<lambda>w. (True, w),
     s_lspci = \<lambda>w. ([(''0000:00:00.0'', ''0600:'', ''8086:3ec2''), (gpu, ''0300:'', ''10de:1e09'')], w),
     s_writable = \<lambda>_ w. (True, w),
     s_read = \<lambda>p w. (map_of [(path_of (SubVendor gpu), ''0x10de''), (path_of (SubDevice gpu), ''0x1554''),
        (path_of (LinkSpeed gpu), if w then gen2_speed else ''2.5 GT/s PCIe''),
        (path_of (DrvVendor link), ''0x10de''), (path_of (DrvDevice link), ''0x1e09'')] p, w),
     s_modprobe = \<lambda>w. (0, w), s_nvmodprobe = \<lambda>w. (0, w), s_count = \<lambda>w. (1, w), s_sleep = \<lambda>w. ((), w),
     s_bar1 = \<lambda>w. ([], w), s_glob = \<lambda>w. ([link], w), s_link = \<lambda>_ w. (True, w), s_fuser = \<lambda>w. (False, w),
     s_enabled = \<lambda>_ w. (''static'', w), s_mask = \<lambda>w. (0, w), s_stop = \<lambda>w. (0, w),
     s_unbind = \<lambda>_ w. (True, w), s_remove = \<lambda>w. ((), w), s_loaded = \<lambda>w. (False, w),
     s_reset = \<lambda>_ w. (True, True), s_setpci = \<lambda>_ w. (Some ''00000e21'', w),
     s_unmask = \<lambda>w. ((), w), s_daemon_reload = \<lambda>w. ((), w), s_start = \<lambda>w. ((), w)\<rparr>)"


end
