(* ===== verification/Verify_Live.thy ===== *)
theory Verify_Live
  imports Script C_Text "HOL-Library.Sublist"
begin

text \<open>
  The acceptance check after an installation, \<open>verify-live.sh\<close>: it runs the probe and its consumer on
  every GPU and looks at the memory, and on Gen2 hosts at the service, BAR1 and the links.  The commands
  it runs are a record of functions over an arbitrary world, with an event per command.  Its contract is
  an automaton over these events: what an exit status of 0 stands for.
\<close>

section \<open>The commands\<close>

text \<open>
  \<open>v_gpus\<close> are the two fields of the lines of \<open>nvidia-smi\<close>; \<open>v_find\<close> is the pipe of \<open>find\<close>, \<open>sort\<close> and
  \<open>tail\<close>, for a kernel or for any, with its status; \<open>v_probe\<close> is the exit status of the probe on a GPU and what
  it leaves in the temporary file, which is private to the script; \<open>v_verify\<close> is the exit status of the consumer
  on such a content.  A total that is no number is \<open>None\<close>: the comparison ends the script
  with status 1, with or without the message of a total that is too small.  A link speed that cannot be read
  is \<open>None\<close> too.
\<close>

record 'w live_shell =
  v_uname :: "'w \<Rightarrow> string \<times> 'w"
  v_gpus :: "'w \<Rightarrow> (string \<times> string) list \<times> 'w"
  v_summary :: "'w \<Rightarrow> nat \<times> 'w"
  v_find :: "string option \<Rightarrow> 'w \<Rightarrow> (nat \<times> string) \<times> 'w"
  v_executable :: "string \<Rightarrow> 'w \<Rightarrow> bool \<times> 'w"
  v_mktemp :: "'w \<Rightarrow> (nat \<times> string) \<times> 'w"
  v_probe :: "string \<Rightarrow> string \<Rightarrow> 'w \<Rightarrow> (nat \<times> string) \<times> 'w"
  v_verify :: "string \<Rightarrow> 'w \<Rightarrow> nat \<times> 'w"
  v_memory :: "string list \<Rightarrow> 'w \<Rightarrow> int option list \<times> 'w"
  v_enabled :: "'w \<Rightarrow> bool \<times> 'w"
  v_active :: "'w \<Rightarrow> bool \<times> 'w"
  v_lspci :: "'w \<Rightarrow> (string \<times> string \<times> string) list \<times> 'w"
  v_bar1 :: "string list \<Rightarrow> 'w \<Rightarrow> int option list \<times> 'w"
  v_speed :: "string \<Rightarrow> 'w \<Rightarrow> string option \<times> 'w"
  v_sleep :: "'w \<Rightarrow> unit \<times> 'w"
  v_rm :: "string \<Rightarrow> 'w \<Rightarrow> unit \<times> 'w"

datatype levent =
    LUname string
  | LGpus "(string \<times> string) list"
  | LSummary nat
  | LFind "string option" "nat \<times> string"
  | LExecutable string bool
  | LTemp "nat \<times> string"
  | LProbe string string "nat \<times> string"
  | LVerify string string nat
  | LMemory "string list" "int option list"
  | LEnabled bool
  | LActive bool
  | LLspci "(string \<times> string \<times> string) list"
  | LBar1 "string list" "int option list"
  | LSpeed string "string option"
  | LSleep
  | LPrint string
  | LRm string

type_synonym ('w, 'a) live_script = "('w, levent, 'a) script"

definition complain :: "string \<Rightarrow> ('w, 'a) live_script" where
  "complain text = andthen (note_event (LPrint text)) (\<lambda>_. exit_with 1)"

section \<open>The script\<close>

text \<open>\<open>awk -F, 'toupper($2) ~ /1E0910DE/ {gsub(/ /,"",$1); print $1}'\<close>.\<close>

definition ascii_upper :: "char \<Rightarrow> char" where
  "ascii_upper c = (let k = of_char c :: nat in if 97 \<le> k \<and> k \<le> 122 then char_of (k - 32) else c)"

definition gpu_indices :: "(string \<times> string) list \<Rightarrow> string list" where
  "gpu_indices ls =
     [filter (\<lambda>c. c \<noteq> CHR '' '') index. (index, device) \<leftarrow> ls, sublist ''1E0910DE'' (map ascii_upper device)]"

definition find_probe :: "'w live_shell \<Rightarrow> string \<Rightarrow> ('w, string) live_script" where
  "find_probe K release =
     andthen (cmd (v_find K (Some release)) (LFind (Some release))) (\<lambda>(st, found).
     andthen (must st) (\<lambda>_.
     andthen (if found = [] then andthen (cmd (v_find K None) (LFind None)) (\<lambda>(st, other). andthen (must st) (\<lambda>_. go other))
       else go found) (\<lambda>probe.
     andthen (cmd (v_executable K probe) (LExecutable probe)) (\<lambda>ok.
     if ok then go probe else complain ''rm-issue-rate artifact not found''))))"

definition check_gpu :: "'w live_shell \<Rightarrow> string \<Rightarrow> string \<Rightarrow> string \<Rightarrow> ('w, unit) live_script" where
  "check_gpu K probe json gpu_index =
     andthen (cmd (v_probe K probe gpu_index) (LProbe gpu_index json)) (\<lambda>(st, report).
     andthen (must st) (\<lambda>_.
     andthen (cmd (v_verify K report) (LVerify json report)) (\<lambda>st.
     andthen (must st) (\<lambda>_.
     note_event (LPrint (''PASS_CMP50_RM: GPU '' @ gpu_index))))))"

definition at_least :: "int \<Rightarrow> string \<Rightarrow> int option \<Rightarrow> ('w, unit) live_script" where
  "at_least bound message amount = (case amount of
     None \<Rightarrow> exit_with 1
   | Some t \<Rightarrow> if t \<ge> bound then go () else complain (message @ show_int t @ '' MiB''))"

definition check_memory :: "'w live_shell \<Rightarrow> string list \<Rightarrow> ('w, unit) live_script" where
  "check_memory K gpus =
     andthen (cmd (v_memory K gpus) (LMemory gpus)) (\<lambda>totals.
     andthen (if length totals = length gpus then go () else complain ''could not read VRAM totals for every GPU'') (\<lambda>_.
     each (\<lambda>(gpu, mem). at_least 9500 (''GPU '' @ gpu @ '': unexpected VRAM '') mem) (zip gpus totals)))"

definition live_speed :: string where "live_speed = ''5.0 GT/s PCIe''"

fun link_speeds :: "'w live_shell \<Rightarrow> string list \<Rightarrow> ('w, bool) live_script" where
  "link_speeds K [] = go True"
| "link_speeds K (bdf # ds) =
     andthen (cmd (v_speed K bdf) (LSpeed bdf)) (\<lambda>r.
     (case r of
        None \<Rightarrow> exit_with 1
      | Some speed \<Rightarrow> andthen (link_speeds K ds) (\<lambda>rest. go (speed = live_speed \<and> rest))))"

fun wait_gen2 :: "'w live_shell \<Rightarrow> string list \<Rightarrow> nat \<Rightarrow> ('w, bool) live_script" where
  "wait_gen2 K ds 0 = go False"
| "wait_gen2 K ds (Suc n) =
     andthen (link_speeds K ds) (\<lambda>ok.
     if ok then go True else andthen (cmd (v_sleep K) (\<lambda>_. LSleep)) (\<lambda>_. wait_gen2 K ds n))"

definition report_speed :: "'w live_shell \<Rightarrow> string \<Rightarrow> ('w, unit) live_script" where
  "report_speed K bdf =
     andthen (cmd (v_speed K bdf) (LSpeed bdf)) (\<lambda>r.
     (case r of
        None \<Rightarrow> exit_with 1
      | Some speed \<Rightarrow> note_event (LPrint (bdf @ '': expected Gen2, got '' @ speed))))"

definition cmp_bdfs :: "(string \<times> string \<times> string) list \<Rightarrow> string list" where
  "cmp_bdfs ls = map fst (filter (\<lambda>(bdf, cls, ident). ident = ''10de:1e09'') ls)"

definition check_gen2 :: "'w live_shell \<Rightarrow> string list \<Rightarrow> ('w, unit) live_script" where
  "check_gen2 K gpus =
     andthen (cmd (v_active K) LActive) (\<lambda>active.
     andthen (if active then go () else complain ''Gen2 second-pass service is not active'') (\<lambda>_.
     andthen (cmd (v_lspci K) LLspci) (\<lambda>ls.
     andthen (cmd (v_bar1 K gpus) (LBar1 gpus)) (\<lambda>totals.
     andthen (if length totals = length gpus then go () else complain ''could not read BAR1 totals for every GPU'') (\<lambda>_.
     andthen (each (at_least 16000 ''unexpected BAR1 total: '') totals) (\<lambda>_.
     andthen (wait_gen2 K (cmp_bdfs ls) 15) (\<lambda>all_gen2.
     if all_gen2 then go () else andthen (each (report_speed K) (cmp_bdfs ls)) (\<lambda>_. exit_with 1))))))))"

definition check_all :: "'w live_shell \<Rightarrow> string list \<Rightarrow> string \<Rightarrow> string \<Rightarrow> ('w, unit) live_script" where
  "check_all K gpus probe json =
     andthen (each (check_gpu K probe json) gpus) (\<lambda>_.
     andthen (check_memory K gpus) (\<lambda>_.
     andthen (cmd (v_enabled K) LEnabled) (\<lambda>enabled.
     andthen (if enabled then check_gen2 K gpus else go ()) (\<lambda>_.
     note_event (LPrint (''PASS_CMP50_LIVE: '' @ show_int (int (length gpus)) @ '' card(s) visible''))))))"

text \<open>The EXIT trap is set once the temporary file exists.\<close>

definition with_trap :: "('w, 'a) live_script \<Rightarrow> ('w, levent, unit) traced \<Rightarrow> ('w, 'a) live_script" where
  "with_trap m trap = do { r \<leftarrow> m; trap; ret r }"

definition look_around :: "'w live_shell \<Rightarrow> ('w, string list \<times> string) live_script" where
  "look_around K =
     andthen (cmd (v_uname K) LUname) (\<lambda>release.
     andthen (cmd (v_gpus K) LGpus) (\<lambda>ls.
     andthen (if gpu_indices ls \<noteq> [] then go () else complain ''no live CMP 50HX GPU found'') (\<lambda>_.
     andthen (cmd (v_summary K) LSummary) (\<lambda>st.
     andthen (must st) (\<lambda>_.
     andthen (find_probe K release) (\<lambda>probe. go (gpu_indices ls, probe)))))))"

definition make_temp :: "'w live_shell \<Rightarrow> ('w, string) live_script" where
  "make_temp K = andthen (cmd (v_mktemp K) LTemp) (\<lambda>(st, json). andthen (must st) (\<lambda>_. go json))"

definition verify_live :: "'w live_shell \<Rightarrow> ('w, unit) live_script" where
  "verify_live K =
     andthen (look_around K) (\<lambda>(gpus, probe).
     andthen (make_temp K) (\<lambda>json.
     with_trap (check_all K gpus probe json) (do { call (v_rm K json) (\<lambda>_. LRm json); skip })))"

section \<open>What an exit status of 0 stands for\<close>

text \<open>
  \<open>y_probed\<close>: the GPU whose report the temporary file holds, from a probe that succeeded, and the report;
  \<open>y_checked\<close>: the GPUs whose report the consumer accepted, with it; \<open>y_fast\<close>: the devices whose link ran at 5 GT/s when last read.
\<close>

record live =
  y_gpus :: "string list"
  y_probed :: "(string \<times> string) option"
  y_checked :: "(string \<times> string) set"
  y_memory :: "int option list"
  y_enabled :: bool
  y_active :: bool
  y_bdfs :: "string list"
  y_bar1 :: "int option list"
  y_fast :: "string set"
  y_temp :: "string set"

definition y_start :: live where
  "y_start = \<lparr>y_gpus = [], y_probed = None, y_checked = {}, y_memory = [], y_enabled = False, y_active = False,
     y_bdfs = [], y_bar1 = [], y_fast = {}, y_temp = {}\<rparr>"

text \<open>The consumer is only run on a report that a probe has just written into the temporary file.\<close>

fun y_step :: "live \<Rightarrow> levent \<Rightarrow> live option" where
  "y_step y (LGpus ls) = Some (y\<lparr>y_gpus := gpu_indices ls\<rparr>)"
| "y_step y (LTemp r) = Some (if fst r = 0 then y\<lparr>y_temp := insert (snd r) (y_temp y)\<rparr> else y)"
| "y_step y (LProbe g json r) =
     (if json \<in> y_temp y \<and> g \<in> set (y_gpus y)
      then Some (y\<lparr>y_probed := if fst r = 0 then Some (g, snd r) else None\<rparr>) else None)"
| "y_step y (LVerify json report st) =
     (case y_probed y of
        None \<Rightarrow> None
      | Some p \<Rightarrow> if json \<in> y_temp y \<and> report = snd p
          then Some (if st = 0 then y\<lparr>y_probed := None, y_checked := insert p (y_checked y)\<rparr> else y\<lparr>y_probed := None\<rparr>)
          else None)"
| "y_step y (LMemory gs ts) = (if gs = y_gpus y then Some (y\<lparr>y_memory := ts\<rparr>) else None)"
| "y_step y (LEnabled b) = Some (y\<lparr>y_enabled := b\<rparr>)"
| "y_step y (LActive b) = Some (y\<lparr>y_active := b\<rparr>)"
| "y_step y (LLspci ls) = Some (y\<lparr>y_bdfs := cmp_bdfs ls\<rparr>)"
| "y_step y (LBar1 gs ts) = (if gs = y_gpus y then Some (y\<lparr>y_bar1 := ts\<rparr>) else None)"
| "y_step y (LSpeed bdf r) =
     Some (y\<lparr>y_fast := if r = Some live_speed then insert bdf (y_fast y) else y_fast y - {bdf}\<rparr>)"
| "y_step y (LRm json) = Some (y\<lparr>y_temp := y_temp y - {json}\<rparr>)"
| "y_step y _ = Some y"

fun y_run :: "live \<Rightarrow> levent list \<Rightarrow> live option" where
  "y_run y [] = Some y"
| "y_run y (ev # evs) = Option.bind (y_step y ev) (\<lambda>y'. y_run y' evs)"

interpretation live: automaton y_step y_run
  by unfold_locales simp_all

definition big :: "int \<Rightarrow> int option \<Rightarrow> bool" where
  "big bound t \<longleftrightarrow> (case t of None \<Rightarrow> False | Some t \<Rightarrow> t \<ge> bound)"

definition totals_ok :: "int \<Rightarrow> nat \<Rightarrow> int option list \<Rightarrow> bool" where
  "totals_ok bound n ts \<longleftrightarrow> length ts = n \<and> list_all (big bound) ts"

definition live_ok :: "live \<Rightarrow> bool" where
  "live_ok y \<longleftrightarrow> y_gpus y \<noteq> [] \<and> set (y_gpus y) \<subseteq> fst ` y_checked y \<and> totals_ok 9500 (length (y_gpus y)) (y_memory y) \<and>
     (y_enabled y \<longrightarrow> y_active y \<and> totals_ok 16000 (length (y_gpus y)) (y_bar1 y) \<and> set (y_bdfs y) \<subseteq> y_fast y)"

section \<open>Every run\<close>

abbreviation sees :: "(live \<Rightarrow> bool) \<Rightarrow> ('w, 'a) live_script \<Rightarrow> ('a \<Rightarrow> live \<Rightarrow> bool) \<Rightarrow> bool" where
  "sees \<equiv> ends y_run live_ok"

lemmas sees_andthen = live.ends_andthen [where good = live_ok]
lemmas sees_go = live.ends_go [where good = live_ok]
lemmas sees_exit = live.ends_exit [where good = live_ok]
lemmas sees_cmd = live.ends_cmd [where good = live_ok]
lemmas sees_note = live.ends_note [where good = live_ok]
lemmas sees_must = live.ends_must [where good = live_ok]
lemmas sees_each = live.ends_each [where good = live_ok]
lemmas sees_conseq = ends_conseq [where run = y_run and good = live_ok]
lemmas sees_if = ends_if [where run = y_run and good = live_ok]
lemmas sees_option = ends_option [where run = y_run and good = live_ok]

lemma sees_complain: "sees P (complain message) Q"
  unfolding complain_def by (rule sees_andthen [where R = "\<lambda>_. P"], rule sees_note, simp, rule sees_exit, simp)

lemma sees_require: "(\<And>y. P y \<Longrightarrow> b \<Longrightarrow> Q () y) \<Longrightarrow> sees P (if b then go () else complain message) Q"
  by (intro sees_if sees_go sees_complain)

text \<open>The GPUs are known; the temporary file exists.\<close>

definition running :: "string list \<Rightarrow> string \<Rightarrow> live \<Rightarrow> bool" where
  "running gs json y \<longleftrightarrow> y_gpus y = gs \<and> gs \<noteq> [] \<and> y_temp y = {json}"

lemma sees_find_probe:
  assumes "\<And>y ev y'. I y \<Longrightarrow> y_step y ev = Some y' \<Longrightarrow> y' = y \<Longrightarrow> I y'"
  shows "sees I (find_probe K release) (\<lambda>_. I)"
  unfolding find_probe_def
  by (intro sees_andthen [where R = "\<lambda>_. I"] sees_if sees_go sees_complain)
    (auto intro!: sees_cmd sees_must sees_complain sees_andthen [where R = "\<lambda>_. I"] sees_go simp: split_beta)

lemma sees_check_gpu:
  assumes "g \<in> set gs"
  shows "sees (\<lambda>y. running gs json y \<and> D \<subseteq> fst ` y_checked y) (check_gpu K probe json g)
    (\<lambda>_ y. running gs json y \<and> insert g D \<subseteq> fst ` y_checked y)"
  unfolding check_gpu_def
  apply (rule sees_andthen [where R = "\<lambda>r y. (running gs json y \<and> D \<subseteq> fst ` y_checked y) \<and> (fst r = 0 \<longrightarrow> y_probed y = Some (g, snd r))"],
      rule sees_cmd)
   apply (use assms in \<open>auto simp: running_def\<close>)[1]
  apply (unfold split_beta)
  apply (rule sees_andthen [where R = "\<lambda>_ y. (running gs json y \<and> D \<subseteq> fst ` y_checked y) \<and> y_probed y = Some (g, snd r)" for r],
      rule sees_must, simp)
  apply (rule sees_andthen [where R = "\<lambda>st y. st = 0 \<longrightarrow> running gs json y \<and> insert g D \<subseteq> fst ` y_checked y"], rule sees_cmd)
   apply (auto simp: running_def)[1]
  apply (rule sees_andthen [where R = "\<lambda>_ y. running gs json y \<and> insert g D \<subseteq> fst ` y_checked y"], rule sees_must, simp)
  apply (rule sees_note)
  apply (simp add: running_def)
  done

text \<open>A loop over totals that goes on only if all of them are large enough.\<close>

lemma sees_at_least: "sees I (at_least bound message t) (\<lambda>_ y. I y \<and> big bound t)"
  unfolding at_least_def by (intro sees_option sees_exit sees_if sees_go sees_complain) (simp_all add: big_def)

lemma sees_totals:
  "sees I (each (\<lambda>x. at_least bound (message x) (f x)) xs) (\<lambda>_ y. I y \<and> list_all (big bound) (map f xs))"
proof (induction xs arbitrary: I)
  case (Cons x xs)
  show ?case
    unfolding each.simps
    by (rule sees_andthen [OF sees_at_least], rule sees_conseq [OF Cons.IH [where I = "\<lambda>y. I y \<and> big bound (f x)"]]) auto
qed (simp add: sees_go)

lemma sees_check_memory:
  "sees (\<lambda>y. running gs json y \<and> set gs \<subseteq> fst ` y_checked y) (check_memory K gs)
    (\<lambda>_ y. running gs json y \<and> set gs \<subseteq> fst ` y_checked y \<and> totals_ok 9500 (length gs) (y_memory y))"
proof -
  let ?I = "\<lambda>ts y. (running gs json y \<and> set gs \<subseteq> fst ` y_checked y) \<and> y_memory y = ts"
  have zip: "sees (\<lambda>y. ?I ts y \<and> length ts = length gs)
      (each (\<lambda>(g, mem). at_least 9500 (''GPU '' @ g @ '': unexpected VRAM '') mem) (zip gs ts))
      (\<lambda>_ y. running gs json y \<and> set gs \<subseteq> fst ` y_checked y \<and> totals_ok 9500 (length gs) (y_memory y))" for ts
    unfolding split_beta by (rule sees_conseq [OF sees_totals [where I = "\<lambda>y. ?I ts y \<and> length ts = length gs"]]) (auto simp: totals_ok_def)
  show ?thesis
    unfolding check_memory_def
    by (rule sees_andthen [where R = ?I], rule sees_cmd, simp add: running_def,
        rule sees_andthen [where R = "\<lambda>_ y. ?I ts y \<and> length ts = length gs" for ts], rule sees_require, simp, rule zip)
qed

text \<open>What reading link speeds does not change.\<close>

definition loose :: "(live \<Rightarrow> bool) \<Rightarrow> bool" where
  "loose I \<longleftrightarrow> (\<forall>y F. I y \<longrightarrow> I (y\<lparr>y_fast := F\<rparr>))"

lemma sees_link_speeds:
  "loose I \<Longrightarrow> sees (\<lambda>y. I y \<and> F \<subseteq> y_fast y) (link_speeds K ys) (\<lambda>b y. I y \<and> (b \<longrightarrow> F \<union> set ys \<subseteq> y_fast y))"
proof (induction ys arbitrary: F)
  case Nil
  show ?case by (simp add: sees_go)
next
  case (Cons y ys)
  show ?case
    unfolding link_speeds.simps
  proof (rule sees_andthen [where R = "\<lambda>r q. I q \<and> (r = Some live_speed \<longrightarrow> insert y F \<subseteq> y_fast q)"], rule sees_cmd, goal_cases)
    case (1 q r)
    with Cons.prems show ?case by (auto simp: loose_def)
  next
    case (2 r)
    show ?case
    proof (cases "r = Some live_speed")
      case True
      show ?thesis
        unfolding True option.case
        by (rule live.ends_seq [OF Cons.IH [OF Cons.prems, of "insert y F"]]) (auto intro: sees_go)
    next
      case False
      show ?thesis
      proof (rule sees_option, goal_cases)
        case (2 v)
        with False have "v \<noteq> live_speed" by simp
        then show ?case
          by (intro live.ends_seq [OF Cons.IH [OF Cons.prems, of "{}"]]) (auto intro: sees_go)
      qed (simp add: sees_exit)
    qed
  qed
qed

lemma sees_wait_gen2:
  "loose I \<Longrightarrow> sees I (wait_gen2 K ds n) (\<lambda>b y. I y \<and> (b \<longrightarrow> set ds \<subseteq> y_fast y))"
proof (induction n)
  case (Suc n)
  show ?case
    unfolding wait_gen2.simps
    by (rule live.ends_seq [OF sees_link_speeds [OF Suc.prems, where F = "{}"]], simp,
        intro sees_if sees_go, simp,
        rule sees_andthen [where R = "\<lambda>_. I"], rule sees_cmd, simp, rule Suc.IH [OF Suc.prems])
qed (simp add: sees_go)

text \<open>The checks of a host that has the Gen2 service.\<close>

definition gen2_ok :: "live \<Rightarrow> bool" where
  "gen2_ok y \<longleftrightarrow> y_active y \<and> totals_ok 16000 (length (y_gpus y)) (y_bar1 y) \<and> set (y_bdfs y) \<subseteq> y_fast y"

definition checked :: "string list \<Rightarrow> string \<Rightarrow> live \<Rightarrow> bool" where
  "checked gs json y \<longleftrightarrow> running gs json y \<and> set gs \<subseteq> fst ` y_checked y \<and> totals_ok 9500 (length gs) (y_memory y)"

lemma sees_report: "sees I (each (report_speed K) ds) (\<lambda>_ y. True)"
  by (rule sees_conseq [OF sees_each [where I = "\<lambda>_ _. True"]])
    (auto simp: report_speed_def intro!: sees_andthen [where R = "\<lambda>_ _. True"] sees_cmd sees_option sees_exit sees_note)

lemma sees_check_gen2: "sees (checked gs json) (check_gen2 K gs) (\<lambda>_ y. checked gs json y \<and> gen2_ok y)"
proof -
  let ?A = "\<lambda>y. checked gs json y \<and> y_active y"
  let ?B = "\<lambda>ls y. ?A y \<and> y_bdfs y = cmp_bdfs ls"
  let ?C = "\<lambda>ls ts y. ?B ls y \<and> y_bar1 y = ts \<and> length ts = length gs"
  let ?D = "\<lambda>ls y. ?B ls y \<and> totals_ok 16000 (length gs) (y_bar1 y)"
  have loose: "loose (?D ls)" for ls
    by (auto simp: loose_def checked_def running_def)
  have totals: "sees (?C ls ts) (each (at_least 16000 ''unexpected BAR1 total: '') ts) (\<lambda>_. ?D ls)" for ls ts
    by (rule sees_conseq [OF sees_totals [where I = "?C ls ts" and f = "\<lambda>t. t" and message = "\<lambda>_. ''unexpected BAR1 total: ''"]])
      (auto simp: totals_ok_def)
  show ?thesis
    unfolding check_gen2_def
    apply (rule sees_andthen [where R = "\<lambda>b y. checked gs json y \<and> y_active y = b"], rule sees_cmd)
     apply (simp add: checked_def running_def)
    apply (rule sees_andthen [where R = "\<lambda>_. ?A"], rule sees_require, simp)
    apply (rule sees_andthen [where R = ?B], rule sees_cmd)
     apply (simp add: checked_def running_def)
    apply (rule sees_andthen [where R = "\<lambda>ts y. ?B ls y \<and> y_bar1 y = ts" for ls], rule sees_cmd)
     apply (simp add: checked_def running_def)
    apply (rule sees_andthen [where R = "\<lambda>_. ?C ls ts" for ls ts], rule sees_require, simp)
    apply (rule sees_andthen [OF totals])
    apply (rule sees_andthen [OF sees_wait_gen2 [OF loose]])
    apply (rule sees_if)
     apply (rule sees_go)
     apply (auto simp: gen2_ok_def checked_def running_def)[1]
    apply (rule sees_andthen [OF sees_report])
    apply (rule sees_exit, simp)
    done
qed

lemma sees_check_all: "sees (running gs json) (check_all K gs probe json) (\<lambda>_. live_ok)"
proof -
  have gpus: "sees (running gs json) (each (check_gpu K probe json) gs) (\<lambda>_ y. running gs json y \<and> set gs \<subseteq> fst ` y_checked y)"
    by (rule sees_conseq [OF sees_each [where I = "\<lambda>D y. running gs json y \<and> D \<subseteq> fst ` y_checked y", OF sees_check_gpu]]) auto
  have memory: "sees (\<lambda>y. running gs json y \<and> set gs \<subseteq> fst ` y_checked y) (check_memory K gs) (\<lambda>_. checked gs json)"
    by (rule sees_conseq [OF sees_check_memory]) (auto simp: checked_def)
  show ?thesis
    unfolding check_all_def
    apply (rule sees_andthen [OF gpus])
    apply (rule sees_andthen [OF memory])
    apply (rule sees_andthen [where R = "\<lambda>b y. checked gs json y \<and> y_enabled y = b"], rule sees_cmd)
     apply (simp add: checked_def running_def)
    apply (rule sees_andthen [where R = "\<lambda>_. live_ok"], rule sees_if)
      apply (rule sees_conseq [OF sees_check_gen2 [of gs json]])
       apply (auto simp: live_ok_def gen2_ok_def checked_def running_def)[2]
     apply (rule sees_go)
     apply (simp add: checked_def running_def live_ok_def)
    apply (rule sees_note, simp)
    done
qed

section \<open>The temporary file\<close>

fun calm :: "levent \<Rightarrow> bool" where
  "calm (LTemp r) = False"
| "calm (LRm json) = False"
| "calm _ = True"

lemma calm_temp: "y_run y evs = Some y' \<Longrightarrow> list_all calm evs \<Longrightarrow> y_temp y' = y_temp y"
proof (induction evs arbitrary: y)
  case (Cons ev evs)
  then obtain y1 where "y_step y ev = Some y1" "y_run y1 evs = Some y'" "calm ev"
    by (auto split: Option.bind_splits)
  moreover from this have "y_temp y1 = y_temp y" by (cases ev) (auto split: if_splits option.splits)
  ultimately show ?case using Cons by simp
qed simp

lemma calm_link_speeds: "only calm (link_speeds K ds)"
  by (induction ds) (auto intro!: only_script emits_option)

lemma calm_wait_gen2: "only calm (wait_gen2 K ds n)"
  by (induction n) (auto intro!: only_script calm_link_speeds)

lemma calm_check_all: "only calm (check_all K gs probe json)"
  unfolding check_all_def check_gpu_def check_memory_def check_gen2_def at_least_def report_speed_def complain_def
  by (intro only_script only_each emits_if emits_option emits_prod calm_wait_gen2) auto

lemma calm_look_around: "only calm (look_around K)"
  unfolding look_around_def find_probe_def complain_def
  by (intro only_script emits_if emits_prod) auto

lemma triple_calm:
  assumes "triple y_run P m Q" and "only calm m" and "\<And>y. P y \<Longrightarrow> y_temp y = T"
  shows "triple y_run P m (\<lambda>r y. Q r y \<and> y_temp y = T)"
  unfolding triple_def
proof (intro allI impI)
  fix y
  assume "P y"
  with assms(1) have "emits m (\<lambda>r evs. \<exists>y'. y_run y evs = Some y' \<and> Q r y')" by (simp add: triple_def)
  from emits_conj [OF this assms(2)] assms(3) [OF \<open>P y\<close>]
  show "emits m (\<lambda>r evs. \<exists>y'. y_run y evs = Some y' \<and> Q r y' \<and> y_temp y' = T)"
    by (elim emits_mono) (auto dest: calm_temp)
qed

lemma triple_look_around:
  "triple y_run (\<lambda>y. y = y_start) (look_around K)
     (\<lambda>r y. (case r of Inl code \<Rightarrow> code \<noteq> 0 | Inr (gs, probe) \<Rightarrow> y_gpus y = gs \<and> gs \<noteq> []) \<and> y_temp y = {})"
proof -
  note rules = live.ends_andthen live.ends_cmd live.ends_must live.ends_go live.ends_exit live.ends_note ends_if
  have complain: "ends y_run (\<lambda>_. False) P (complain message) Q" for P :: "live \<Rightarrow> bool" and message and Q :: "'b \<Rightarrow> live \<Rightarrow> bool"
    unfolding complain_def by (rule live.ends_andthen [where R = "\<lambda>_. P"], rule live.ends_note, simp, rule live.ends_exit, simp)
  have find: "ends y_run (\<lambda>_. False) (\<lambda>y. y_gpus y = gs \<and> gs \<noteq> []) (find_probe K release) (\<lambda>_ y. y_gpus y = gs \<and> gs \<noteq> [])" for gs release
    unfolding find_probe_def
    by (intro live.ends_andthen [where R = "\<lambda>_ y. y_gpus y = gs \<and> gs \<noteq> []"] ends_if live.ends_go complain)
      (auto intro!: live.ends_cmd live.ends_must complain live.ends_go
        live.ends_andthen [where R = "\<lambda>_ y. y_gpus y = gs \<and> gs \<noteq> []"] simp: split_beta)
  have tail: "ends y_run (\<lambda>_. False) (\<lambda>y. y_gpus y = gs \<and> gs \<noteq> [])
      (andthen (cmd (v_summary K) LSummary) (\<lambda>st. andthen (must st) (\<lambda>_.
       andthen (find_probe K release) (\<lambda>probe. go (gs, probe)))))
      (\<lambda>(gs, probe) y. y_gpus y = gs \<and> gs \<noteq> [])" for gs release
    by (rule live.ends_andthen [where R = "\<lambda>_ y. y_gpus y = gs \<and> gs \<noteq> []"], rule live.ends_cmd, simp,
        rule live.ends_andthen [where R = "\<lambda>_ y. y_gpus y = gs \<and> gs \<noteq> []"], rule live.ends_must, simp,
        rule live.ends_andthen [OF find], rule live.ends_go, simp)
  have "ends y_run (\<lambda>_. False) (\<lambda>y. y = y_start) (look_around K) (\<lambda>(gs, probe) y. y_gpus y = gs \<and> gs \<noteq> [])"
    unfolding look_around_def
    apply (rule live.ends_andthen [where R = "\<lambda>_ y. y = y_start"], rule live.ends_cmd, simp)
    apply (rule live.ends_andthen [where R = "\<lambda>ls y. y_gpus y = gpu_indices ls"], rule live.ends_cmd, simp)
    apply (rule live.ends_andthen [OF _ tail], rule ends_if, rule live.ends_go, simp, rule complain)
    done
  then have "triple y_run (\<lambda>y. y = y_start) (look_around K)
      (\<lambda>r y. case r of Inl code \<Rightarrow> code \<noteq> 0 | Inr (gs, probe) \<Rightarrow> y_gpus y = gs \<and> gs \<noteq> [])"
    unfolding ends_def by (rule triple_conseq) (auto split: sum.splits)
  then show ?thesis by (rule triple_calm) (simp_all add: calm_look_around y_start_def)
qed

lemma triple_make_temp:
  "triple y_run (\<lambda>y. (y_gpus y = gs \<and> gs \<noteq> []) \<and> y_temp y = {}) (make_temp K)
     (\<lambda>r y. case r of Inl code \<Rightarrow> code \<noteq> 0 \<and> y_temp y = {} | Inr json \<Rightarrow> running gs json y)"
  unfolding make_temp_def andthen_def cmd_def go_def must_def exit_with_def
proof (rule live.triple_bind [where R = "\<lambda>r y. case r of Inl c \<Rightarrow> False
      | Inr p \<Rightarrow> (y_gpus y = gs \<and> gs \<noteq> []) \<and> y_temp y = (if fst p = 0 then {snd p} else {})"], goal_cases)
  case 1
  show ?case
    by (rule live.triple_bind [where R = "\<lambda>p y. (y_gpus y = gs \<and> gs \<noteq> []) \<and> y_temp y = (if fst p = 0 then {snd p} else {})"],
        rule live.triple_call, simp, rule live.triple_return, simp)
next
  case (2 r)
  show ?case
  proof (cases r)
    case (Inr p)
    then show ?thesis
      by (cases p; cases "fst p = 0") (auto simp: running_def intro: live.triple_return)
  qed (simp add: live.triple_return)
qed

lemma triple_with_trap:
  "triple y_run (running gs json) (with_trap (check_all K gs probe json) (do { call (v_rm K json) (\<lambda>_. LRm json); skip }))
     (\<lambda>r y. y_temp y = {} \<and> (status_of r = 0 \<longrightarrow> live_ok y))"
proof -
  have "triple y_run (running gs json) (check_all K gs probe json) (\<lambda>r y. status_of r = 0 \<longrightarrow> live_ok y)"
    using sees_check_all [of gs json K probe] unfolding ends_def
    by (rule triple_conseq) (auto simp: status_of_def split: sum.splits)
  then have body: "triple y_run (running gs json) (check_all K gs probe json) (\<lambda>r y. (status_of r = 0 \<longrightarrow> live_ok y) \<and> y_temp y = {json})"
    by (rule triple_calm) (simp_all add: calm_check_all running_def)
  have ok: "live_ok (y\<lparr>y_temp := T\<rparr>) = live_ok y" for y T by (simp add: live_ok_def)
  have trap: "triple y_run (\<lambda>y. (status_of r = 0 \<longrightarrow> live_ok y) \<and> y_temp y = {json})
      (do { call (v_rm K json) (\<lambda>_. LRm json); ret r })
      (\<lambda>r y. y_temp y = {} \<and> (status_of r = 0 \<longrightarrow> live_ok y))" for r :: "nat + unit"
    by (rule live.triple_bind [where R = "\<lambda>_ y. y_temp y = {} \<and> (status_of r = 0 \<longrightarrow> live_ok y)"], rule live.triple_call,
        simp add: ok, rule live.triple_return, simp)
  show ?thesis
    unfolding with_trap_def skip_def by (simp add: live.triple_bind [OF body trap])
qed

lemma triple_verify_live:
  "triple y_run (\<lambda>y. y = y_start) (verify_live K) (\<lambda>r y. y_temp y = {} \<and> (status_of r = 0 \<longrightarrow> live_ok y))"
  unfolding verify_live_def andthen_def
proof (rule live.triple_bind [OF triple_look_around], rule triple_sum, goal_cases)
  case (1 r code)
  then show ?case by (auto simp: status_of_def intro: live.triple_return)
next
  case (2 r p)
  obtain gs probe where p: "p = (gs, probe)" by (cases p)
  have "triple y_run (\<lambda>y. (y_gpus y = gs \<and> gs \<noteq> []) \<and> y_temp y = {})
      (State_Monad.bind (make_temp K) (case_sum (\<lambda>code. ret (Inl code))
        (\<lambda>json. with_trap (check_all K gs probe json) (do { call (v_rm K json) (\<lambda>_. LRm json); skip }))))
      (\<lambda>r y. y_temp y = {} \<and> (status_of r = 0 \<longrightarrow> live_ok y))"
  proof (rule live.triple_bind [OF triple_make_temp], rule triple_sum, goal_cases)
    case (1 r code)
    then show ?case by (auto simp: status_of_def intro: live.triple_return)
  next
    case (2 r json)
    then show ?case using triple_with_trap [of gs json K probe] by simp
  qed
  with 2 p show ?case by simp
qed

section \<open>Hosts\<close>

text \<open>A Gen2 host with one GPU, whose link is up after \<open>n\<close> seconds; the world is the time.\<close>

definition gen2_host :: "nat \<Rightarrow> nat live_shell" where
  "gen2_host n =
    \<lparr>v_uname = \<lambda>w. (''6.8.0-147-generic'', w),
     v_gpus = \<lambda>w. ([(''0'', '' 0x1E0910DE''), (''1'', '' 0x1b0610de'')], w),
     v_summary = \<lambda>w. (0, w), v_find = \<lambda>_ w. ((0, ''artifacts/rm-issue-rate''), w),
     v_executable = \<lambda>_ w. (True, w), v_mktemp = \<lambda>w. ((0, ''/tmp/report''), w),
     v_probe = \<lambda>_ _ w. ((0, ''{}''), w), v_verify = \<lambda>_ w. (0, w), v_memory = \<lambda>_ w. ([Some 10240], w),
     v_enabled = \<lambda>w. (True, w), v_active = \<lambda>w. (True, w),
     v_lspci = \<lambda>w. ([(''0000:00:00.0'', ''0600:'', ''8086:3ec2''), (''0000:01:00.0'', ''0300:'', ''10de:1e09'')], w),
     v_bar1 = \<lambda>_ w. ([Some 16384], w),
     v_speed = \<lambda>_ w. (Some (if n \<le> w then live_speed else ''2.5 GT/s PCIe''), w),
     v_sleep = \<lambda>w. ((), Suc w), v_rm = \<lambda>_ w. ((), w)\<rparr>"

lemma gen2_host_in_time: "result_of (verify_live (gen2_host 14)) 0 = Inr ()"
  by code_simp

lemma gen2_host_too_late: "result_of (verify_live (gen2_host 15)) 0 = Inl 1"
  by code_simp

text \<open>The links are those \<open>lspci\<close> lists, whose own failure \<open>mapfile\<close> does not see: without any, no link is looked at.\<close>

lemma no_link_listed: "result_of (verify_live ((gen2_host 15)\<lparr>v_lspci := \<lambda>w. ([], w)\<rparr>)) 0 = Inr ()"
  by code_simp

text \<open>
  C10. For every host, whatever its commands answer: \<open>verify-live.sh\<close> runs the consumer only on reports that a
  probe which succeeded has just written, its temporary file is removed however it ends, and its exit status
  is 0 only if there is a GPU, the report of every GPU was accepted, every GPU has at least 9500 MiB and, if
  the second-pass service is enabled, it is active, every BAR1 has at least 16000 MiB and every listed link
  ran at 5 GT/s when it was last read.  A host whose link comes up within the 14 seconds of the poll passes;
  one second later it is refused with status 1.
\<close>

theorem verify_live_contract:
  "(case y_run y_start (trace_of (verify_live K) w) of
      None \<Rightarrow> False
    | Some y \<Rightarrow> y_temp y = {} \<and> (if status_of (result_of (verify_live K) w) = 0 then live_ok y else True)) \<and>
   result_of (verify_live (gen2_host 14)) 0 = Inr () \<and> result_of (verify_live (gen2_host 15)) 0 = Inl 1"
proof -
  obtain y where "y_run y_start (trace_of (verify_live K) w) = Some y" "y_temp y = {}"
      "status_of (result_of (verify_live K) w) = 0 \<longrightarrow> live_ok y"
    using tripleD [OF triple_verify_live [of K] refl] by blast
  then show ?thesis using gen2_host_in_time gen2_host_too_late by simp
qed

end
