(* ===== verification/Live_Probe.thy ===== *)
theory Live_Probe
  imports Verify_Live Verify_Py
begin

text \<open>
  \<open>verify-live.sh\<close> with the programs it runs: the probe of \<open>Rm_Probe\<close> on any driver and the consumer of
  \<open>Verify_Py\<close>, on a host that is otherwise arbitrary.
\<close>

section \<open>A host with the probe and the consumer\<close>

text \<open>A program that was started by the shell: its exit status, its standard output and the world it leaves.\<close>

definition program :: "('w, int) proc \<Rightarrow> 'w \<Rightarrow> (nat \<times> string) \<times> 'w" where
  "program m w = ((nat (result_of m w), stdout_of (trace_of m w)), world_of m w)"

text \<open>An exception that is not caught, \<open>SystemExit\<close> with a message included, is exit status 1.\<close>

definition py_status :: "'a py \<Rightarrow> nat" where
  "py_status r = (case r of Inl e \<Rightarrow> 1 | Inr _ \<Rightarrow> 0)"

definition consumer :: "string \<Rightarrow> string py" where
  "consumer report = verify_main (\<lambda>path. Some report) [''verify.py'', ''report'']"

definition with_probe :: "'w kernel \<Rightarrow> 'w live_shell \<Rightarrow> 'w live_shell" where
  "with_probe K H =
     H\<lparr>v_probe := \<lambda>probe gpu_index. program (probe_main K [probe, gpu_index]),
       v_verify := \<lambda>report w. (py_status (consumer report), w)\<rparr>"

section \<open>What the consumer accepts from the probe\<close>

text \<open>The text is the report, under the index that was asked for, of a board at full speed.\<close>

definition full_speed_report :: "string \<Rightarrow> string \<Rightarrow> bool" where
  "full_speed_report g report \<longleftrightarrow>
     (\<exists>d i. parse_device_index g = Some i \<and> json_of report = Some (report_json d i) \<and> full_speed d)"

definition from_probe :: "'w kernel \<Rightarrow> string \<Rightarrow> nat \<times> string \<Rightarrow> bool" where
  "from_probe K g r \<longleftrightarrow> (\<exists>probe w. r = fst (program (probe_main K [probe, g]) w))"

lemma accepted_full_speed:
  assumes "from_probe K g (0, report)" and "py_status (consumer report) = 0"
  shows "full_speed_report g report"
proof -
  obtain probe w where run: "nat (result_of (probe_main K [probe, g]) w) = 0"
      "report = stdout_of (trace_of (probe_main K [probe, g]) w)"
    using assms(1) by (auto simp: from_probe_def program_def)
  have "main_ok (wanted_index [probe, g]) (result_of (probe_main K [probe, g]) w) (trace_of (probe_main K [probe, g]) w)"
    using emits_traceD [OF emits_probe_main [of K "[probe, g]"], of w] by simp
  then obtain i d where i: "wanted_index [probe, g] = Some i" and d: "wf_probe d" "json_of report = Some (report_json d i)"
    using run by (auto simp: main_ok_def reports_def split: option.splits)
  have "verify_report (report_json d i) = Inr verdict"
    using assms(2) d(2) verify_report_probe(2) [OF d(1), of i]
    by (auto simp: py_status_def consumer_def verify_main_def split: sum.splits)
  then have "full_speed d" using verify_report_probe(1) [OF d(1)] by simp
  with i d show ?thesis unfolding full_speed_report_def wanted_index_def by auto
qed

section \<open>Every run with them\<close>

text \<open>What the answers of the two programs say, beyond what every host may answer.\<close>

fun honest :: "'w kernel \<Rightarrow> levent \<Rightarrow> bool" where
  "honest K (LProbe g json r) = from_probe K g r"
| "honest K (LVerify json report st) = (st = py_status (consumer report))"
| "honest K _ = True"

lemma only_cmd_of: "(\<And>w. P (ev (fst (f w)))) \<Longrightarrow> only P (cmd f ev)"
  unfolding cmd_def go_def by (intro only_bind only_call_of only_return)

lemma honest_check_gpu: "only (honest K) (check_gpu (with_probe K H) probe json g)"
  unfolding check_gpu_def
  by (intro only_script(5) only_cmd_of emits_prod only_script(3) only_script(7))
    (auto simp: with_probe_def from_probe_def intro: exI)

lemma honest_link_speeds: "only (honest K) (link_speeds H ds)"
  by (induction ds) (auto intro!: only_script emits_option)

lemma honest_wait_gen2: "only (honest K) (wait_gen2 H ds n)"
  by (induction n) (auto intro!: only_script honest_link_speeds)

lemma honest_check_all: "only (honest K) (check_all (with_probe K H) gs probe json)"
  unfolding check_all_def check_memory_def check_gen2_def at_least_def report_speed_def complain_def
  by (intro only_script only_each emits_if emits_option emits_prod honest_wait_gen2 honest_check_gpu) auto

lemma honest_verify_live: "only (honest K) (verify_live (with_probe K H))"
  unfolding verify_live_def look_around_def find_probe_def make_temp_def complain_def with_trap_def skip_def
  by (intro only_script emits_if emits_prod only honest_check_all) auto

text \<open>The reports that were accepted are those of boards at full speed, from probe runs of this trace.\<close>

definition probed :: "levent list \<Rightarrow> string \<Rightarrow> string \<Rightarrow> bool" where
  "probed evs g report \<longleftrightarrow> (\<exists>json. LProbe g json (0, report) \<in> set evs)"

definition sound :: "'w kernel \<Rightarrow> levent list \<Rightarrow> live \<Rightarrow> bool" where
  "sound K evs y \<longleftrightarrow> (\<forall>(g, report) \<in> y_checked y. probed evs g report \<and> full_speed_report g report) \<and>
     (case y_probed y of None \<Rightarrow> True | Some (g, report) \<Rightarrow> probed evs g report \<and> from_probe K g (0, report))"

lemma sound_step:
  assumes "y_step y ev = Some y'" and "honest K ev" and "ev \<in> set evs" and "sound K evs y"
  shows "sound K evs y'"
proof (cases ev)
  case (LVerify json report st)
  with assms show ?thesis
    by (auto simp: sound_def split: if_splits option.splits dest!: accepted_full_speed)
next
  case (LProbe g json r)
  with assms show ?thesis
    by (cases r) (auto simp: sound_def probed_def split: if_splits option.splits)
qed (use assms in \<open>auto simp: sound_def split: if_splits option.splits\<close>)

lemma sound_run:
  "y_run y es = Some y' \<Longrightarrow> list_all (honest K) es \<Longrightarrow> set es \<subseteq> set evs \<Longrightarrow> sound K evs y \<Longrightarrow> sound K evs y'"
  by (induction es arbitrary: y) (auto split: Option.bind_splits dest: sound_step)

text \<open>
  C11. \<open>verify-live.sh\<close> with the probe and the consumer of this repository, on any driver and any other
  behaviour of the host: if it exits with 0, then there is a GPU, and for every GPU it found, the probe ran on
  that GPU with success and printed the report of a board at full speed: the four controls succeeded, all
  issue rates are 0 and the core counts are the right ones.
\<close>

theorem live_full_speed:
  "let m = verify_live (with_probe K H) in
   case y_run y_start (trace_of m w) of
     None \<Rightarrow> False
   | Some y \<Rightarrow> if status_of (result_of m w) = 0
       then y_gpus y \<noteq> [] \<and> list_all (\<lambda>g. \<exists>report. probed (trace_of m w) g report \<and> full_speed_report g report) (y_gpus y)
       else True"
proof -
  let ?m = "verify_live (with_probe K H)"
  obtain y where run: "y_run y_start (trace_of ?m w) = Some y" "status_of (result_of ?m w) = 0 \<longrightarrow> live_ok y"
  proof -
    from tripleD [OF triple_verify_live [of "with_probe K H"] refl, of w]
    show thesis by (elim exE conjE) (rule that)
  qed
  have evs: "list_all (honest K) (trace_of ?m w)" by (rule emits_traceD [OF honest_verify_live])
  have "sound K (trace_of ?m w) y_start" by (simp add: sound_def y_start_def)
  then have sound: "sound K (trace_of ?m w) y" by (rule sound_run [OF run(1) evs subset_refl])
  have seen: "\<exists>report. probed (trace_of ?m w) g report \<and> full_speed_report g report" if "live_ok y" "g \<in> set (y_gpus y)" for g
  proof -
    from that have "g \<in> fst ` y_checked y" unfolding live_ok_def by blast
    then obtain report where "(g, report) \<in> y_checked y" by force
    with sound show ?thesis unfolding sound_def by blast
  qed
  have "live_ok y \<Longrightarrow> y_gpus y \<noteq> []"
    unfolding live_ok_def by blast
  with seen run(2) show ?thesis
    unfolding Let_def run(1) option.case if_bool_eq_conj list_all_iff
    by (auto simp only: simp_thms)
qed

end
