(* ===== verification/Userspace.thy ===== *)
theory Userspace
  imports C_Text "HOL-Library.Sublist"
begin

text \<open>
  The check of the driver's user space in \<open>scripts/userspace-version.sh\<close>: whether the libraries the dynamic
  loader selects belong to the expected driver version.  The host is a record of what the commands answer;
  the function only asks.
\<close>

record userspace =
  u_command :: "string \<Rightarrow> bool"
  u_ldconfig :: "string list list"
  u_file :: "string \<Rightarrow> bool"
  u_readlink :: "string \<Rightarrow> string option"

text \<open>\<open>^[0-9]+\.[0-9]+\.[0-9]+$\<close>: \<open>n\<close> dots between numbers.\<close>

fun dotted :: "nat \<Rightarrow> string \<Rightarrow> bool" where
  "dotted 0 s = (s \<noteq> [] \<and> list_all (is_digit 10) s)"
| "dotted (Suc n) s =
     (takeWhile (is_digit 10) s \<noteq> [] \<and>
      (case dropWhile (is_digit 10) s of c # rest \<Rightarrow> c = CHR ''.'' \<and> dotted n rest | [] \<Rightarrow> False))"

text \<open>\<open>awk -v name=... '$1 == name && /x86-64/ {print $NF}'\<close> over the lines, split into fields.\<close>

definition candidates :: "userspace \<Rightarrow> string \<Rightarrow> string list" where
  "candidates U library =
     map last (filter (\<lambda>fields. fields \<noteq> [] \<and> hd fields = library @ ''.so.1'' \<and> list_ex (sublist ''x86-64'') fields)
       (u_ldconfig U))"

definition file_name :: "string \<Rightarrow> string" where
  "file_name path = rev (takeWhile (\<lambda>c. c \<noteq> CHR ''/'') (rev path))"

text \<open>The loop over the candidates of a library and the check of \<open>found\<close> after it.\<close>

fun first_candidate :: "userspace \<Rightarrow> string \<Rightarrow> string list \<Rightarrow> bool" where
  "first_candidate U expected [] = False"
| "first_candidate U expected (candidate # cs) =
     (if \<not> u_file U candidate then first_candidate U expected cs
      else case u_readlink U candidate of
          None \<Rightarrow> False
        | Some resolved \<Rightarrow> file_name resolved = expected)"

definition library_ok :: "userspace \<Rightarrow> string \<Rightarrow> string \<Rightarrow> bool" where
  "library_ok U expected library = first_candidate U (library @ ''.so.'' @ expected) (candidates U library)"

definition cmp50_userspace_matches :: "userspace \<Rightarrow> string \<Rightarrow> bool" where
  "cmp50_userspace_matches U expected =
     (dotted 2 expected \<and> u_command U ''nvidia-smi'' \<and> u_command U ''nvidia-modprobe'' \<and>
      list_all (library_ok U expected) [''libnvidia-ml'', ''libcuda''])"

section \<open>The loader's selection\<close>

text \<open>The library the loader selects is the first candidate that exists.\<close>

definition selected :: "userspace \<Rightarrow> string \<Rightarrow> string option" where
  "selected U library =
     (case filter (u_file U) (candidates U library) of [] \<Rightarrow> None | c # _ \<Rightarrow> map_option file_name (u_readlink U c))"

lemma first_candidate_eq:
  "first_candidate U e cs \<longleftrightarrow>
     (case filter (u_file U) cs of [] \<Rightarrow> None | c # _ \<Rightarrow> map_option file_name (u_readlink U c)) = Some e"
  by (induction cs) (auto split: option.splits)

text \<open>Both libraries of the loader have the expected version, and no other version is accepted.\<close>

lemma userspace_selected:
  "cmp50_userspace_matches U e \<longleftrightarrow>
     dotted 2 e \<and> u_command U ''nvidia-smi'' \<and> u_command U ''nvidia-modprobe'' \<and>
     selected U ''libnvidia-ml'' = Some (''libnvidia-ml.so.'' @ e) \<and> selected U ''libcuda'' = Some (''libcuda.so.'' @ e)"
  by (simp add: cmp50_userspace_matches_def library_ok_def first_candidate_eq selected_def)

lemma userspace_one_version:
  "cmp50_userspace_matches U e \<Longrightarrow> cmp50_userspace_matches U e' \<Longrightarrow> e = e'"
  by (simp add: userspace_selected)

text \<open>Other architectures and stale entries of the cache are passed over; an older library is refused.\<close>

definition mixed_host :: userspace where
  "mixed_host =
    \<lparr>u_command = \<lambda>_. True,
     u_ldconfig =
       [[''libcuda.so.1'', ''(libc6)'', ''=>'', ''/usr/lib32/libcuda.so.1''],
        [''libcuda.so.1'', ''(libc6,x86-64)'', ''=>'', ''/opt/libcuda.so.1''],
        [''libcuda.so.1'', ''(libc6,x86-64)'', ''=>'', ''/usr/lib/libcuda.so.1''],
        [''libnvidia-ml.so.1'', ''(libc6,x86-64)'', ''=>'', ''/usr/lib/libnvidia-ml.so.1'']],
     u_file = \<lambda>p. p \<noteq> ''/opt/libcuda.so.1'',
     u_readlink = \<lambda>p. Some (''/usr/lib/'' @ (if p = ''/usr/lib/libcuda.so.1'' then ''libcuda.so.595.71.05''
       else if p = ''/usr/lib/libnvidia-ml.so.1'' then ''libnvidia-ml.so.595.71.05'' else ''libcuda.so.390.1.0''))\<rparr>"

lemma mixed_host_matches:
  "cmp50_userspace_matches mixed_host ''595.71.05''" "\<not> cmp50_userspace_matches mixed_host ''390.1.0''"
  by code_simp+

end
