(* ===== verification/Install_Options.thy ===== *)
theory Install_Options
  imports Second_Pass "HOL-Library.Sublist"
begin

text \<open>
  The command line of \<open>install.sh\<close> and its first checks, up to those of the data directory: which stage is
  admitted on which host.  What follows sequences packages, files and services and is not modelled.
\<close>

section \<open>The command line\<close>

record options =
  o_stage :: string
  o_userland :: bool
  o_initramfs :: bool
  o_governor :: bool
  o_nouveau :: bool
  o_gen2 :: bool
  o_data_dir :: string

definition defaults :: options where
  "defaults = \<lparr>o_stage = ''rt'', o_userland = False, o_initramfs = False, o_governor = False, o_nouveau = False,
     o_gen2 = False, o_data_dir = ''/opt/stacks/ai-server-manager/data''\<rparr>"

text \<open>The end of the script before its end: the usage with status 0, or a refusal with its message.\<close>

datatype stopped = Help | Refused string

text \<open>\<open>${2:?...}\<close> refuses a value that is missing or empty.\<close>

fun parse_options :: "options \<Rightarrow> string list \<Rightarrow> stopped + options" where
  "parse_options p [] = Inr p"
| "parse_options p (arg # args) =
     (if arg = ''--stage'' then (case args of
          [] \<Rightarrow> Inl (Refused ''--stage needs a value'')
        | v # rest \<Rightarrow> if v = [] then Inl (Refused ''--stage needs a value'') else parse_options (p\<lparr>o_stage := v\<rparr>) rest)
      else if arg = ''--install-userland'' then parse_options (p\<lparr>o_userland := True\<rparr>) args
      else if arg = ''--initramfs'' then parse_options (p\<lparr>o_initramfs := True\<rparr>) args
      else if arg = ''--idle-governor'' then parse_options (p\<lparr>o_governor := True\<rparr>) args
      else if arg = ''--disable-nouveau'' then parse_options (p\<lparr>o_nouveau := True\<rparr>) args
      else if arg = ''--ai-manager-data-dir'' then (case args of
          [] \<Rightarrow> Inl (Refused ''--ai-manager-data-dir needs a value'')
        | v # rest \<Rightarrow> if v = [] then Inl (Refused ''--ai-manager-data-dir needs a value'')
            else parse_options (p\<lparr>o_data_dir := v\<rparr>) rest)
      else if arg = ''--allow-experimental-gen2'' then parse_options (p\<lparr>o_gen2 := True\<rparr>) args
      else if arg = ''-h'' \<or> arg = ''--help'' then Inl Help
      else Inl (Refused (''unknown option: '' @ arg)))"

section \<open>The first checks\<close>

record target =
  t_release :: string
  t_command :: "string \<Rightarrow> bool"
  t_root :: bool

definition stages :: "string list" where
  "stages = [''stockflow'', ''rt'', ''rebar'', ''gen2'']"

definition gen2_kernels :: "string list" where
  "gen2_kernels = [''6.8.0-137-generic'', ''6.8.0-147-generic'']"

definition gen2_commands :: "string list" where
  "gen2_commands = [''flock'', ''fuser'', ''setpci'', ''nvidia-modprobe'']"

text \<open>The ranges of the pattern, in the C locale.\<close>

definition data_dir_char :: "char \<Rightarrow> bool" where
  "data_dir_char c = (let k = of_char c :: nat in
     65 \<le> k \<and> k \<le> 90 \<or> 97 \<le> k \<and> k \<le> 122 \<or> 48 \<le> k \<and> k \<le> 57 \<or> c \<in> set ''_./-'')"

definition refuse_unless :: "bool \<Rightarrow> string \<Rightarrow> stopped + unit \<Rightarrow> stopped + unit" where
  "refuse_unless b message rest = (if b then rest else Inl (Refused message))"

fun require_commands :: "target \<Rightarrow> string list \<Rightarrow> stopped + unit \<Rightarrow> stopped + unit" where
  "require_commands T [] rest = rest"
| "require_commands T (c # cs) rest = refuse_unless (t_command T c) (''Gen2 requires '' @ c) (require_commands T cs rest)"

definition check_data_dir :: "string \<Rightarrow> stopped + unit" where
  "check_data_dir dir =
     refuse_unless (take 1 dir = ''/'') ''--ai-manager-data-dir must be an absolute path''
     (refuse_unless (list_all data_dir_char dir) ''--ai-manager-data-dir contains unsupported characters'' (Inr ()))"

definition check_options :: "target \<Rightarrow> options \<Rightarrow> stopped + unit" where
  "check_options T p =
     refuse_unless (o_stage p \<in> set stages) (''bad stage: '' @ o_stage p)
     (refuse_unless (\<not> (o_nouveau p \<and> \<not> o_initramfs p))
        ''--disable-nouveau requires --initramfs so the next boot uses the new policy''
     (refuse_unless (\<not> (o_stage p = ''gen2'' \<and> \<not> o_gen2 p))
        ''gen2 is host-specific; rerun with --allow-experimental-gen2 only with local recovery access''
     (let rest = refuse_unless (t_root T) ''run as root (sudo)'' (check_data_dir (o_data_dir p)) in
      if o_stage p = ''gen2''
      then refuse_unless (t_release T \<in> set gen2_kernels)
          ''the automatic Gen2 second pass supports only kernels 6.8.0-137-generic and 6.8.0-147-generic''
          (require_commands T gen2_commands rest)
      else rest)))"

definition preflight :: "target \<Rightarrow> string list \<Rightarrow> stopped + options" where
  "preflight T args = (case parse_options defaults args of
     Inl s \<Rightarrow> Inl s
   | Inr p \<Rightarrow> (case check_options T p of Inl s \<Rightarrow> Inl s | Inr _ \<Rightarrow> Inr p))"

section \<open>What is admitted\<close>

lemma refuse_unless_Inr [simp]: "refuse_unless b message rest = Inr x \<longleftrightarrow> b \<and> rest = Inr x"
  by (simp add: refuse_unless_def)

lemma require_commands_Inr [simp]: "require_commands T cs rest = Inr x \<longleftrightarrow> list_all (t_command T) cs \<and> rest = Inr x"
  by (induction cs) auto

text \<open>
  The Gen2 stage is only installed where the second pass would run: on one of its kernels, with the commands
  it needs, and with the acknowledgement.
\<close>

lemma gen2_admitted:
  assumes "preflight T args = Inr p" and "o_stage p = ''gen2''"
  shows "t_release T \<in> set kernels \<and> list_all (t_command T) gen2_commands \<and> o_gen2 p \<and> t_root T"
  using assms by (auto simp: preflight_def check_options_def kernels_def gen2_kernels_def Let_def split: sum.splits)

lemma admitted:
  assumes "preflight T args = Inr p"
  shows "o_stage p \<in> set stages \<and> (o_nouveau p \<longrightarrow> o_initramfs p) \<and> t_root T \<and>
     take 1 (o_data_dir p) = ''/'' \<and> list_all data_dir_char (o_data_dir p)"
  using assms by (auto simp: preflight_def check_options_def check_data_dir_def Let_def split: sum.splits if_splits)

section \<open>The tests of the gate\<close>

definition gate_args :: "string list" where
  "gate_args = [''--stage'', ''gen2'', ''--allow-experimental-gen2'', ''--ai-manager-data-dir'', ''relative'']"

text \<open>Refused, with the message of the gate or without it, whatever else the host is.\<close>

definition blocked :: "target \<Rightarrow> bool \<Rightarrow> bool" where
  "blocked T gate \<longleftrightarrow> (case preflight T gate_args of
     Inl (Refused message) \<Rightarrow> sublist ''supports only kernels'' message = gate | _ \<Rightarrow> False)"

definition on_release :: "target \<Rightarrow> string \<Rightarrow> target" where
  "on_release T release = T\<lparr>t_release := release\<rparr>"

definition test_kernel_gate :: "target \<Rightarrow> bool" where
  "test_kernel_gate T \<longleftrightarrow>
     blocked (on_release T ''6.8.0-138-generic'') True \<and> blocked (on_release T ''7.0.0-1-generic'') True \<and>
     blocked (on_release T ''6.8.0-147-generic'') False \<and> blocked (on_release T ''6.8.0-137-generic'') False"

definition test_requires_initramfs :: "target \<Rightarrow> bool" where
  "test_requires_initramfs T \<longleftrightarrow> (case preflight T [''--disable-nouveau''] of
     Inl (Refused message) \<Rightarrow> sublist ''--disable-nouveau requires --initramfs'' message | _ \<Rightarrow> False)"

lemma gate_options:
  "parse_options defaults gate_args = Inr (defaults\<lparr>o_stage := ''gen2'', o_gen2 := True, o_data_dir := ''relative''\<rparr>)"
  "parse_options defaults [''--disable-nouveau''] = Inr (defaults\<lparr>o_nouveau := True\<rparr>)"
  by code_simp+

lemma gate_messages:
  "sublist ''supports only kernels''
     ''the automatic Gen2 second pass supports only kernels 6.8.0-137-generic and 6.8.0-147-generic''"
  "list_all (\<lambda>c. \<not> sublist ''supports only kernels'' (''Gen2 requires '' @ c)) gen2_commands"
  "\<not> sublist ''supports only kernels'' ''run as root (sudo)''"
  "\<not> sublist ''supports only kernels'' ''--ai-manager-data-dir must be an absolute path''"
  "sublist ''--disable-nouveau requires --initramfs''
     ''--disable-nouveau requires --initramfs so the next boot uses the new policy''"
  by code_simp+

lemma gate_preflight:
  "preflight T gate_args =
     (case check_options T (defaults\<lparr>o_stage := ''gen2'', o_gen2 := True, o_data_dir := ''relative''\<rparr>) of
        Inl s \<Rightarrow> Inl s | Inr _ \<Rightarrow> Inr (defaults\<lparr>o_stage := ''gen2'', o_gen2 := True, o_data_dir := ''relative''\<rparr>))"
  by (simp add: preflight_def gate_options)

lemmas options_run = check_options_def check_data_dir_def stages_def gen2_kernels_def gen2_commands_def defaults_def
  refuse_unless_def Let_def

lemma test_gate: "test_kernel_gate T" "test_requires_initramfs T"
proof -
  show "test_kernel_gate T"
    using gate_messages by (simp add: test_kernel_gate_def blocked_def on_release_def gate_preflight options_run)
  have "preflight T [''--disable-nouveau''] =
      Inl (Refused ''--disable-nouveau requires --initramfs so the next boot uses the new policy'')"
    unfolding preflight_def gate_options by (simp add: options_run)
  then show "test_requires_initramfs T" using gate_messages(5) by (simp add: test_requires_initramfs_def)
qed

end
