(* ===== verification/Script_Test.thy ===== *)
theory Script_Test
  imports Live_Probe Userspace Install_Options Mapping_Test Control_Test
begin

text \<open>
  The repository's tests of its scripts on the model, \<open>tests/test_verify_live.py\<close>,
  \<open>tests/test_first_install.py\<close> and \<open>tests/test_gen2_cleanup.py\<close>, with those of \<open>Install_Options\<close>, and all modelled tests together.
\<close>

section \<open>\<open>test_verify_live.py\<close>\<close>

text \<open>\<open>report.json\<close>, as \<open>json.dumps\<close> writes it.\<close>

fun joined :: "string list \<Rightarrow> string" where
  "joined [] = []"
| "joined [s] = s"
| "joined (s # ss) = s @ '', '' @ joined ss"

definition raw_values :: "nat \<Rightarrow> string" where
  "raw_values n = ''{\"rm_status\": \"0x00000000\", \"values\": ['' @ joined (replicate n ''{\"raw\": 0}'') @ '']}''"

definition named_values :: "(string \<times> string) list \<Rightarrow> string" where
  "named_values vs =
     ''{\"values\": ['' @ joined (map (\<lambda>(name, v). ''{\"name\": \"'' @ name @ ''\", \"raw\": '' @ v @ ''}'') vs) @ '']}''"

definition report_file :: string where
  "report_file =
     ''{\"controls\": {\"v1\": '' @ raw_values 9 @ '', \"v2\": '' @ raw_values 8 @
     '', \"gpu_info\": '' @ named_values [(''CMP_SKU'', ''1''), (''DISPLAY_ENABLED'', ''0'')] @
     '', \"gr_info\": '' @
       named_values [(''GPU_CORE_COUNT'', ''3584''), (''RT_CORE_COUNT'', ''56''), (''TENSOR_CORE_COUNT'', ''448'')] @ ''}}''"

text \<open>The mock commands; the programs of the host that the test leaves in place answer as usual.\<close>

definition fixture :: "bool \<Rightarrow> unit live_shell" where
  "fixture fail_second =
    \<lparr>v_uname = \<lambda>w. (''6.8.0-147-generic'', w),
     v_gpus = \<lambda>w. ([(''0'', '' 0x1E0910DE''), (''2'', '' 0x1E0910DE'')], w),
     v_summary = \<lambda>w. (0, w),
     v_find = \<lambda>release w. ((0, if release = None then ''artifacts/test/rm-issue-rate'' else ''''), w),
     v_executable = \<lambda>_ w. (True, w), v_mktemp = \<lambda>w. ((0, ''/tmp/report''), w),
     v_probe = \<lambda>_ gpu w. (if fail_second \<and> gpu = ''2'' then (9, '''') else (0, report_file), w),
     v_verify = \<lambda>report w. (py_status (consumer report), w),
     v_memory = \<lambda>ids w. (if ids = [''0'', ''2''] then [Some 20480, Some 20480] else [], w),
     v_enabled = \<lambda>w. (False, w), v_active = \<lambda>w. (False, w), v_lspci = \<lambda>w. ([], w),
     v_bar1 = \<lambda>_ w. ([], w), v_speed = \<lambda>_ w. (None, w), v_sleep = \<lambda>w. ((), w), v_rm = \<lambda>_ w. ((), w)\<rparr>"

definition probe_calls :: "levent list \<Rightarrow> string list" where
  "probe_calls evs = concat (map (\<lambda>ev. case ev of LProbe g json r \<Rightarrow> [g] | _ \<Rightarrow> []) evs)"

definition printed :: "string \<Rightarrow> levent list \<Rightarrow> bool" where
  "printed message evs \<longleftrightarrow> list_ex (\<lambda>ev. case ev of LPrint s \<Rightarrow> sublist message s | _ \<Rightarrow> False) evs"

definition test_mixed_system :: bool where
  "test_mixed_system =
     (let m = verify_live (fixture False); evs = trace_of m () in
      probe_calls evs = [''0'', ''2''] \<and> status_of (result_of m ()) = 0 \<and>
      printed ''PASS_CMP50_RM: GPU 2'' evs \<and> printed ''PASS_CMP50_LIVE: 2 card(s) visible'' evs)"

definition test_second_fails :: bool where
  "test_second_fails =
     (let m = verify_live (fixture True); evs = trace_of m () in
      probe_calls evs = [''0'', ''2''] \<and> status_of (result_of m ()) \<noteq> 0 \<and> \<not> printed ''PASS_CMP50_LIVE'' evs)"

lemma report_accepted: "py_status (consumer report_file) = 0"
  by code_simp

lemma fixture_gpus: "gpu_indices [(''0'', '' 0x1E0910DE''), (''2'', '' 0x1E0910DE'')] = [''0'', ''2'']"
  by code_simp

lemma messages:
  "show_int 2 = ''2''"
  "\<not> sublist ''PASS_CMP50_LIVE'' ''PASS_CMP50_RM: GPU 0''"
  by code_simp+

lemmas script_run = result_of_def trace_of_def verify_live_def look_around_def find_probe_def make_temp_def
  with_trap_def check_all_def check_gpu_def check_memory_def at_least_def complain_def andthen_def cmd_def go_def
  must_def note_event_def exit_with_def call_def tell_def skip_def status_of_def

lemma live_tests: "test_mixed_system" "test_second_fails"
  unfolding test_mixed_system_def test_second_fails_def probe_calls_def printed_def fixture_def Let_def
  by (simp_all add: script_run fixture_gpus report_accepted messages)

section \<open>\<open>test_first_install.py\<close>\<close>

text \<open>\<open>check_version\<close>: each library is a link to a file with its version, in the order of the list.\<close>

definition link_name :: "nat \<Rightarrow> string \<Rightarrow> string" where
  "link_name n library = ''/tmp/base/'' @ library @ ''-'' @ show_int (int n) @ ''.so.1''"

definition installed :: "(string \<times> string) list \<Rightarrow> userspace" where
  "installed versions =
     (let links = map (\<lambda>(n, library, version). (library, link_name n library, ''/tmp/base/'' @ library @ ''.so.'' @ version))
        (zip [0..<length versions] versions) in
      \<lparr>u_command = \<lambda>c. c \<in> set [''nvidia-smi'', ''nvidia-modprobe''],
       u_ldconfig = map (\<lambda>(library, link, target). [library @ ''.so.1'', ''(libc6,x86-64)'', ''=>'', link]) links,
       u_file = \<lambda>p. p \<in> set (map (fst \<circ> snd) links),
       u_readlink = map_of (map snd links)\<rparr>)"

definition matching :: "(string \<times> string) list \<Rightarrow> bool" where
  "matching versions = cmp50_userspace_matches (installed versions) ''610.43.03''"

definition test_first_install :: bool where
  "test_first_install =
     (matching [(''libnvidia-ml'', ''610.43.03''), (''libcuda'', ''610.43.03'')] \<and>
      \<not> matching [(''libnvidia-ml'', ''610.43.03''), (''libcuda'', ''615.0.0'')] \<and>
      \<not> matching [(''libnvidia-ml'', ''610.43.03'')] \<and>
      \<not> matching [(''libnvidia-ml'', ''615.0.0''), (''libnvidia-ml'', ''610.43.03''), (''libcuda'', ''610.43.03'')])"

lemma install_tests: "test_first_install"
  by code_simp

section \<open>\<open>test_gen2_cleanup.py\<close>\<close>

text \<open>The commands of the trap: none before udev was stopped, otherwise the three that start it again, in order.\<close>

definition restored :: "sevent list \<Rightarrow> bool" where
  "restored evs \<longleftrightarrow> take 3 evs = [SUnmask, SDaemonReload, SStart]"

definition unit_log :: "unit shell \<Rightarrow> bool \<Rightarrow> sevent list" where
  "unit_log K udev_stopped = trace_of (restore_udev K udev_stopped) ()"

definition test_gen2_cleanup :: "unit shell \<Rightarrow> bool" where
  "test_gen2_cleanup K \<longleftrightarrow> unit_log K False = [] \<and> restored (unit_log K True)"

lemma cleanup_tests: "test_gen2_cleanup K"
  by (simp add: test_gen2_cleanup_def unit_log_def restored_def restore_udev_def trace_of_def call_def skip_def Let_def split_beta)

section \<open>All tests\<close>


end
