(* ===== verification/Spec2Isabelle.thy ===== *)
theory Spec2Isabelle
  imports Rm_Main Mapping_Test Board Retrain_Link Retrain_Bound Rebar_Board Gen2_Policy_Board Verify_Py
    Governor_Run Governor_Poll Governor_Test Identity Governor_Main Control_Dir Control_Test Second_Pass_Contract
    Live_Probe Script_Test
begin

text \<open>
  A verification development for cmp50-unlock: the programs that look at and touch the GPU.

  Parts of the program and how they interact.  The patches \<open>01\<close> to \<open>04\<close> change NVIDIA's kernel modules:
  among other things they put the board's PCIe registers into a Gen2 policy, report the right number of
  RT cores, resize BAR1 and retrain the link.  \<open>verify/rm_issue_rate.c\<close> (the probe) opens the driver's
  device files, allocates a client, a device and a subdevice object, reads a fixed list of state by GET
  controls and prints one JSON report, which \<open>verify/verify.py\<close> consumes.
  \<open>tools/cmp50-bar0-gen2-prepare.c\<close> and \<open>tools/cmp50-bar0-link-rate.c\<close> check the PCI identity of a
  board in sysfs, map its BAR0 and write one register each.  \<open>scripts/cmp50-gen2-second-pass.sh\<close> resets
  the GPUs once more if the link stayed slow, with udev stopped and the driver unloaded.
  \<open>verify-live.sh\<close> runs the probe and its consumer on every GPU of a host and looks at memory and links.
  \<open>idle-governor\<close> (Go) lowers idle cards through NVML and NVAPI and gives them back, as the files of its
  control directory ask; \<open>scripts/governor-profile.sh\<close> chooses its profile, which the installer writes into
  a control request.  \<open>tests/test_rm_mapping.c\<close> tests
  the probe's card lookup with a mock, the Go tests the governor.

  Theories.
    \<^item> \<open>Prelude\<close>: words, byte buffers, little-endian fields, lookups that can fail.
    \<^item> \<open>Automaton\<close>: the locales \<open>automaton\<close> and \<open>acceptor\<close>, the interface of every contract below: a step
      function on events and its replay of a trace, with the facts every replay has.
    \<^item> \<open>C_Text\<close>: \<open>printf\<close>, \<open>strtol\<close>, \<open>strtoul\<close> as far as the sources use them.
    \<^item> \<open>Process\<close>: a program as a state monad over the outside world and the list of events it
      caused; the record \<open>kernel\<close> of the calls that are not in the sources; \<open>emits\<close>, the logic of
      traces; \<open>triple\<close>, Hoare triples over the state of an automaton; \<open>runs\<close>, the result and world of a
      run; descriptors replayed from a trace.
    \<^item> \<open>Abi\<close>: the constants and structs of lines 35 to 285 of the probe, the x86-64 layout rules, the
      \<open>_IOC\<close> request numbers.
    \<^item> \<open>Rm_Control\<close>: \<open>parse_device_index\<close> to \<open>resolve_device_instances\<close>, lines 332 to 501.
    \<^item> \<open>Rm_Print\<close>: the name tables and every \<open>print_\<close> function, as the text it writes.
    \<^item> \<open>Rm_Probe\<close>: \<open>query_engine_classes\<close>, \<open>run_probe\<close> and \<open>main\<close>.
    \<^item> \<open>Json\<close>: JSON values, an executable reader, and the proof that it reads back the tokens of a
      value.
    \<^item> \<open>Rm_Report\<close>: what each section of the report means as a JSON value, and that each printer
      prints it; the locale \<open>report_section\<close>, interpreted on six printers.
    \<^item> \<open>Rm_Session\<close>: the protocol between the probe and the driver as an automaton, the controls in
      their order with their parameters, and the card lookup as a function of the driver's answers.
    \<^item> \<open>Rm_Main\<close>: the theorems on whole runs of the probe.
    \<^item> \<open>Verify_Py\<close>: the consumer script, with Python's subscripts and exceptions as values, and the
      probe and the consumer together.
    \<^item> \<open>Mapping_Test\<close>: the repository's mapping test on the model.
    \<^item> \<open>Bar0\<close>: what the two BAR0 tools share, their contract as an automaton, and the locale
      \<open>sysfs_reader\<close>; \<open>Gen2_Prepare\<close> and \<open>Link_Rate\<close> model one tool each and interpret it.
    \<^item> \<open>Board\<close>: the tools side by side, and on a simulated board.
    \<^item> \<open>Pci\<close>: the Linux driver interface the patches use, the record \<open>linux\<close>.
    \<^item> \<open>Gen2_Policy\<close>: \<open>s_cmp50ApplyGen2Policy\<close> of patch 01; \<open>Gen2_Policy_Board\<close>: on a board some of
      whose registers ignore writes, and against the retrain's gate.
    \<^item> \<open>Retrain\<close>: the whole of \<open>nv_cmp50hx_retrain_gen2\<close> of patch 04 and the automaton of its contract;
      \<open>Retrain_Link\<close>: the contract, and a simulated link; \<open>Retrain_Bound\<close>: how long it takes.
    \<^item> \<open>Rebar\<close>: the whole of \<open>nv_cmp50_unlock_bar1_resize\<close> of patch 03; \<open>Rebar_Contract\<close>: its contract;
      \<open>Rebar_Board\<close>: a simulated board.
    \<^item> \<open>Governor\<close>: the control loop of the idle governor over a record of hardware calls;
      \<open>Governor_Contract\<close>: what a run promises, as an automaton over its events; \<open>Governor_Run\<close>: triples
      over that automaton, and every run keeps it; \<open>Governor_Cards\<close>: the clean-up on simulated cards;
      \<open>Governor_Poll\<close>: one poll of one card case by case.
    \<^item> \<open>Governor_Options\<close>: the environment, \<open>New\<close> and its parsers, with \<open>TrimSpace\<close>, \<open>Split\<close>, \<open>ParseInt\<close>
      and \<open>ParseUint\<close> of Go's library; \<open>Governor_Test\<close> and \<open>Control_Test\<close>: the repository's Go tests on the
      model.
    \<^item> \<open>Implements\<close>: the locale \<open>implementation\<close>: where every call of the loop into its hardware and its
      directory is carried out by calls of a lower level, so is every run; \<open>Nvidia_Governor\<close> and
      \<open>Control_Dir\<close> interpret it.
    \<^item> \<open>Nvidia\<close>: the whole of \<open>internal/nvidia/nvidia.go\<close> over a record \<open>nvlib\<close> of the two libraries;
      \<open>Nvidia_Contract\<close>: when which function may be called, the listing, the fans;
      \<open>Nvidia_Governor\<close>: the binding as the governor's hardware; \<open>Governor_Main\<close>: \<open>main\<close> of the governor.
    \<^item> \<open>Go_Json\<close>: Go's JSON decoder for control requests, strings, numbers and nesting included;
      \<open>Go_Json_Read\<close>: what it reads; \<open>Control_Install\<close>: the request the installer writes, and its reading.
    \<^item> \<open>Control_Files\<close>: \<open>config.go\<close> and \<open>status.go\<close> over a record \<open>files\<close> of system calls; \<open>Control_Dir\<close>:
      the directory as an automaton over these calls, and the governor on it.
    \<^item> \<open>Script\<close>: shell scripts under \<open>set -e\<close>, and triples for them.
    \<^item> \<open>Second_Pass\<close>: the second-pass script over a record \<open>shell\<close> of the commands it runs;
      \<open>Second_Pass_Contract\<close>: what it may do when, and what it leaves.
    \<^item> \<open>Verify_Live\<close>: \<open>verify-live.sh\<close> over a record \<open>live_shell\<close>, and what its exit status 0 stands for;
      \<open>Live_Probe\<close>: the script with the modelled probe and consumer as its commands.
    \<^item> \<open>Userspace\<close>: the version check \<open>cmp50_userspace_matches\<close>; \<open>Install_Options\<close>: the command line of
      \<open>install.sh\<close> and its first checks; \<open>Script_Test\<close>: the tests of the scripts, and all tests together.
    \<^item> \<open>Identity\<close>: the board checks of all parts side by side, the RT core override of patch 02 and the
      profile script.

  How state corresponds.  A C object is the list of its bytes at the offsets the layout rules give;
  a local variable is a variable of the monad; a pointer to another object inside an ioctl argument
  is represented by passing that object along with the argument.  The bytes of a pointer field
  itself stay 0 in the model: only the driver reads them.  The kernel may rewrite every object it
  is given but not change its size, and answers anything it likes: all theorems on whole runs hold
  for every \<open>kernel\<close>, \<open>linux\<close>, \<open>genv\<close>, \<open>nvlib\<close>, \<open>files\<close>, \<open>shell\<close> and \<open>live_shell\<close>.
  A read outside an object, and a format string
  that does not fit its arguments, is the event \<open>EvFault\<close> or \<open>PFault\<close>; a nil pointer of the governor is
  \<open>GPanic\<close>.  \<open>exit\<close> in a callee is an \<open>Inl\<close>, an early return a branch.  The Go map of card states is a
  partial function whose iteration order the environment chooses; a \<open>select\<close> is the list of the ticks
  that were served.

  What the theorems show.
    \<^item> The report is exactly the JSON value of the collected data, for every reply of the driver (C1),
      its table printers stay in their buffers (C31), and the consumer accepts exactly the report of a
      board at full speed (C5).
    \<^item> A run keeps the session protocol (C2), closes what it opens (C17), is read-only (C18), and its
      exit status and output fit together (C12); the controls are the planned ones (C30); the card
      lookup refines its reference (C19).
    \<^item> The BAR0 tools keep their contract (C3, C13), do the right thing on a board (C20) and agree with
      each other (C32).
    \<^item> The Gen2 policy writes and rolls back as a whole (C15, C16) and opens the gate the retrain checks
      (C26).  The retrain keeps its contract on every hardware (C4), ends (C28), and does its work on a
      link that comes up (C27).  The BAR1 resize keeps its contract (C14) and does its work on a board
      (C29).  The second pass touches the GPUs only after its checks and always restores udev (C9).
    \<^item> The live verification passes a host only for reasons it has seen (C10), and with the modelled probe
      and consumer only if the probe reported every GPU at full speed (C11).
    \<^item> The governor keeps its contract on every hardware and interleaving (C6), and so does the whole
      process down to the libraries (C7) and the status files (C8); its clean-up works on cards in any
      state (C21); each poll does what it should (C22); its options are in range (C35) and read back
      (C37); control requests are read as what they say (C36).  The binding sets fans all or nothing
      (C23), opens and closes its libraries (C24) and lists the GPUs (C25).
    \<^item> All parts take the same boards (C33); the profile script, the installer and the governor fit (C34);
      the repository's tests pass on the model (C39).
    \<^item> Device indices read back (C38), struct sizes and request numbers are the driver's (C40).

  Bounds.  All loops of the sources are bounded by constants or by a list, so every definition is
  total and no fuel is needed; the retrain's polls are counted in C28; the JSON reader of \<open>Json\<close> uses one unit
  of fuel per token, which \<open>parse_toks\<close> shows to be enough.  The C types are at their width (\<open>u8\<close>,
  \<open>u16\<close>, \<open>u32\<close>, \<open>u64\<close>); \<open>int\<close> and \<open>long\<close> values that never leave their range are \<open>int\<close>.  The
  governor's loop runs until its context is done: its theorems hold after any number of ticks.

  Not modelled.  The rest of \<open>01-cmp50-stockflow.patch\<close>: a binary payload and calls into firmware that is
  not in the repository.  The call sites of the patches inside NVIDIA's modules.  The CUDA smoke test,
  and the installer, build and rollback scripts beyond the control request and the first checks, which
  sequence packages and system services.  The governor's log texts and command-line flags, and its test of the shutdown of
  goroutines, which is about Go's scheduler.  The driver, the operating system, the commands the scripts
  run and the hardware are parameters.
\<close>

end
